theory Spec2Isabelle
  imports Complex_Main "HOL-Library.Sublist"
begin

section \<open>JavaScript strings\<close>

text \<open>
  A JavaScript string is a sequence of UTF-16 code units. The regular expressions of the
  background script carry no \<open>u\<close> flag, so every string operation of the modelled code works
  on code units. A string is modelled as the list of its code units, each a natural number
  (below \<open>0x10000\<close> in any real string; no modelled operation leaves that range).
\<close>

type_synonym jsstring = "nat list"

definition ascii :: "string \<Rightarrow> jsstring" where
  "ascii s = map of_char s"

abbreviation (input) hyphen :: nat where "hyphen \<equiv> 0x2D"
abbreviation (input) comma :: nat where "comma \<equiv> 0x2C"
abbreviation (input) colon :: nat where "colon \<equiv> 0x3A"
abbreviation (input) plus_sign :: nat where "plus_sign \<equiv> 0x2B"
abbreviation (input) space :: nat where "space \<equiv> 0x20"
abbreviation (input) newline :: nat where "newline \<equiv> 0x0A"

text \<open>The ideographic comma U+3001, the second separator of \<open>/[,\<dots>]/\<close> in the source.\<close>

abbreviation (input) ideographic_comma :: nat where "ideographic_comma \<equiv> 0x3001"

text \<open>\<open>\d\<close> without the \<open>u\<close> flag: the ASCII digits only.\<close>

definition isDigit :: "nat \<Rightarrow> bool" where
  "isDigit c \<longleftrightarrow> 0x30 \<le> c \<and> c \<le> 0x39"

text \<open>
  \<open>\s\<close> and \<open>String.prototype.trim\<close>: the ECMAScript WhiteSpace and LineTerminator
  code points.
\<close>

definition isWhiteSpace :: "nat \<Rightarrow> bool" where
  "isWhiteSpace c \<longleftrightarrow>
     (0x09 \<le> c \<and> c \<le> 0x0D) \<or> c = 0x20 \<or> c = 0xA0 \<or> c = 0x1680 \<or>
     (0x2000 \<le> c \<and> c \<le> 0x200A) \<or> c = 0x2028 \<or> c = 0x2029 \<or> c = 0x202F \<or>
     c = 0x205F \<or> c = 0x3000 \<or> c = 0xFEFF"

definition trim :: "jsstring \<Rightarrow> jsstring" where
  "trim s = rev (dropWhile isWhiteSpace (rev (dropWhile isWhiteSpace s)))"

text \<open>
  \<open>s.split(sep)\<close> for a separator that matches exactly one code unit: the result is never
  empty, and the empty string splits into one empty piece.
\<close>

fun splitOn :: "(nat \<Rightarrow> bool) \<Rightarrow> jsstring \<Rightarrow> jsstring list" where
  "splitOn p [] = [[]]"
| "splitOn p (c # cs) =
     (if p c then [] # splitOn p cs
      else (case splitOn p cs of
              [] \<Rightarrow> [[c]]
            | w # ws \<Rightarrow> (c # w) # ws))"

text \<open>\<open>Array.prototype.join\<close>.\<close>

fun joinWith :: "jsstring \<Rightarrow> jsstring list \<Rightarrow> jsstring" where
  "joinWith sep [] = []"
| "joinWith sep [x] = x"
| "joinWith sep (x # y # ys) = x @ sep @ joinWith sep (y # ys)"

text \<open>\<open>s.includes(t)\<close> and \<open>s.startsWith(t)\<close>.\<close>

definition includesStr :: "jsstring \<Rightarrow> jsstring \<Rightarrow> bool" where
  "includesStr s t \<longleftrightarrow> sublist t s"

definition startsWith :: "jsstring \<Rightarrow> jsstring \<Rightarrow> bool" where
  "startsWith s t \<longleftrightarrow> prefix t s"

section \<open>formatPhoneNumber\<close>

text \<open>\<open>digits.replace(/[^\d]/g, '')\<close>.\<close>

definition stripNonDigits :: "jsstring \<Rightarrow> jsstring" where
  "stripNonDigits s = filter isDigit s"

text \<open>\<open>/^\d{m,n}$/.test(s)\<close>.\<close>

definition digitRun :: "nat \<Rightarrow> nat \<Rightarrow> jsstring \<Rightarrow> bool" where
  "digitRun m n s \<longleftrightarrow> list_all isDigit s \<and> m \<le> length s \<and> length s \<le> n"

text \<open>
  \<open>/^\d{2,4}-\d{2,4}-\d{4}$/.test(s)\<close>: exactly two hyphens, cutting the string into digit
  runs of 2 to 4, 2 to 4 and 4 code units.
\<close>

definition validHyphenated :: "jsstring \<Rightarrow> bool" where
  "validHyphenated s \<longleftrightarrow>
     (case splitOn (\<lambda>c. c = hyphen) s of
        [a, b, c] \<Rightarrow> digitRun 2 4 a \<and> digitRun 2 4 b \<and> digitRun 4 4 c
      | _ \<Rightarrow> False)"

text \<open>Cutting a string into consecutive pieces of the given lengths.\<close>

fun chop :: "nat list \<Rightarrow> jsstring \<Rightarrow> jsstring list" where
  "chop [] s = []"
| "chop (n # ns) s = take n s # chop ns (drop n s)"

text \<open>
  \<open>s.replace(/^(\d{a})(\d{b})(\d{c})$/, '$1-$2-$3')\<close> and its two-group sibling: when the
  whole string is a digit run of the summed length, the groups are joined by hyphens;
  a string the pattern does not match is returned unchanged.
\<close>

definition regroup :: "nat list \<Rightarrow> jsstring \<Rightarrow> jsstring" where
  "regroup ns s =
     (if list_all isDigit s \<and> length s = sum_list ns
      then joinWith [hyphen] (chop ns s) else s)"

text \<open>\<open>/^0[4-9]/.test(s)\<close>.\<close>

definition zeroThenFourToNine :: "jsstring \<Rightarrow> bool" where
  "zeroThenFourToNine s \<longleftrightarrow>
     (case s of a # b # _ \<Rightarrow> a = 0x30 \<and> 0x34 \<le> b \<and> b \<le> 0x39 | _ \<Rightarrow> False)"

definition formatPhoneNumber :: "jsstring \<Rightarrow> jsstring" where
  "formatPhoneNumber input =
     (if input = [] then []
      else if 11 < length (stripNonDigits input) then []
      else if hyphen \<in> set input \<and> validHyphenated input then input
      else
        let digits = stripNonDigits
              (if hyphen \<in> set input then filter (\<lambda>c. c \<noteq> hyphen) input else input)
        in
        if digitRun 10 11 digits then
          (if length digits = 10 then
             (if startsWith digits (ascii ''03'') then regroup [2, 4, 4] digits
              else if startsWith digits (ascii ''06'') then regroup [2, 4, 4] digits
              else if startsWith digits (ascii ''04'') then regroup [2, 4, 4] digits
              else if startsWith digits (ascii ''052'') \<or> startsWith digits (ascii ''072'') \<or>
                      startsWith digits (ascii ''075'') \<or> startsWith digits (ascii ''078'') \<or>
                      startsWith digits (ascii ''082'') \<or> startsWith digits (ascii ''092'')
                   then regroup [3, 3, 4] digits
              else if startsWith digits (ascii ''0120'') then regroup [4, 2, 4] digits
              else if startsWith digits (ascii ''0'') then
                (if zeroThenFourToNine digits then regroup [3, 3, 4] digits
                 else regroup [2, 4, 4] digits)
              else regroup [3, 3, 4] digits)
           else if length digits = 11 then
             (if startsWith digits (ascii ''0'') then regroup [3, 4, 4] digits
              else regroup [3, 4, 4] digits)
           else digits)
        else if length digits = 8 then regroup [4, 4] digits
        else if length digits = 9 then regroup [3, 3, 3] digits
        else digits)"

text \<open>
  The split the specification describes, written from its words: the length of the area
  code of a 10-digit number by the prefix table, and a number cut after \<open>a\<close> and after
  \<open>a + b\<close> digits.
\<close>

definition areaCodeLengthSpec :: "jsstring \<Rightarrow> nat" where
  "areaCodeLengthSpec d =
     (if take 2 d \<in> {ascii ''03'', ascii ''06'', ascii ''04''} then 2
      else if take 3 d \<in> {ascii ''052'', ascii ''072'', ascii ''075'',
                            ascii ''078'', ascii ''082'', ascii ''092''} then 3
      else if take 4 d = ascii ''0120'' then 4
      else if take 1 d = ascii ''0'' then (if d ! 1 \<in> {0x34 .. 0x39} then 3 else 2)
      else 3)"

definition hyphenate3 :: "nat \<Rightarrow> nat \<Rightarrow> jsstring \<Rightarrow> jsstring" where
  "hyphenate3 a b d = take a d @ [hyphen] @ take b (drop a d) @ [hyphen] @ drop (a + b) d"

definition hyphenate2 :: "nat \<Rightarrow> jsstring \<Rightarrow> jsstring" where
  "hyphenate2 a d = take a d @ [hyphen] @ drop a d"

section \<open>Image size guard and image optimizer\<close>

text \<open>
  The values a caller can hand over where an image data URL is expected: a string, or
  something that is not a string (\<open>undefined\<close>, \<open>null\<close>, or any other value, told apart by
  a tag).
\<close>

datatype jsvalue = Undefined | Null | Str jsstring | NonString nat

text \<open>
  The exceptions of this part of the script. \<open>PlatformException\<close> stands for whatever a
  browser interface throws or rejects with; its argument tells exceptions apart.
\<close>

datatype jsError =
    InvalidImageData
  | ImageTooLarge rat
  | CompressionFailed
  | TypeError
  | PlatformException nat

text \<open>\<open>dataUrl.split(',')[1] || ''\<close>: the second piece of the split, the empty string without one.\<close>

definition base64Part :: "jsstring \<Rightarrow> jsstring" where
  "base64Part dataUrl =
     (case splitOn (\<lambda>c. c = comma) dataUrl of
        _ # b # _ \<Rightarrow> b
      | _ \<Rightarrow> [])"

text \<open>
  \<open>(base64.length * 0.75) / (1024 * 1024)\<close>. The source computes in IEEE doubles; a string
  length is an integer far below \<open>2^53\<close>, so three quarters of it and that divided by
  \<open>2^20\<close> are exact in a double, and the rational number here is the very value the
  script holds.
\<close>

definition sizeInMB :: "jsstring \<Rightarrow> rat" where
  "sizeInMB base64 = (of_nat (length base64) * 0.75) / (1024 * 1024)"

definition MAX_SIZE_MB :: rat where
  "MAX_SIZE_MB = 15"

definition checkImageSize :: "jsvalue \<Rightarrow> jsError + rat" where
  "checkImageSize dataUrl =
     (case dataUrl of
        Str s \<Rightarrow>
          if s = [] then Inl InvalidImageData
          else if sizeInMB (base64Part s) > MAX_SIZE_MB
               then Inl (ImageTooLarge (sizeInMB (base64Part s)))
               else Inr (sizeInMB (base64Part s))
      | _ \<Rightarrow> Inl InvalidImageData)"

text \<open>
  The estimate of the specification, from its words: the length of the base64 payload
  times 0.75, over one megabyte.
\<close>

definition estimatedSizeSpec :: "nat \<Rightarrow> rat" where
  "estimatedSizeSpec base64Length = (of_nat base64Length * (3 / 4)) / 1048576"

subsection \<open>optimizeImage\<close>

text \<open>The options object of \<open>optimizeImage\<close>; an absent property is \<open>None\<close> or \<open>False\<close>.\<close>

record optimizeOptions =
  quality :: "rat option"
  maxDimension :: "nat option"
  enhanceText :: bool
  contrast :: "rat option"
  rotation :: "int option"
  isQuarterRotated :: bool

text \<open>
  The browser interfaces \<open>optimizeImage\<close> calls, each of which may throw or reject:
  \<open>fetch(imageData).then(res => res.blob())\<close>, \<open>createImageBitmap\<close>, the canvas work
  (sizing by \<open>maxDimension\<close> and rotation, \<open>OffscreenCanvas\<close>, \<open>getContext\<close>,
  \<open>drawImage\<close>, the contrast pass over the pixels), \<open>convertToBlob\<close> at a quality, and
  the \<open>FileReader\<close>, whose \<open>result\<close> at \<open>loadend\<close> is a data URL or \<open>null\<close>. The pixel
  arithmetic is the browser's and the claims do not depend on it; the canvas is known
  here by its area \<open>width * height\<close>, which picks the default quality.
\<close>

record ('blob, 'img, 'canvas) platform =
  fetchBlob :: "jsstring \<Rightarrow> jsError + 'blob"
  createImageBitmap :: "'blob \<Rightarrow> jsError + 'img"
  drawOnCanvas :: "'img \<Rightarrow> optimizeOptions \<Rightarrow> jsError + 'canvas"
  canvasArea :: "'canvas \<Rightarrow> nat"
  convertToBlob :: "'canvas \<Rightarrow> rat \<Rightarrow> jsError + 'blob"
  readAsDataURL :: "'blob \<Rightarrow> jsError + jsvalue"

text \<open>\<open>imageData.startsWith('data:image/')\<close> on a non-empty string.\<close>

definition isImageDataUrl :: "jsvalue \<Rightarrow> bool" where
  "isImageDataUrl v \<longleftrightarrow>
     (case v of Str s \<Rightarrow> s \<noteq> [] \<and> startsWith s (ascii ''data:image/'') | _ \<Rightarrow> False)"

text \<open>
  \<open>typeof options.quality === 'number' ? options.quality :
  (canvas.width * canvas.height > 800000 ? 0.88 : 0.95)\<close>
\<close>

definition chosenQuality ::
  "('blob, 'img, 'canvas) platform \<Rightarrow> 'canvas \<Rightarrow> optimizeOptions \<Rightarrow> rat" where
  "chosenQuality P canvas options =
     (case quality options of
        Some q \<Rightarrow> q
      | None \<Rightarrow> if canvasArea P canvas > 800000 then 0.88 else 0.95)"

text \<open>The body of the \<open>try\<close> block.\<close>

definition optimizeImageTry ::
  "('blob, 'img, 'canvas) platform \<Rightarrow> jsvalue \<Rightarrow> optimizeOptions \<Rightarrow> jsError + jsvalue" where
  "optimizeImageTry P imageData options =
     (case imageData of
        Str s \<Rightarrow>
          if \<not> isImageDataUrl imageData then Inr imageData
          else
            (case fetchBlob P s of
               Inl e \<Rightarrow> Inl e
             | Inr blob \<Rightarrow>
                 (case createImageBitmap P blob of
                    Inl e \<Rightarrow> Inl e
                  | Inr img \<Rightarrow>
                      (case drawOnCanvas P img options of
                         Inl e \<Rightarrow> Inl e
                       | Inr canvas \<Rightarrow>
                           (case convertToBlob P canvas (chosenQuality P canvas options) of
                              Inl e \<Rightarrow> Inl e
                            | Inr resultBlob \<Rightarrow> readAsDataURL P resultBlob))))
      | _ \<Rightarrow> Inr imageData)"

text \<open>\<open>try { \<dots> } catch (error) { return imageData; }\<close>\<close>

definition optimizeImage ::
  "('blob, 'img, 'canvas) platform \<Rightarrow> jsvalue \<Rightarrow> optimizeOptions \<Rightarrow> jsError + jsvalue" where
  "optimizeImage P imageData options =
     (case optimizeImageTry P imageData options of
        Inl error \<Rightarrow> Inr imageData
      | Inr result \<Rightarrow> Inr result)"

subsection \<open>compressImageToSize\<close>

definition qualityLevels :: "rat list" where
  "qualityLevels = [0.8, 0.6, 0.4, 0.3]"

definition dimensionLimits :: "nat list" where
  "dimensionLimits = [1400, 1200, 1000, 800]"

definition ladderOptions :: "nat \<Rightarrow> optimizeOptions" where
  "ladderOptions i =
     \<lparr> quality = Some (qualityLevels ! i), maxDimension = Some (dimensionLimits ! i),
       enhanceText = True, contrast = Some 1.1, rotation = None, isQuarterRotated = False \<rparr>"

text \<open>
  The \<open>for\<close> loop from index \<open>i\<close> on. The result carries the log of the option
  objects handed to \<open>optimizeImage\<close>, in call order. A step whose \<open>try\<close> block throws
  (\<open>optimizeImage\<close> itself, or \<open>split\<close> on a result that is not a string) goes on to the
  next index, as the \<open>catch\<close> does.
\<close>

definition logged :: "'o \<Rightarrow> 'o list \<times> 'r \<Rightarrow> 'o list \<times> 'r" where
  "logged opts r = (opts # fst r, snd r)"

function compressFrom ::
  "('blob, 'img, 'canvas) platform \<Rightarrow> jsvalue \<Rightarrow> rat \<Rightarrow> nat \<Rightarrow>
     optimizeOptions list \<times> (jsError + jsstring)" where
  "compressFrom P imageData targetSizeMB i =
     (if i < length qualityLevels then
        (case optimizeImage P imageData (ladderOptions i) of
           Inr (Str compressedImage) \<Rightarrow>
             if sizeInMB (base64Part compressedImage) \<le> targetSizeMB
             then ([ladderOptions i], Inr compressedImage)
             else logged (ladderOptions i) (compressFrom P imageData targetSizeMB (i + 1))
         | _ \<Rightarrow> logged (ladderOptions i) (compressFrom P imageData targetSizeMB (i + 1)))
      else ([], Inl CompressionFailed))"
  by pat_completeness auto
termination
  by (relation "measure (\<lambda>(P, imageData, t, i). length qualityLevels - i)") auto

declare compressFrom.simps [simp del]

definition compressImageToSize ::
  "('blob, 'img, 'canvas) platform \<Rightarrow> jsvalue \<Rightarrow> rat \<Rightarrow>
     optimizeOptions list \<times> (jsError + jsstring)" where
  "compressImageToSize P imageData targetSizeMB = compressFrom P imageData targetSizeMB 0"

text \<open>Whether step \<open>i\<close> of the ladder yields a data URL at or under the target.\<close>

definition stepMeetsTarget ::
  "('blob, 'img, 'canvas) platform \<Rightarrow> jsvalue \<Rightarrow> rat \<Rightarrow> nat \<Rightarrow> bool" where
  "stepMeetsTarget P imageData targetSizeMB i \<longleftrightarrow>
     (case optimizeImage P imageData (ladderOptions i) of
        Inr (Str c) \<Rightarrow> sizeInMB (base64Part c) \<le> targetSizeMB
      | _ \<Rightarrow> False)"

subsection \<open>Sample platforms\<close>

text \<open>
  Two platforms to run the functions on. A blob, a bitmap and a canvas are known by one
  number each. \<open>brokenDecoder\<close> rejects every blob in \<open>createImageBitmap\<close>.
  \<open>shrinkingEncoder\<close> encodes to a payload of 16,000,000 base64 characters above
  quality 0.6 and of 1,000 characters at 0.6 or below.
\<close>

definition plainOptions :: optimizeOptions where
  "plainOptions =
     \<lparr> quality = None, maxDimension = None, enhanceText = False, contrast = None,
       rotation = None, isQuarterRotated = False \<rparr>"

definition jpegUrl :: "nat \<Rightarrow> jsstring" where
  "jpegUrl n = ascii ''data:image/jpeg;base64'' @ comma # replicate n 0x41"

definition brokenDecoder :: "(nat, nat, nat) platform" where
  "brokenDecoder =
     \<lparr> fetchBlob = (\<lambda>s. Inr (length s)),
       createImageBitmap = (\<lambda>b. Inl (PlatformException 1)),
       drawOnCanvas = (\<lambda>i opts. Inr i), canvasArea = (\<lambda>c. c),
       convertToBlob = (\<lambda>c q. Inr c), readAsDataURL = (\<lambda>b. Inr (Str (jpegUrl b))) \<rparr>"

text \<open>
  \<open>failedRead\<close> decodes and encodes, and its \<open>FileReader\<close> fails to read the encoded
  blob: the reader fires \<open>error\<close> and then \<open>loadend\<close> with \<open>reader.result === null\<close>.
  \<open>optimizeImage\<close> sets \<open>onloadend\<close> only, so its promise resolves with that \<open>null\<close>.
\<close>

definition failedRead :: "(nat, nat, nat) platform" where
  "failedRead =
     \<lparr> fetchBlob = (\<lambda>s. Inr (length s)),
       createImageBitmap = (\<lambda>b. Inr b),
       drawOnCanvas = (\<lambda>i opts. Inr i), canvasArea = (\<lambda>c. c),
       convertToBlob = (\<lambda>c q. Inr c), readAsDataURL = (\<lambda>b. Inr Null) \<rparr>"

definition shrinkingEncoder :: "(nat, nat, nat) platform" where
  "shrinkingEncoder =
     \<lparr> fetchBlob = (\<lambda>s. Inr (length s)),
       createImageBitmap = (\<lambda>b. Inr b),
       drawOnCanvas = (\<lambda>i opts. Inr i), canvasArea = (\<lambda>c. c),
       convertToBlob = (\<lambda>c q. if q \<le> 0.6 then Inr 1000 else Inr 16000000),
       readAsDataURL = (\<lambda>b. Inr (Str (jpegUrl b))) \<rparr>"

section \<open>Result cache\<close>

text \<open>
  \<open>const imageCache = new Map()\<close>. A JavaScript \<open>Map\<close> iterates its keys in insertion
  order and holds no key twice; it is modelled as the list of its entries in that order.
  Keys are the hexadecimal digests of \<open>cacheKeySimple\<close>, values the post-processed texts.
\<close>

type_synonym jsMap = "(jsstring \<times> jsstring) list"

definition mapGet :: "jsMap \<Rightarrow> jsstring \<Rightarrow> jsstring option" where
  "mapGet m k = map_of m k"

text \<open>\<open>Map.prototype.set\<close>: an existing key keeps its place, a new key goes to the end.\<close>

fun mapSet :: "jsMap \<Rightarrow> jsstring \<Rightarrow> jsstring \<Rightarrow> jsMap" where
  "mapSet [] k v = [(k, v)]"
| "mapSet ((k', v') # m) k v = (if k' = k then (k, v) # m else (k', v') # mapSet m k v)"

definition mapDelete :: "jsMap \<Rightarrow> jsstring \<Rightarrow> jsMap" where
  "mapDelete m k = filter (\<lambda>e. fst e \<noteq> k) m"

definition mapSize :: "jsMap \<Rightarrow> nat" where
  "mapSize m = length m"

text \<open>
  Lines 1565 to 1571 of \<open>handleImageProcessing\<close>:
  \<open>imageCache.set(cacheKey, processedText); if (imageCache.size > 30) {
  const oldestKey = imageCache.keys().next().value; imageCache.delete(oldestKey); }\<close>
\<close>

definition storeResult :: "jsMap \<Rightarrow> jsstring \<Rightarrow> jsstring \<Rightarrow> jsMap" where
  "storeResult cache cacheKey processedText =
     (let cache' = mapSet cache cacheKey processedText in
      if mapSize cache' > 30 then
        (case cache' of [] \<Rightarrow> cache' | (oldestKey, _) # _ \<Rightarrow> mapDelete cache' oldestKey)
      else cache')"

text \<open>
  The cache side of \<open>handleImageProcessing\<close>. A truthy cached text is returned without
  further work (the empty string is falsy and counts as a miss). Otherwise the outcome of
  \<open>processImageForOCR\<close> and \<open>postProcessOcrResult\<close>, given as \<open>processed\<close>, is either an
  exception, which leaves the cache alone, or the text that is stored and returned.
\<close>

definition handleImageProcessing ::
  "jsMap \<Rightarrow> jsstring \<Rightarrow> jsError + jsstring \<Rightarrow> jsMap \<times> (jsError + jsstring)" where
  "handleImageProcessing cache cacheKey processed =
     (case mapGet cache cacheKey of
        Some cachedResult \<Rightarrow>
          if cachedResult \<noteq> [] then (cache, Inr cachedResult)
          else (case processed of
                  Inl error \<Rightarrow> (cache, Inl error)
                | Inr processedText \<Rightarrow> (storeResult cache cacheKey processedText, Inr processedText))
      | None \<Rightarrow>
          (case processed of
             Inl error \<Rightarrow> (cache, Inl error)
           | Inr processedText \<Rightarrow> (storeResult cache cacheKey processedText, Inr processedText)))"

text \<open>
  The state the storage listener touches: the cache and \<open>cachedSettings.lastUpdate\<close>.
\<close>

record backgroundState =
  imageCache :: jsMap
  settingsLastUpdate :: nat

text \<open>
  The \<open>chrome.storage.onChanged\<close> listener. \<open>changes\<close> is known by the names of the
  changed items (each maps to a change object, which is truthy).
\<close>

definition ocrSettingChanged :: "jsstring list \<Rightarrow> bool" where
  "ocrSettingChanged changes \<longleftrightarrow>
     ascii ''geminiApiKey'' \<in> set changes \<or> ascii ''ocrLanguage'' \<in> set changes \<or>
     ascii ''ocrMode'' \<in> set changes \<or> ascii ''geminiModel'' \<in> set changes"

definition onStorageChanged :: "jsstring list \<Rightarrow> jsstring \<Rightarrow> backgroundState \<Rightarrow> backgroundState" where
  "onStorageChanged changes namespace st =
     (if namespace = ascii ''local'' then
        (if ocrSettingChanged changes then
           (let st' = st\<lparr>settingsLastUpdate := 0\<rparr> in
            if mapSize (imageCache st') > 0 then st'\<lparr>imageCache := []\<rparr> else st')
         else st)
      else st)"

text \<open>
  The states the background script can be in, as far as \<open>imageCache\<close> goes: it starts
  empty, and it is written by \<open>handleImageProcessing\<close>, by the storage listener, and by the
  \<open>imageCache.clear()\<close> of the \<open>clearCache\<close> command and of the error recovery.
\<close>

inductive reachable :: "backgroundState \<Rightarrow> bool" where
  initial: "reachable \<lparr>imageCache = [], settingsLastUpdate = 0\<rparr>"
| processed: "reachable st \<Longrightarrow>
    reachable (st\<lparr>imageCache := fst (handleImageProcessing (imageCache st) cacheKey outcome)\<rparr>)"
| storageChanged: "reachable st \<Longrightarrow> reachable (onStorageChanged changes namespace st)"
| settingsLoaded: "reachable st \<Longrightarrow> reachable (st\<lparr>settingsLastUpdate := now\<rparr>)"
| cleared: "reachable st \<Longrightarrow> reachable (st\<lparr>imageCache := []\<rparr>)"

text \<open>A cache of \<open>n\<close> entries with the keys \<open>[0], [1], \<dots>\<close> in insertion order.\<close>

definition sampleCache :: "nat \<Rightarrow> jsMap" where
  "sampleCache n = map (\<lambda>i. ([i], ascii ''text'')) [0..<n]"

section \<open>The retry loop of extractTextWithGemini\<close>

text \<open>
  The messages of the script, as code units. The Japanese ones read, in order: ``temporary
  API limit'' (the marker and the prefix with a colon), ``timeout'' in katakana, ``the
  API request timed out'', ``API error: '', ``could not extract text'', and ``the API
  request failed''.
\<close>

definition temporaryLimitMarker :: jsstring where
  "temporaryLimitMarker = [0x4E00, 0x6642, 0x7684, 0x306A] @ ascii ''API'' @ [0x5236, 0x9650]"

definition temporaryLimitPrefix :: jsstring where
  "temporaryLimitPrefix = temporaryLimitMarker @ ascii '': ''"

definition timeoutMarkerKana :: jsstring where
  "timeoutMarkerKana = [0x30BF, 0x30A4, 0x30E0, 0x30A2, 0x30A6, 0x30C8]"

definition timeoutMessage :: jsstring where
  "timeoutMessage =
     ascii ''API'' @ [0x30EA, 0x30AF, 0x30A8, 0x30B9, 0x30C8, 0x304C] @ timeoutMarkerKana @
     [0x3057, 0x307E, 0x3057, 0x305F]"

definition apiErrorPrefix :: jsstring where
  "apiErrorPrefix = ascii ''API '' @ [0x30A8, 0x30E9, 0x30FC] @ ascii '': ''"

definition noTextMessage :: jsstring where
  "noTextMessage =
     [0x30C6, 0x30AD, 0x30B9, 0x30C8, 0x3092, 0x62BD, 0x51FA, 0x3067, 0x304D, 0x307E,
      0x305B, 0x3093, 0x3067, 0x3057, 0x305F]"

definition requestFailedMessage :: jsstring where
  "requestFailedMessage =
     ascii ''API'' @ [0x30EA, 0x30AF, 0x30A8, 0x30B9, 0x30C8, 0x306B, 0x5931, 0x6557,
                      0x3057, 0x307E, 0x3057, 0x305F]"

definition allRetriesFailedPrefix :: jsstring where
  "allRetriesFailedPrefix =
     ascii ''Gemini API'' @
     [0x3078, 0x306E, 0x30EA, 0x30AF, 0x30A8, 0x30B9, 0x30C8, 0x304C, 0x5931, 0x6557, 0x3057,
      0x307E, 0x3057, 0x305F, 0x3002, 0x6700, 0x5F8C, 0x306E, 0x30A8, 0x30E9, 0x30FC] @ ascii '': ''"

definition unknownErrorMessage :: jsstring where
  "unknownErrorMessage = [0x4E0D, 0x660E, 0x306A, 0x30A8, 0x30E9, 0x30FC]"

text \<open>
  The value of \<open>errorData.error.message\<close> in a JSON error object, as far as the code can
  tell values apart: falsy or missing (also when \<open>errorData.error\<close> is); a string that is
  not empty; an array, known by the strings among its elements and by its conversion to
  a string; or another truthy value (a number, \<open>true\<close>, an object), which has no
  \<open>includes\<close> method.
\<close>

datatype messageField =
    MessageFalsy
  | MessageString jsstring
  | MessageArray "jsstring list" jsstring
  | MessageWithoutIncludes

text \<open>
  What one pass through the \<open>try\<close> block can meet. The body of a response that is not
  \<open>ok\<close> is read by \<open>response.json()\<close>: that call rejects when the body is not JSON (and
  \<open>errorData.error\<close> throws when the body is the JSON \<open>null\<close>), carrying the message of
  the exception; or it yields an object, with its \<open>error.message\<close> and its
  \<open>JSON.stringify\<close>; or a number, string or boolean.
\<close>

datatype errorBody =
    ErrorBodyUnreadable jsstring
  | ErrorBodyObject messageField jsstring
  | ErrorBodyPrimitive

text \<open>
  The body of an \<open>ok\<close> response: unreadable in the same way, or holding the text of
  \<open>candidates[0].content.parts[0].text\<close>, or holding none.
\<close>

datatype okBody =
    OkBodyUnreadable jsstring
  | OkBodyText jsstring
  | OkBodyWithoutText

text \<open>
  The outcome of \<open>Promise.race([fetchPromise, timeoutPromise])\<close>: \<open>fetch\<close> rejects with a
  message, the 15 second timer wins, or a response arrives, \<open>ok\<close> or not, with its status.
\<close>

datatype fetchOutcome =
    FetchRejected jsstring
  | TimedOut
  | ResponseNotOk nat errorBody
  | ResponseOk okBody

record geminiResult =
  resultText :: jsstring
  confidence :: rat
  imageCompressed :: bool

text \<open>
  The \<open>errorMessage\<close> variable of the \<open>!response.ok\<close> branch holds whatever
  \<open>errorData.error.message\<close> is when that is truthy, a string otherwise.
\<close>

datatype errorMessageValue =
    MessageText jsstring
  | MessageList "jsstring list" jsstring
  | MessageOther

definition errorMessageOf :: "errorBody \<Rightarrow> errorMessageValue" where
  "errorMessageOf body =
     (case body of
        ErrorBodyObject (MessageString m) stringified \<Rightarrow>
          if m \<noteq> [] then MessageText m else MessageText stringified
      | ErrorBodyObject (MessageArray elements shown) stringified \<Rightarrow> MessageList elements shown
      | ErrorBodyObject MessageWithoutIncludes stringified \<Rightarrow> MessageOther
      | ErrorBodyObject MessageFalsy stringified \<Rightarrow> MessageText stringified
      | _ \<Rightarrow> MessageText requestFailedMessage)"

text \<open>
  \<open>errorMessage.includes(marker)\<close>: the substring test on a string, the membership test
  on an array; and \<open>${errorMessage}\<close>.
\<close>

definition messageIncludes :: "errorMessageValue \<Rightarrow> jsstring \<Rightarrow> bool" where
  "messageIncludes v marker =
     (case v of
        MessageText m \<Rightarrow> includesStr m marker
      | MessageList elements shown \<Rightarrow> marker \<in> set elements
      | MessageOther \<Rightarrow> False)"

definition messageShown :: "errorMessageValue \<Rightarrow> jsstring" where
  "messageShown v = (case v of MessageText m \<Rightarrow> m | MessageList elements shown \<Rightarrow> shown | MessageOther \<Rightarrow> [])"

text \<open>The message of the \<open>TypeError\<close> of a call of \<open>includes\<close> on a value that has none.\<close>

definition includesTypeError :: jsstring where
  "includesTypeError = ascii ''errorMessage.includes is not a function''"

text \<open>
  The \<open>try\<close> block of one attempt: the exception it throws, as its message, or the
  result it returns.
\<close>

definition tryAttempt :: "bool \<Rightarrow> fetchOutcome \<Rightarrow> jsstring + geminiResult" where
  "tryAttempt compressed outcome =
     (case outcome of
        FetchRejected message \<Rightarrow> Inl message
      | TimedOut \<Rightarrow> Inl timeoutMessage
      | ResponseNotOk status body \<Rightarrow>
          (case body of
             ErrorBodyUnreadable message \<Rightarrow> Inl message
           | _ \<Rightarrow>
               let errorMessage = errorMessageOf body in
               if errorMessage = MessageOther then Inl includesTypeError
               else if messageIncludes errorMessage (ascii ''overloaded'') \<or>
                  messageIncludes errorMessage (ascii ''rate limit'') \<or>
                  messageIncludes errorMessage (ascii ''server error'') \<or>
                  messageIncludes errorMessage (ascii ''try again'') \<or>
                  status = 429 \<or> status \<ge> 500
               then Inl (temporaryLimitPrefix @ messageShown errorMessage)
               else Inl (apiErrorPrefix @ messageShown errorMessage))
      | ResponseOk body \<Rightarrow>
          (case body of
             OkBodyUnreadable message \<Rightarrow> Inl message
           | OkBodyText t \<Rightarrow>
               if t \<noteq> []
               then Inr \<lparr>resultText = t, confidence = 0.95, imageCompressed = compressed\<rparr>
               else Inl noTextMessage
           | OkBodyWithoutText \<Rightarrow> Inl noTextMessage))"

text \<open>The \<open>isTemporaryError\<close> test of the \<open>catch\<close> block.\<close>

definition isTemporaryError :: "jsstring \<Rightarrow> bool" where
  "isTemporaryError message \<longleftrightarrow>
     message \<noteq> [] \<and>
     (includesStr message temporaryLimitMarker \<or>
      includesStr message (ascii ''overloaded'') \<or>
      includesStr message (ascii ''rate limit'') \<or>
      includesStr message (ascii ''timeout'') \<or>
      includesStr message timeoutMarkerKana)"

definition MAX_RETRIES :: nat where
  "MAX_RETRIES = 1"

text \<open>\<open>1000 * Math.pow(1.5, attempt - 1)\<close>, with \<open>attempt\<close> already incremented.\<close>

definition retryDelay :: "nat \<Rightarrow> rat" where
  "retryDelay attempt = 1000 * (3 / 2) ^ (attempt - 1)"

text \<open>What the loop does that can be seen from outside: calls to the API and waits.\<close>

datatype apiEvent = ApiCall nat | Wait rat

text \<open>
  The \<open>while (attempt <= MAX_RETRIES)\<close> loop from \<open>attempt\<close> on. \<open>network i\<close> is the
  outcome the \<open>i\<close>-th call meets. The result carries the events in order and either
  the message of the exception that leaves the function or the value returned.
\<close>

function retryLoop ::
  "bool \<Rightarrow> (nat \<Rightarrow> fetchOutcome) \<Rightarrow> nat \<Rightarrow> jsstring option \<Rightarrow>
     apiEvent list \<times> (jsstring + geminiResult)" where
  "retryLoop compressed network attempt lastError =
     (if attempt \<le> MAX_RETRIES then
        (case tryAttempt compressed (network attempt) of
           Inr result \<Rightarrow> ([ApiCall attempt], Inr result)
         | Inl message \<Rightarrow>
             if isTemporaryError message \<and> attempt < MAX_RETRIES then
               (let (events, outcome) =
                      retryLoop compressed network (attempt + 1) (Some message)
                in (ApiCall attempt # Wait (retryDelay (attempt + 1)) # events, outcome))
             else ([ApiCall attempt], Inl message))
      else ([], Inl (allRetriesFailedPrefix @
                      (case lastError of Some m \<Rightarrow> m | None \<Rightarrow> unknownErrorMessage))))"
  by pat_completeness auto
termination
  by (relation "measure (\<lambda>(c, n, attempt, l). Suc MAX_RETRIES - attempt)") auto

declare retryLoop.simps [simp del]

text \<open>
  The classification the specification words: a failure is temporary when the response
  has status 429 or at least 500, or when the error message holds an overload, rate-limit
  or timeout marker.
\<close>

definition temporaryBySpec :: "fetchOutcome \<Rightarrow> bool" where
  "temporaryBySpec outcome \<longleftrightarrow>
     (case outcome of
        ResponseNotOk status body \<Rightarrow> status = 429 \<or> status \<ge> 500
      | _ \<Rightarrow> False) \<or>
     (case tryAttempt False outcome of
        Inl message \<Rightarrow>
          includesStr message (ascii ''overloaded'') \<or> includesStr message (ascii ''rate limit'') \<or>
          includesStr message (ascii ''timeout'') \<or> includesStr message timeoutMarkerKana
      | Inr _ \<Rightarrow> False)"

text \<open>
  A gateway answering 503 with an HTML page, then the API answering with a text.
\<close>

definition htmlParseError :: jsstring where
  "htmlParseError = ascii ''Unexpected token < in JSON at position 0''"

definition gatewayDown :: "nat \<Rightarrow> fetchOutcome" where
  "gatewayDown i =
     (if i = 0 then ResponseNotOk 503 (ErrorBodyUnreadable htmlParseError)
      else ResponseOk (OkBodyText (ascii ''03-1234-5678'')))"

text \<open>The API answering 503 with a JSON error object, then with a text.\<close>

definition overloadedOnce :: "nat \<Rightarrow> fetchOutcome" where
  "overloadedOnce i =
     (if i = 0 then ResponseNotOk 503
        (ErrorBodyObject (MessageString (ascii ''The model is overloaded.'')) (ascii ''{}''))
      else ResponseOk (OkBodyText (ascii ''03-1234-5678'')))"


text \<open>The API answering 503 with a JSON error object whose message is a number.\<close>

definition numericMessage :: "nat \<Rightarrow> fetchOutcome" where
  "numericMessage i =
     (if i = 0 then ResponseNotOk 503 (ErrorBodyObject MessageWithoutIncludes (ascii ''{}''))
      else ResponseOk (OkBodyText (ascii ''03-1234-5678'')))"

section \<open>Unicode normalization form C\<close>

text \<open>
  \<open>String.prototype.normalize('NFC')\<close> is the engine's. It is modelled in full, as Unicode
  Standard Annex 15 defines it: the string is read as code points, every code point is
  replaced by its full canonical decomposition, combining marks are put into canonical
  order, and the result is recomposed. The three tables are those of the Unicode
  Character Database, version 14.0.0: the canonical decompositions, the canonical
  combining classes other than 0, and the primary composites (the canonical pairs that
  are not excluded from composition). Hangul syllables are handled by the arithmetic of
  the standard. A code point that is unassigned in that version has no entry.
\<close>

subsection \<open>Canonical decompositions\<close>

text \<open>
  Code point and full canonical decomposition, in blocks of consecutive entries; the
  list \<open>decompositionBlocks\<close> gives each block with its last code point.
\<close>

definition decompositions_00C0 :: "(nat \<times> nat list) list" where
  "decompositions_00C0 = [
     (0x00C0, [0x0041, 0x0300]), (0x00C1, [0x0041, 0x0301]), (0x00C2, [0x0041, 0x0302]),
     (0x00C3, [0x0041, 0x0303]), (0x00C4, [0x0041, 0x0308]), (0x00C5, [0x0041, 0x030A]),
     (0x00C7, [0x0043, 0x0327]), (0x00C8, [0x0045, 0x0300]), (0x00C9, [0x0045, 0x0301]),
     (0x00CA, [0x0045, 0x0302]), (0x00CB, [0x0045, 0x0308]), (0x00CC, [0x0049, 0x0300]),
     (0x00CD, [0x0049, 0x0301]), (0x00CE, [0x0049, 0x0302]), (0x00CF, [0x0049, 0x0308]),
     (0x00D1, [0x004E, 0x0303]), (0x00D2, [0x004F, 0x0300]), (0x00D3, [0x004F, 0x0301]),
     (0x00D4, [0x004F, 0x0302]), (0x00D5, [0x004F, 0x0303]), (0x00D6, [0x004F, 0x0308]),
     (0x00D9, [0x0055, 0x0300]), (0x00DA, [0x0055, 0x0301]), (0x00DB, [0x0055, 0x0302]),
     (0x00DC, [0x0055, 0x0308]), (0x00DD, [0x0059, 0x0301]), (0x00E0, [0x0061, 0x0300]),
     (0x00E1, [0x0061, 0x0301]), (0x00E2, [0x0061, 0x0302]), (0x00E3, [0x0061, 0x0303]),
     (0x00E4, [0x0061, 0x0308]), (0x00E5, [0x0061, 0x030A]), (0x00E7, [0x0063, 0x0327]),
     (0x00E8, [0x0065, 0x0300]), (0x00E9, [0x0065, 0x0301]), (0x00EA, [0x0065, 0x0302]),
     (0x00EB, [0x0065, 0x0308]), (0x00EC, [0x0069, 0x0300]), (0x00ED, [0x0069, 0x0301]),
     (0x00EE, [0x0069, 0x0302])]"

definition decompositions_00EF :: "(nat \<times> nat list) list" where
  "decompositions_00EF = [
     (0x00EF, [0x0069, 0x0308]), (0x00F1, [0x006E, 0x0303]), (0x00F2, [0x006F, 0x0300]),
     (0x00F3, [0x006F, 0x0301]), (0x00F4, [0x006F, 0x0302]), (0x00F5, [0x006F, 0x0303]),
     (0x00F6, [0x006F, 0x0308]), (0x00F9, [0x0075, 0x0300]), (0x00FA, [0x0075, 0x0301]),
     (0x00FB, [0x0075, 0x0302]), (0x00FC, [0x0075, 0x0308]), (0x00FD, [0x0079, 0x0301]),
     (0x00FF, [0x0079, 0x0308]), (0x0100, [0x0041, 0x0304]), (0x0101, [0x0061, 0x0304]),
     (0x0102, [0x0041, 0x0306]), (0x0103, [0x0061, 0x0306]), (0x0104, [0x0041, 0x0328]),
     (0x0105, [0x0061, 0x0328]), (0x0106, [0x0043, 0x0301]), (0x0107, [0x0063, 0x0301]),
     (0x0108, [0x0043, 0x0302]), (0x0109, [0x0063, 0x0302]), (0x010A, [0x0043, 0x0307]),
     (0x010B, [0x0063, 0x0307]), (0x010C, [0x0043, 0x030C]), (0x010D, [0x0063, 0x030C]),
     (0x010E, [0x0044, 0x030C]), (0x010F, [0x0064, 0x030C]), (0x0112, [0x0045, 0x0304]),
     (0x0113, [0x0065, 0x0304]), (0x0114, [0x0045, 0x0306]), (0x0115, [0x0065, 0x0306]),
     (0x0116, [0x0045, 0x0307]), (0x0117, [0x0065, 0x0307]), (0x0118, [0x0045, 0x0328]),
     (0x0119, [0x0065, 0x0328]), (0x011A, [0x0045, 0x030C]), (0x011B, [0x0065, 0x030C]),
     (0x011C, [0x0047, 0x0302])]"

definition decompositions_011D :: "(nat \<times> nat list) list" where
  "decompositions_011D = [
     (0x011D, [0x0067, 0x0302]), (0x011E, [0x0047, 0x0306]), (0x011F, [0x0067, 0x0306]),
     (0x0120, [0x0047, 0x0307]), (0x0121, [0x0067, 0x0307]), (0x0122, [0x0047, 0x0327]),
     (0x0123, [0x0067, 0x0327]), (0x0124, [0x0048, 0x0302]), (0x0125, [0x0068, 0x0302]),
     (0x0128, [0x0049, 0x0303]), (0x0129, [0x0069, 0x0303]), (0x012A, [0x0049, 0x0304]),
     (0x012B, [0x0069, 0x0304]), (0x012C, [0x0049, 0x0306]), (0x012D, [0x0069, 0x0306]),
     (0x012E, [0x0049, 0x0328]), (0x012F, [0x0069, 0x0328]), (0x0130, [0x0049, 0x0307]),
     (0x0134, [0x004A, 0x0302]), (0x0135, [0x006A, 0x0302]), (0x0136, [0x004B, 0x0327]),
     (0x0137, [0x006B, 0x0327]), (0x0139, [0x004C, 0x0301]), (0x013A, [0x006C, 0x0301]),
     (0x013B, [0x004C, 0x0327]), (0x013C, [0x006C, 0x0327]), (0x013D, [0x004C, 0x030C]),
     (0x013E, [0x006C, 0x030C]), (0x0143, [0x004E, 0x0301]), (0x0144, [0x006E, 0x0301]),
     (0x0145, [0x004E, 0x0327]), (0x0146, [0x006E, 0x0327]), (0x0147, [0x004E, 0x030C]),
     (0x0148, [0x006E, 0x030C]), (0x014C, [0x004F, 0x0304]), (0x014D, [0x006F, 0x0304]),
     (0x014E, [0x004F, 0x0306]), (0x014F, [0x006F, 0x0306]), (0x0150, [0x004F, 0x030B]),
     (0x0151, [0x006F, 0x030B])]"

definition decompositions_0154 :: "(nat \<times> nat list) list" where
  "decompositions_0154 = [
     (0x0154, [0x0052, 0x0301]), (0x0155, [0x0072, 0x0301]), (0x0156, [0x0052, 0x0327]),
     (0x0157, [0x0072, 0x0327]), (0x0158, [0x0052, 0x030C]), (0x0159, [0x0072, 0x030C]),
     (0x015A, [0x0053, 0x0301]), (0x015B, [0x0073, 0x0301]), (0x015C, [0x0053, 0x0302]),
     (0x015D, [0x0073, 0x0302]), (0x015E, [0x0053, 0x0327]), (0x015F, [0x0073, 0x0327]),
     (0x0160, [0x0053, 0x030C]), (0x0161, [0x0073, 0x030C]), (0x0162, [0x0054, 0x0327]),
     (0x0163, [0x0074, 0x0327]), (0x0164, [0x0054, 0x030C]), (0x0165, [0x0074, 0x030C]),
     (0x0168, [0x0055, 0x0303]), (0x0169, [0x0075, 0x0303]), (0x016A, [0x0055, 0x0304]),
     (0x016B, [0x0075, 0x0304]), (0x016C, [0x0055, 0x0306]), (0x016D, [0x0075, 0x0306]),
     (0x016E, [0x0055, 0x030A]), (0x016F, [0x0075, 0x030A]), (0x0170, [0x0055, 0x030B]),
     (0x0171, [0x0075, 0x030B]), (0x0172, [0x0055, 0x0328]), (0x0173, [0x0075, 0x0328]),
     (0x0174, [0x0057, 0x0302]), (0x0175, [0x0077, 0x0302]), (0x0176, [0x0059, 0x0302]),
     (0x0177, [0x0079, 0x0302]), (0x0178, [0x0059, 0x0308]), (0x0179, [0x005A, 0x0301]),
     (0x017A, [0x007A, 0x0301]), (0x017B, [0x005A, 0x0307]), (0x017C, [0x007A, 0x0307]),
     (0x017D, [0x005A, 0x030C])]"

definition decompositions_017E :: "(nat \<times> nat list) list" where
  "decompositions_017E = [
     (0x017E, [0x007A, 0x030C]), (0x01A0, [0x004F, 0x031B]), (0x01A1, [0x006F, 0x031B]),
     (0x01AF, [0x0055, 0x031B]), (0x01B0, [0x0075, 0x031B]), (0x01CD, [0x0041, 0x030C]),
     (0x01CE, [0x0061, 0x030C]), (0x01CF, [0x0049, 0x030C]), (0x01D0, [0x0069, 0x030C]),
     (0x01D1, [0x004F, 0x030C]), (0x01D2, [0x006F, 0x030C]), (0x01D3, [0x0055, 0x030C]),
     (0x01D4, [0x0075, 0x030C]), (0x01D5, [0x0055, 0x0308, 0x0304]),
     (0x01D6, [0x0075, 0x0308, 0x0304]), (0x01D7, [0x0055, 0x0308, 0x0301]),
     (0x01D8, [0x0075, 0x0308, 0x0301]), (0x01D9, [0x0055, 0x0308, 0x030C]),
     (0x01DA, [0x0075, 0x0308, 0x030C]), (0x01DB, [0x0055, 0x0308, 0x0300]),
     (0x01DC, [0x0075, 0x0308, 0x0300]), (0x01DE, [0x0041, 0x0308, 0x0304]),
     (0x01DF, [0x0061, 0x0308, 0x0304]), (0x01E0, [0x0041, 0x0307, 0x0304]),
     (0x01E1, [0x0061, 0x0307, 0x0304]), (0x01E2, [0x00C6, 0x0304]), (0x01E3, [0x00E6, 0x0304]),
     (0x01E6, [0x0047, 0x030C]), (0x01E7, [0x0067, 0x030C]), (0x01E8, [0x004B, 0x030C]),
     (0x01E9, [0x006B, 0x030C]), (0x01EA, [0x004F, 0x0328]), (0x01EB, [0x006F, 0x0328]),
     (0x01EC, [0x004F, 0x0328, 0x0304]), (0x01ED, [0x006F, 0x0328, 0x0304]),
     (0x01EE, [0x01B7, 0x030C]), (0x01EF, [0x0292, 0x030C]), (0x01F0, [0x006A, 0x030C]),
     (0x01F4, [0x0047, 0x0301]), (0x01F5, [0x0067, 0x0301])]"

definition decompositions_01F8 :: "(nat \<times> nat list) list" where
  "decompositions_01F8 = [
     (0x01F8, [0x004E, 0x0300]), (0x01F9, [0x006E, 0x0300]), (0x01FA, [0x0041, 0x030A, 0x0301]),
     (0x01FB, [0x0061, 0x030A, 0x0301]), (0x01FC, [0x00C6, 0x0301]), (0x01FD, [0x00E6, 0x0301]),
     (0x01FE, [0x00D8, 0x0301]), (0x01FF, [0x00F8, 0x0301]), (0x0200, [0x0041, 0x030F]),
     (0x0201, [0x0061, 0x030F]), (0x0202, [0x0041, 0x0311]), (0x0203, [0x0061, 0x0311]),
     (0x0204, [0x0045, 0x030F]), (0x0205, [0x0065, 0x030F]), (0x0206, [0x0045, 0x0311]),
     (0x0207, [0x0065, 0x0311]), (0x0208, [0x0049, 0x030F]), (0x0209, [0x0069, 0x030F]),
     (0x020A, [0x0049, 0x0311]), (0x020B, [0x0069, 0x0311]), (0x020C, [0x004F, 0x030F]),
     (0x020D, [0x006F, 0x030F]), (0x020E, [0x004F, 0x0311]), (0x020F, [0x006F, 0x0311]),
     (0x0210, [0x0052, 0x030F]), (0x0211, [0x0072, 0x030F]), (0x0212, [0x0052, 0x0311]),
     (0x0213, [0x0072, 0x0311]), (0x0214, [0x0055, 0x030F]), (0x0215, [0x0075, 0x030F]),
     (0x0216, [0x0055, 0x0311]), (0x0217, [0x0075, 0x0311]), (0x0218, [0x0053, 0x0326]),
     (0x0219, [0x0073, 0x0326]), (0x021A, [0x0054, 0x0326]), (0x021B, [0x0074, 0x0326]),
     (0x021E, [0x0048, 0x030C]), (0x021F, [0x0068, 0x030C]), (0x0226, [0x0041, 0x0307]),
     (0x0227, [0x0061, 0x0307])]"

definition decompositions_0228 :: "(nat \<times> nat list) list" where
  "decompositions_0228 = [
     (0x0228, [0x0045, 0x0327]), (0x0229, [0x0065, 0x0327]), (0x022A, [0x004F, 0x0308, 0x0304]),
     (0x022B, [0x006F, 0x0308, 0x0304]), (0x022C, [0x004F, 0x0303, 0x0304]),
     (0x022D, [0x006F, 0x0303, 0x0304]), (0x022E, [0x004F, 0x0307]), (0x022F, [0x006F, 0x0307]),
     (0x0230, [0x004F, 0x0307, 0x0304]), (0x0231, [0x006F, 0x0307, 0x0304]),
     (0x0232, [0x0059, 0x0304]), (0x0233, [0x0079, 0x0304])]"

definition decompositions_0340 :: "(nat \<times> nat list) list" where
  "decompositions_0340 = [
     (0x0340, [0x0300]), (0x0341, [0x0301]), (0x0343, [0x0313]), (0x0344, [0x0308, 0x0301]),
     (0x0374, [0x02B9]), (0x037E, [0x003B]), (0x0385, [0x00A8, 0x0301]),
     (0x0386, [0x0391, 0x0301]), (0x0387, [0x00B7]), (0x0388, [0x0395, 0x0301]),
     (0x0389, [0x0397, 0x0301]), (0x038A, [0x0399, 0x0301]), (0x038C, [0x039F, 0x0301]),
     (0x038E, [0x03A5, 0x0301]), (0x038F, [0x03A9, 0x0301]), (0x0390, [0x03B9, 0x0308, 0x0301]),
     (0x03AA, [0x0399, 0x0308]), (0x03AB, [0x03A5, 0x0308]), (0x03AC, [0x03B1, 0x0301]),
     (0x03AD, [0x03B5, 0x0301]), (0x03AE, [0x03B7, 0x0301]), (0x03AF, [0x03B9, 0x0301]),
     (0x03B0, [0x03C5, 0x0308, 0x0301]), (0x03CA, [0x03B9, 0x0308]), (0x03CB, [0x03C5, 0x0308]),
     (0x03CC, [0x03BF, 0x0301]), (0x03CD, [0x03C5, 0x0301]), (0x03CE, [0x03C9, 0x0301]),
     (0x03D3, [0x03D2, 0x0301]), (0x03D4, [0x03D2, 0x0308]), (0x0400, [0x0415, 0x0300]),
     (0x0401, [0x0415, 0x0308]), (0x0403, [0x0413, 0x0301]), (0x0407, [0x0406, 0x0308]),
     (0x040C, [0x041A, 0x0301]), (0x040D, [0x0418, 0x0300]), (0x040E, [0x0423, 0x0306]),
     (0x0419, [0x0418, 0x0306]), (0x0439, [0x0438, 0x0306]), (0x0450, [0x0435, 0x0300])]"

definition decompositions_0451 :: "(nat \<times> nat list) list" where
  "decompositions_0451 = [
     (0x0451, [0x0435, 0x0308]), (0x0453, [0x0433, 0x0301]), (0x0457, [0x0456, 0x0308]),
     (0x045C, [0x043A, 0x0301]), (0x045D, [0x0438, 0x0300]), (0x045E, [0x0443, 0x0306]),
     (0x0476, [0x0474, 0x030F]), (0x0477, [0x0475, 0x030F])]"

definition decompositions_04C1 :: "(nat \<times> nat list) list" where
  "decompositions_04C1 = [
     (0x04C1, [0x0416, 0x0306]), (0x04C2, [0x0436, 0x0306]), (0x04D0, [0x0410, 0x0306]),
     (0x04D1, [0x0430, 0x0306]), (0x04D2, [0x0410, 0x0308]), (0x04D3, [0x0430, 0x0308]),
     (0x04D6, [0x0415, 0x0306]), (0x04D7, [0x0435, 0x0306]), (0x04DA, [0x04D8, 0x0308]),
     (0x04DB, [0x04D9, 0x0308]), (0x04DC, [0x0416, 0x0308]), (0x04DD, [0x0436, 0x0308]),
     (0x04DE, [0x0417, 0x0308]), (0x04DF, [0x0437, 0x0308]), (0x04E2, [0x0418, 0x0304]),
     (0x04E3, [0x0438, 0x0304]), (0x04E4, [0x0418, 0x0308]), (0x04E5, [0x0438, 0x0308]),
     (0x04E6, [0x041E, 0x0308]), (0x04E7, [0x043E, 0x0308]), (0x04EA, [0x04E8, 0x0308]),
     (0x04EB, [0x04E9, 0x0308]), (0x04EC, [0x042D, 0x0308]), (0x04ED, [0x044D, 0x0308]),
     (0x04EE, [0x0423, 0x0304]), (0x04EF, [0x0443, 0x0304]), (0x04F0, [0x0423, 0x0308]),
     (0x04F1, [0x0443, 0x0308]), (0x04F2, [0x0423, 0x030B]), (0x04F3, [0x0443, 0x030B]),
     (0x04F4, [0x0427, 0x0308]), (0x04F5, [0x0447, 0x0308]), (0x04F8, [0x042B, 0x0308]),
     (0x04F9, [0x044B, 0x0308])]"

definition decompositions_0622 :: "(nat \<times> nat list) list" where
  "decompositions_0622 = [
     (0x0622, [0x0627, 0x0653]), (0x0623, [0x0627, 0x0654]), (0x0624, [0x0648, 0x0654]),
     (0x0625, [0x0627, 0x0655]), (0x0626, [0x064A, 0x0654])]"

definition decompositions_06C0 :: "(nat \<times> nat list) list" where
  "decompositions_06C0 = [
     (0x06C0, [0x06D5, 0x0654]), (0x06C2, [0x06C1, 0x0654]), (0x06D3, [0x06D2, 0x0654])]"

definition decompositions_0929 :: "(nat \<times> nat list) list" where
  "decompositions_0929 = [
     (0x0929, [0x0928, 0x093C]), (0x0931, [0x0930, 0x093C]), (0x0934, [0x0933, 0x093C]),
     (0x0958, [0x0915, 0x093C]), (0x0959, [0x0916, 0x093C]), (0x095A, [0x0917, 0x093C]),
     (0x095B, [0x091C, 0x093C]), (0x095C, [0x0921, 0x093C]), (0x095D, [0x0922, 0x093C]),
     (0x095E, [0x092B, 0x093C]), (0x095F, [0x092F, 0x093C])]"

definition decompositions_09CB :: "(nat \<times> nat list) list" where
  "decompositions_09CB = [
     (0x09CB, [0x09C7, 0x09BE]), (0x09CC, [0x09C7, 0x09D7]), (0x09DC, [0x09A1, 0x09BC]),
     (0x09DD, [0x09A2, 0x09BC]), (0x09DF, [0x09AF, 0x09BC])]"

definition decompositions_0A33 :: "(nat \<times> nat list) list" where
  "decompositions_0A33 = [
     (0x0A33, [0x0A32, 0x0A3C]), (0x0A36, [0x0A38, 0x0A3C]), (0x0A59, [0x0A16, 0x0A3C]),
     (0x0A5A, [0x0A17, 0x0A3C]), (0x0A5B, [0x0A1C, 0x0A3C]), (0x0A5E, [0x0A2B, 0x0A3C])]"

definition decompositions_0B48 :: "(nat \<times> nat list) list" where
  "decompositions_0B48 = [
     (0x0B48, [0x0B47, 0x0B56]), (0x0B4B, [0x0B47, 0x0B3E]), (0x0B4C, [0x0B47, 0x0B57]),
     (0x0B5C, [0x0B21, 0x0B3C]), (0x0B5D, [0x0B22, 0x0B3C]), (0x0B94, [0x0B92, 0x0BD7]),
     (0x0BCA, [0x0BC6, 0x0BBE]), (0x0BCB, [0x0BC7, 0x0BBE]), (0x0BCC, [0x0BC6, 0x0BD7])]"

definition decompositions_0C48 :: "(nat \<times> nat list) list" where
  "decompositions_0C48 = [
     (0x0C48, [0x0C46, 0x0C56])]"

definition decompositions_0CC0 :: "(nat \<times> nat list) list" where
  "decompositions_0CC0 = [
     (0x0CC0, [0x0CBF, 0x0CD5]), (0x0CC7, [0x0CC6, 0x0CD5]), (0x0CC8, [0x0CC6, 0x0CD6]),
     (0x0CCA, [0x0CC6, 0x0CC2]), (0x0CCB, [0x0CC6, 0x0CC2, 0x0CD5])]"

definition decompositions_0D4A :: "(nat \<times> nat list) list" where
  "decompositions_0D4A = [
     (0x0D4A, [0x0D46, 0x0D3E]), (0x0D4B, [0x0D47, 0x0D3E]), (0x0D4C, [0x0D46, 0x0D57])]"

definition decompositions_0DDA :: "(nat \<times> nat list) list" where
  "decompositions_0DDA = [
     (0x0DDA, [0x0DD9, 0x0DCA]), (0x0DDC, [0x0DD9, 0x0DCF]), (0x0DDD, [0x0DD9, 0x0DCF, 0x0DCA]),
     (0x0DDE, [0x0DD9, 0x0DDF])]"

definition decompositions_0F43 :: "(nat \<times> nat list) list" where
  "decompositions_0F43 = [
     (0x0F43, [0x0F42, 0x0FB7]), (0x0F4D, [0x0F4C, 0x0FB7]), (0x0F52, [0x0F51, 0x0FB7]),
     (0x0F57, [0x0F56, 0x0FB7]), (0x0F5C, [0x0F5B, 0x0FB7]), (0x0F69, [0x0F40, 0x0FB5]),
     (0x0F73, [0x0F71, 0x0F72]), (0x0F75, [0x0F71, 0x0F74]), (0x0F76, [0x0FB2, 0x0F80]),
     (0x0F78, [0x0FB3, 0x0F80]), (0x0F81, [0x0F71, 0x0F80]), (0x0F93, [0x0F92, 0x0FB7]),
     (0x0F9D, [0x0F9C, 0x0FB7]), (0x0FA2, [0x0FA1, 0x0FB7]), (0x0FA7, [0x0FA6, 0x0FB7]),
     (0x0FAC, [0x0FAB, 0x0FB7]), (0x0FB9, [0x0F90, 0x0FB5])]"

definition decompositions_1026 :: "(nat \<times> nat list) list" where
  "decompositions_1026 = [
     (0x1026, [0x1025, 0x102E])]"

definition decompositions_1B06 :: "(nat \<times> nat list) list" where
  "decompositions_1B06 = [
     (0x1B06, [0x1B05, 0x1B35]), (0x1B08, [0x1B07, 0x1B35]), (0x1B0A, [0x1B09, 0x1B35]),
     (0x1B0C, [0x1B0B, 0x1B35]), (0x1B0E, [0x1B0D, 0x1B35]), (0x1B12, [0x1B11, 0x1B35]),
     (0x1B3B, [0x1B3A, 0x1B35]), (0x1B3D, [0x1B3C, 0x1B35]), (0x1B40, [0x1B3E, 0x1B35]),
     (0x1B41, [0x1B3F, 0x1B35]), (0x1B43, [0x1B42, 0x1B35])]"

definition decompositions_1E00 :: "(nat \<times> nat list) list" where
  "decompositions_1E00 = [
     (0x1E00, [0x0041, 0x0325]), (0x1E01, [0x0061, 0x0325]), (0x1E02, [0x0042, 0x0307]),
     (0x1E03, [0x0062, 0x0307]), (0x1E04, [0x0042, 0x0323]), (0x1E05, [0x0062, 0x0323]),
     (0x1E06, [0x0042, 0x0331]), (0x1E07, [0x0062, 0x0331]), (0x1E08, [0x0043, 0x0327, 0x0301]),
     (0x1E09, [0x0063, 0x0327, 0x0301]), (0x1E0A, [0x0044, 0x0307]), (0x1E0B, [0x0064, 0x0307]),
     (0x1E0C, [0x0044, 0x0323]), (0x1E0D, [0x0064, 0x0323]), (0x1E0E, [0x0044, 0x0331]),
     (0x1E0F, [0x0064, 0x0331]), (0x1E10, [0x0044, 0x0327]), (0x1E11, [0x0064, 0x0327]),
     (0x1E12, [0x0044, 0x032D]), (0x1E13, [0x0064, 0x032D]), (0x1E14, [0x0045, 0x0304, 0x0300]),
     (0x1E15, [0x0065, 0x0304, 0x0300]), (0x1E16, [0x0045, 0x0304, 0x0301]),
     (0x1E17, [0x0065, 0x0304, 0x0301]), (0x1E18, [0x0045, 0x032D]), (0x1E19, [0x0065, 0x032D]),
     (0x1E1A, [0x0045, 0x0330]), (0x1E1B, [0x0065, 0x0330]), (0x1E1C, [0x0045, 0x0327, 0x0306]),
     (0x1E1D, [0x0065, 0x0327, 0x0306]), (0x1E1E, [0x0046, 0x0307]), (0x1E1F, [0x0066, 0x0307]),
     (0x1E20, [0x0047, 0x0304]), (0x1E21, [0x0067, 0x0304]), (0x1E22, [0x0048, 0x0307]),
     (0x1E23, [0x0068, 0x0307]), (0x1E24, [0x0048, 0x0323]), (0x1E25, [0x0068, 0x0323]),
     (0x1E26, [0x0048, 0x0308]), (0x1E27, [0x0068, 0x0308])]"

definition decompositions_1E28 :: "(nat \<times> nat list) list" where
  "decompositions_1E28 = [
     (0x1E28, [0x0048, 0x0327]), (0x1E29, [0x0068, 0x0327]), (0x1E2A, [0x0048, 0x032E]),
     (0x1E2B, [0x0068, 0x032E]), (0x1E2C, [0x0049, 0x0330]), (0x1E2D, [0x0069, 0x0330]),
     (0x1E2E, [0x0049, 0x0308, 0x0301]), (0x1E2F, [0x0069, 0x0308, 0x0301]),
     (0x1E30, [0x004B, 0x0301]), (0x1E31, [0x006B, 0x0301]), (0x1E32, [0x004B, 0x0323]),
     (0x1E33, [0x006B, 0x0323]), (0x1E34, [0x004B, 0x0331]), (0x1E35, [0x006B, 0x0331]),
     (0x1E36, [0x004C, 0x0323]), (0x1E37, [0x006C, 0x0323]), (0x1E38, [0x004C, 0x0323, 0x0304]),
     (0x1E39, [0x006C, 0x0323, 0x0304]), (0x1E3A, [0x004C, 0x0331]), (0x1E3B, [0x006C, 0x0331]),
     (0x1E3C, [0x004C, 0x032D]), (0x1E3D, [0x006C, 0x032D]), (0x1E3E, [0x004D, 0x0301]),
     (0x1E3F, [0x006D, 0x0301]), (0x1E40, [0x004D, 0x0307]), (0x1E41, [0x006D, 0x0307]),
     (0x1E42, [0x004D, 0x0323]), (0x1E43, [0x006D, 0x0323]), (0x1E44, [0x004E, 0x0307]),
     (0x1E45, [0x006E, 0x0307]), (0x1E46, [0x004E, 0x0323]), (0x1E47, [0x006E, 0x0323]),
     (0x1E48, [0x004E, 0x0331]), (0x1E49, [0x006E, 0x0331]), (0x1E4A, [0x004E, 0x032D]),
     (0x1E4B, [0x006E, 0x032D]), (0x1E4C, [0x004F, 0x0303, 0x0301]),
     (0x1E4D, [0x006F, 0x0303, 0x0301]), (0x1E4E, [0x004F, 0x0303, 0x0308]),
     (0x1E4F, [0x006F, 0x0303, 0x0308])]"

definition decompositions_1E50 :: "(nat \<times> nat list) list" where
  "decompositions_1E50 = [
     (0x1E50, [0x004F, 0x0304, 0x0300]), (0x1E51, [0x006F, 0x0304, 0x0300]),
     (0x1E52, [0x004F, 0x0304, 0x0301]), (0x1E53, [0x006F, 0x0304, 0x0301]),
     (0x1E54, [0x0050, 0x0301]), (0x1E55, [0x0070, 0x0301]), (0x1E56, [0x0050, 0x0307]),
     (0x1E57, [0x0070, 0x0307]), (0x1E58, [0x0052, 0x0307]), (0x1E59, [0x0072, 0x0307]),
     (0x1E5A, [0x0052, 0x0323]), (0x1E5B, [0x0072, 0x0323]), (0x1E5C, [0x0052, 0x0323, 0x0304]),
     (0x1E5D, [0x0072, 0x0323, 0x0304]), (0x1E5E, [0x0052, 0x0331]), (0x1E5F, [0x0072, 0x0331]),
     (0x1E60, [0x0053, 0x0307]), (0x1E61, [0x0073, 0x0307]), (0x1E62, [0x0053, 0x0323]),
     (0x1E63, [0x0073, 0x0323]), (0x1E64, [0x0053, 0x0301, 0x0307]),
     (0x1E65, [0x0073, 0x0301, 0x0307]), (0x1E66, [0x0053, 0x030C, 0x0307]),
     (0x1E67, [0x0073, 0x030C, 0x0307]), (0x1E68, [0x0053, 0x0323, 0x0307]),
     (0x1E69, [0x0073, 0x0323, 0x0307]), (0x1E6A, [0x0054, 0x0307]), (0x1E6B, [0x0074, 0x0307]),
     (0x1E6C, [0x0054, 0x0323]), (0x1E6D, [0x0074, 0x0323]), (0x1E6E, [0x0054, 0x0331]),
     (0x1E6F, [0x0074, 0x0331]), (0x1E70, [0x0054, 0x032D]), (0x1E71, [0x0074, 0x032D]),
     (0x1E72, [0x0055, 0x0324]), (0x1E73, [0x0075, 0x0324]), (0x1E74, [0x0055, 0x0330]),
     (0x1E75, [0x0075, 0x0330]), (0x1E76, [0x0055, 0x032D]), (0x1E77, [0x0075, 0x032D])]"

definition decompositions_1E78 :: "(nat \<times> nat list) list" where
  "decompositions_1E78 = [
     (0x1E78, [0x0055, 0x0303, 0x0301]), (0x1E79, [0x0075, 0x0303, 0x0301]),
     (0x1E7A, [0x0055, 0x0304, 0x0308]), (0x1E7B, [0x0075, 0x0304, 0x0308]),
     (0x1E7C, [0x0056, 0x0303]), (0x1E7D, [0x0076, 0x0303]), (0x1E7E, [0x0056, 0x0323]),
     (0x1E7F, [0x0076, 0x0323]), (0x1E80, [0x0057, 0x0300]), (0x1E81, [0x0077, 0x0300]),
     (0x1E82, [0x0057, 0x0301]), (0x1E83, [0x0077, 0x0301]), (0x1E84, [0x0057, 0x0308]),
     (0x1E85, [0x0077, 0x0308]), (0x1E86, [0x0057, 0x0307]), (0x1E87, [0x0077, 0x0307]),
     (0x1E88, [0x0057, 0x0323]), (0x1E89, [0x0077, 0x0323]), (0x1E8A, [0x0058, 0x0307]),
     (0x1E8B, [0x0078, 0x0307]), (0x1E8C, [0x0058, 0x0308]), (0x1E8D, [0x0078, 0x0308]),
     (0x1E8E, [0x0059, 0x0307]), (0x1E8F, [0x0079, 0x0307]), (0x1E90, [0x005A, 0x0302]),
     (0x1E91, [0x007A, 0x0302]), (0x1E92, [0x005A, 0x0323]), (0x1E93, [0x007A, 0x0323]),
     (0x1E94, [0x005A, 0x0331]), (0x1E95, [0x007A, 0x0331]), (0x1E96, [0x0068, 0x0331]),
     (0x1E97, [0x0074, 0x0308]), (0x1E98, [0x0077, 0x030A]), (0x1E99, [0x0079, 0x030A]),
     (0x1E9B, [0x017F, 0x0307]), (0x1EA0, [0x0041, 0x0323]), (0x1EA1, [0x0061, 0x0323]),
     (0x1EA2, [0x0041, 0x0309]), (0x1EA3, [0x0061, 0x0309]), (0x1EA4, [0x0041, 0x0302, 0x0301])]"

definition decompositions_1EA5 :: "(nat \<times> nat list) list" where
  "decompositions_1EA5 = [
     (0x1EA5, [0x0061, 0x0302, 0x0301]), (0x1EA6, [0x0041, 0x0302, 0x0300]),
     (0x1EA7, [0x0061, 0x0302, 0x0300]), (0x1EA8, [0x0041, 0x0302, 0x0309]),
     (0x1EA9, [0x0061, 0x0302, 0x0309]), (0x1EAA, [0x0041, 0x0302, 0x0303]),
     (0x1EAB, [0x0061, 0x0302, 0x0303]), (0x1EAC, [0x0041, 0x0323, 0x0302]),
     (0x1EAD, [0x0061, 0x0323, 0x0302]), (0x1EAE, [0x0041, 0x0306, 0x0301]),
     (0x1EAF, [0x0061, 0x0306, 0x0301]), (0x1EB0, [0x0041, 0x0306, 0x0300]),
     (0x1EB1, [0x0061, 0x0306, 0x0300]), (0x1EB2, [0x0041, 0x0306, 0x0309]),
     (0x1EB3, [0x0061, 0x0306, 0x0309]), (0x1EB4, [0x0041, 0x0306, 0x0303]),
     (0x1EB5, [0x0061, 0x0306, 0x0303]), (0x1EB6, [0x0041, 0x0323, 0x0306]),
     (0x1EB7, [0x0061, 0x0323, 0x0306]), (0x1EB8, [0x0045, 0x0323]), (0x1EB9, [0x0065, 0x0323]),
     (0x1EBA, [0x0045, 0x0309]), (0x1EBB, [0x0065, 0x0309]), (0x1EBC, [0x0045, 0x0303]),
     (0x1EBD, [0x0065, 0x0303]), (0x1EBE, [0x0045, 0x0302, 0x0301]),
     (0x1EBF, [0x0065, 0x0302, 0x0301]), (0x1EC0, [0x0045, 0x0302, 0x0300]),
     (0x1EC1, [0x0065, 0x0302, 0x0300]), (0x1EC2, [0x0045, 0x0302, 0x0309]),
     (0x1EC3, [0x0065, 0x0302, 0x0309]), (0x1EC4, [0x0045, 0x0302, 0x0303]),
     (0x1EC5, [0x0065, 0x0302, 0x0303]), (0x1EC6, [0x0045, 0x0323, 0x0302]),
     (0x1EC7, [0x0065, 0x0323, 0x0302]), (0x1EC8, [0x0049, 0x0309]), (0x1EC9, [0x0069, 0x0309]),
     (0x1ECA, [0x0049, 0x0323]), (0x1ECB, [0x0069, 0x0323]), (0x1ECC, [0x004F, 0x0323])]"

definition decompositions_1ECD :: "(nat \<times> nat list) list" where
  "decompositions_1ECD = [
     (0x1ECD, [0x006F, 0x0323]), (0x1ECE, [0x004F, 0x0309]), (0x1ECF, [0x006F, 0x0309]),
     (0x1ED0, [0x004F, 0x0302, 0x0301]), (0x1ED1, [0x006F, 0x0302, 0x0301]),
     (0x1ED2, [0x004F, 0x0302, 0x0300]), (0x1ED3, [0x006F, 0x0302, 0x0300]),
     (0x1ED4, [0x004F, 0x0302, 0x0309]), (0x1ED5, [0x006F, 0x0302, 0x0309]),
     (0x1ED6, [0x004F, 0x0302, 0x0303]), (0x1ED7, [0x006F, 0x0302, 0x0303]),
     (0x1ED8, [0x004F, 0x0323, 0x0302]), (0x1ED9, [0x006F, 0x0323, 0x0302]),
     (0x1EDA, [0x004F, 0x031B, 0x0301]), (0x1EDB, [0x006F, 0x031B, 0x0301]),
     (0x1EDC, [0x004F, 0x031B, 0x0300]), (0x1EDD, [0x006F, 0x031B, 0x0300]),
     (0x1EDE, [0x004F, 0x031B, 0x0309]), (0x1EDF, [0x006F, 0x031B, 0x0309]),
     (0x1EE0, [0x004F, 0x031B, 0x0303]), (0x1EE1, [0x006F, 0x031B, 0x0303]),
     (0x1EE2, [0x004F, 0x031B, 0x0323]), (0x1EE3, [0x006F, 0x031B, 0x0323]),
     (0x1EE4, [0x0055, 0x0323]), (0x1EE5, [0x0075, 0x0323]), (0x1EE6, [0x0055, 0x0309]),
     (0x1EE7, [0x0075, 0x0309]), (0x1EE8, [0x0055, 0x031B, 0x0301]),
     (0x1EE9, [0x0075, 0x031B, 0x0301]), (0x1EEA, [0x0055, 0x031B, 0x0300]),
     (0x1EEB, [0x0075, 0x031B, 0x0300]), (0x1EEC, [0x0055, 0x031B, 0x0309]),
     (0x1EED, [0x0075, 0x031B, 0x0309]), (0x1EEE, [0x0055, 0x031B, 0x0303]),
     (0x1EEF, [0x0075, 0x031B, 0x0303]), (0x1EF0, [0x0055, 0x031B, 0x0323]),
     (0x1EF1, [0x0075, 0x031B, 0x0323]), (0x1EF2, [0x0059, 0x0300]), (0x1EF3, [0x0079, 0x0300]),
     (0x1EF4, [0x0059, 0x0323])]"

definition decompositions_1EF5 :: "(nat \<times> nat list) list" where
  "decompositions_1EF5 = [
     (0x1EF5, [0x0079, 0x0323]), (0x1EF6, [0x0059, 0x0309]), (0x1EF7, [0x0079, 0x0309]),
     (0x1EF8, [0x0059, 0x0303]), (0x1EF9, [0x0079, 0x0303]), (0x1F00, [0x03B1, 0x0313]),
     (0x1F01, [0x03B1, 0x0314]), (0x1F02, [0x03B1, 0x0313, 0x0300]),
     (0x1F03, [0x03B1, 0x0314, 0x0300]), (0x1F04, [0x03B1, 0x0313, 0x0301]),
     (0x1F05, [0x03B1, 0x0314, 0x0301]), (0x1F06, [0x03B1, 0x0313, 0x0342]),
     (0x1F07, [0x03B1, 0x0314, 0x0342]), (0x1F08, [0x0391, 0x0313]), (0x1F09, [0x0391, 0x0314]),
     (0x1F0A, [0x0391, 0x0313, 0x0300]), (0x1F0B, [0x0391, 0x0314, 0x0300]),
     (0x1F0C, [0x0391, 0x0313, 0x0301]), (0x1F0D, [0x0391, 0x0314, 0x0301]),
     (0x1F0E, [0x0391, 0x0313, 0x0342]), (0x1F0F, [0x0391, 0x0314, 0x0342]),
     (0x1F10, [0x03B5, 0x0313]), (0x1F11, [0x03B5, 0x0314]), (0x1F12, [0x03B5, 0x0313, 0x0300]),
     (0x1F13, [0x03B5, 0x0314, 0x0300]), (0x1F14, [0x03B5, 0x0313, 0x0301]),
     (0x1F15, [0x03B5, 0x0314, 0x0301]), (0x1F18, [0x0395, 0x0313]), (0x1F19, [0x0395, 0x0314]),
     (0x1F1A, [0x0395, 0x0313, 0x0300]), (0x1F1B, [0x0395, 0x0314, 0x0300]),
     (0x1F1C, [0x0395, 0x0313, 0x0301]), (0x1F1D, [0x0395, 0x0314, 0x0301]),
     (0x1F20, [0x03B7, 0x0313]), (0x1F21, [0x03B7, 0x0314]), (0x1F22, [0x03B7, 0x0313, 0x0300]),
     (0x1F23, [0x03B7, 0x0314, 0x0300]), (0x1F24, [0x03B7, 0x0313, 0x0301]),
     (0x1F25, [0x03B7, 0x0314, 0x0301]), (0x1F26, [0x03B7, 0x0313, 0x0342])]"

definition decompositions_1F27 :: "(nat \<times> nat list) list" where
  "decompositions_1F27 = [
     (0x1F27, [0x03B7, 0x0314, 0x0342]), (0x1F28, [0x0397, 0x0313]), (0x1F29, [0x0397, 0x0314]),
     (0x1F2A, [0x0397, 0x0313, 0x0300]), (0x1F2B, [0x0397, 0x0314, 0x0300]),
     (0x1F2C, [0x0397, 0x0313, 0x0301]), (0x1F2D, [0x0397, 0x0314, 0x0301]),
     (0x1F2E, [0x0397, 0x0313, 0x0342]), (0x1F2F, [0x0397, 0x0314, 0x0342]),
     (0x1F30, [0x03B9, 0x0313]), (0x1F31, [0x03B9, 0x0314]), (0x1F32, [0x03B9, 0x0313, 0x0300]),
     (0x1F33, [0x03B9, 0x0314, 0x0300]), (0x1F34, [0x03B9, 0x0313, 0x0301]),
     (0x1F35, [0x03B9, 0x0314, 0x0301]), (0x1F36, [0x03B9, 0x0313, 0x0342]),
     (0x1F37, [0x03B9, 0x0314, 0x0342]), (0x1F38, [0x0399, 0x0313]), (0x1F39, [0x0399, 0x0314]),
     (0x1F3A, [0x0399, 0x0313, 0x0300]), (0x1F3B, [0x0399, 0x0314, 0x0300]),
     (0x1F3C, [0x0399, 0x0313, 0x0301]), (0x1F3D, [0x0399, 0x0314, 0x0301]),
     (0x1F3E, [0x0399, 0x0313, 0x0342]), (0x1F3F, [0x0399, 0x0314, 0x0342]),
     (0x1F40, [0x03BF, 0x0313]), (0x1F41, [0x03BF, 0x0314]), (0x1F42, [0x03BF, 0x0313, 0x0300]),
     (0x1F43, [0x03BF, 0x0314, 0x0300]), (0x1F44, [0x03BF, 0x0313, 0x0301]),
     (0x1F45, [0x03BF, 0x0314, 0x0301]), (0x1F48, [0x039F, 0x0313]), (0x1F49, [0x039F, 0x0314]),
     (0x1F4A, [0x039F, 0x0313, 0x0300]), (0x1F4B, [0x039F, 0x0314, 0x0300]),
     (0x1F4C, [0x039F, 0x0313, 0x0301]), (0x1F4D, [0x039F, 0x0314, 0x0301]),
     (0x1F50, [0x03C5, 0x0313]), (0x1F51, [0x03C5, 0x0314]), (0x1F52, [0x03C5, 0x0313, 0x0300])]"

definition decompositions_1F53 :: "(nat \<times> nat list) list" where
  "decompositions_1F53 = [
     (0x1F53, [0x03C5, 0x0314, 0x0300]), (0x1F54, [0x03C5, 0x0313, 0x0301]),
     (0x1F55, [0x03C5, 0x0314, 0x0301]), (0x1F56, [0x03C5, 0x0313, 0x0342]),
     (0x1F57, [0x03C5, 0x0314, 0x0342]), (0x1F59, [0x03A5, 0x0314]),
     (0x1F5B, [0x03A5, 0x0314, 0x0300]), (0x1F5D, [0x03A5, 0x0314, 0x0301]),
     (0x1F5F, [0x03A5, 0x0314, 0x0342]), (0x1F60, [0x03C9, 0x0313]), (0x1F61, [0x03C9, 0x0314]),
     (0x1F62, [0x03C9, 0x0313, 0x0300]), (0x1F63, [0x03C9, 0x0314, 0x0300]),
     (0x1F64, [0x03C9, 0x0313, 0x0301]), (0x1F65, [0x03C9, 0x0314, 0x0301]),
     (0x1F66, [0x03C9, 0x0313, 0x0342]), (0x1F67, [0x03C9, 0x0314, 0x0342]),
     (0x1F68, [0x03A9, 0x0313]), (0x1F69, [0x03A9, 0x0314]), (0x1F6A, [0x03A9, 0x0313, 0x0300]),
     (0x1F6B, [0x03A9, 0x0314, 0x0300]), (0x1F6C, [0x03A9, 0x0313, 0x0301]),
     (0x1F6D, [0x03A9, 0x0314, 0x0301]), (0x1F6E, [0x03A9, 0x0313, 0x0342]),
     (0x1F6F, [0x03A9, 0x0314, 0x0342]), (0x1F70, [0x03B1, 0x0300]), (0x1F71, [0x03B1, 0x0301]),
     (0x1F72, [0x03B5, 0x0300]), (0x1F73, [0x03B5, 0x0301]), (0x1F74, [0x03B7, 0x0300]),
     (0x1F75, [0x03B7, 0x0301]), (0x1F76, [0x03B9, 0x0300]), (0x1F77, [0x03B9, 0x0301]),
     (0x1F78, [0x03BF, 0x0300]), (0x1F79, [0x03BF, 0x0301]), (0x1F7A, [0x03C5, 0x0300]),
     (0x1F7B, [0x03C5, 0x0301]), (0x1F7C, [0x03C9, 0x0300]), (0x1F7D, [0x03C9, 0x0301]),
     (0x1F80, [0x03B1, 0x0313, 0x0345])]"

definition decompositions_1F81 :: "(nat \<times> nat list) list" where
  "decompositions_1F81 = [
     (0x1F81, [0x03B1, 0x0314, 0x0345]), (0x1F82, [0x03B1, 0x0313, 0x0300, 0x0345]),
     (0x1F83, [0x03B1, 0x0314, 0x0300, 0x0345]), (0x1F84, [0x03B1, 0x0313, 0x0301, 0x0345]),
     (0x1F85, [0x03B1, 0x0314, 0x0301, 0x0345]), (0x1F86, [0x03B1, 0x0313, 0x0342, 0x0345]),
     (0x1F87, [0x03B1, 0x0314, 0x0342, 0x0345]), (0x1F88, [0x0391, 0x0313, 0x0345]),
     (0x1F89, [0x0391, 0x0314, 0x0345]), (0x1F8A, [0x0391, 0x0313, 0x0300, 0x0345]),
     (0x1F8B, [0x0391, 0x0314, 0x0300, 0x0345]), (0x1F8C, [0x0391, 0x0313, 0x0301, 0x0345]),
     (0x1F8D, [0x0391, 0x0314, 0x0301, 0x0345]), (0x1F8E, [0x0391, 0x0313, 0x0342, 0x0345]),
     (0x1F8F, [0x0391, 0x0314, 0x0342, 0x0345]), (0x1F90, [0x03B7, 0x0313, 0x0345]),
     (0x1F91, [0x03B7, 0x0314, 0x0345]), (0x1F92, [0x03B7, 0x0313, 0x0300, 0x0345]),
     (0x1F93, [0x03B7, 0x0314, 0x0300, 0x0345]), (0x1F94, [0x03B7, 0x0313, 0x0301, 0x0345]),
     (0x1F95, [0x03B7, 0x0314, 0x0301, 0x0345]), (0x1F96, [0x03B7, 0x0313, 0x0342, 0x0345]),
     (0x1F97, [0x03B7, 0x0314, 0x0342, 0x0345]), (0x1F98, [0x0397, 0x0313, 0x0345]),
     (0x1F99, [0x0397, 0x0314, 0x0345]), (0x1F9A, [0x0397, 0x0313, 0x0300, 0x0345]),
     (0x1F9B, [0x0397, 0x0314, 0x0300, 0x0345]), (0x1F9C, [0x0397, 0x0313, 0x0301, 0x0345]),
     (0x1F9D, [0x0397, 0x0314, 0x0301, 0x0345]), (0x1F9E, [0x0397, 0x0313, 0x0342, 0x0345]),
     (0x1F9F, [0x0397, 0x0314, 0x0342, 0x0345]), (0x1FA0, [0x03C9, 0x0313, 0x0345]),
     (0x1FA1, [0x03C9, 0x0314, 0x0345]), (0x1FA2, [0x03C9, 0x0313, 0x0300, 0x0345]),
     (0x1FA3, [0x03C9, 0x0314, 0x0300, 0x0345]), (0x1FA4, [0x03C9, 0x0313, 0x0301, 0x0345]),
     (0x1FA5, [0x03C9, 0x0314, 0x0301, 0x0345]), (0x1FA6, [0x03C9, 0x0313, 0x0342, 0x0345]),
     (0x1FA7, [0x03C9, 0x0314, 0x0342, 0x0345]), (0x1FA8, [0x03A9, 0x0313, 0x0345])]"

definition decompositions_1FA9 :: "(nat \<times> nat list) list" where
  "decompositions_1FA9 = [
     (0x1FA9, [0x03A9, 0x0314, 0x0345]), (0x1FAA, [0x03A9, 0x0313, 0x0300, 0x0345]),
     (0x1FAB, [0x03A9, 0x0314, 0x0300, 0x0345]), (0x1FAC, [0x03A9, 0x0313, 0x0301, 0x0345]),
     (0x1FAD, [0x03A9, 0x0314, 0x0301, 0x0345]), (0x1FAE, [0x03A9, 0x0313, 0x0342, 0x0345]),
     (0x1FAF, [0x03A9, 0x0314, 0x0342, 0x0345]), (0x1FB0, [0x03B1, 0x0306]),
     (0x1FB1, [0x03B1, 0x0304]), (0x1FB2, [0x03B1, 0x0300, 0x0345]), (0x1FB3, [0x03B1, 0x0345]),
     (0x1FB4, [0x03B1, 0x0301, 0x0345]), (0x1FB6, [0x03B1, 0x0342]),
     (0x1FB7, [0x03B1, 0x0342, 0x0345]), (0x1FB8, [0x0391, 0x0306]), (0x1FB9, [0x0391, 0x0304]),
     (0x1FBA, [0x0391, 0x0300]), (0x1FBB, [0x0391, 0x0301]), (0x1FBC, [0x0391, 0x0345]),
     (0x1FBE, [0x03B9]), (0x1FC1, [0x00A8, 0x0342]), (0x1FC2, [0x03B7, 0x0300, 0x0345]),
     (0x1FC3, [0x03B7, 0x0345]), (0x1FC4, [0x03B7, 0x0301, 0x0345]), (0x1FC6, [0x03B7, 0x0342]),
     (0x1FC7, [0x03B7, 0x0342, 0x0345]), (0x1FC8, [0x0395, 0x0300]), (0x1FC9, [0x0395, 0x0301]),
     (0x1FCA, [0x0397, 0x0300]), (0x1FCB, [0x0397, 0x0301]), (0x1FCC, [0x0397, 0x0345]),
     (0x1FCD, [0x1FBF, 0x0300]), (0x1FCE, [0x1FBF, 0x0301]), (0x1FCF, [0x1FBF, 0x0342]),
     (0x1FD0, [0x03B9, 0x0306]), (0x1FD1, [0x03B9, 0x0304]), (0x1FD2, [0x03B9, 0x0308, 0x0300]),
     (0x1FD3, [0x03B9, 0x0308, 0x0301]), (0x1FD6, [0x03B9, 0x0342]),
     (0x1FD7, [0x03B9, 0x0308, 0x0342])]"

definition decompositions_1FD8 :: "(nat \<times> nat list) list" where
  "decompositions_1FD8 = [
     (0x1FD8, [0x0399, 0x0306]), (0x1FD9, [0x0399, 0x0304]), (0x1FDA, [0x0399, 0x0300]),
     (0x1FDB, [0x0399, 0x0301]), (0x1FDD, [0x1FFE, 0x0300]), (0x1FDE, [0x1FFE, 0x0301]),
     (0x1FDF, [0x1FFE, 0x0342]), (0x1FE0, [0x03C5, 0x0306]), (0x1FE1, [0x03C5, 0x0304]),
     (0x1FE2, [0x03C5, 0x0308, 0x0300]), (0x1FE3, [0x03C5, 0x0308, 0x0301]),
     (0x1FE4, [0x03C1, 0x0313]), (0x1FE5, [0x03C1, 0x0314]), (0x1FE6, [0x03C5, 0x0342]),
     (0x1FE7, [0x03C5, 0x0308, 0x0342]), (0x1FE8, [0x03A5, 0x0306]), (0x1FE9, [0x03A5, 0x0304]),
     (0x1FEA, [0x03A5, 0x0300]), (0x1FEB, [0x03A5, 0x0301]), (0x1FEC, [0x03A1, 0x0314]),
     (0x1FED, [0x00A8, 0x0300]), (0x1FEE, [0x00A8, 0x0301]), (0x1FEF, [0x0060]),
     (0x1FF2, [0x03C9, 0x0300, 0x0345]), (0x1FF3, [0x03C9, 0x0345]),
     (0x1FF4, [0x03C9, 0x0301, 0x0345]), (0x1FF6, [0x03C9, 0x0342]),
     (0x1FF7, [0x03C9, 0x0342, 0x0345]), (0x1FF8, [0x039F, 0x0300]), (0x1FF9, [0x039F, 0x0301]),
     (0x1FFA, [0x03A9, 0x0300]), (0x1FFB, [0x03A9, 0x0301]), (0x1FFC, [0x03A9, 0x0345]),
     (0x1FFD, [0x00B4]), (0x2000, [0x2002]), (0x2001, [0x2003])]"

definition decompositions_2126 :: "(nat \<times> nat list) list" where
  "decompositions_2126 = [
     (0x2126, [0x03A9]), (0x212A, [0x004B]), (0x212B, [0x0041, 0x030A])]"

definition decompositions_219A :: "(nat \<times> nat list) list" where
  "decompositions_219A = [
     (0x219A, [0x2190, 0x0338]), (0x219B, [0x2192, 0x0338]), (0x21AE, [0x2194, 0x0338]),
     (0x21CD, [0x21D0, 0x0338]), (0x21CE, [0x21D4, 0x0338]), (0x21CF, [0x21D2, 0x0338]),
     (0x2204, [0x2203, 0x0338]), (0x2209, [0x2208, 0x0338]), (0x220C, [0x220B, 0x0338]),
     (0x2224, [0x2223, 0x0338]), (0x2226, [0x2225, 0x0338]), (0x2241, [0x223C, 0x0338]),
     (0x2244, [0x2243, 0x0338]), (0x2247, [0x2245, 0x0338]), (0x2249, [0x2248, 0x0338]),
     (0x2260, [0x003D, 0x0338]), (0x2262, [0x2261, 0x0338]), (0x226D, [0x224D, 0x0338]),
     (0x226E, [0x003C, 0x0338]), (0x226F, [0x003E, 0x0338]), (0x2270, [0x2264, 0x0338]),
     (0x2271, [0x2265, 0x0338]), (0x2274, [0x2272, 0x0338]), (0x2275, [0x2273, 0x0338]),
     (0x2278, [0x2276, 0x0338]), (0x2279, [0x2277, 0x0338]), (0x2280, [0x227A, 0x0338]),
     (0x2281, [0x227B, 0x0338]), (0x2284, [0x2282, 0x0338]), (0x2285, [0x2283, 0x0338]),
     (0x2288, [0x2286, 0x0338]), (0x2289, [0x2287, 0x0338]), (0x22AC, [0x22A2, 0x0338]),
     (0x22AD, [0x22A8, 0x0338]), (0x22AE, [0x22A9, 0x0338]), (0x22AF, [0x22AB, 0x0338]),
     (0x22E0, [0x227C, 0x0338]), (0x22E1, [0x227D, 0x0338]), (0x22E2, [0x2291, 0x0338]),
     (0x22E3, [0x2292, 0x0338])]"

definition decompositions_22EA :: "(nat \<times> nat list) list" where
  "decompositions_22EA = [
     (0x22EA, [0x22B2, 0x0338]), (0x22EB, [0x22B3, 0x0338]), (0x22EC, [0x22B4, 0x0338]),
     (0x22ED, [0x22B5, 0x0338]), (0x2329, [0x3008]), (0x232A, [0x3009])]"

definition decompositions_2ADC :: "(nat \<times> nat list) list" where
  "decompositions_2ADC = [
     (0x2ADC, [0x2ADD, 0x0338])]"

definition decompositions_304C :: "(nat \<times> nat list) list" where
  "decompositions_304C = [
     (0x304C, [0x304B, 0x3099]), (0x304E, [0x304D, 0x3099]), (0x3050, [0x304F, 0x3099]),
     (0x3052, [0x3051, 0x3099]), (0x3054, [0x3053, 0x3099]), (0x3056, [0x3055, 0x3099]),
     (0x3058, [0x3057, 0x3099]), (0x305A, [0x3059, 0x3099]), (0x305C, [0x305B, 0x3099]),
     (0x305E, [0x305D, 0x3099]), (0x3060, [0x305F, 0x3099]), (0x3062, [0x3061, 0x3099]),
     (0x3065, [0x3064, 0x3099]), (0x3067, [0x3066, 0x3099]), (0x3069, [0x3068, 0x3099]),
     (0x3070, [0x306F, 0x3099]), (0x3071, [0x306F, 0x309A]), (0x3073, [0x3072, 0x3099]),
     (0x3074, [0x3072, 0x309A]), (0x3076, [0x3075, 0x3099]), (0x3077, [0x3075, 0x309A]),
     (0x3079, [0x3078, 0x3099]), (0x307A, [0x3078, 0x309A]), (0x307C, [0x307B, 0x3099]),
     (0x307D, [0x307B, 0x309A]), (0x3094, [0x3046, 0x3099]), (0x309E, [0x309D, 0x3099]),
     (0x30AC, [0x30AB, 0x3099]), (0x30AE, [0x30AD, 0x3099]), (0x30B0, [0x30AF, 0x3099]),
     (0x30B2, [0x30B1, 0x3099]), (0x30B4, [0x30B3, 0x3099]), (0x30B6, [0x30B5, 0x3099]),
     (0x30B8, [0x30B7, 0x3099]), (0x30BA, [0x30B9, 0x3099]), (0x30BC, [0x30BB, 0x3099]),
     (0x30BE, [0x30BD, 0x3099]), (0x30C0, [0x30BF, 0x3099]), (0x30C2, [0x30C1, 0x3099]),
     (0x30C5, [0x30C4, 0x3099])]"

definition decompositions_30C7 :: "(nat \<times> nat list) list" where
  "decompositions_30C7 = [
     (0x30C7, [0x30C6, 0x3099]), (0x30C9, [0x30C8, 0x3099]), (0x30D0, [0x30CF, 0x3099]),
     (0x30D1, [0x30CF, 0x309A]), (0x30D3, [0x30D2, 0x3099]), (0x30D4, [0x30D2, 0x309A]),
     (0x30D6, [0x30D5, 0x3099]), (0x30D7, [0x30D5, 0x309A]), (0x30D9, [0x30D8, 0x3099]),
     (0x30DA, [0x30D8, 0x309A]), (0x30DC, [0x30DB, 0x3099]), (0x30DD, [0x30DB, 0x309A]),
     (0x30F4, [0x30A6, 0x3099]), (0x30F7, [0x30EF, 0x3099]), (0x30F8, [0x30F0, 0x3099]),
     (0x30F9, [0x30F1, 0x3099]), (0x30FA, [0x30F2, 0x3099]), (0x30FE, [0x30FD, 0x3099])]"

definition decompositions_F900 :: "(nat \<times> nat list) list" where
  "decompositions_F900 = [
     (0xF900, [0x8C48]), (0xF901, [0x66F4]), (0xF902, [0x8ECA]), (0xF903, [0x8CC8]),
     (0xF904, [0x6ED1]), (0xF905, [0x4E32]), (0xF906, [0x53E5]), (0xF907, [0x9F9C]),
     (0xF908, [0x9F9C]), (0xF909, [0x5951]), (0xF90A, [0x91D1]), (0xF90B, [0x5587]),
     (0xF90C, [0x5948]), (0xF90D, [0x61F6]), (0xF90E, [0x7669]), (0xF90F, [0x7F85]),
     (0xF910, [0x863F]), (0xF911, [0x87BA]), (0xF912, [0x88F8]), (0xF913, [0x908F]),
     (0xF914, [0x6A02]), (0xF915, [0x6D1B]), (0xF916, [0x70D9]), (0xF917, [0x73DE]),
     (0xF918, [0x843D]), (0xF919, [0x916A]), (0xF91A, [0x99F1]), (0xF91B, [0x4E82]),
     (0xF91C, [0x5375]), (0xF91D, [0x6B04]), (0xF91E, [0x721B]), (0xF91F, [0x862D]),
     (0xF920, [0x9E1E]), (0xF921, [0x5D50]), (0xF922, [0x6FEB]), (0xF923, [0x85CD]),
     (0xF924, [0x8964]), (0xF925, [0x62C9]), (0xF926, [0x81D8]), (0xF927, [0x881F])]"

definition decompositions_F928 :: "(nat \<times> nat list) list" where
  "decompositions_F928 = [
     (0xF928, [0x5ECA]), (0xF929, [0x6717]), (0xF92A, [0x6D6A]), (0xF92B, [0x72FC]),
     (0xF92C, [0x90CE]), (0xF92D, [0x4F86]), (0xF92E, [0x51B7]), (0xF92F, [0x52DE]),
     (0xF930, [0x64C4]), (0xF931, [0x6AD3]), (0xF932, [0x7210]), (0xF933, [0x76E7]),
     (0xF934, [0x8001]), (0xF935, [0x8606]), (0xF936, [0x865C]), (0xF937, [0x8DEF]),
     (0xF938, [0x9732]), (0xF939, [0x9B6F]), (0xF93A, [0x9DFA]), (0xF93B, [0x788C]),
     (0xF93C, [0x797F]), (0xF93D, [0x7DA0]), (0xF93E, [0x83C9]), (0xF93F, [0x9304]),
     (0xF940, [0x9E7F]), (0xF941, [0x8AD6]), (0xF942, [0x58DF]), (0xF943, [0x5F04]),
     (0xF944, [0x7C60]), (0xF945, [0x807E]), (0xF946, [0x7262]), (0xF947, [0x78CA]),
     (0xF948, [0x8CC2]), (0xF949, [0x96F7]), (0xF94A, [0x58D8]), (0xF94B, [0x5C62]),
     (0xF94C, [0x6A13]), (0xF94D, [0x6DDA]), (0xF94E, [0x6F0F]), (0xF94F, [0x7D2F])]"

definition decompositions_F950 :: "(nat \<times> nat list) list" where
  "decompositions_F950 = [
     (0xF950, [0x7E37]), (0xF951, [0x964B]), (0xF952, [0x52D2]), (0xF953, [0x808B]),
     (0xF954, [0x51DC]), (0xF955, [0x51CC]), (0xF956, [0x7A1C]), (0xF957, [0x7DBE]),
     (0xF958, [0x83F1]), (0xF959, [0x9675]), (0xF95A, [0x8B80]), (0xF95B, [0x62CF]),
     (0xF95C, [0x6A02]), (0xF95D, [0x8AFE]), (0xF95E, [0x4E39]), (0xF95F, [0x5BE7]),
     (0xF960, [0x6012]), (0xF961, [0x7387]), (0xF962, [0x7570]), (0xF963, [0x5317]),
     (0xF964, [0x78FB]), (0xF965, [0x4FBF]), (0xF966, [0x5FA9]), (0xF967, [0x4E0D]),
     (0xF968, [0x6CCC]), (0xF969, [0x6578]), (0xF96A, [0x7D22]), (0xF96B, [0x53C3]),
     (0xF96C, [0x585E]), (0xF96D, [0x7701]), (0xF96E, [0x8449]), (0xF96F, [0x8AAA]),
     (0xF970, [0x6BBA]), (0xF971, [0x8FB0]), (0xF972, [0x6C88]), (0xF973, [0x62FE]),
     (0xF974, [0x82E5]), (0xF975, [0x63A0]), (0xF976, [0x7565]), (0xF977, [0x4EAE])]"

definition decompositions_F978 :: "(nat \<times> nat list) list" where
  "decompositions_F978 = [
     (0xF978, [0x5169]), (0xF979, [0x51C9]), (0xF97A, [0x6881]), (0xF97B, [0x7CE7]),
     (0xF97C, [0x826F]), (0xF97D, [0x8AD2]), (0xF97E, [0x91CF]), (0xF97F, [0x52F5]),
     (0xF980, [0x5442]), (0xF981, [0x5973]), (0xF982, [0x5EEC]), (0xF983, [0x65C5]),
     (0xF984, [0x6FFE]), (0xF985, [0x792A]), (0xF986, [0x95AD]), (0xF987, [0x9A6A]),
     (0xF988, [0x9E97]), (0xF989, [0x9ECE]), (0xF98A, [0x529B]), (0xF98B, [0x66C6]),
     (0xF98C, [0x6B77]), (0xF98D, [0x8F62]), (0xF98E, [0x5E74]), (0xF98F, [0x6190]),
     (0xF990, [0x6200]), (0xF991, [0x649A]), (0xF992, [0x6F23]), (0xF993, [0x7149]),
     (0xF994, [0x7489]), (0xF995, [0x79CA]), (0xF996, [0x7DF4]), (0xF997, [0x806F]),
     (0xF998, [0x8F26]), (0xF999, [0x84EE]), (0xF99A, [0x9023]), (0xF99B, [0x934A]),
     (0xF99C, [0x5217]), (0xF99D, [0x52A3]), (0xF99E, [0x54BD]), (0xF99F, [0x70C8])]"

definition decompositions_F9A0 :: "(nat \<times> nat list) list" where
  "decompositions_F9A0 = [
     (0xF9A0, [0x88C2]), (0xF9A1, [0x8AAA]), (0xF9A2, [0x5EC9]), (0xF9A3, [0x5FF5]),
     (0xF9A4, [0x637B]), (0xF9A5, [0x6BAE]), (0xF9A6, [0x7C3E]), (0xF9A7, [0x7375]),
     (0xF9A8, [0x4EE4]), (0xF9A9, [0x56F9]), (0xF9AA, [0x5BE7]), (0xF9AB, [0x5DBA]),
     (0xF9AC, [0x601C]), (0xF9AD, [0x73B2]), (0xF9AE, [0x7469]), (0xF9AF, [0x7F9A]),
     (0xF9B0, [0x8046]), (0xF9B1, [0x9234]), (0xF9B2, [0x96F6]), (0xF9B3, [0x9748]),
     (0xF9B4, [0x9818]), (0xF9B5, [0x4F8B]), (0xF9B6, [0x79AE]), (0xF9B7, [0x91B4]),
     (0xF9B8, [0x96B8]), (0xF9B9, [0x60E1]), (0xF9BA, [0x4E86]), (0xF9BB, [0x50DA]),
     (0xF9BC, [0x5BEE]), (0xF9BD, [0x5C3F]), (0xF9BE, [0x6599]), (0xF9BF, [0x6A02]),
     (0xF9C0, [0x71CE]), (0xF9C1, [0x7642]), (0xF9C2, [0x84FC]), (0xF9C3, [0x907C]),
     (0xF9C4, [0x9F8D]), (0xF9C5, [0x6688]), (0xF9C6, [0x962E]), (0xF9C7, [0x5289])]"

definition decompositions_F9C8 :: "(nat \<times> nat list) list" where
  "decompositions_F9C8 = [
     (0xF9C8, [0x677B]), (0xF9C9, [0x67F3]), (0xF9CA, [0x6D41]), (0xF9CB, [0x6E9C]),
     (0xF9CC, [0x7409]), (0xF9CD, [0x7559]), (0xF9CE, [0x786B]), (0xF9CF, [0x7D10]),
     (0xF9D0, [0x985E]), (0xF9D1, [0x516D]), (0xF9D2, [0x622E]), (0xF9D3, [0x9678]),
     (0xF9D4, [0x502B]), (0xF9D5, [0x5D19]), (0xF9D6, [0x6DEA]), (0xF9D7, [0x8F2A]),
     (0xF9D8, [0x5F8B]), (0xF9D9, [0x6144]), (0xF9DA, [0x6817]), (0xF9DB, [0x7387]),
     (0xF9DC, [0x9686]), (0xF9DD, [0x5229]), (0xF9DE, [0x540F]), (0xF9DF, [0x5C65]),
     (0xF9E0, [0x6613]), (0xF9E1, [0x674E]), (0xF9E2, [0x68A8]), (0xF9E3, [0x6CE5]),
     (0xF9E4, [0x7406]), (0xF9E5, [0x75E2]), (0xF9E6, [0x7F79]), (0xF9E7, [0x88CF]),
     (0xF9E8, [0x88E1]), (0xF9E9, [0x91CC]), (0xF9EA, [0x96E2]), (0xF9EB, [0x533F]),
     (0xF9EC, [0x6EBA]), (0xF9ED, [0x541D]), (0xF9EE, [0x71D0]), (0xF9EF, [0x7498])]"

definition decompositions_F9F0 :: "(nat \<times> nat list) list" where
  "decompositions_F9F0 = [
     (0xF9F0, [0x85FA]), (0xF9F1, [0x96A3]), (0xF9F2, [0x9C57]), (0xF9F3, [0x9E9F]),
     (0xF9F4, [0x6797]), (0xF9F5, [0x6DCB]), (0xF9F6, [0x81E8]), (0xF9F7, [0x7ACB]),
     (0xF9F8, [0x7B20]), (0xF9F9, [0x7C92]), (0xF9FA, [0x72C0]), (0xF9FB, [0x7099]),
     (0xF9FC, [0x8B58]), (0xF9FD, [0x4EC0]), (0xF9FE, [0x8336]), (0xF9FF, [0x523A]),
     (0xFA00, [0x5207]), (0xFA01, [0x5EA6]), (0xFA02, [0x62D3]), (0xFA03, [0x7CD6]),
     (0xFA04, [0x5B85]), (0xFA05, [0x6D1E]), (0xFA06, [0x66B4]), (0xFA07, [0x8F3B]),
     (0xFA08, [0x884C]), (0xFA09, [0x964D]), (0xFA0A, [0x898B]), (0xFA0B, [0x5ED3]),
     (0xFA0C, [0x5140]), (0xFA0D, [0x55C0]), (0xFA10, [0x585A]), (0xFA12, [0x6674]),
     (0xFA15, [0x51DE]), (0xFA16, [0x732A]), (0xFA17, [0x76CA]), (0xFA18, [0x793C]),
     (0xFA19, [0x795E]), (0xFA1A, [0x7965]), (0xFA1B, [0x798F]), (0xFA1C, [0x9756])]"

definition decompositions_FA1D :: "(nat \<times> nat list) list" where
  "decompositions_FA1D = [
     (0xFA1D, [0x7CBE]), (0xFA1E, [0x7FBD]), (0xFA20, [0x8612]), (0xFA22, [0x8AF8]),
     (0xFA25, [0x9038]), (0xFA26, [0x90FD]), (0xFA2A, [0x98EF]), (0xFA2B, [0x98FC]),
     (0xFA2C, [0x9928]), (0xFA2D, [0x9DB4]), (0xFA2E, [0x90DE]), (0xFA2F, [0x96B7]),
     (0xFA30, [0x4FAE]), (0xFA31, [0x50E7]), (0xFA32, [0x514D]), (0xFA33, [0x52C9]),
     (0xFA34, [0x52E4]), (0xFA35, [0x5351]), (0xFA36, [0x559D]), (0xFA37, [0x5606]),
     (0xFA38, [0x5668]), (0xFA39, [0x5840]), (0xFA3A, [0x58A8]), (0xFA3B, [0x5C64]),
     (0xFA3C, [0x5C6E]), (0xFA3D, [0x6094]), (0xFA3E, [0x6168]), (0xFA3F, [0x618E]),
     (0xFA40, [0x61F2]), (0xFA41, [0x654F]), (0xFA42, [0x65E2]), (0xFA43, [0x6691]),
     (0xFA44, [0x6885]), (0xFA45, [0x6D77]), (0xFA46, [0x6E1A]), (0xFA47, [0x6F22]),
     (0xFA48, [0x716E]), (0xFA49, [0x722B]), (0xFA4A, [0x7422]), (0xFA4B, [0x7891])]"

definition decompositions_FA4C :: "(nat \<times> nat list) list" where
  "decompositions_FA4C = [
     (0xFA4C, [0x793E]), (0xFA4D, [0x7949]), (0xFA4E, [0x7948]), (0xFA4F, [0x7950]),
     (0xFA50, [0x7956]), (0xFA51, [0x795D]), (0xFA52, [0x798D]), (0xFA53, [0x798E]),
     (0xFA54, [0x7A40]), (0xFA55, [0x7A81]), (0xFA56, [0x7BC0]), (0xFA57, [0x7DF4]),
     (0xFA58, [0x7E09]), (0xFA59, [0x7E41]), (0xFA5A, [0x7F72]), (0xFA5B, [0x8005]),
     (0xFA5C, [0x81ED]), (0xFA5D, [0x8279]), (0xFA5E, [0x8279]), (0xFA5F, [0x8457]),
     (0xFA60, [0x8910]), (0xFA61, [0x8996]), (0xFA62, [0x8B01]), (0xFA63, [0x8B39]),
     (0xFA64, [0x8CD3]), (0xFA65, [0x8D08]), (0xFA66, [0x8FB6]), (0xFA67, [0x9038]),
     (0xFA68, [0x96E3]), (0xFA69, [0x97FF]), (0xFA6A, [0x983B]), (0xFA6B, [0x6075]),
     (0xFA6C, [0x242EE]), (0xFA6D, [0x8218]), (0xFA70, [0x4E26]), (0xFA71, [0x51B5]),
     (0xFA72, [0x5168]), (0xFA73, [0x4F80]), (0xFA74, [0x5145]), (0xFA75, [0x5180])]"

definition decompositions_FA76 :: "(nat \<times> nat list) list" where
  "decompositions_FA76 = [
     (0xFA76, [0x52C7]), (0xFA77, [0x52FA]), (0xFA78, [0x559D]), (0xFA79, [0x5555]),
     (0xFA7A, [0x5599]), (0xFA7B, [0x55E2]), (0xFA7C, [0x585A]), (0xFA7D, [0x58B3]),
     (0xFA7E, [0x5944]), (0xFA7F, [0x5954]), (0xFA80, [0x5A62]), (0xFA81, [0x5B28]),
     (0xFA82, [0x5ED2]), (0xFA83, [0x5ED9]), (0xFA84, [0x5F69]), (0xFA85, [0x5FAD]),
     (0xFA86, [0x60D8]), (0xFA87, [0x614E]), (0xFA88, [0x6108]), (0xFA89, [0x618E]),
     (0xFA8A, [0x6160]), (0xFA8B, [0x61F2]), (0xFA8C, [0x6234]), (0xFA8D, [0x63C4]),
     (0xFA8E, [0x641C]), (0xFA8F, [0x6452]), (0xFA90, [0x6556]), (0xFA91, [0x6674]),
     (0xFA92, [0x6717]), (0xFA93, [0x671B]), (0xFA94, [0x6756]), (0xFA95, [0x6B79]),
     (0xFA96, [0x6BBA]), (0xFA97, [0x6D41]), (0xFA98, [0x6EDB]), (0xFA99, [0x6ECB]),
     (0xFA9A, [0x6F22]), (0xFA9B, [0x701E]), (0xFA9C, [0x716E]), (0xFA9D, [0x77A7])]"

definition decompositions_FA9E :: "(nat \<times> nat list) list" where
  "decompositions_FA9E = [
     (0xFA9E, [0x7235]), (0xFA9F, [0x72AF]), (0xFAA0, [0x732A]), (0xFAA1, [0x7471]),
     (0xFAA2, [0x7506]), (0xFAA3, [0x753B]), (0xFAA4, [0x761D]), (0xFAA5, [0x761F]),
     (0xFAA6, [0x76CA]), (0xFAA7, [0x76DB]), (0xFAA8, [0x76F4]), (0xFAA9, [0x774A]),
     (0xFAAA, [0x7740]), (0xFAAB, [0x78CC]), (0xFAAC, [0x7AB1]), (0xFAAD, [0x7BC0]),
     (0xFAAE, [0x7C7B]), (0xFAAF, [0x7D5B]), (0xFAB0, [0x7DF4]), (0xFAB1, [0x7F3E]),
     (0xFAB2, [0x8005]), (0xFAB3, [0x8352]), (0xFAB4, [0x83EF]), (0xFAB5, [0x8779]),
     (0xFAB6, [0x8941]), (0xFAB7, [0x8986]), (0xFAB8, [0x8996]), (0xFAB9, [0x8ABF]),
     (0xFABA, [0x8AF8]), (0xFABB, [0x8ACB]), (0xFABC, [0x8B01]), (0xFABD, [0x8AFE]),
     (0xFABE, [0x8AED]), (0xFABF, [0x8B39]), (0xFAC0, [0x8B8A]), (0xFAC1, [0x8D08]),
     (0xFAC2, [0x8F38]), (0xFAC3, [0x9072]), (0xFAC4, [0x9199]), (0xFAC5, [0x9276])]"

definition decompositions_FAC6 :: "(nat \<times> nat list) list" where
  "decompositions_FAC6 = [
     (0xFAC6, [0x967C]), (0xFAC7, [0x96E3]), (0xFAC8, [0x9756]), (0xFAC9, [0x97DB]),
     (0xFACA, [0x97FF]), (0xFACB, [0x980B]), (0xFACC, [0x983B]), (0xFACD, [0x9B12]),
     (0xFACE, [0x9F9C]), (0xFACF, [0x2284A]), (0xFAD0, [0x22844]), (0xFAD1, [0x233D5]),
     (0xFAD2, [0x3B9D]), (0xFAD3, [0x4018]), (0xFAD4, [0x4039]), (0xFAD5, [0x25249]),
     (0xFAD6, [0x25CD0]), (0xFAD7, [0x27ED3]), (0xFAD8, [0x9F43]), (0xFAD9, [0x9F8E])]"

definition decompositions_FB1D :: "(nat \<times> nat list) list" where
  "decompositions_FB1D = [
     (0xFB1D, [0x05D9, 0x05B4]), (0xFB1F, [0x05F2, 0x05B7]), (0xFB2A, [0x05E9, 0x05C1]),
     (0xFB2B, [0x05E9, 0x05C2]), (0xFB2C, [0x05E9, 0x05BC, 0x05C1]),
     (0xFB2D, [0x05E9, 0x05BC, 0x05C2]), (0xFB2E, [0x05D0, 0x05B7]), (0xFB2F, [0x05D0, 0x05B8]),
     (0xFB30, [0x05D0, 0x05BC]), (0xFB31, [0x05D1, 0x05BC]), (0xFB32, [0x05D2, 0x05BC]),
     (0xFB33, [0x05D3, 0x05BC]), (0xFB34, [0x05D4, 0x05BC]), (0xFB35, [0x05D5, 0x05BC]),
     (0xFB36, [0x05D6, 0x05BC]), (0xFB38, [0x05D8, 0x05BC]), (0xFB39, [0x05D9, 0x05BC]),
     (0xFB3A, [0x05DA, 0x05BC]), (0xFB3B, [0x05DB, 0x05BC]), (0xFB3C, [0x05DC, 0x05BC]),
     (0xFB3E, [0x05DE, 0x05BC]), (0xFB40, [0x05E0, 0x05BC]), (0xFB41, [0x05E1, 0x05BC]),
     (0xFB43, [0x05E3, 0x05BC]), (0xFB44, [0x05E4, 0x05BC]), (0xFB46, [0x05E6, 0x05BC]),
     (0xFB47, [0x05E7, 0x05BC]), (0xFB48, [0x05E8, 0x05BC]), (0xFB49, [0x05E9, 0x05BC]),
     (0xFB4A, [0x05EA, 0x05BC]), (0xFB4B, [0x05D5, 0x05B9]), (0xFB4C, [0x05D1, 0x05BF]),
     (0xFB4D, [0x05DB, 0x05BF]), (0xFB4E, [0x05E4, 0x05BF])]"

definition decompositions_1109A :: "(nat \<times> nat list) list" where
  "decompositions_1109A = [
     (0x1109A, [0x11099, 0x110BA]), (0x1109C, [0x1109B, 0x110BA]), (0x110AB, [0x110A5, 0x110BA])]"

definition decompositions_1112E :: "(nat \<times> nat list) list" where
  "decompositions_1112E = [
     (0x1112E, [0x11131, 0x11127]), (0x1112F, [0x11132, 0x11127])]"

definition decompositions_1134B :: "(nat \<times> nat list) list" where
  "decompositions_1134B = [
     (0x1134B, [0x11347, 0x1133E]), (0x1134C, [0x11347, 0x11357])]"

definition decompositions_114BB :: "(nat \<times> nat list) list" where
  "decompositions_114BB = [
     (0x114BB, [0x114B9, 0x114BA]), (0x114BC, [0x114B9, 0x114B0]), (0x114BE, [0x114B9, 0x114BD])]"

definition decompositions_115BA :: "(nat \<times> nat list) list" where
  "decompositions_115BA = [
     (0x115BA, [0x115B8, 0x115AF]), (0x115BB, [0x115B9, 0x115AF])]"

definition decompositions_11938 :: "(nat \<times> nat list) list" where
  "decompositions_11938 = [
     (0x11938, [0x11935, 0x11930])]"

definition decompositions_1D15E :: "(nat \<times> nat list) list" where
  "decompositions_1D15E = [
     (0x1D15E, [0x1D157, 0x1D165]), (0x1D15F, [0x1D158, 0x1D165]),
     (0x1D160, [0x1D158, 0x1D165, 0x1D16E]), (0x1D161, [0x1D158, 0x1D165, 0x1D16F]),
     (0x1D162, [0x1D158, 0x1D165, 0x1D170]), (0x1D163, [0x1D158, 0x1D165, 0x1D171]),
     (0x1D164, [0x1D158, 0x1D165, 0x1D172])]"

definition decompositions_1D1BB :: "(nat \<times> nat list) list" where
  "decompositions_1D1BB = [
     (0x1D1BB, [0x1D1B9, 0x1D165]), (0x1D1BC, [0x1D1BA, 0x1D165]),
     (0x1D1BD, [0x1D1B9, 0x1D165, 0x1D16E]), (0x1D1BE, [0x1D1BA, 0x1D165, 0x1D16E]),
     (0x1D1BF, [0x1D1B9, 0x1D165, 0x1D16F]), (0x1D1C0, [0x1D1BA, 0x1D165, 0x1D16F])]"

definition decompositions_2F800 :: "(nat \<times> nat list) list" where
  "decompositions_2F800 = [
     (0x2F800, [0x4E3D]), (0x2F801, [0x4E38]), (0x2F802, [0x4E41]), (0x2F803, [0x20122]),
     (0x2F804, [0x4F60]), (0x2F805, [0x4FAE]), (0x2F806, [0x4FBB]), (0x2F807, [0x5002]),
     (0x2F808, [0x507A]), (0x2F809, [0x5099]), (0x2F80A, [0x50E7]), (0x2F80B, [0x50CF]),
     (0x2F80C, [0x349E]), (0x2F80D, [0x2063A]), (0x2F80E, [0x514D]), (0x2F80F, [0x5154]),
     (0x2F810, [0x5164]), (0x2F811, [0x5177]), (0x2F812, [0x2051C]), (0x2F813, [0x34B9]),
     (0x2F814, [0x5167]), (0x2F815, [0x518D]), (0x2F816, [0x2054B]), (0x2F817, [0x5197]),
     (0x2F818, [0x51A4]), (0x2F819, [0x4ECC]), (0x2F81A, [0x51AC]), (0x2F81B, [0x51B5]),
     (0x2F81C, [0x291DF]), (0x2F81D, [0x51F5]), (0x2F81E, [0x5203]), (0x2F81F, [0x34DF]),
     (0x2F820, [0x523B]), (0x2F821, [0x5246]), (0x2F822, [0x5272]), (0x2F823, [0x5277]),
     (0x2F824, [0x3515]), (0x2F825, [0x52C7]), (0x2F826, [0x52C9]), (0x2F827, [0x52E4])]"

definition decompositions_2F828 :: "(nat \<times> nat list) list" where
  "decompositions_2F828 = [
     (0x2F828, [0x52FA]), (0x2F829, [0x5305]), (0x2F82A, [0x5306]), (0x2F82B, [0x5317]),
     (0x2F82C, [0x5349]), (0x2F82D, [0x5351]), (0x2F82E, [0x535A]), (0x2F82F, [0x5373]),
     (0x2F830, [0x537D]), (0x2F831, [0x537F]), (0x2F832, [0x537F]), (0x2F833, [0x537F]),
     (0x2F834, [0x20A2C]), (0x2F835, [0x7070]), (0x2F836, [0x53CA]), (0x2F837, [0x53DF]),
     (0x2F838, [0x20B63]), (0x2F839, [0x53EB]), (0x2F83A, [0x53F1]), (0x2F83B, [0x5406]),
     (0x2F83C, [0x549E]), (0x2F83D, [0x5438]), (0x2F83E, [0x5448]), (0x2F83F, [0x5468]),
     (0x2F840, [0x54A2]), (0x2F841, [0x54F6]), (0x2F842, [0x5510]), (0x2F843, [0x5553]),
     (0x2F844, [0x5563]), (0x2F845, [0x5584]), (0x2F846, [0x5584]), (0x2F847, [0x5599]),
     (0x2F848, [0x55AB]), (0x2F849, [0x55B3]), (0x2F84A, [0x55C2]), (0x2F84B, [0x5716]),
     (0x2F84C, [0x5606]), (0x2F84D, [0x5717]), (0x2F84E, [0x5651]), (0x2F84F, [0x5674])]"

definition decompositions_2F850 :: "(nat \<times> nat list) list" where
  "decompositions_2F850 = [
     (0x2F850, [0x5207]), (0x2F851, [0x58EE]), (0x2F852, [0x57CE]), (0x2F853, [0x57F4]),
     (0x2F854, [0x580D]), (0x2F855, [0x578B]), (0x2F856, [0x5832]), (0x2F857, [0x5831]),
     (0x2F858, [0x58AC]), (0x2F859, [0x214E4]), (0x2F85A, [0x58F2]), (0x2F85B, [0x58F7]),
     (0x2F85C, [0x5906]), (0x2F85D, [0x591A]), (0x2F85E, [0x5922]), (0x2F85F, [0x5962]),
     (0x2F860, [0x216A8]), (0x2F861, [0x216EA]), (0x2F862, [0x59EC]), (0x2F863, [0x5A1B]),
     (0x2F864, [0x5A27]), (0x2F865, [0x59D8]), (0x2F866, [0x5A66]), (0x2F867, [0x36EE]),
     (0x2F868, [0x36FC]), (0x2F869, [0x5B08]), (0x2F86A, [0x5B3E]), (0x2F86B, [0x5B3E]),
     (0x2F86C, [0x219C8]), (0x2F86D, [0x5BC3]), (0x2F86E, [0x5BD8]), (0x2F86F, [0x5BE7]),
     (0x2F870, [0x5BF3]), (0x2F871, [0x21B18]), (0x2F872, [0x5BFF]), (0x2F873, [0x5C06]),
     (0x2F874, [0x5F53]), (0x2F875, [0x5C22]), (0x2F876, [0x3781]), (0x2F877, [0x5C60])]"

definition decompositions_2F878 :: "(nat \<times> nat list) list" where
  "decompositions_2F878 = [
     (0x2F878, [0x5C6E]), (0x2F879, [0x5CC0]), (0x2F87A, [0x5C8D]), (0x2F87B, [0x21DE4]),
     (0x2F87C, [0x5D43]), (0x2F87D, [0x21DE6]), (0x2F87E, [0x5D6E]), (0x2F87F, [0x5D6B]),
     (0x2F880, [0x5D7C]), (0x2F881, [0x5DE1]), (0x2F882, [0x5DE2]), (0x2F883, [0x382F]),
     (0x2F884, [0x5DFD]), (0x2F885, [0x5E28]), (0x2F886, [0x5E3D]), (0x2F887, [0x5E69]),
     (0x2F888, [0x3862]), (0x2F889, [0x22183]), (0x2F88A, [0x387C]), (0x2F88B, [0x5EB0]),
     (0x2F88C, [0x5EB3]), (0x2F88D, [0x5EB6]), (0x2F88E, [0x5ECA]), (0x2F88F, [0x2A392]),
     (0x2F890, [0x5EFE]), (0x2F891, [0x22331]), (0x2F892, [0x22331]), (0x2F893, [0x8201]),
     (0x2F894, [0x5F22]), (0x2F895, [0x5F22]), (0x2F896, [0x38C7]), (0x2F897, [0x232B8]),
     (0x2F898, [0x261DA]), (0x2F899, [0x5F62]), (0x2F89A, [0x5F6B]), (0x2F89B, [0x38E3]),
     (0x2F89C, [0x5F9A]), (0x2F89D, [0x5FCD]), (0x2F89E, [0x5FD7]), (0x2F89F, [0x5FF9])]"

definition decompositions_2F8A0 :: "(nat \<times> nat list) list" where
  "decompositions_2F8A0 = [
     (0x2F8A0, [0x6081]), (0x2F8A1, [0x393A]), (0x2F8A2, [0x391C]), (0x2F8A3, [0x6094]),
     (0x2F8A4, [0x226D4]), (0x2F8A5, [0x60C7]), (0x2F8A6, [0x6148]), (0x2F8A7, [0x614C]),
     (0x2F8A8, [0x614E]), (0x2F8A9, [0x614C]), (0x2F8AA, [0x617A]), (0x2F8AB, [0x618E]),
     (0x2F8AC, [0x61B2]), (0x2F8AD, [0x61A4]), (0x2F8AE, [0x61AF]), (0x2F8AF, [0x61DE]),
     (0x2F8B0, [0x61F2]), (0x2F8B1, [0x61F6]), (0x2F8B2, [0x6210]), (0x2F8B3, [0x621B]),
     (0x2F8B4, [0x625D]), (0x2F8B5, [0x62B1]), (0x2F8B6, [0x62D4]), (0x2F8B7, [0x6350]),
     (0x2F8B8, [0x22B0C]), (0x2F8B9, [0x633D]), (0x2F8BA, [0x62FC]), (0x2F8BB, [0x6368]),
     (0x2F8BC, [0x6383]), (0x2F8BD, [0x63E4]), (0x2F8BE, [0x22BF1]), (0x2F8BF, [0x6422]),
     (0x2F8C0, [0x63C5]), (0x2F8C1, [0x63A9]), (0x2F8C2, [0x3A2E]), (0x2F8C3, [0x6469]),
     (0x2F8C4, [0x647E]), (0x2F8C5, [0x649D]), (0x2F8C6, [0x6477]), (0x2F8C7, [0x3A6C])]"

definition decompositions_2F8C8 :: "(nat \<times> nat list) list" where
  "decompositions_2F8C8 = [
     (0x2F8C8, [0x654F]), (0x2F8C9, [0x656C]), (0x2F8CA, [0x2300A]), (0x2F8CB, [0x65E3]),
     (0x2F8CC, [0x66F8]), (0x2F8CD, [0x6649]), (0x2F8CE, [0x3B19]), (0x2F8CF, [0x6691]),
     (0x2F8D0, [0x3B08]), (0x2F8D1, [0x3AE4]), (0x2F8D2, [0x5192]), (0x2F8D3, [0x5195]),
     (0x2F8D4, [0x6700]), (0x2F8D5, [0x669C]), (0x2F8D6, [0x80AD]), (0x2F8D7, [0x43D9]),
     (0x2F8D8, [0x6717]), (0x2F8D9, [0x671B]), (0x2F8DA, [0x6721]), (0x2F8DB, [0x675E]),
     (0x2F8DC, [0x6753]), (0x2F8DD, [0x233C3]), (0x2F8DE, [0x3B49]), (0x2F8DF, [0x67FA]),
     (0x2F8E0, [0x6785]), (0x2F8E1, [0x6852]), (0x2F8E2, [0x6885]), (0x2F8E3, [0x2346D]),
     (0x2F8E4, [0x688E]), (0x2F8E5, [0x681F]), (0x2F8E6, [0x6914]), (0x2F8E7, [0x3B9D]),
     (0x2F8E8, [0x6942]), (0x2F8E9, [0x69A3]), (0x2F8EA, [0x69EA]), (0x2F8EB, [0x6AA8]),
     (0x2F8EC, [0x236A3]), (0x2F8ED, [0x6ADB]), (0x2F8EE, [0x3C18]), (0x2F8EF, [0x6B21])]"

definition decompositions_2F8F0 :: "(nat \<times> nat list) list" where
  "decompositions_2F8F0 = [
     (0x2F8F0, [0x238A7]), (0x2F8F1, [0x6B54]), (0x2F8F2, [0x3C4E]), (0x2F8F3, [0x6B72]),
     (0x2F8F4, [0x6B9F]), (0x2F8F5, [0x6BBA]), (0x2F8F6, [0x6BBB]), (0x2F8F7, [0x23A8D]),
     (0x2F8F8, [0x21D0B]), (0x2F8F9, [0x23AFA]), (0x2F8FA, [0x6C4E]), (0x2F8FB, [0x23CBC]),
     (0x2F8FC, [0x6CBF]), (0x2F8FD, [0x6CCD]), (0x2F8FE, [0x6C67]), (0x2F8FF, [0x6D16]),
     (0x2F900, [0x6D3E]), (0x2F901, [0x6D77]), (0x2F902, [0x6D41]), (0x2F903, [0x6D69]),
     (0x2F904, [0x6D78]), (0x2F905, [0x6D85]), (0x2F906, [0x23D1E]), (0x2F907, [0x6D34]),
     (0x2F908, [0x6E2F]), (0x2F909, [0x6E6E]), (0x2F90A, [0x3D33]), (0x2F90B, [0x6ECB]),
     (0x2F90C, [0x6EC7]), (0x2F90D, [0x23ED1]), (0x2F90E, [0x6DF9]), (0x2F90F, [0x6F6E]),
     (0x2F910, [0x23F5E]), (0x2F911, [0x23F8E]), (0x2F912, [0x6FC6]), (0x2F913, [0x7039]),
     (0x2F914, [0x701E]), (0x2F915, [0x701B]), (0x2F916, [0x3D96]), (0x2F917, [0x704A])]"

definition decompositions_2F918 :: "(nat \<times> nat list) list" where
  "decompositions_2F918 = [
     (0x2F918, [0x707D]), (0x2F919, [0x7077]), (0x2F91A, [0x70AD]), (0x2F91B, [0x20525]),
     (0x2F91C, [0x7145]), (0x2F91D, [0x24263]), (0x2F91E, [0x719C]), (0x2F91F, [0x243AB]),
     (0x2F920, [0x7228]), (0x2F921, [0x7235]), (0x2F922, [0x7250]), (0x2F923, [0x24608]),
     (0x2F924, [0x7280]), (0x2F925, [0x7295]), (0x2F926, [0x24735]), (0x2F927, [0x24814]),
     (0x2F928, [0x737A]), (0x2F929, [0x738B]), (0x2F92A, [0x3EAC]), (0x2F92B, [0x73A5]),
     (0x2F92C, [0x3EB8]), (0x2F92D, [0x3EB8]), (0x2F92E, [0x7447]), (0x2F92F, [0x745C]),
     (0x2F930, [0x7471]), (0x2F931, [0x7485]), (0x2F932, [0x74CA]), (0x2F933, [0x3F1B]),
     (0x2F934, [0x7524]), (0x2F935, [0x24C36]), (0x2F936, [0x753E]), (0x2F937, [0x24C92]),
     (0x2F938, [0x7570]), (0x2F939, [0x2219F]), (0x2F93A, [0x7610]), (0x2F93B, [0x24FA1]),
     (0x2F93C, [0x24FB8]), (0x2F93D, [0x25044]), (0x2F93E, [0x3FFC]), (0x2F93F, [0x4008])]"

definition decompositions_2F940 :: "(nat \<times> nat list) list" where
  "decompositions_2F940 = [
     (0x2F940, [0x76F4]), (0x2F941, [0x250F3]), (0x2F942, [0x250F2]), (0x2F943, [0x25119]),
     (0x2F944, [0x25133]), (0x2F945, [0x771E]), (0x2F946, [0x771F]), (0x2F947, [0x771F]),
     (0x2F948, [0x774A]), (0x2F949, [0x4039]), (0x2F94A, [0x778B]), (0x2F94B, [0x4046]),
     (0x2F94C, [0x4096]), (0x2F94D, [0x2541D]), (0x2F94E, [0x784E]), (0x2F94F, [0x788C]),
     (0x2F950, [0x78CC]), (0x2F951, [0x40E3]), (0x2F952, [0x25626]), (0x2F953, [0x7956]),
     (0x2F954, [0x2569A]), (0x2F955, [0x256C5]), (0x2F956, [0x798F]), (0x2F957, [0x79EB]),
     (0x2F958, [0x412F]), (0x2F959, [0x7A40]), (0x2F95A, [0x7A4A]), (0x2F95B, [0x7A4F]),
     (0x2F95C, [0x2597C]), (0x2F95D, [0x25AA7]), (0x2F95E, [0x25AA7]), (0x2F95F, [0x7AEE]),
     (0x2F960, [0x4202]), (0x2F961, [0x25BAB]), (0x2F962, [0x7BC6]), (0x2F963, [0x7BC9]),
     (0x2F964, [0x4227]), (0x2F965, [0x25C80]), (0x2F966, [0x7CD2]), (0x2F967, [0x42A0])]"

definition decompositions_2F968 :: "(nat \<times> nat list) list" where
  "decompositions_2F968 = [
     (0x2F968, [0x7CE8]), (0x2F969, [0x7CE3]), (0x2F96A, [0x7D00]), (0x2F96B, [0x25F86]),
     (0x2F96C, [0x7D63]), (0x2F96D, [0x4301]), (0x2F96E, [0x7DC7]), (0x2F96F, [0x7E02]),
     (0x2F970, [0x7E45]), (0x2F971, [0x4334]), (0x2F972, [0x26228]), (0x2F973, [0x26247]),
     (0x2F974, [0x4359]), (0x2F975, [0x262D9]), (0x2F976, [0x7F7A]), (0x2F977, [0x2633E]),
     (0x2F978, [0x7F95]), (0x2F979, [0x7FFA]), (0x2F97A, [0x8005]), (0x2F97B, [0x264DA]),
     (0x2F97C, [0x26523]), (0x2F97D, [0x8060]), (0x2F97E, [0x265A8]), (0x2F97F, [0x8070]),
     (0x2F980, [0x2335F]), (0x2F981, [0x43D5]), (0x2F982, [0x80B2]), (0x2F983, [0x8103]),
     (0x2F984, [0x440B]), (0x2F985, [0x813E]), (0x2F986, [0x5AB5]), (0x2F987, [0x267A7]),
     (0x2F988, [0x267B5]), (0x2F989, [0x23393]), (0x2F98A, [0x2339C]), (0x2F98B, [0x8201]),
     (0x2F98C, [0x8204]), (0x2F98D, [0x8F9E]), (0x2F98E, [0x446B]), (0x2F98F, [0x8291])]"

definition decompositions_2F990 :: "(nat \<times> nat list) list" where
  "decompositions_2F990 = [
     (0x2F990, [0x828B]), (0x2F991, [0x829D]), (0x2F992, [0x52B3]), (0x2F993, [0x82B1]),
     (0x2F994, [0x82B3]), (0x2F995, [0x82BD]), (0x2F996, [0x82E6]), (0x2F997, [0x26B3C]),
     (0x2F998, [0x82E5]), (0x2F999, [0x831D]), (0x2F99A, [0x8363]), (0x2F99B, [0x83AD]),
     (0x2F99C, [0x8323]), (0x2F99D, [0x83BD]), (0x2F99E, [0x83E7]), (0x2F99F, [0x8457]),
     (0x2F9A0, [0x8353]), (0x2F9A1, [0x83CA]), (0x2F9A2, [0x83CC]), (0x2F9A3, [0x83DC]),
     (0x2F9A4, [0x26C36]), (0x2F9A5, [0x26D6B]), (0x2F9A6, [0x26CD5]), (0x2F9A7, [0x452B]),
     (0x2F9A8, [0x84F1]), (0x2F9A9, [0x84F3]), (0x2F9AA, [0x8516]), (0x2F9AB, [0x273CA]),
     (0x2F9AC, [0x8564]), (0x2F9AD, [0x26F2C]), (0x2F9AE, [0x455D]), (0x2F9AF, [0x4561]),
     (0x2F9B0, [0x26FB1]), (0x2F9B1, [0x270D2]), (0x2F9B2, [0x456B]), (0x2F9B3, [0x8650]),
     (0x2F9B4, [0x865C]), (0x2F9B5, [0x8667]), (0x2F9B6, [0x8669]), (0x2F9B7, [0x86A9])]"

definition decompositions_2F9B8 :: "(nat \<times> nat list) list" where
  "decompositions_2F9B8 = [
     (0x2F9B8, [0x8688]), (0x2F9B9, [0x870E]), (0x2F9BA, [0x86E2]), (0x2F9BB, [0x8779]),
     (0x2F9BC, [0x8728]), (0x2F9BD, [0x876B]), (0x2F9BE, [0x8786]), (0x2F9BF, [0x45D7]),
     (0x2F9C0, [0x87E1]), (0x2F9C1, [0x8801]), (0x2F9C2, [0x45F9]), (0x2F9C3, [0x8860]),
     (0x2F9C4, [0x8863]), (0x2F9C5, [0x27667]), (0x2F9C6, [0x88D7]), (0x2F9C7, [0x88DE]),
     (0x2F9C8, [0x4635]), (0x2F9C9, [0x88FA]), (0x2F9CA, [0x34BB]), (0x2F9CB, [0x278AE]),
     (0x2F9CC, [0x27966]), (0x2F9CD, [0x46BE]), (0x2F9CE, [0x46C7]), (0x2F9CF, [0x8AA0]),
     (0x2F9D0, [0x8AED]), (0x2F9D1, [0x8B8A]), (0x2F9D2, [0x8C55]), (0x2F9D3, [0x27CA8]),
     (0x2F9D4, [0x8CAB]), (0x2F9D5, [0x8CC1]), (0x2F9D6, [0x8D1B]), (0x2F9D7, [0x8D77]),
     (0x2F9D8, [0x27F2F]), (0x2F9D9, [0x20804]), (0x2F9DA, [0x8DCB]), (0x2F9DB, [0x8DBC]),
     (0x2F9DC, [0x8DF0]), (0x2F9DD, [0x208DE]), (0x2F9DE, [0x8ED4]), (0x2F9DF, [0x8F38])]"

definition decompositions_2F9E0 :: "(nat \<times> nat list) list" where
  "decompositions_2F9E0 = [
     (0x2F9E0, [0x285D2]), (0x2F9E1, [0x285ED]), (0x2F9E2, [0x9094]), (0x2F9E3, [0x90F1]),
     (0x2F9E4, [0x9111]), (0x2F9E5, [0x2872E]), (0x2F9E6, [0x911B]), (0x2F9E7, [0x9238]),
     (0x2F9E8, [0x92D7]), (0x2F9E9, [0x92D8]), (0x2F9EA, [0x927C]), (0x2F9EB, [0x93F9]),
     (0x2F9EC, [0x9415]), (0x2F9ED, [0x28BFA]), (0x2F9EE, [0x958B]), (0x2F9EF, [0x4995]),
     (0x2F9F0, [0x95B7]), (0x2F9F1, [0x28D77]), (0x2F9F2, [0x49E6]), (0x2F9F3, [0x96C3]),
     (0x2F9F4, [0x5DB2]), (0x2F9F5, [0x9723]), (0x2F9F6, [0x29145]), (0x2F9F7, [0x2921A]),
     (0x2F9F8, [0x4A6E]), (0x2F9F9, [0x4A76]), (0x2F9FA, [0x97E0]), (0x2F9FB, [0x2940A]),
     (0x2F9FC, [0x4AB2]), (0x2F9FD, [0x29496]), (0x2F9FE, [0x980B]), (0x2F9FF, [0x980B]),
     (0x2FA00, [0x9829]), (0x2FA01, [0x295B6]), (0x2FA02, [0x98E2]), (0x2FA03, [0x4B33]),
     (0x2FA04, [0x9929]), (0x2FA05, [0x99A7]), (0x2FA06, [0x99C2]), (0x2FA07, [0x99FE])]"

definition decompositions_2FA08 :: "(nat \<times> nat list) list" where
  "decompositions_2FA08 = [
     (0x2FA08, [0x4BCE]), (0x2FA09, [0x29B30]), (0x2FA0A, [0x9B12]), (0x2FA0B, [0x9C40]),
     (0x2FA0C, [0x9CFD]), (0x2FA0D, [0x4CCE]), (0x2FA0E, [0x4CED]), (0x2FA0F, [0x9D67]),
     (0x2FA10, [0x2A0CE]), (0x2FA11, [0x4CF8]), (0x2FA12, [0x2A105]), (0x2FA13, [0x2A20E]),
     (0x2FA14, [0x2A291]), (0x2FA15, [0x9EBB]), (0x2FA16, [0x4D56]), (0x2FA17, [0x9EF9]),
     (0x2FA18, [0x9EFE]), (0x2FA19, [0x9F05]), (0x2FA1A, [0x9F0F]), (0x2FA1B, [0x9F16]),
     (0x2FA1C, [0x9F3B]), (0x2FA1D, [0x2A600])]"

definition decompositionBlocks :: "(nat \<times> (nat \<times> nat list) list) list" where
  "decompositionBlocks = [
     (0x00EE, decompositions_00C0), (0x011C, decompositions_00EF), (0x0151, decompositions_011D),
     (0x017D, decompositions_0154), (0x01F5, decompositions_017E), (0x0227, decompositions_01F8),
     (0x0233, decompositions_0228), (0x0450, decompositions_0340), (0x0477, decompositions_0451),
     (0x04F9, decompositions_04C1), (0x0626, decompositions_0622), (0x06D3, decompositions_06C0),
     (0x095F, decompositions_0929), (0x09DF, decompositions_09CB), (0x0A5E, decompositions_0A33),
     (0x0BCC, decompositions_0B48), (0x0C48, decompositions_0C48), (0x0CCB, decompositions_0CC0),
     (0x0D4C, decompositions_0D4A), (0x0DDE, decompositions_0DDA), (0x0FB9, decompositions_0F43),
     (0x1026, decompositions_1026), (0x1B43, decompositions_1B06), (0x1E27, decompositions_1E00),
     (0x1E4F, decompositions_1E28), (0x1E77, decompositions_1E50), (0x1EA4, decompositions_1E78),
     (0x1ECC, decompositions_1EA5), (0x1EF4, decompositions_1ECD), (0x1F26, decompositions_1EF5),
     (0x1F52, decompositions_1F27), (0x1F80, decompositions_1F53), (0x1FA8, decompositions_1F81),
     (0x1FD7, decompositions_1FA9), (0x2001, decompositions_1FD8), (0x212B, decompositions_2126),
     (0x22E3, decompositions_219A), (0x232A, decompositions_22EA), (0x2ADC, decompositions_2ADC),
     (0x30C5, decompositions_304C), (0x30FE, decompositions_30C7), (0xF927, decompositions_F900),
     (0xF94F, decompositions_F928), (0xF977, decompositions_F950), (0xF99F, decompositions_F978),
     (0xF9C7, decompositions_F9A0), (0xF9EF, decompositions_F9C8), (0xFA1C, decompositions_F9F0),
     (0xFA4B, decompositions_FA1D), (0xFA75, decompositions_FA4C), (0xFA9D, decompositions_FA76),
     (0xFAC5, decompositions_FA9E), (0xFAD9, decompositions_FAC6), (0xFB4E, decompositions_FB1D),
     (0x110AB, decompositions_1109A), (0x1112F, decompositions_1112E),
     (0x1134C, decompositions_1134B), (0x114BE, decompositions_114BB),
     (0x115BB, decompositions_115BA), (0x11938, decompositions_11938),
     (0x1D164, decompositions_1D15E), (0x1D1C0, decompositions_1D1BB),
     (0x2F827, decompositions_2F800), (0x2F84F, decompositions_2F828),
     (0x2F877, decompositions_2F850), (0x2F89F, decompositions_2F878),
     (0x2F8C7, decompositions_2F8A0), (0x2F8EF, decompositions_2F8C8),
     (0x2F917, decompositions_2F8F0), (0x2F93F, decompositions_2F918),
     (0x2F967, decompositions_2F940), (0x2F98F, decompositions_2F968),
     (0x2F9B7, decompositions_2F990), (0x2F9DF, decompositions_2F9B8),
     (0x2FA07, decompositions_2F9E0), (0x2FA1D, decompositions_2FA08)]"

definition canonicalDecomposition :: "nat \<Rightarrow> nat list option" where
  "canonicalDecomposition c =
     (case find (\<lambda>(lastKey, block). c \<le> lastKey) decompositionBlocks of
        Some (lastKey, block) \<Rightarrow> map_of block c
      | None \<Rightarrow> None)"

subsection \<open>Canonical combining classes\<close>

text \<open>
  Ranges of code points with their class (first code point, last code point, class), in blocks; every code
  point outside the ranges has class 0 and is called a starter.
\<close>

definition combiningClasses_0300 :: "(nat \<times> nat \<times> nat) list" where
  "combiningClasses_0300 = [
     (0x0300, 0x0314, 230), (0x0315, 0x0315, 232), (0x0316, 0x0319, 220), (0x031A, 0x031A, 232),
     (0x031B, 0x031B, 216), (0x031C, 0x0320, 220), (0x0321, 0x0322, 202), (0x0323, 0x0326, 220),
     (0x0327, 0x0328, 202), (0x0329, 0x0333, 220), (0x0334, 0x0338, 1), (0x0339, 0x033C, 220),
     (0x033D, 0x0344, 230), (0x0345, 0x0345, 240), (0x0346, 0x0346, 230), (0x0347, 0x0349, 220),
     (0x034A, 0x034C, 230), (0x034D, 0x034E, 220), (0x0350, 0x0352, 230), (0x0353, 0x0356, 220),
     (0x0357, 0x0357, 230), (0x0358, 0x0358, 232), (0x0359, 0x035A, 220), (0x035B, 0x035B, 230),
     (0x035C, 0x035C, 233), (0x035D, 0x035E, 234), (0x035F, 0x035F, 233), (0x0360, 0x0361, 234),
     (0x0362, 0x0362, 233), (0x0363, 0x036F, 230), (0x0483, 0x0487, 230), (0x0591, 0x0591, 220),
     (0x0592, 0x0595, 230), (0x0596, 0x0596, 220), (0x0597, 0x0599, 230), (0x059A, 0x059A, 222),
     (0x059B, 0x059B, 220), (0x059C, 0x05A1, 230), (0x05A2, 0x05A7, 220), (0x05A8, 0x05A9, 230)]"

definition combiningClasses_05AA :: "(nat \<times> nat \<times> nat) list" where
  "combiningClasses_05AA = [
     (0x05AA, 0x05AA, 220), (0x05AB, 0x05AC, 230), (0x05AD, 0x05AD, 222), (0x05AE, 0x05AE, 228),
     (0x05AF, 0x05AF, 230), (0x05B0, 0x05B0, 10), (0x05B1, 0x05B1, 11), (0x05B2, 0x05B2, 12),
     (0x05B3, 0x05B3, 13), (0x05B4, 0x05B4, 14), (0x05B5, 0x05B5, 15), (0x05B6, 0x05B6, 16),
     (0x05B7, 0x05B7, 17), (0x05B8, 0x05B8, 18), (0x05B9, 0x05BA, 19), (0x05BB, 0x05BB, 20),
     (0x05BC, 0x05BC, 21), (0x05BD, 0x05BD, 22), (0x05BF, 0x05BF, 23), (0x05C1, 0x05C1, 24),
     (0x05C2, 0x05C2, 25), (0x05C4, 0x05C4, 230), (0x05C5, 0x05C5, 220), (0x05C7, 0x05C7, 18),
     (0x0610, 0x0617, 230), (0x0618, 0x0618, 30), (0x0619, 0x0619, 31), (0x061A, 0x061A, 32),
     (0x064B, 0x064B, 27), (0x064C, 0x064C, 28), (0x064D, 0x064D, 29), (0x064E, 0x064E, 30),
     (0x064F, 0x064F, 31), (0x0650, 0x0650, 32), (0x0651, 0x0651, 33), (0x0652, 0x0652, 34),
     (0x0653, 0x0654, 230), (0x0655, 0x0656, 220), (0x0657, 0x065B, 230), (0x065C, 0x065C, 220)]"

definition combiningClasses_065D :: "(nat \<times> nat \<times> nat) list" where
  "combiningClasses_065D = [
     (0x065D, 0x065E, 230), (0x065F, 0x065F, 220), (0x0670, 0x0670, 35), (0x06D6, 0x06DC, 230),
     (0x06DF, 0x06E2, 230), (0x06E3, 0x06E3, 220), (0x06E4, 0x06E4, 230), (0x06E7, 0x06E8, 230),
     (0x06EA, 0x06EA, 220), (0x06EB, 0x06EC, 230), (0x06ED, 0x06ED, 220), (0x0711, 0x0711, 36),
     (0x0730, 0x0730, 230), (0x0731, 0x0731, 220), (0x0732, 0x0733, 230), (0x0734, 0x0734, 220),
     (0x0735, 0x0736, 230), (0x0737, 0x0739, 220), (0x073A, 0x073A, 230), (0x073B, 0x073C, 220),
     (0x073D, 0x073D, 230), (0x073E, 0x073E, 220), (0x073F, 0x0741, 230), (0x0742, 0x0742, 220),
     (0x0743, 0x0743, 230), (0x0744, 0x0744, 220), (0x0745, 0x0745, 230), (0x0746, 0x0746, 220),
     (0x0747, 0x0747, 230), (0x0748, 0x0748, 220), (0x0749, 0x074A, 230), (0x07EB, 0x07F1, 230),
     (0x07F2, 0x07F2, 220), (0x07F3, 0x07F3, 230), (0x07FD, 0x07FD, 220), (0x0816, 0x0819, 230),
     (0x081B, 0x0823, 230), (0x0825, 0x0827, 230), (0x0829, 0x082D, 230), (0x0859, 0x085B, 220)]"

definition combiningClasses_0898 :: "(nat \<times> nat \<times> nat) list" where
  "combiningClasses_0898 = [
     (0x0898, 0x0898, 230), (0x0899, 0x089B, 220), (0x089C, 0x089F, 230), (0x08CA, 0x08CE, 230),
     (0x08CF, 0x08D3, 220), (0x08D4, 0x08E1, 230), (0x08E3, 0x08E3, 220), (0x08E4, 0x08E5, 230),
     (0x08E6, 0x08E6, 220), (0x08E7, 0x08E8, 230), (0x08E9, 0x08E9, 220), (0x08EA, 0x08EC, 230),
     (0x08ED, 0x08EF, 220), (0x08F0, 0x08F0, 27), (0x08F1, 0x08F1, 28), (0x08F2, 0x08F2, 29),
     (0x08F3, 0x08F5, 230), (0x08F6, 0x08F6, 220), (0x08F7, 0x08F8, 230), (0x08F9, 0x08FA, 220),
     (0x08FB, 0x08FF, 230), (0x093C, 0x093C, 7), (0x094D, 0x094D, 9), (0x0951, 0x0951, 230),
     (0x0952, 0x0952, 220), (0x0953, 0x0954, 230), (0x09BC, 0x09BC, 7), (0x09CD, 0x09CD, 9),
     (0x09FE, 0x09FE, 230), (0x0A3C, 0x0A3C, 7), (0x0A4D, 0x0A4D, 9), (0x0ABC, 0x0ABC, 7),
     (0x0ACD, 0x0ACD, 9), (0x0B3C, 0x0B3C, 7), (0x0B4D, 0x0B4D, 9), (0x0BCD, 0x0BCD, 9),
     (0x0C3C, 0x0C3C, 7), (0x0C4D, 0x0C4D, 9), (0x0C55, 0x0C55, 84), (0x0C56, 0x0C56, 91)]"

definition combiningClasses_0CBC :: "(nat \<times> nat \<times> nat) list" where
  "combiningClasses_0CBC = [
     (0x0CBC, 0x0CBC, 7), (0x0CCD, 0x0CCD, 9), (0x0D3B, 0x0D3C, 9), (0x0D4D, 0x0D4D, 9),
     (0x0DCA, 0x0DCA, 9), (0x0E38, 0x0E39, 103), (0x0E3A, 0x0E3A, 9), (0x0E48, 0x0E4B, 107),
     (0x0EB8, 0x0EB9, 118), (0x0EBA, 0x0EBA, 9), (0x0EC8, 0x0ECB, 122), (0x0F18, 0x0F19, 220),
     (0x0F35, 0x0F35, 220), (0x0F37, 0x0F37, 220), (0x0F39, 0x0F39, 216), (0x0F71, 0x0F71, 129),
     (0x0F72, 0x0F72, 130), (0x0F74, 0x0F74, 132), (0x0F7A, 0x0F7D, 130), (0x0F80, 0x0F80, 130),
     (0x0F82, 0x0F83, 230), (0x0F84, 0x0F84, 9), (0x0F86, 0x0F87, 230), (0x0FC6, 0x0FC6, 220),
     (0x1037, 0x1037, 7), (0x1039, 0x103A, 9), (0x108D, 0x108D, 220), (0x135D, 0x135F, 230),
     (0x1714, 0x1715, 9), (0x1734, 0x1734, 9), (0x17D2, 0x17D2, 9), (0x17DD, 0x17DD, 230),
     (0x18A9, 0x18A9, 228), (0x1939, 0x1939, 222), (0x193A, 0x193A, 230), (0x193B, 0x193B, 220),
     (0x1A17, 0x1A17, 230), (0x1A18, 0x1A18, 220), (0x1A60, 0x1A60, 9), (0x1A75, 0x1A7C, 230)]"

definition combiningClasses_1A7F :: "(nat \<times> nat \<times> nat) list" where
  "combiningClasses_1A7F = [
     (0x1A7F, 0x1A7F, 220), (0x1AB0, 0x1AB4, 230), (0x1AB5, 0x1ABA, 220), (0x1ABB, 0x1ABC, 230),
     (0x1ABD, 0x1ABD, 220), (0x1ABF, 0x1AC0, 220), (0x1AC1, 0x1AC2, 230), (0x1AC3, 0x1AC4, 220),
     (0x1AC5, 0x1AC9, 230), (0x1ACA, 0x1ACA, 220), (0x1ACB, 0x1ACE, 230), (0x1B34, 0x1B34, 7),
     (0x1B44, 0x1B44, 9), (0x1B6B, 0x1B6B, 230), (0x1B6C, 0x1B6C, 220), (0x1B6D, 0x1B73, 230),
     (0x1BAA, 0x1BAB, 9), (0x1BE6, 0x1BE6, 7), (0x1BF2, 0x1BF3, 9), (0x1C37, 0x1C37, 7),
     (0x1CD0, 0x1CD2, 230), (0x1CD4, 0x1CD4, 1), (0x1CD5, 0x1CD9, 220), (0x1CDA, 0x1CDB, 230),
     (0x1CDC, 0x1CDF, 220), (0x1CE0, 0x1CE0, 230), (0x1CE2, 0x1CE8, 1), (0x1CED, 0x1CED, 220),
     (0x1CF4, 0x1CF4, 230), (0x1CF8, 0x1CF9, 230), (0x1DC0, 0x1DC1, 230), (0x1DC2, 0x1DC2, 220),
     (0x1DC3, 0x1DC9, 230), (0x1DCA, 0x1DCA, 220), (0x1DCB, 0x1DCC, 230), (0x1DCD, 0x1DCD, 234),
     (0x1DCE, 0x1DCE, 214), (0x1DCF, 0x1DCF, 220), (0x1DD0, 0x1DD0, 202), (0x1DD1, 0x1DF5, 230)]"

definition combiningClasses_1DF6 :: "(nat \<times> nat \<times> nat) list" where
  "combiningClasses_1DF6 = [
     (0x1DF6, 0x1DF6, 232), (0x1DF7, 0x1DF8, 228), (0x1DF9, 0x1DF9, 220), (0x1DFA, 0x1DFA, 218),
     (0x1DFB, 0x1DFB, 230), (0x1DFC, 0x1DFC, 233), (0x1DFD, 0x1DFD, 220), (0x1DFE, 0x1DFE, 230),
     (0x1DFF, 0x1DFF, 220), (0x20D0, 0x20D1, 230), (0x20D2, 0x20D3, 1), (0x20D4, 0x20D7, 230),
     (0x20D8, 0x20DA, 1), (0x20DB, 0x20DC, 230), (0x20E1, 0x20E1, 230), (0x20E5, 0x20E6, 1),
     (0x20E7, 0x20E7, 230), (0x20E8, 0x20E8, 220), (0x20E9, 0x20E9, 230), (0x20EA, 0x20EB, 1),
     (0x20EC, 0x20EF, 220), (0x20F0, 0x20F0, 230), (0x2CEF, 0x2CF1, 230), (0x2D7F, 0x2D7F, 9),
     (0x2DE0, 0x2DFF, 230), (0x302A, 0x302A, 218), (0x302B, 0x302B, 228), (0x302C, 0x302C, 232),
     (0x302D, 0x302D, 222), (0x302E, 0x302F, 224), (0x3099, 0x309A, 8), (0xA66F, 0xA66F, 230),
     (0xA674, 0xA67D, 230), (0xA69E, 0xA69F, 230), (0xA6F0, 0xA6F1, 230), (0xA806, 0xA806, 9),
     (0xA82C, 0xA82C, 9), (0xA8C4, 0xA8C4, 9), (0xA8E0, 0xA8F1, 230), (0xA92B, 0xA92D, 220)]"

definition combiningClasses_A953 :: "(nat \<times> nat \<times> nat) list" where
  "combiningClasses_A953 = [
     (0xA953, 0xA953, 9), (0xA9B3, 0xA9B3, 7), (0xA9C0, 0xA9C0, 9), (0xAAB0, 0xAAB0, 230),
     (0xAAB2, 0xAAB3, 230), (0xAAB4, 0xAAB4, 220), (0xAAB7, 0xAAB8, 230), (0xAABE, 0xAABF, 230),
     (0xAAC1, 0xAAC1, 230), (0xAAF6, 0xAAF6, 9), (0xABED, 0xABED, 9), (0xFB1E, 0xFB1E, 26),
     (0xFE20, 0xFE26, 230), (0xFE27, 0xFE2D, 220), (0xFE2E, 0xFE2F, 230),
     (0x101FD, 0x101FD, 220), (0x102E0, 0x102E0, 220), (0x10376, 0x1037A, 230),
     (0x10A0D, 0x10A0D, 220), (0x10A0F, 0x10A0F, 230), (0x10A38, 0x10A38, 230),
     (0x10A39, 0x10A39, 1), (0x10A3A, 0x10A3A, 220), (0x10A3F, 0x10A3F, 9),
     (0x10AE5, 0x10AE5, 230), (0x10AE6, 0x10AE6, 220), (0x10D24, 0x10D27, 230),
     (0x10EAB, 0x10EAC, 230), (0x10F46, 0x10F47, 220), (0x10F48, 0x10F4A, 230),
     (0x10F4B, 0x10F4B, 220), (0x10F4C, 0x10F4C, 230), (0x10F4D, 0x10F50, 220),
     (0x10F82, 0x10F82, 230), (0x10F83, 0x10F83, 220), (0x10F84, 0x10F84, 230),
     (0x10F85, 0x10F85, 220), (0x11046, 0x11046, 9), (0x11070, 0x11070, 9),
     (0x1107F, 0x1107F, 9)]"

definition combiningClasses_110B9 :: "(nat \<times> nat \<times> nat) list" where
  "combiningClasses_110B9 = [
     (0x110B9, 0x110B9, 9), (0x110BA, 0x110BA, 7), (0x11100, 0x11102, 230),
     (0x11133, 0x11134, 9), (0x11173, 0x11173, 7), (0x111C0, 0x111C0, 9), (0x111CA, 0x111CA, 7),
     (0x11235, 0x11235, 9), (0x11236, 0x11236, 7), (0x112E9, 0x112E9, 7), (0x112EA, 0x112EA, 9),
     (0x1133B, 0x1133C, 7), (0x1134D, 0x1134D, 9), (0x11366, 0x1136C, 230),
     (0x11370, 0x11374, 230), (0x11442, 0x11442, 9), (0x11446, 0x11446, 7),
     (0x1145E, 0x1145E, 230), (0x114C2, 0x114C2, 9), (0x114C3, 0x114C3, 7),
     (0x115BF, 0x115BF, 9), (0x115C0, 0x115C0, 7), (0x1163F, 0x1163F, 9), (0x116B6, 0x116B6, 9),
     (0x116B7, 0x116B7, 7), (0x1172B, 0x1172B, 9), (0x11839, 0x11839, 9), (0x1183A, 0x1183A, 7),
     (0x1193D, 0x1193E, 9), (0x11943, 0x11943, 7), (0x119E0, 0x119E0, 9), (0x11A34, 0x11A34, 9),
     (0x11A47, 0x11A47, 9), (0x11A99, 0x11A99, 9), (0x11C3F, 0x11C3F, 9), (0x11D42, 0x11D42, 7),
     (0x11D44, 0x11D45, 9), (0x11D97, 0x11D97, 9), (0x16AF0, 0x16AF4, 1),
     (0x16B30, 0x16B36, 230)]"

definition combiningClasses_16FF0 :: "(nat \<times> nat \<times> nat) list" where
  "combiningClasses_16FF0 = [
     (0x16FF0, 0x16FF1, 6), (0x1BC9E, 0x1BC9E, 1), (0x1D165, 0x1D166, 216),
     (0x1D167, 0x1D169, 1), (0x1D16D, 0x1D16D, 226), (0x1D16E, 0x1D172, 216),
     (0x1D17B, 0x1D182, 220), (0x1D185, 0x1D189, 230), (0x1D18A, 0x1D18B, 220),
     (0x1D1AA, 0x1D1AD, 230), (0x1D242, 0x1D244, 230), (0x1E000, 0x1E006, 230),
     (0x1E008, 0x1E018, 230), (0x1E01B, 0x1E021, 230), (0x1E023, 0x1E024, 230),
     (0x1E026, 0x1E02A, 230), (0x1E130, 0x1E136, 230), (0x1E2AE, 0x1E2AE, 230),
     (0x1E2EC, 0x1E2EF, 230), (0x1E8D0, 0x1E8D6, 220), (0x1E944, 0x1E949, 230),
     (0x1E94A, 0x1E94A, 7)]"

definition combiningClassBlocks :: "(nat \<times> (nat \<times> nat \<times> nat) list) list" where
  "combiningClassBlocks = [
     (0x05A9, combiningClasses_0300), (0x065C, combiningClasses_05AA),
     (0x085B, combiningClasses_065D), (0x0C56, combiningClasses_0898),
     (0x1A7C, combiningClasses_0CBC), (0x1DF5, combiningClasses_1A7F),
     (0xA92D, combiningClasses_1DF6), (0x1107F, combiningClasses_A953),
     (0x16B36, combiningClasses_110B9), (0x1E94A, combiningClasses_16FF0)]"

definition combiningClass :: "nat \<Rightarrow> nat" where
  "combiningClass c =
     (case find (\<lambda>(lastKey, block). c \<le> lastKey) combiningClassBlocks of
        Some (lastKey, block) \<Rightarrow>
          (case find (\<lambda>(lo, hi, k). lo \<le> c \<and> c \<le> hi) block of
             Some (lo, hi, k) \<Rightarrow> k
           | None \<Rightarrow> 0)
      | None \<Rightarrow> 0)"

subsection \<open>Primary composites\<close>

text \<open>
  For every code point that can be the second of a canonical pair: the first code points
  it combines with, each with the composite.
\<close>

definition composites_0300 :: "(nat \<times> nat) list" where
  "composites_0300 = [
     (0x0041, 0x00C0), (0x0045, 0x00C8), (0x0049, 0x00CC), (0x004E, 0x01F8), (0x004F, 0x00D2),
     (0x0055, 0x00D9), (0x0057, 0x1E80), (0x0059, 0x1EF2), (0x0061, 0x00E0), (0x0065, 0x00E8),
     (0x0069, 0x00EC), (0x006E, 0x01F9), (0x006F, 0x00F2), (0x0075, 0x00F9), (0x0077, 0x1E81),
     (0x0079, 0x1EF3), (0x00A8, 0x1FED), (0x00C2, 0x1EA6), (0x00CA, 0x1EC0), (0x00D4, 0x1ED2),
     (0x00DC, 0x01DB), (0x00E2, 0x1EA7), (0x00EA, 0x1EC1), (0x00F4, 0x1ED3), (0x00FC, 0x01DC),
     (0x0102, 0x1EB0), (0x0103, 0x1EB1), (0x0112, 0x1E14), (0x0113, 0x1E15), (0x014C, 0x1E50),
     (0x014D, 0x1E51), (0x01A0, 0x1EDC), (0x01A1, 0x1EDD), (0x01AF, 0x1EEA), (0x01B0, 0x1EEB),
     (0x0391, 0x1FBA), (0x0395, 0x1FC8), (0x0397, 0x1FCA), (0x0399, 0x1FDA), (0x039F, 0x1FF8),
     (0x03A5, 0x1FEA), (0x03A9, 0x1FFA), (0x03B1, 0x1F70), (0x03B5, 0x1F72), (0x03B7, 0x1F74),
     (0x03B9, 0x1F76), (0x03BF, 0x1F78), (0x03C5, 0x1F7A), (0x03C9, 0x1F7C), (0x03CA, 0x1FD2),
     (0x03CB, 0x1FE2), (0x0415, 0x0400), (0x0418, 0x040D), (0x0435, 0x0450), (0x0438, 0x045D),
     (0x1F00, 0x1F02), (0x1F01, 0x1F03), (0x1F08, 0x1F0A), (0x1F09, 0x1F0B), (0x1F10, 0x1F12),
     (0x1F11, 0x1F13), (0x1F18, 0x1F1A), (0x1F19, 0x1F1B), (0x1F20, 0x1F22), (0x1F21, 0x1F23),
     (0x1F28, 0x1F2A), (0x1F29, 0x1F2B), (0x1F30, 0x1F32), (0x1F31, 0x1F33), (0x1F38, 0x1F3A),
     (0x1F39, 0x1F3B), (0x1F40, 0x1F42), (0x1F41, 0x1F43), (0x1F48, 0x1F4A), (0x1F49, 0x1F4B),
     (0x1F50, 0x1F52), (0x1F51, 0x1F53), (0x1F59, 0x1F5B), (0x1F60, 0x1F62), (0x1F61, 0x1F63),
     (0x1F68, 0x1F6A), (0x1F69, 0x1F6B), (0x1FBF, 0x1FCD), (0x1FFE, 0x1FDD)]"

definition composites_0301 :: "(nat \<times> nat) list" where
  "composites_0301 = [
     (0x0041, 0x00C1), (0x0043, 0x0106), (0x0045, 0x00C9), (0x0047, 0x01F4), (0x0049, 0x00CD),
     (0x004B, 0x1E30), (0x004C, 0x0139), (0x004D, 0x1E3E), (0x004E, 0x0143), (0x004F, 0x00D3),
     (0x0050, 0x1E54), (0x0052, 0x0154), (0x0053, 0x015A), (0x0055, 0x00DA), (0x0057, 0x1E82),
     (0x0059, 0x00DD), (0x005A, 0x0179), (0x0061, 0x00E1), (0x0063, 0x0107), (0x0065, 0x00E9),
     (0x0067, 0x01F5), (0x0069, 0x00ED), (0x006B, 0x1E31), (0x006C, 0x013A), (0x006D, 0x1E3F),
     (0x006E, 0x0144), (0x006F, 0x00F3), (0x0070, 0x1E55), (0x0072, 0x0155), (0x0073, 0x015B),
     (0x0075, 0x00FA), (0x0077, 0x1E83), (0x0079, 0x00FD), (0x007A, 0x017A), (0x00A8, 0x0385),
     (0x00C2, 0x1EA4), (0x00C5, 0x01FA), (0x00C6, 0x01FC), (0x00C7, 0x1E08), (0x00CA, 0x1EBE),
     (0x00CF, 0x1E2E), (0x00D4, 0x1ED0), (0x00D5, 0x1E4C), (0x00D8, 0x01FE), (0x00DC, 0x01D7),
     (0x00E2, 0x1EA5), (0x00E5, 0x01FB), (0x00E6, 0x01FD), (0x00E7, 0x1E09), (0x00EA, 0x1EBF),
     (0x00EF, 0x1E2F), (0x00F4, 0x1ED1), (0x00F5, 0x1E4D), (0x00F8, 0x01FF), (0x00FC, 0x01D8),
     (0x0102, 0x1EAE), (0x0103, 0x1EAF), (0x0112, 0x1E16), (0x0113, 0x1E17), (0x014C, 0x1E52),
     (0x014D, 0x1E53), (0x0168, 0x1E78), (0x0169, 0x1E79), (0x01A0, 0x1EDA), (0x01A1, 0x1EDB),
     (0x01AF, 0x1EE8), (0x01B0, 0x1EE9), (0x0391, 0x0386), (0x0395, 0x0388), (0x0397, 0x0389),
     (0x0399, 0x038A), (0x039F, 0x038C), (0x03A5, 0x038E), (0x03A9, 0x038F), (0x03B1, 0x03AC),
     (0x03B5, 0x03AD), (0x03B7, 0x03AE), (0x03B9, 0x03AF), (0x03BF, 0x03CC), (0x03C5, 0x03CD),
     (0x03C9, 0x03CE), (0x03CA, 0x0390), (0x03CB, 0x03B0), (0x03D2, 0x03D3), (0x0413, 0x0403),
     (0x041A, 0x040C), (0x0433, 0x0453), (0x043A, 0x045C), (0x1F00, 0x1F04), (0x1F01, 0x1F05),
     (0x1F08, 0x1F0C), (0x1F09, 0x1F0D), (0x1F10, 0x1F14), (0x1F11, 0x1F15), (0x1F18, 0x1F1C),
     (0x1F19, 0x1F1D), (0x1F20, 0x1F24), (0x1F21, 0x1F25), (0x1F28, 0x1F2C), (0x1F29, 0x1F2D),
     (0x1F30, 0x1F34), (0x1F31, 0x1F35), (0x1F38, 0x1F3C), (0x1F39, 0x1F3D), (0x1F40, 0x1F44),
     (0x1F41, 0x1F45), (0x1F48, 0x1F4C), (0x1F49, 0x1F4D), (0x1F50, 0x1F54), (0x1F51, 0x1F55),
     (0x1F59, 0x1F5D), (0x1F60, 0x1F64), (0x1F61, 0x1F65), (0x1F68, 0x1F6C), (0x1F69, 0x1F6D),
     (0x1FBF, 0x1FCE), (0x1FFE, 0x1FDE)]"

definition composites_0302 :: "(nat \<times> nat) list" where
  "composites_0302 = [
     (0x0041, 0x00C2), (0x0043, 0x0108), (0x0045, 0x00CA), (0x0047, 0x011C), (0x0048, 0x0124),
     (0x0049, 0x00CE), (0x004A, 0x0134), (0x004F, 0x00D4), (0x0053, 0x015C), (0x0055, 0x00DB),
     (0x0057, 0x0174), (0x0059, 0x0176), (0x005A, 0x1E90), (0x0061, 0x00E2), (0x0063, 0x0109),
     (0x0065, 0x00EA), (0x0067, 0x011D), (0x0068, 0x0125), (0x0069, 0x00EE), (0x006A, 0x0135),
     (0x006F, 0x00F4), (0x0073, 0x015D), (0x0075, 0x00FB), (0x0077, 0x0175), (0x0079, 0x0177),
     (0x007A, 0x1E91), (0x1EA0, 0x1EAC), (0x1EA1, 0x1EAD), (0x1EB8, 0x1EC6), (0x1EB9, 0x1EC7),
     (0x1ECC, 0x1ED8), (0x1ECD, 0x1ED9)]"

definition composites_0303 :: "(nat \<times> nat) list" where
  "composites_0303 = [
     (0x0041, 0x00C3), (0x0045, 0x1EBC), (0x0049, 0x0128), (0x004E, 0x00D1), (0x004F, 0x00D5),
     (0x0055, 0x0168), (0x0056, 0x1E7C), (0x0059, 0x1EF8), (0x0061, 0x00E3), (0x0065, 0x1EBD),
     (0x0069, 0x0129), (0x006E, 0x00F1), (0x006F, 0x00F5), (0x0075, 0x0169), (0x0076, 0x1E7D),
     (0x0079, 0x1EF9), (0x00C2, 0x1EAA), (0x00CA, 0x1EC4), (0x00D4, 0x1ED6), (0x00E2, 0x1EAB),
     (0x00EA, 0x1EC5), (0x00F4, 0x1ED7), (0x0102, 0x1EB4), (0x0103, 0x1EB5), (0x01A0, 0x1EE0),
     (0x01A1, 0x1EE1), (0x01AF, 0x1EEE), (0x01B0, 0x1EEF)]"

definition composites_0304 :: "(nat \<times> nat) list" where
  "composites_0304 = [
     (0x0041, 0x0100), (0x0045, 0x0112), (0x0047, 0x1E20), (0x0049, 0x012A), (0x004F, 0x014C),
     (0x0055, 0x016A), (0x0059, 0x0232), (0x0061, 0x0101), (0x0065, 0x0113), (0x0067, 0x1E21),
     (0x0069, 0x012B), (0x006F, 0x014D), (0x0075, 0x016B), (0x0079, 0x0233), (0x00C4, 0x01DE),
     (0x00C6, 0x01E2), (0x00D5, 0x022C), (0x00D6, 0x022A), (0x00DC, 0x01D5), (0x00E4, 0x01DF),
     (0x00E6, 0x01E3), (0x00F5, 0x022D), (0x00F6, 0x022B), (0x00FC, 0x01D6), (0x01EA, 0x01EC),
     (0x01EB, 0x01ED), (0x0226, 0x01E0), (0x0227, 0x01E1), (0x022E, 0x0230), (0x022F, 0x0231),
     (0x0391, 0x1FB9), (0x0399, 0x1FD9), (0x03A5, 0x1FE9), (0x03B1, 0x1FB1), (0x03B9, 0x1FD1),
     (0x03C5, 0x1FE1), (0x0418, 0x04E2), (0x0423, 0x04EE), (0x0438, 0x04E3), (0x0443, 0x04EF),
     (0x1E36, 0x1E38), (0x1E37, 0x1E39), (0x1E5A, 0x1E5C), (0x1E5B, 0x1E5D)]"

definition composites_0306 :: "(nat \<times> nat) list" where
  "composites_0306 = [
     (0x0041, 0x0102), (0x0045, 0x0114), (0x0047, 0x011E), (0x0049, 0x012C), (0x004F, 0x014E),
     (0x0055, 0x016C), (0x0061, 0x0103), (0x0065, 0x0115), (0x0067, 0x011F), (0x0069, 0x012D),
     (0x006F, 0x014F), (0x0075, 0x016D), (0x0228, 0x1E1C), (0x0229, 0x1E1D), (0x0391, 0x1FB8),
     (0x0399, 0x1FD8), (0x03A5, 0x1FE8), (0x03B1, 0x1FB0), (0x03B9, 0x1FD0), (0x03C5, 0x1FE0),
     (0x0410, 0x04D0), (0x0415, 0x04D6), (0x0416, 0x04C1), (0x0418, 0x0419), (0x0423, 0x040E),
     (0x0430, 0x04D1), (0x0435, 0x04D7), (0x0436, 0x04C2), (0x0438, 0x0439), (0x0443, 0x045E),
     (0x1EA0, 0x1EB6), (0x1EA1, 0x1EB7)]"

definition composites_0307 :: "(nat \<times> nat) list" where
  "composites_0307 = [
     (0x0041, 0x0226), (0x0042, 0x1E02), (0x0043, 0x010A), (0x0044, 0x1E0A), (0x0045, 0x0116),
     (0x0046, 0x1E1E), (0x0047, 0x0120), (0x0048, 0x1E22), (0x0049, 0x0130), (0x004D, 0x1E40),
     (0x004E, 0x1E44), (0x004F, 0x022E), (0x0050, 0x1E56), (0x0052, 0x1E58), (0x0053, 0x1E60),
     (0x0054, 0x1E6A), (0x0057, 0x1E86), (0x0058, 0x1E8A), (0x0059, 0x1E8E), (0x005A, 0x017B),
     (0x0061, 0x0227), (0x0062, 0x1E03), (0x0063, 0x010B), (0x0064, 0x1E0B), (0x0065, 0x0117),
     (0x0066, 0x1E1F), (0x0067, 0x0121), (0x0068, 0x1E23), (0x006D, 0x1E41), (0x006E, 0x1E45),
     (0x006F, 0x022F), (0x0070, 0x1E57), (0x0072, 0x1E59), (0x0073, 0x1E61), (0x0074, 0x1E6B),
     (0x0077, 0x1E87), (0x0078, 0x1E8B), (0x0079, 0x1E8F), (0x007A, 0x017C), (0x015A, 0x1E64),
     (0x015B, 0x1E65), (0x0160, 0x1E66), (0x0161, 0x1E67), (0x017F, 0x1E9B), (0x1E62, 0x1E68),
     (0x1E63, 0x1E69)]"

definition composites_0308 :: "(nat \<times> nat) list" where
  "composites_0308 = [
     (0x0041, 0x00C4), (0x0045, 0x00CB), (0x0048, 0x1E26), (0x0049, 0x00CF), (0x004F, 0x00D6),
     (0x0055, 0x00DC), (0x0057, 0x1E84), (0x0058, 0x1E8C), (0x0059, 0x0178), (0x0061, 0x00E4),
     (0x0065, 0x00EB), (0x0068, 0x1E27), (0x0069, 0x00EF), (0x006F, 0x00F6), (0x0074, 0x1E97),
     (0x0075, 0x00FC), (0x0077, 0x1E85), (0x0078, 0x1E8D), (0x0079, 0x00FF), (0x00D5, 0x1E4E),
     (0x00F5, 0x1E4F), (0x016A, 0x1E7A), (0x016B, 0x1E7B), (0x0399, 0x03AA), (0x03A5, 0x03AB),
     (0x03B9, 0x03CA), (0x03C5, 0x03CB), (0x03D2, 0x03D4), (0x0406, 0x0407), (0x0410, 0x04D2),
     (0x0415, 0x0401), (0x0416, 0x04DC), (0x0417, 0x04DE), (0x0418, 0x04E4), (0x041E, 0x04E6),
     (0x0423, 0x04F0), (0x0427, 0x04F4), (0x042B, 0x04F8), (0x042D, 0x04EC), (0x0430, 0x04D3),
     (0x0435, 0x0451), (0x0436, 0x04DD), (0x0437, 0x04DF), (0x0438, 0x04E5), (0x043E, 0x04E7),
     (0x0443, 0x04F1), (0x0447, 0x04F5), (0x044B, 0x04F9), (0x044D, 0x04ED), (0x0456, 0x0457),
     (0x04D8, 0x04DA), (0x04D9, 0x04DB), (0x04E8, 0x04EA), (0x04E9, 0x04EB)]"

definition composites_0309 :: "(nat \<times> nat) list" where
  "composites_0309 = [
     (0x0041, 0x1EA2), (0x0045, 0x1EBA), (0x0049, 0x1EC8), (0x004F, 0x1ECE), (0x0055, 0x1EE6),
     (0x0059, 0x1EF6), (0x0061, 0x1EA3), (0x0065, 0x1EBB), (0x0069, 0x1EC9), (0x006F, 0x1ECF),
     (0x0075, 0x1EE7), (0x0079, 0x1EF7), (0x00C2, 0x1EA8), (0x00CA, 0x1EC2), (0x00D4, 0x1ED4),
     (0x00E2, 0x1EA9), (0x00EA, 0x1EC3), (0x00F4, 0x1ED5), (0x0102, 0x1EB2), (0x0103, 0x1EB3),
     (0x01A0, 0x1EDE), (0x01A1, 0x1EDF), (0x01AF, 0x1EEC), (0x01B0, 0x1EED)]"

definition composites_030A :: "(nat \<times> nat) list" where
  "composites_030A = [
     (0x0041, 0x00C5), (0x0055, 0x016E), (0x0061, 0x00E5), (0x0075, 0x016F), (0x0077, 0x1E98),
     (0x0079, 0x1E99)]"

definition composites_030B :: "(nat \<times> nat) list" where
  "composites_030B = [
     (0x004F, 0x0150), (0x0055, 0x0170), (0x006F, 0x0151), (0x0075, 0x0171), (0x0423, 0x04F2),
     (0x0443, 0x04F3)]"

definition composites_030C :: "(nat \<times> nat) list" where
  "composites_030C = [
     (0x0041, 0x01CD), (0x0043, 0x010C), (0x0044, 0x010E), (0x0045, 0x011A), (0x0047, 0x01E6),
     (0x0048, 0x021E), (0x0049, 0x01CF), (0x004B, 0x01E8), (0x004C, 0x013D), (0x004E, 0x0147),
     (0x004F, 0x01D1), (0x0052, 0x0158), (0x0053, 0x0160), (0x0054, 0x0164), (0x0055, 0x01D3),
     (0x005A, 0x017D), (0x0061, 0x01CE), (0x0063, 0x010D), (0x0064, 0x010F), (0x0065, 0x011B),
     (0x0067, 0x01E7), (0x0068, 0x021F), (0x0069, 0x01D0), (0x006A, 0x01F0), (0x006B, 0x01E9),
     (0x006C, 0x013E), (0x006E, 0x0148), (0x006F, 0x01D2), (0x0072, 0x0159), (0x0073, 0x0161),
     (0x0074, 0x0165), (0x0075, 0x01D4), (0x007A, 0x017E), (0x00DC, 0x01D9), (0x00FC, 0x01DA),
     (0x01B7, 0x01EE), (0x0292, 0x01EF)]"

definition composites_030F :: "(nat \<times> nat) list" where
  "composites_030F = [
     (0x0041, 0x0200), (0x0045, 0x0204), (0x0049, 0x0208), (0x004F, 0x020C), (0x0052, 0x0210),
     (0x0055, 0x0214), (0x0061, 0x0201), (0x0065, 0x0205), (0x0069, 0x0209), (0x006F, 0x020D),
     (0x0072, 0x0211), (0x0075, 0x0215), (0x0474, 0x0476), (0x0475, 0x0477)]"

definition composites_0311 :: "(nat \<times> nat) list" where
  "composites_0311 = [
     (0x0041, 0x0202), (0x0045, 0x0206), (0x0049, 0x020A), (0x004F, 0x020E), (0x0052, 0x0212),
     (0x0055, 0x0216), (0x0061, 0x0203), (0x0065, 0x0207), (0x0069, 0x020B), (0x006F, 0x020F),
     (0x0072, 0x0213), (0x0075, 0x0217)]"

definition composites_0313 :: "(nat \<times> nat) list" where
  "composites_0313 = [
     (0x0391, 0x1F08), (0x0395, 0x1F18), (0x0397, 0x1F28), (0x0399, 0x1F38), (0x039F, 0x1F48),
     (0x03A9, 0x1F68), (0x03B1, 0x1F00), (0x03B5, 0x1F10), (0x03B7, 0x1F20), (0x03B9, 0x1F30),
     (0x03BF, 0x1F40), (0x03C1, 0x1FE4), (0x03C5, 0x1F50), (0x03C9, 0x1F60)]"

definition composites_0314 :: "(nat \<times> nat) list" where
  "composites_0314 = [
     (0x0391, 0x1F09), (0x0395, 0x1F19), (0x0397, 0x1F29), (0x0399, 0x1F39), (0x039F, 0x1F49),
     (0x03A1, 0x1FEC), (0x03A5, 0x1F59), (0x03A9, 0x1F69), (0x03B1, 0x1F01), (0x03B5, 0x1F11),
     (0x03B7, 0x1F21), (0x03B9, 0x1F31), (0x03BF, 0x1F41), (0x03C1, 0x1FE5), (0x03C5, 0x1F51),
     (0x03C9, 0x1F61)]"

definition composites_031B :: "(nat \<times> nat) list" where
  "composites_031B = [
     (0x004F, 0x01A0), (0x0055, 0x01AF), (0x006F, 0x01A1), (0x0075, 0x01B0)]"

definition composites_0323 :: "(nat \<times> nat) list" where
  "composites_0323 = [
     (0x0041, 0x1EA0), (0x0042, 0x1E04), (0x0044, 0x1E0C), (0x0045, 0x1EB8), (0x0048, 0x1E24),
     (0x0049, 0x1ECA), (0x004B, 0x1E32), (0x004C, 0x1E36), (0x004D, 0x1E42), (0x004E, 0x1E46),
     (0x004F, 0x1ECC), (0x0052, 0x1E5A), (0x0053, 0x1E62), (0x0054, 0x1E6C), (0x0055, 0x1EE4),
     (0x0056, 0x1E7E), (0x0057, 0x1E88), (0x0059, 0x1EF4), (0x005A, 0x1E92), (0x0061, 0x1EA1),
     (0x0062, 0x1E05), (0x0064, 0x1E0D), (0x0065, 0x1EB9), (0x0068, 0x1E25), (0x0069, 0x1ECB),
     (0x006B, 0x1E33), (0x006C, 0x1E37), (0x006D, 0x1E43), (0x006E, 0x1E47), (0x006F, 0x1ECD),
     (0x0072, 0x1E5B), (0x0073, 0x1E63), (0x0074, 0x1E6D), (0x0075, 0x1EE5), (0x0076, 0x1E7F),
     (0x0077, 0x1E89), (0x0079, 0x1EF5), (0x007A, 0x1E93), (0x01A0, 0x1EE2), (0x01A1, 0x1EE3),
     (0x01AF, 0x1EF0), (0x01B0, 0x1EF1)]"

definition composites_0324 :: "(nat \<times> nat) list" where
  "composites_0324 = [
     (0x0055, 0x1E72), (0x0075, 0x1E73)]"

definition composites_0325 :: "(nat \<times> nat) list" where
  "composites_0325 = [
     (0x0041, 0x1E00), (0x0061, 0x1E01)]"

definition composites_0326 :: "(nat \<times> nat) list" where
  "composites_0326 = [
     (0x0053, 0x0218), (0x0054, 0x021A), (0x0073, 0x0219), (0x0074, 0x021B)]"

definition composites_0327 :: "(nat \<times> nat) list" where
  "composites_0327 = [
     (0x0043, 0x00C7), (0x0044, 0x1E10), (0x0045, 0x0228), (0x0047, 0x0122), (0x0048, 0x1E28),
     (0x004B, 0x0136), (0x004C, 0x013B), (0x004E, 0x0145), (0x0052, 0x0156), (0x0053, 0x015E),
     (0x0054, 0x0162), (0x0063, 0x00E7), (0x0064, 0x1E11), (0x0065, 0x0229), (0x0067, 0x0123),
     (0x0068, 0x1E29), (0x006B, 0x0137), (0x006C, 0x013C), (0x006E, 0x0146), (0x0072, 0x0157),
     (0x0073, 0x015F), (0x0074, 0x0163)]"

definition composites_0328 :: "(nat \<times> nat) list" where
  "composites_0328 = [
     (0x0041, 0x0104), (0x0045, 0x0118), (0x0049, 0x012E), (0x004F, 0x01EA), (0x0055, 0x0172),
     (0x0061, 0x0105), (0x0065, 0x0119), (0x0069, 0x012F), (0x006F, 0x01EB), (0x0075, 0x0173)]"

definition composites_032D :: "(nat \<times> nat) list" where
  "composites_032D = [
     (0x0044, 0x1E12), (0x0045, 0x1E18), (0x004C, 0x1E3C), (0x004E, 0x1E4A), (0x0054, 0x1E70),
     (0x0055, 0x1E76), (0x0064, 0x1E13), (0x0065, 0x1E19), (0x006C, 0x1E3D), (0x006E, 0x1E4B),
     (0x0074, 0x1E71), (0x0075, 0x1E77)]"

definition composites_032E :: "(nat \<times> nat) list" where
  "composites_032E = [
     (0x0048, 0x1E2A), (0x0068, 0x1E2B)]"

definition composites_0330 :: "(nat \<times> nat) list" where
  "composites_0330 = [
     (0x0045, 0x1E1A), (0x0049, 0x1E2C), (0x0055, 0x1E74), (0x0065, 0x1E1B), (0x0069, 0x1E2D),
     (0x0075, 0x1E75)]"

definition composites_0331 :: "(nat \<times> nat) list" where
  "composites_0331 = [
     (0x0042, 0x1E06), (0x0044, 0x1E0E), (0x004B, 0x1E34), (0x004C, 0x1E3A), (0x004E, 0x1E48),
     (0x0052, 0x1E5E), (0x0054, 0x1E6E), (0x005A, 0x1E94), (0x0062, 0x1E07), (0x0064, 0x1E0F),
     (0x0068, 0x1E96), (0x006B, 0x1E35), (0x006C, 0x1E3B), (0x006E, 0x1E49), (0x0072, 0x1E5F),
     (0x0074, 0x1E6F), (0x007A, 0x1E95)]"

definition composites_0338 :: "(nat \<times> nat) list" where
  "composites_0338 = [
     (0x003C, 0x226E), (0x003D, 0x2260), (0x003E, 0x226F), (0x2190, 0x219A), (0x2192, 0x219B),
     (0x2194, 0x21AE), (0x21D0, 0x21CD), (0x21D2, 0x21CF), (0x21D4, 0x21CE), (0x2203, 0x2204),
     (0x2208, 0x2209), (0x220B, 0x220C), (0x2223, 0x2224), (0x2225, 0x2226), (0x223C, 0x2241),
     (0x2243, 0x2244), (0x2245, 0x2247), (0x2248, 0x2249), (0x224D, 0x226D), (0x2261, 0x2262),
     (0x2264, 0x2270), (0x2265, 0x2271), (0x2272, 0x2274), (0x2273, 0x2275), (0x2276, 0x2278),
     (0x2277, 0x2279), (0x227A, 0x2280), (0x227B, 0x2281), (0x227C, 0x22E0), (0x227D, 0x22E1),
     (0x2282, 0x2284), (0x2283, 0x2285), (0x2286, 0x2288), (0x2287, 0x2289), (0x2291, 0x22E2),
     (0x2292, 0x22E3), (0x22A2, 0x22AC), (0x22A8, 0x22AD), (0x22A9, 0x22AE), (0x22AB, 0x22AF),
     (0x22B2, 0x22EA), (0x22B3, 0x22EB), (0x22B4, 0x22EC), (0x22B5, 0x22ED)]"

definition composites_0342 :: "(nat \<times> nat) list" where
  "composites_0342 = [
     (0x00A8, 0x1FC1), (0x03B1, 0x1FB6), (0x03B7, 0x1FC6), (0x03B9, 0x1FD6), (0x03C5, 0x1FE6),
     (0x03C9, 0x1FF6), (0x03CA, 0x1FD7), (0x03CB, 0x1FE7), (0x1F00, 0x1F06), (0x1F01, 0x1F07),
     (0x1F08, 0x1F0E), (0x1F09, 0x1F0F), (0x1F20, 0x1F26), (0x1F21, 0x1F27), (0x1F28, 0x1F2E),
     (0x1F29, 0x1F2F), (0x1F30, 0x1F36), (0x1F31, 0x1F37), (0x1F38, 0x1F3E), (0x1F39, 0x1F3F),
     (0x1F50, 0x1F56), (0x1F51, 0x1F57), (0x1F59, 0x1F5F), (0x1F60, 0x1F66), (0x1F61, 0x1F67),
     (0x1F68, 0x1F6E), (0x1F69, 0x1F6F), (0x1FBF, 0x1FCF), (0x1FFE, 0x1FDF)]"

definition composites_0345 :: "(nat \<times> nat) list" where
  "composites_0345 = [
     (0x0391, 0x1FBC), (0x0397, 0x1FCC), (0x03A9, 0x1FFC), (0x03AC, 0x1FB4), (0x03AE, 0x1FC4),
     (0x03B1, 0x1FB3), (0x03B7, 0x1FC3), (0x03C9, 0x1FF3), (0x03CE, 0x1FF4), (0x1F00, 0x1F80),
     (0x1F01, 0x1F81), (0x1F02, 0x1F82), (0x1F03, 0x1F83), (0x1F04, 0x1F84), (0x1F05, 0x1F85),
     (0x1F06, 0x1F86), (0x1F07, 0x1F87), (0x1F08, 0x1F88), (0x1F09, 0x1F89), (0x1F0A, 0x1F8A),
     (0x1F0B, 0x1F8B), (0x1F0C, 0x1F8C), (0x1F0D, 0x1F8D), (0x1F0E, 0x1F8E), (0x1F0F, 0x1F8F),
     (0x1F20, 0x1F90), (0x1F21, 0x1F91), (0x1F22, 0x1F92), (0x1F23, 0x1F93), (0x1F24, 0x1F94),
     (0x1F25, 0x1F95), (0x1F26, 0x1F96), (0x1F27, 0x1F97), (0x1F28, 0x1F98), (0x1F29, 0x1F99),
     (0x1F2A, 0x1F9A), (0x1F2B, 0x1F9B), (0x1F2C, 0x1F9C), (0x1F2D, 0x1F9D), (0x1F2E, 0x1F9E),
     (0x1F2F, 0x1F9F), (0x1F60, 0x1FA0), (0x1F61, 0x1FA1), (0x1F62, 0x1FA2), (0x1F63, 0x1FA3),
     (0x1F64, 0x1FA4), (0x1F65, 0x1FA5), (0x1F66, 0x1FA6), (0x1F67, 0x1FA7), (0x1F68, 0x1FA8),
     (0x1F69, 0x1FA9), (0x1F6A, 0x1FAA), (0x1F6B, 0x1FAB), (0x1F6C, 0x1FAC), (0x1F6D, 0x1FAD),
     (0x1F6E, 0x1FAE), (0x1F6F, 0x1FAF), (0x1F70, 0x1FB2), (0x1F74, 0x1FC2), (0x1F7C, 0x1FF2),
     (0x1FB6, 0x1FB7), (0x1FC6, 0x1FC7), (0x1FF6, 0x1FF7)]"

definition composites_0653 :: "(nat \<times> nat) list" where
  "composites_0653 = [
     (0x0627, 0x0622)]"

definition composites_0654 :: "(nat \<times> nat) list" where
  "composites_0654 = [
     (0x0627, 0x0623), (0x0648, 0x0624), (0x064A, 0x0626), (0x06C1, 0x06C2), (0x06D2, 0x06D3),
     (0x06D5, 0x06C0)]"

definition composites_0655 :: "(nat \<times> nat) list" where
  "composites_0655 = [
     (0x0627, 0x0625)]"

definition composites_093C :: "(nat \<times> nat) list" where
  "composites_093C = [
     (0x0928, 0x0929), (0x0930, 0x0931), (0x0933, 0x0934)]"

definition composites_09BE :: "(nat \<times> nat) list" where
  "composites_09BE = [
     (0x09C7, 0x09CB)]"

definition composites_09D7 :: "(nat \<times> nat) list" where
  "composites_09D7 = [
     (0x09C7, 0x09CC)]"

definition composites_0B3E :: "(nat \<times> nat) list" where
  "composites_0B3E = [
     (0x0B47, 0x0B4B)]"

definition composites_0B56 :: "(nat \<times> nat) list" where
  "composites_0B56 = [
     (0x0B47, 0x0B48)]"

definition composites_0B57 :: "(nat \<times> nat) list" where
  "composites_0B57 = [
     (0x0B47, 0x0B4C)]"

definition composites_0BBE :: "(nat \<times> nat) list" where
  "composites_0BBE = [
     (0x0BC6, 0x0BCA), (0x0BC7, 0x0BCB)]"

definition composites_0BD7 :: "(nat \<times> nat) list" where
  "composites_0BD7 = [
     (0x0B92, 0x0B94), (0x0BC6, 0x0BCC)]"

definition composites_0C56 :: "(nat \<times> nat) list" where
  "composites_0C56 = [
     (0x0C46, 0x0C48)]"

definition composites_0CC2 :: "(nat \<times> nat) list" where
  "composites_0CC2 = [
     (0x0CC6, 0x0CCA)]"

definition composites_0CD5 :: "(nat \<times> nat) list" where
  "composites_0CD5 = [
     (0x0CBF, 0x0CC0), (0x0CC6, 0x0CC7), (0x0CCA, 0x0CCB)]"

definition composites_0CD6 :: "(nat \<times> nat) list" where
  "composites_0CD6 = [
     (0x0CC6, 0x0CC8)]"

definition composites_0D3E :: "(nat \<times> nat) list" where
  "composites_0D3E = [
     (0x0D46, 0x0D4A), (0x0D47, 0x0D4B)]"

definition composites_0D57 :: "(nat \<times> nat) list" where
  "composites_0D57 = [
     (0x0D46, 0x0D4C)]"

definition composites_0DCA :: "(nat \<times> nat) list" where
  "composites_0DCA = [
     (0x0DD9, 0x0DDA), (0x0DDC, 0x0DDD)]"

definition composites_0DCF :: "(nat \<times> nat) list" where
  "composites_0DCF = [
     (0x0DD9, 0x0DDC)]"

definition composites_0DDF :: "(nat \<times> nat) list" where
  "composites_0DDF = [
     (0x0DD9, 0x0DDE)]"

definition composites_102E :: "(nat \<times> nat) list" where
  "composites_102E = [
     (0x1025, 0x1026)]"

definition composites_1B35 :: "(nat \<times> nat) list" where
  "composites_1B35 = [
     (0x1B05, 0x1B06), (0x1B07, 0x1B08), (0x1B09, 0x1B0A), (0x1B0B, 0x1B0C), (0x1B0D, 0x1B0E),
     (0x1B11, 0x1B12), (0x1B3A, 0x1B3B), (0x1B3C, 0x1B3D), (0x1B3E, 0x1B40), (0x1B3F, 0x1B41),
     (0x1B42, 0x1B43)]"

definition composites_3099 :: "(nat \<times> nat) list" where
  "composites_3099 = [
     (0x3046, 0x3094), (0x304B, 0x304C), (0x304D, 0x304E), (0x304F, 0x3050), (0x3051, 0x3052),
     (0x3053, 0x3054), (0x3055, 0x3056), (0x3057, 0x3058), (0x3059, 0x305A), (0x305B, 0x305C),
     (0x305D, 0x305E), (0x305F, 0x3060), (0x3061, 0x3062), (0x3064, 0x3065), (0x3066, 0x3067),
     (0x3068, 0x3069), (0x306F, 0x3070), (0x3072, 0x3073), (0x3075, 0x3076), (0x3078, 0x3079),
     (0x307B, 0x307C), (0x309D, 0x309E), (0x30A6, 0x30F4), (0x30AB, 0x30AC), (0x30AD, 0x30AE),
     (0x30AF, 0x30B0), (0x30B1, 0x30B2), (0x30B3, 0x30B4), (0x30B5, 0x30B6), (0x30B7, 0x30B8),
     (0x30B9, 0x30BA), (0x30BB, 0x30BC), (0x30BD, 0x30BE), (0x30BF, 0x30C0), (0x30C1, 0x30C2),
     (0x30C4, 0x30C5), (0x30C6, 0x30C7), (0x30C8, 0x30C9), (0x30CF, 0x30D0), (0x30D2, 0x30D3),
     (0x30D5, 0x30D6), (0x30D8, 0x30D9), (0x30DB, 0x30DC), (0x30EF, 0x30F7), (0x30F0, 0x30F8),
     (0x30F1, 0x30F9), (0x30F2, 0x30FA), (0x30FD, 0x30FE)]"

definition composites_309A :: "(nat \<times> nat) list" where
  "composites_309A = [
     (0x306F, 0x3071), (0x3072, 0x3074), (0x3075, 0x3077), (0x3078, 0x307A), (0x307B, 0x307D),
     (0x30CF, 0x30D1), (0x30D2, 0x30D4), (0x30D5, 0x30D7), (0x30D8, 0x30DA), (0x30DB, 0x30DD)]"

definition composites_110BA :: "(nat \<times> nat) list" where
  "composites_110BA = [
     (0x11099, 0x1109A), (0x1109B, 0x1109C), (0x110A5, 0x110AB)]"

definition composites_11127 :: "(nat \<times> nat) list" where
  "composites_11127 = [
     (0x11131, 0x1112E), (0x11132, 0x1112F)]"

definition composites_1133E :: "(nat \<times> nat) list" where
  "composites_1133E = [
     (0x11347, 0x1134B)]"

definition composites_11357 :: "(nat \<times> nat) list" where
  "composites_11357 = [
     (0x11347, 0x1134C)]"

definition composites_114B0 :: "(nat \<times> nat) list" where
  "composites_114B0 = [
     (0x114B9, 0x114BC)]"

definition composites_114BA :: "(nat \<times> nat) list" where
  "composites_114BA = [
     (0x114B9, 0x114BB)]"

definition composites_114BD :: "(nat \<times> nat) list" where
  "composites_114BD = [
     (0x114B9, 0x114BE)]"

definition composites_115AF :: "(nat \<times> nat) list" where
  "composites_115AF = [
     (0x115B8, 0x115BA), (0x115B9, 0x115BB)]"

definition composites_11930 :: "(nat \<times> nat) list" where
  "composites_11930 = [
     (0x11935, 0x11938)]"

definition compositionBlocks :: "(nat \<times> (nat \<times> nat) list) list" where
  "compositionBlocks = [
     (0x0300, composites_0300), (0x0301, composites_0301), (0x0302, composites_0302),
     (0x0303, composites_0303), (0x0304, composites_0304), (0x0306, composites_0306),
     (0x0307, composites_0307), (0x0308, composites_0308), (0x0309, composites_0309),
     (0x030A, composites_030A), (0x030B, composites_030B), (0x030C, composites_030C),
     (0x030F, composites_030F), (0x0311, composites_0311), (0x0313, composites_0313),
     (0x0314, composites_0314), (0x031B, composites_031B), (0x0323, composites_0323),
     (0x0324, composites_0324), (0x0325, composites_0325), (0x0326, composites_0326),
     (0x0327, composites_0327), (0x0328, composites_0328), (0x032D, composites_032D),
     (0x032E, composites_032E), (0x0330, composites_0330), (0x0331, composites_0331),
     (0x0338, composites_0338), (0x0342, composites_0342), (0x0345, composites_0345),
     (0x0653, composites_0653), (0x0654, composites_0654), (0x0655, composites_0655),
     (0x093C, composites_093C), (0x09BE, composites_09BE), (0x09D7, composites_09D7),
     (0x0B3E, composites_0B3E), (0x0B56, composites_0B56), (0x0B57, composites_0B57),
     (0x0BBE, composites_0BBE), (0x0BD7, composites_0BD7), (0x0C56, composites_0C56),
     (0x0CC2, composites_0CC2), (0x0CD5, composites_0CD5), (0x0CD6, composites_0CD6),
     (0x0D3E, composites_0D3E), (0x0D57, composites_0D57), (0x0DCA, composites_0DCA),
     (0x0DCF, composites_0DCF), (0x0DDF, composites_0DDF), (0x102E, composites_102E),
     (0x1B35, composites_1B35), (0x3099, composites_3099), (0x309A, composites_309A),
     (0x110BA, composites_110BA), (0x11127, composites_11127), (0x1133E, composites_1133E),
     (0x11357, composites_11357), (0x114B0, composites_114B0), (0x114BA, composites_114BA),
     (0x114BD, composites_114BD), (0x115AF, composites_115AF), (0x11930, composites_11930)]"
subsection \<open>The algorithm\<close>

text \<open>
  A JavaScript string is read as code points: a high surrogate directly followed by a low
  surrogate is one code point above U+FFFF, every other code unit is the code point of
  its own value, a lone surrogate included. The way back writes a code point above
  U+FFFF as its surrogate pair.
\<close>

definition isHighSurrogate :: "nat \<Rightarrow> bool" where
  "isHighSurrogate c \<longleftrightarrow> 0xD800 \<le> c \<and> c \<le> 0xDBFF"

definition isLowSurrogate :: "nat \<Rightarrow> bool" where
  "isLowSurrogate c \<longleftrightarrow> 0xDC00 \<le> c \<and> c \<le> 0xDFFF"

fun toCodePoints :: "jsstring \<Rightarrow> nat list" where
  "toCodePoints (a # b # rest) =
     (if isHighSurrogate a \<and> isLowSurrogate b
      then (0x10000 + (a - 0xD800) * 0x400 + (b - 0xDC00)) # toCodePoints rest
      else a # toCodePoints (b # rest))"
| "toCodePoints s = s"

definition fromCodePoints :: "nat list \<Rightarrow> jsstring" where
  "fromCodePoints cs =
     concat (map (\<lambda>c. if c < 0x10000 then [c]
                       else [0xD800 + (c - 0x10000) div 0x400, 0xDC00 + (c - 0x10000) mod 0x400]) cs)"

text \<open>
  The decomposition of a Hangul syllable U+AC00 to U+D7A3 into its leading consonant,
  vowel and, if it has one, trailing consonant.
\<close>

definition hangulDecomposition :: "nat \<Rightarrow> nat list" where
  "hangulDecomposition c =
     (let s = c - 0xAC00;
          l = 0x1100 + s div 588;
          v = 0x1161 + (s mod 588) div 28;
          t = s mod 28
      in if t = 0 then [l, v] else [l, v, 0x11A7 + t])"

definition decomposeCodePoint :: "nat \<Rightarrow> nat list" where
  "decomposeCodePoint c =
     (if 0xAC00 \<le> c \<and> c \<le> 0xD7A3 then hangulDecomposition c
      else (case canonicalDecomposition c of Some d \<Rightarrow> d | None \<Rightarrow> [c]))"

text \<open>
  Canonical ordering: within every run of code points of class other than 0, the code
  points are sorted by class, those of equal class staying in their order. A mark is
  put in front of the ordered rest and moves right past the marks of lower class.
\<close>

fun insertMark :: "nat \<Rightarrow> nat list \<Rightarrow> nat list" where
  "insertMark c [] = [c]"
| "insertMark c (y # ys) =
     (if combiningClass y \<noteq> 0 \<and> combiningClass y < combiningClass c
      then y # insertMark c ys
      else c # y # ys)"

fun canonicalOrder :: "nat list \<Rightarrow> nat list" where
  "canonicalOrder [] = []"
| "canonicalOrder (c # cs) =
     (if combiningClass c = 0 then c # canonicalOrder cs
      else insertMark c (canonicalOrder cs))"

text \<open>
  The primary composite of a pair, if there is one: a Hangul leading consonant with a
  vowel, a Hangul syllable without trailing consonant with a trailing consonant, or a
  pair of the table.
\<close>

definition primaryComposite :: "nat \<Rightarrow> nat \<Rightarrow> nat option" where
  "primaryComposite a b =
     (if 0x1100 \<le> a \<and> a \<le> 0x1112 \<and> 0x1161 \<le> b \<and> b \<le> 0x1175
      then Some (0xAC00 + ((a - 0x1100) * 21 + (b - 0x1161)) * 28)
      else if 0xAC00 \<le> a \<and> a \<le> 0xD7A3 \<and> (a - 0xAC00) mod 28 = 0 \<and>
              0x11A8 \<le> b \<and> b \<le> 0x11C2
      then Some (a + (b - 0x11A7))
      else (case map_of compositionBlocks b of
              Some block \<Rightarrow> map_of block a
            | None \<Rightarrow> None))"

text \<open>
  Canonical composition, from left to right. The state is the last starter, the marks
  kept behind it, and the class of the code point kept last (0 when that is the starter
  itself; 256 at a string that begins with a mark, which nothing combines with). A code
  point that has a primary composite with the starter, and is not blocked from it by a
  code point kept in between, is taken into the starter.
\<close>

fun composeLoop :: "nat \<Rightarrow> nat list \<Rightarrow> nat \<Rightarrow> nat list \<Rightarrow> nat list" where
  "composeLoop starter pending lastClass [] = starter # pending"
| "composeLoop starter pending lastClass (ch # rest) =
     (case (if lastClass < combiningClass ch \<or> lastClass = 0
            then primaryComposite starter ch else None) of
        Some composite \<Rightarrow> composeLoop composite pending lastClass rest
      | None \<Rightarrow>
          if combiningClass ch = 0 then starter # pending @ composeLoop ch [] 0 rest
          else composeLoop starter (pending @ [ch]) (combiningClass ch) rest)"

definition composeCodePoints :: "nat list \<Rightarrow> nat list" where
  "composeCodePoints cs =
     (case cs of
        [] \<Rightarrow> []
      | c # rest \<Rightarrow> composeLoop c [] (if combiningClass c = 0 then 0 else 256) rest)"

definition normalizeNFC :: "jsstring \<Rightarrow> jsstring" where
  "normalizeNFC s =
     fromCodePoints (composeCodePoints (canonicalOrder
       (concat (map decomposeCodePoint (toCodePoints s)))))"

text \<open>A code point that can be the second of a pair with a primary composite.\<close>

definition combinesBackward :: "nat \<Rightarrow> bool" where
  "combinesBackward b \<longleftrightarrow>
     (0x1161 \<le> b \<and> b \<le> 0x1175) \<or> (0x11A8 \<le> b \<and> b \<le> 0x11C2) \<or>
     b \<in> set (map fst compositionBlocks)"

text \<open>
  A sequence that begins with a starter which cannot be the second of a pair: whatever
  stands in front of it, composition starts afresh at its head.
\<close>

definition starterHeaded :: "nat list \<Rightarrow> bool" where
  "starterHeaded blk \<longleftrightarrow>
     (case blk of [] \<Rightarrow> False | h # t \<Rightarrow> combiningClass h = 0 \<and> \<not> combinesBackward h)"

text \<open>
  A code unit that normalization leaves alone wherever it stands: it is a code point of
  its own (no surrogate), its decomposition begins with a starter that cannot be the
  second of a pair, and it is its own normalization.
\<close>

definition nfcFixedUnit :: "nat \<Rightarrow> bool" where
  "nfcFixedUnit c \<longleftrightarrow>
     c < 0x10000 \<and> \<not> isHighSurrogate c \<and> \<not> isLowSurrogate c \<and>
     starterHeaded (decomposeCodePoint c) \<and>
     composeCodePoints (canonicalOrder (decomposeCodePoint c)) = [c]"

text \<open>
  Ranges of such code units: Basic Latin to the spacing modifier letters, general
  punctuation, the CJK symbols apart from the tone marks U+302A to U+302F, hiragana and
  katakana apart from the combining voiced marks U+3099 and U+309A, bopomofo to the end
  of the CJK unified ideographs, and the halfwidth and fullwidth forms.
\<close>

definition plainUnit :: "nat \<Rightarrow> bool" where
  "plainUnit c \<longleftrightarrow>
     c < 0x300 \<or> (0x2002 \<le> c \<and> c \<le> 0x20CF) \<or> (0x3000 \<le> c \<and> c \<le> 0x3029) \<or>
     (0x3030 \<le> c \<and> c \<le> 0x3098) \<or> (0x309B \<le> c \<and> c \<le> 0x30FF) \<or>
     (0x3100 \<le> c \<and> c \<le> 0x9FFF) \<or> (0xFF00 \<le> c \<and> c \<le> 0xFFEF)"

text \<open>
  An entry of the decomposition table whose decomposition begins afresh and recomposes
  to the code point of the entry.
\<close>

definition recomposes :: "nat \<times> nat list \<Rightarrow> bool" where
  "recomposes e \<longleftrightarrow>
     starterHeaded (snd e) \<and> composeCodePoints (canonicalOrder (snd e)) = [fst e]"

section \<open>Text post-processing\<close>

datatype fieldType = PhoneNumber | PayeeName | Phonetic | Clipboard | OtherField

subsection \<open>Width conversions\<close>

text \<open>
  \<open>text.replace(/[A-Za-z0-9]/g, s => String.fromCharCode(s.charCodeAt(0) - 0xFEE0))\<close>, the
  class being the fullwidth letters and digits U+FF21 to U+FF3A, U+FF41 to U+FF5A and
  U+FF10 to U+FF19.
\<close>

definition isFullwidthAlnum :: "nat \<Rightarrow> bool" where
  "isFullwidthAlnum c \<longleftrightarrow>
     (0xFF21 \<le> c \<and> c \<le> 0xFF3A) \<or> (0xFF41 \<le> c \<and> c \<le> 0xFF5A) \<or>
     (0xFF10 \<le> c \<and> c \<le> 0xFF19)"

definition fullwidthToHalfwidth :: "jsstring \<Rightarrow> jsstring" where
  "fullwidthToHalfwidth = map (\<lambda>c. if isFullwidthAlnum c then c - 0xFEE0 else c)"

text \<open>
  The katakana middle dot U+30FB becomes the halfwidth middle dot U+FF65, the fullwidth
  full stop U+FF0E becomes \<open>.\<close>
\<close>

definition halfwidthSymbols :: "jsstring \<Rightarrow> jsstring" where
  "halfwidthSymbols = map (\<lambda>c. if c = 0x30FB then 0xFF65 else if c = 0xFF0E then 0x2E else c)"

text \<open>The three tables of the source, in source order.\<close>

definition halfToFullKatakanaMap :: "(nat \<times> nat) list" where
  "halfToFullKatakanaMap = [
     (0xFF71, 0x30A2), (0xFF72, 0x30A4), (0xFF73, 0x30A6), (0xFF74, 0x30A8), (0xFF75, 0x30AA),
     (0xFF76, 0x30AB), (0xFF77, 0x30AD), (0xFF78, 0x30AF), (0xFF79, 0x30B1), (0xFF7A, 0x30B3),
     (0xFF7B, 0x30B5), (0xFF7C, 0x30B7), (0xFF7D, 0x30B9), (0xFF7E, 0x30BB), (0xFF7F, 0x30BD),
     (0xFF80, 0x30BF), (0xFF81, 0x30C1), (0xFF82, 0x30C4), (0xFF83, 0x30C6), (0xFF84, 0x30C8),
     (0xFF85, 0x30CA), (0xFF86, 0x30CB), (0xFF87, 0x30CC), (0xFF88, 0x30CD), (0xFF89, 0x30CE),
     (0xFF8A, 0x30CF), (0xFF8B, 0x30D2), (0xFF8C, 0x30D5), (0xFF8D, 0x30D8), (0xFF8E, 0x30DB),
     (0xFF8F, 0x30DE), (0xFF90, 0x30DF), (0xFF91, 0x30E0), (0xFF92, 0x30E1), (0xFF93, 0x30E2),
     (0xFF94, 0x30E4), (0xFF95, 0x30E6), (0xFF96, 0x30E8), (0xFF97, 0x30E9), (0xFF98, 0x30EA),
     (0xFF99, 0x30EB), (0xFF9A, 0x30EC), (0xFF9B, 0x30ED), (0xFF9C, 0x30EF), (0xFF66, 0x30F2),
     (0xFF9D, 0x30F3), (0xFF67, 0x30A1), (0xFF68, 0x30A3), (0xFF69, 0x30A5), (0xFF6A, 0x30A7),
     (0xFF6B, 0x30A9), (0xFF6F, 0x30C3), (0xFF6C, 0x30E3), (0xFF6D, 0x30E5), (0xFF6E, 0x30E7),
     (0xFF70, 0x30FC), (0xFF9E, 0x309B), (0xFF9F, 0x309C)]"

definition dakutenMap :: "(nat \<times> nat) list" where
  "dakutenMap = [
     (0x30AB, 0x30AC), (0x30AD, 0x30AE), (0x30AF, 0x30B0), (0x30B1, 0x30B2), (0x30B3, 0x30B4),
     (0x30B5, 0x30B6), (0x30B7, 0x30B8), (0x30B9, 0x30BA), (0x30BB, 0x30BC), (0x30BD, 0x30BE),
     (0x30BF, 0x30C0), (0x30C1, 0x30C2), (0x30C4, 0x30C5), (0x30C6, 0x30C7), (0x30C8, 0x30C9),
     (0x30CF, 0x30D0), (0x30D2, 0x30D3), (0x30D5, 0x30D6), (0x30D8, 0x30D9), (0x30DB, 0x30DC)]"

definition handakutenMap :: "(nat \<times> nat) list" where
  "handakutenMap = [
     (0x30CF, 0x30D1), (0x30D2, 0x30D4), (0x30D5, 0x30D7), (0x30D8, 0x30DA), (0x30DB, 0x30DD)]"

text \<open>The three character classes of the katakana replacements, in source order.\<close>

definition dakutenClass :: "nat list" where
  "dakutenClass = [
     0xFF76, 0xFF77, 0xFF78, 0xFF79, 0xFF7A, 0xFF7B, 0xFF7C, 0xFF7D, 0xFF7E, 0xFF7F,
     0xFF80, 0xFF81, 0xFF82, 0xFF83, 0xFF84, 0xFF8A, 0xFF8B, 0xFF8C, 0xFF8D, 0xFF8E]"

definition handakutenClass :: "nat list" where
  "handakutenClass = [
     0xFF8A, 0xFF8B, 0xFF8C, 0xFF8D, 0xFF8E]"

definition halfwidthKatakanaClass :: "nat list" where
  "halfwidthKatakanaClass = [
     0xFF71, 0xFF72, 0xFF73, 0xFF74, 0xFF75, 0xFF76, 0xFF77, 0xFF78, 0xFF79, 0xFF7A,
     0xFF7B, 0xFF7C, 0xFF7D, 0xFF7E, 0xFF7F, 0xFF80, 0xFF81, 0xFF82, 0xFF83, 0xFF84,
     0xFF85, 0xFF86, 0xFF87, 0xFF88, 0xFF89, 0xFF8A, 0xFF8B, 0xFF8C, 0xFF8D, 0xFF8E,
     0xFF8F, 0xFF90, 0xFF91, 0xFF92, 0xFF93, 0xFF94, 0xFF95, 0xFF96, 0xFF97, 0xFF98,
     0xFF99, 0xFF9A, 0xFF9B, 0xFF9C, 0xFF66, 0xFF9D, 0xFF67, 0xFF68, 0xFF69, 0xFF6A,
     0xFF6B, 0xFF6F, 0xFF6C, 0xFF6D, 0xFF6E, 0xFF70]"

text \<open>
  The replacement function of the two mark passes:
  \<open>const base = halfToFullKatakanaMap[p1]; return table[base] || (base + mark)\<close>. A
  missing \<open>base\<close> would be \<open>undefined\<close>, which \<open>+\<close> turns into that word.
\<close>

definition withMark :: "(nat \<times> nat) list \<Rightarrow> nat \<Rightarrow> nat \<Rightarrow> jsstring" where
  "withMark table mark p1 =
     (case map_of halfToFullKatakanaMap p1 of
        Some base \<Rightarrow> (case map_of table base of Some v \<Rightarrow> [v] | None \<Rightarrow> [base, mark])
      | None \<Rightarrow> ascii ''undefined'' @ [mark])"

text \<open>
  \<open>text.replace(/([class])m/g, f)\<close> for a one-unit mark \<open>m\<close>: left to right, a class
  member directly before the mark is replaced together with it.
\<close>

fun replacePairs :: "nat list \<Rightarrow> nat \<Rightarrow> (nat \<Rightarrow> jsstring) \<Rightarrow> jsstring \<Rightarrow> jsstring" where
  "replacePairs cls m f (a # b # rest) =
     (if a \<in> set cls \<and> b = m then f a @ replacePairs cls m f rest
      else a # replacePairs cls m f (b # rest))"
| "replacePairs cls m f s = s"

definition combineDakuten :: "jsstring \<Rightarrow> jsstring" where
  "combineDakuten = replacePairs dakutenClass 0xFF9E (withMark dakutenMap 0x309B)"

definition combineHandakuten :: "jsstring \<Rightarrow> jsstring" where
  "combineHandakuten = replacePairs handakutenClass 0xFF9F (withMark handakutenMap 0x309C)"

text \<open>\<open>text.replace(/[class]/g, s => halfToFullKatakanaMap[s] || s)\<close>\<close>

definition convertKatakana :: "jsstring \<Rightarrow> jsstring" where
  "convertKatakana =
     map (\<lambda>c. if c \<in> set halfwidthKatakanaClass
               then (case map_of halfToFullKatakanaMap c of Some v \<Rightarrow> v | None \<Rightarrow> c)
               else c)"

definition convertWidths :: "jsstring \<Rightarrow> jsstring" where
  "convertWidths t =
     convertKatakana (combineHandakuten (combineDakuten (halfwidthSymbols (fullwidthToHalfwidth t))))"

subsection \<open>removeNgWords\<close>

text \<open>
  \<open>ngWordsList\<close>, in source order: the legal-entity words, \<open>(kabu)\<close> and \<open>(yuu)\<close> in ASCII
  parentheses, and the word for branch office.
\<close>

definition ngWordsList :: "jsstring list" where
  "ngWordsList = [
     [0x682A, 0x5F0F, 0x4F1A, 0x793E],
     [0x6709, 0x9650, 0x4F1A, 0x793E],
     [0x5408, 0x540C, 0x4F1A, 0x793E],
     [0x5408, 0x8CC7, 0x4F1A, 0x793E],
     [0x5408, 0x540D, 0x4F1A, 0x793E],
     [0x533B, 0x7642, 0x6CD5, 0x4EBA],
     [0x533B, 0x7642, 0x6CD5, 0x4EBA, 0x793E, 0x56E3],
     [0x533B, 0x7642, 0x6CD5, 0x4EBA, 0x8CA1, 0x56E3],
     [0x793E, 0x4F1A, 0x533B, 0x7642, 0x6CD5, 0x4EBA],
     [0x5B97, 0x6559, 0x6CD5, 0x4EBA],
     [0x5B66, 0x6821, 0x6CD5, 0x4EBA],
     [0x793E, 0x4F1A, 0x798F, 0x7949, 0x6CD5, 0x4EBA],
     [0x66F4, 0x751F, 0x4FDD, 0x8B77, 0x6CD5, 0x4EBA],
     [0x76F8, 0x4E92, 0x4F1A, 0x793E],
     [0x7279, 0x5B9A, 0x975E, 0x55B6, 0x5229, 0x6D3B, 0x52D5, 0x6CD5, 0x4EBA],
     [0x72EC, 0x7ACB, 0x884C, 0x653F, 0x6CD5, 0x4EBA],
     [0x5730, 0x65B9, 0x72EC, 0x7ACB, 0x884C, 0x653F, 0x6CD5, 0x4EBA],
     [0x5F01, 0x8B77, 0x58EB, 0x6CD5, 0x4EBA],
     [0x6709, 0x9650, 0x8CAC, 0x4EFB, 0x4E2D, 0x9593, 0x6CD5, 0x4EBA],
     [0x7121, 0x9650, 0x8CAC, 0x4EFB, 0x4E2D, 0x9593, 0x6CD5, 0x4EBA],
     [0x884C, 0x653F, 0x66F8, 0x58EB, 0x6CD5, 0x4EBA],
     [0x53F8, 0x6CD5, 0x66F8, 0x58EB, 0x6CD5, 0x4EBA],
     [0x7A0E, 0x7406, 0x58EB, 0x6CD5, 0x4EBA],
     [0x56FD, 0x7ACB, 0x5927, 0x5B66, 0x6CD5, 0x4EBA],
     [0x516C, 0x7ACB, 0x5927, 0x5B66, 0x6CD5, 0x4EBA],
     [0x8FB2, 0x4E8B, 0x7D44, 0x5408, 0x6CD5, 0x4EBA],
     [0x7BA1, 0x7406, 0x7D44, 0x5408, 0x6CD5, 0x4EBA],
     [0x793E, 0x4F1A, 0x4FDD, 0x967A, 0x52B4, 0x52D9, 0x58EB, 0x6CD5, 0x4EBA],
     [0x4E00, 0x822C, 0x793E, 0x56E3, 0x6CD5, 0x4EBA],
     [0x516C, 0x76CA, 0x793E, 0x56E3, 0x6CD5, 0x4EBA],
     [0x4E00, 0x822C, 0x8CA1, 0x56E3, 0x6CD5, 0x4EBA],
     [0x516C, 0x76CA, 0x8CA1, 0x56E3, 0x6CD5, 0x4EBA],
     [0x975E, 0x55B6, 0x5229, 0x6CD5, 0x4EBA],
     [0x0028, 0x682A, 0x0029],
     [0x0028, 0x6709, 0x0029],
     [0x652F, 0x5E97]]"

text \<open>
  \<open>text.replace(ngWordsPattern, '')\<close>: the pattern is the alternation of the escaped
  words with the \<open>g\<close> flag. At each position the first word of the list that matches is
  removed and the scan goes on behind it; an empty match moves on by one code unit.
\<close>

function removeWords :: "jsstring list \<Rightarrow> jsstring \<Rightarrow> jsstring" where
  "removeWords ws [] = []"
| "removeWords ws (c # cs) =
     (case find (\<lambda>w. prefix w (c # cs)) ws of
        Some w \<Rightarrow> if w = [] then c # removeWords ws cs
                  else removeWords ws (drop (length w) (c # cs))
      | None \<Rightarrow> c # removeWords ws cs)"
  by pat_completeness auto
termination
  by (relation "measure (\<lambda>(ws, s). length s)") auto

text \<open>\<open>s.replace(/\s+/g, ' ')\<close>\<close>

function collapseWhitespace :: "jsstring \<Rightarrow> jsstring" where
  "collapseWhitespace [] = []"
| "collapseWhitespace (c # cs) =
     (if isWhiteSpace c then space # collapseWhitespace (dropWhile isWhiteSpace cs)
      else c # collapseWhitespace cs)"
  by pat_completeness auto
termination
  by (relation "measure length") (auto simp: less_Suc_eq_le length_dropWhile_le)

text \<open>\<open>/[,\<dots>]/\<close> with the ideographic comma, and \<open>s.includes(',') || s.includes('\<dots>')\<close>.\<close>

definition isSeparator :: "nat \<Rightarrow> bool" where
  "isSeparator c \<longleftrightarrow> c = comma \<or> c = ideographic_comma"

definition hasSeparator :: "jsstring \<Rightarrow> bool" where
  "hasSeparator s \<longleftrightarrow> comma \<in> set s \<or> ideographic_comma \<in> set s"

text \<open>
  \<open>s.replace(/lit\s*$/, '')\<close> for a literal \<open>lit\<close> free of whitespace: when the string
  apart from its trailing whitespace ends with \<open>lit\<close>, that and the whitespace go.
\<close>

definition dropTrailing :: "jsstring \<Rightarrow> jsstring \<Rightarrow> jsstring" where
  "dropTrailing lit s =
     (let body = rev (dropWhile isWhiteSpace (rev s)) in
      if suffix lit body then take (length body - length lit) body else s)"

text \<open>The labels ``company name'' and ``telephone number'', without the colon.\<close>

definition companyWord :: jsstring where
  "companyWord = [0x4F1A, 0x793E, 0x540D]"

definition phoneWord :: jsstring where
  "phoneWord = [0x96FB, 0x8A71, 0x756A, 0x53F7]"

definition removeNgWords :: "jsstring \<Rightarrow> jsstring" where
  "removeNgWords text0 =
     (let processedText = removeWords ngWordsList text0;
          processedText =
            (if hasSeparator processedText
             then joinWith [comma]
                    (filter (\<lambda>item. item \<noteq> [])
                       (map (\<lambda>item. collapseWhitespace (trim item))
                          (splitOn isSeparator processedText)))
             else processedText);
          processedText = trim processedText;
          processedText = dropTrailing (companyWord @ [colon]) processedText;
          processedText = dropTrailing [colon] processedText
      in processedText)"

subsection \<open>postProcessOcrResult\<close>

text \<open>\<open>s.replace(/[^\d\-+]/g, '')\<close>\<close>

definition keepPhoneChars :: "jsstring \<Rightarrow> jsstring" where
  "keepPhoneChars = filter (\<lambda>c. isDigit c \<or> c = hyphen \<or> c = plus_sign)"

text \<open>Katakana U+30A1 to U+30FA to hiragana, 0x60 lower.\<close>

definition hiraganaOf :: "nat \<Rightarrow> nat" where
  "hiraganaOf c = (if 0x30A1 \<le> c \<and> c \<le> 0x30FA then c - 0x60 else c)"

definition katakanaToHiragana :: "jsstring \<Rightarrow> jsstring" where
  "katakanaToHiragana = map hiraganaOf"

text \<open>
  The part after the width conversions: the removal of the words for \<open>payee-name\<close>, then
  the \<open>switch\<close>.
\<close>

definition fieldSpecific :: "fieldType \<Rightarrow> jsstring \<Rightarrow> jsstring" where
  "fieldSpecific fieldType t =
     (case fieldType of
        PhoneNumber \<Rightarrow>
          if hasSeparator t
          then joinWith [comma]
                 (map (\<lambda>num. formatPhoneNumber (keepPhoneChars (trim num)))
                    (splitOn isSeparator t))
          else formatPhoneNumber (keepPhoneChars t)
      | PayeeName \<Rightarrow> trim (collapseWhitespace (removeNgWords t))
      | Phonetic \<Rightarrow> katakanaToHiragana t
      | Clipboard \<Rightarrow> t
      | OtherField \<Rightarrow> t)"

text \<open>
  \<open>if (!text) return text\<close> for a string: the empty string is returned at once. Then
  \<open>text.normalize('NFC').trim()\<close>, the width conversions and the part for the field.
\<close>

definition postProcessOcrResult :: "jsstring \<Rightarrow> fieldType \<Rightarrow> jsstring" where
  "postProcessOcrResult text0 fieldType =
     (if text0 = [] then text0
      else fieldSpecific fieldType (convertWidths (trim (normalizeNFC text0))))"

section \<open>parseMultiFieldResult\<close>

text \<open>
  The \<open>.\<close> of a regular expression without the \<open>s\<close> flag matches every code unit but the
  line terminators U+000A, U+000D, U+2028 and U+2029.
\<close>

definition isDotChar :: "nat \<Rightarrow> bool" where
  "isDotChar c \<longleftrightarrow> c \<noteq> 0x0A \<and> c \<noteq> 0x0D \<and> c \<noteq> 0x2028 \<and> c \<noteq> 0x2029"

text \<open>
  \<open>(.*?)(?:\n|$)\<close> at the start of \<open>r\<close>: the lazy group takes one code unit after the
  other until a newline or the end follows; a line terminator other than the newline
  stops it without a match.
\<close>

definition lazyLine :: "jsstring \<Rightarrow> jsstring option" where
  "lazyLine r =
     (let cap = takeWhile isDotChar r in
      case drop (length cap) r of
        [] \<Rightarrow> Some cap
      | c # _ \<Rightarrow> if c = newline then Some cap else None)"

text \<open>
  \<open>[\s\<dots>]*(.*?)(?:\n|$)\<close> behind the label (the class is \<open>\s\<close> and the ideographic
  space, which \<open>\s\<close> holds already): the greedy star first takes \<open>k\<close> code units, the whole
  run of whitespace, and gives them back one by one while the rest does not match.
\<close>

fun greedySpaceThenLine :: "nat \<Rightarrow> jsstring \<Rightarrow> jsstring option" where
  "greedySpaceThenLine 0 r = lazyLine r"
| "greedySpaceThenLine (Suc k) r =
     (case lazyLine (drop (Suc k) r) of
        Some cap \<Rightarrow> Some cap
      | None \<Rightarrow> greedySpaceThenLine k r)"

text \<open>
  \<open>text.match(/label[\s\<dots>]*(.*?)(?:\n|$)/i)\<close>, group 1 of the leftmost match. The labels
  hold ideographs and a colon, on which the \<open>i\<close> flag changes nothing.
\<close>

fun matchLabel :: "jsstring \<Rightarrow> jsstring \<Rightarrow> jsstring option" where
  "matchLabel label [] = None"
| "matchLabel label (c # cs) =
     (if prefix label (c # cs) then
        (let r = drop (length label) (c # cs) in
         case greedySpaceThenLine (length (takeWhile isWhiteSpace r)) r of
           Some cap \<Rightarrow> Some cap
         | None \<Rightarrow> matchLabel label cs)
      else matchLabel label cs)"

text \<open>\<open>m && m[1] ? m[1].trim() : ''\<close>\<close>

definition capturedOrEmpty :: "jsstring option \<Rightarrow> jsstring" where
  "capturedOrEmpty m = (case m of Some cap \<Rightarrow> if cap \<noteq> [] then trim cap else [] | None \<Rightarrow> [])"

text \<open>\<open>/^\s*word:?\s*$/i\<close> and \<open>/^\s*word:?/i\<close> for a word of ideographs.\<close>

definition isLabelOnly :: "jsstring \<Rightarrow> jsstring \<Rightarrow> bool" where
  "isLabelOnly word s \<longleftrightarrow>
     (let t = dropWhile isWhiteSpace s in
      prefix word t \<and>
      (let u = drop (length word) t in
       list_all isWhiteSpace (case u of c # u' \<Rightarrow> if c = colon then u' else u | [] \<Rightarrow> [])))"

definition startsWithLabel :: "jsstring \<Rightarrow> jsstring \<Rightarrow> bool" where
  "startsWithLabel word s \<longleftrightarrow> prefix word (dropWhile isWhiteSpace s)"

text \<open>
  \<open>/^tel:?/i\<close> and \<open>/^phone:?/i\<close>: without the \<open>u\<close> flag a letter matches its two ASCII
  cases only.
\<close>

definition asciiLower :: "nat \<Rightarrow> nat" where
  "asciiLower c = (if 0x41 \<le> c \<and> c \<le> 0x5A then c + 0x20 else c)"

definition startsWithIgnoreCase :: "jsstring \<Rightarrow> jsstring \<Rightarrow> bool" where
  "startsWithIgnoreCase s w \<longleftrightarrow> prefix w (map asciiLower s)"

text \<open>\<open>/^\d[\d\-\s\(\)]*$/\<close>\<close>

definition looksLikeNumber :: "jsstring \<Rightarrow> bool" where
  "looksLikeNumber s \<longleftrightarrow>
     (case s of
        [] \<Rightarrow> False
      | c # cs \<Rightarrow> isDigit c \<and>
          list_all (\<lambda>x. isDigit x \<or> x = hyphen \<or> isWhiteSpace x \<or> x = 0x28 \<or> x = 0x29) cs)"

record multiFieldResult =
  payeeName :: jsstring
  phoneNumber :: jsstring

text \<open>The part of the function after the two calls of \<open>postProcessOcrResult\<close>.\<close>

definition filterFields :: "jsstring \<Rightarrow> jsstring \<Rightarrow> multiFieldResult" where
  "filterFields companyName0 phoneNumber0 =
     (let companyName = (if isLabelOnly phoneWord companyName0 then [] else companyName0);
          phoneNumber = (if isLabelOnly companyWord phoneNumber0 then [] else phoneNumber0);
          companyName =
            (if companyName \<noteq> [] \<and> hasSeparator companyName then
               (let companyNames =
                      filter (\<lambda>name. name \<noteq> [] \<and> \<not> startsWithLabel phoneWord name \<and>
                                \<not> startsWithIgnoreCase name (ascii ''tel'') \<and>
                                \<not> startsWithIgnoreCase name (ascii ''phone'') \<and>
                                \<not> looksLikeNumber name)
                        (map trim (splitOn isSeparator companyName))
                in if length companyNames > 0 then joinWith [comma] companyNames else [])
             else companyName);
          phoneNumber =
            (if phoneNumber \<noteq> [] \<and> startsWithLabel companyWord phoneNumber then []
             else phoneNumber)
      in \<lparr>payeeName = companyName, phoneNumber = phoneNumber\<rparr>)"

definition parseMultiFieldResult :: "jsstring \<Rightarrow> multiFieldResult" where
  "parseMultiFieldResult text0 =
     (let companyName = capturedOrEmpty (matchLabel (companyWord @ [colon]) text0);
          phoneNumber = capturedOrEmpty (matchLabel (phoneWord @ [colon]) text0)
      in filterFields (postProcessOcrResult companyName PayeeName)
           (postProcessOcrResult phoneNumber PhoneNumber))"

text \<open>
  Sample answers of the model: both lines filled, and the company line left blank as the
  prompt asks for a value that was not found.
\<close>

definition answerBoth :: jsstring where
  "answerBoth =
     companyWord @ ascii '': '' @ [0x30C6, 0x30B9, 0x30C8] @ [newline] @
     phoneWord @ ascii '': 03-1234-5678''"

definition answerBlankCompany :: jsstring where
  "answerBlankCompany =
     companyWord @ ascii '':'' @ [newline] @ phoneWord @ ascii '': 03-1234-5678''"

section \<open>Notions for the properties of the post-processor\<close>

text \<open>The code units \<open>formatPhoneNumber\<close> can return: digits and the hyphen.\<close>

definition isPhoneOut :: "nat \<Rightarrow> bool" where
  "isPhoneOut c \<longleftrightarrow> isDigit c \<or> c = hyphen"

text \<open>A code unit none of the width conversions touches.\<close>

definition settled :: "nat \<Rightarrow> bool" where
  "settled c \<longleftrightarrow>
     \<not> isFullwidthAlnum c \<and> c \<noteq> 0x30FB \<and> c \<noteq> 0xFF0E \<and> \<not> (0xFF66 \<le> c \<and> c \<le> 0xFF9D)"

text \<open>A string \<open>trim\<close> leaves alone.\<close>

definition trimmed :: "jsstring \<Rightarrow> bool" where
  "trimmed s \<longleftrightarrow> s = [] \<or> (\<not> isWhiteSpace (hd s) \<and> \<not> isWhiteSpace (last s))"

text \<open>
  The code units the katakana replacements can write: fullwidth katakana up to U+30F3,
  the long vowel mark, the two spacing voiced marks, and the letters of \<open>undefined\<close>.
\<close>

definition kanaOut :: "nat \<Rightarrow> bool" where
  "kanaOut v \<longleftrightarrow>
     (0x30A1 \<le> v \<and> v \<le> 0x30F3) \<or> v = 0x30FC \<or> v = 0x309B \<or> v = 0x309C \<or>
     (0x61 \<le> v \<and> v \<le> 0x7A)"

text \<open>The code units any width conversion can write.\<close>

definition introduced :: "nat \<Rightarrow> bool" where
  "introduced v \<longleftrightarrow>
     kanaOut v \<or> (0x30 \<le> v \<and> v \<le> 0x39) \<or> (0x41 \<le> v \<and> v \<le> 0x5A) \<or> v = 0xFF65 \<or> v = 0x2E"

text \<open>
  The two katakana that the \<open>phonetic\<close> conversion sends onto the combining voiced
  marks U+3099 and U+309A.
\<close>

definition becomesMark :: "nat \<Rightarrow> bool" where
  "becomesMark c \<longleftrightarrow> c = 0x30F9 \<or> c = 0x30FA"

text \<open>A string in which every whitespace is one single space.\<close>

fun collapsed :: "jsstring \<Rightarrow> bool" where
  "collapsed [] = True"
| "collapsed [c] = (isWhiteSpace c \<longrightarrow> c = space)"
| "collapsed (c # d # r) =
     ((isWhiteSpace c \<longrightarrow> c = space \<and> \<not> isWhiteSpace d) \<and> collapsed (d # r))"

text \<open>
  A result of the \<open>payee-name\<close> processing in which \<open>removeNgWords\<close> finds nothing to
  take away: it holds none of the words of the list, and it ends neither with a colon
  nor with a comma.
\<close>

definition payeeSettled :: "jsstring \<Rightarrow> bool" where
  "payeeSettled y \<longleftrightarrow>
     list_all (\<lambda>w. \<not> sublist w y) ngWordsList \<and> \<not> suffix [colon] y \<and> \<not> suffix [comma] y"

section \<open>Sample texts\<close>

text \<open>
  Two telephone numbers separated by a comma, and a company name with a legal-entity
  word, a comma and the word for branch office.
\<close>

definition twoNumbers :: jsstring where
  "twoNumbers = ascii ''03-1234-5678, 090-1111-2222''"

definition testCompany :: jsstring where
  "testCompany = [0x682A, 0x5F0F, 0x4F1A, 0x793E, 0x30C6, 0x30B9, 0x30C8] @ ascii '', '' @ [0x652F, 0x5E97]"

text \<open>Two company names separated by a comma, the first with a legal-entity word.\<close>

definition twoCompanies :: jsstring where
  "twoCompanies =
     [0x682A, 0x5F0F, 0x4F1A, 0x793E, 0x30C6, 0x30B9, 0x30C8] @ ascii '', '' @
     [0x5C71, 0x7530, 0x5546, 0x5E97]"

section \<open>APIRequestQueue\<close>

text \<open>
  The queue object runs on the single JavaScript thread; what is concurrent are its
  suspended \<open>async\<close> calls, its timers and the callers. The model is a transition system.
  The state holds the fields of the object, a clock (\<open>Date.now()\<close>, in milliseconds),
  the calls of \<open>processQueue\<close> that are past the guard and suspended at an \<open>await\<close>
  (kept as a list, so that one call at a time is a property to prove and not a shape of
  the state), the pending \<open>setTimeout(() => this.processQueue(), 50)\<close> timers by their due
  times, and three logs: the submitted calls, the calls of \<open>requestFn\<close> with their start
  times, and the promises settled. A submitted call is known by a number.
\<close>

type_synonym callId = nat

datatype outcome = Resolved | Rejected

text \<open>
  A suspended \<open>processQueue\<close>: waiting in \<open>await new Promise(r => setTimeout(r, \<dots>))\<close>
  until a due time, or waiting in \<open>await requestFn()\<close>.
\<close>

datatype activation = Sleeping callId int | Running callId

record throttler =
  queue :: "callId list"
  processing :: bool
  lastRequest :: int
  clock :: int
  activations :: "activation list"
  timers :: "int list"
  submitted :: "callId list"
  started :: "(callId \<times> int) list"
  settledLog :: "(callId \<times> outcome) list"

definition minInterval :: int where
  "minInterval = 500"

definition initialThrottler :: "int \<Rightarrow> throttler" where
  "initialThrottler t0 =
     \<lparr> queue = [], processing = False, lastRequest = 0, clock = t0, activations = [],
       timers = [], submitted = [], started = [], settledLog = [] \<rparr>"

text \<open>
  \<open>processQueue\<close> up to its first suspension: the guard, the flag, the \<open>shift\<close>, and
  then either the wait for the rest of the interval or the call of \<open>requestFn\<close> at once.
\<close>

definition processQueue :: "throttler \<Rightarrow> throttler" where
  "processQueue st =
     (if processing st \<or> queue st = [] then st
      else
        (let c = hd (queue st);
             st1 = st\<lparr>processing := True, queue := tl (queue st)\<rparr>;
             elapsed = clock st1 - lastRequest st1
         in if elapsed < minInterval
            then st1\<lparr>activations := activations st1 @ [Sleeping c (clock st1 + (minInterval - elapsed))]\<rparr>
            else st1\<lparr>activations := activations st1 @ [Running c],
                     started := started st1 @ [(c, clock st1)]\<rparr>))"

text \<open>\<open>execute(requestFn)\<close>: the push and the call of \<open>processQueue\<close>.\<close>

definition execute :: "callId \<Rightarrow> throttler \<Rightarrow> throttler" where
  "execute c st = processQueue (st\<lparr>queue := queue st @ [c], submitted := submitted st @ [c]\<rparr>)"

text \<open>
  What happens when \<open>await requestFn()\<close> returns or throws for the call \<open>c\<close>: \<open>resolve\<close>
  or \<open>reject\<close> of that call's own promise, then the \<open>finally\<close> block.
\<close>

definition finish :: "callId \<Rightarrow> outcome \<Rightarrow> throttler \<Rightarrow> throttler" where
  "finish c result st =
     st\<lparr> settledLog := settledLog st @ [(c, result)],
         activations := remove1 (Running c) (activations st),
         lastRequest := clock st,
         processing := False,
         timers := timers st @ [clock st + 50] \<rparr>"

text \<open>
  The events. Time passes by any amount that is not negative; \<open>execute\<close> is called for a
  new call; a timer fires at or after its due time, never before; a sleeping
  \<open>processQueue\<close> resumes at or after its due time and calls \<open>requestFn\<close>; a running call
  completes, one way or the other.
\<close>

datatype event =
    Tick int
  | Execute callId
  | TimerFires int
  | WakeUp callId
  | Completes callId outcome

inductive step :: "throttler \<Rightarrow> event \<Rightarrow> throttler \<Rightarrow> bool" where
  tick: "0 \<le> d \<Longrightarrow> step st (Tick d) (st\<lparr>clock := clock st + d\<rparr>)"
| submit: "c \<notin> set (submitted st) \<Longrightarrow> step st (Execute c) (execute c st)"
| timer: "due \<in> set (timers st) \<Longrightarrow> due \<le> clock st \<Longrightarrow>
     step st (TimerFires due) (processQueue (st\<lparr>timers := remove1 due (timers st)\<rparr>))"
| wake: "Sleeping c due \<in> set (activations st) \<Longrightarrow> due \<le> clock st \<Longrightarrow>
     step st (WakeUp c)
       (st\<lparr>activations := remove1 (Sleeping c due) (activations st) @ [Running c],
           started := started st @ [(c, clock st)]\<rparr>)"
| complete: "Running c \<in> set (activations st) \<Longrightarrow>
     step st (Completes c result) (finish c result st)"

text \<open>A run: events one after the other.\<close>

inductive run :: "throttler \<Rightarrow> event list \<Rightarrow> throttler \<Rightarrow> bool" where
  finished: "run st [] st"
| further: "step st e st' \<Longrightarrow> run st' es st'' \<Longrightarrow> run st (e # es) st''"

definition reachableThrottler :: "throttler \<Rightarrow> bool" where
  "reachableThrottler st \<longleftrightarrow> (\<exists>t0 es. 0 \<le> t0 \<and> run (initialThrottler t0) es st)"

text \<open>Successive times at least \<open>minInterval\<close> apart.\<close>

fun spaced :: "int list \<Rightarrow> bool" where
  "spaced [] = True"
| "spaced [t] = True"
| "spaced (t1 # t2 # ts) = (t1 + minInterval \<le> t2 \<and> spaced (t2 # ts))"

text \<open>The calls that are past the queue and have not called \<open>requestFn\<close> yet.\<close>

fun sleepers :: "activation list \<Rightarrow> callId list" where
  "sleepers [] = []"
| "sleepers (Sleeping c due # as) = c # sleepers as"
| "sleepers (Running c # as) = sleepers as"

text \<open>The calls whose \<open>requestFn\<close> has been called and has not completed yet.\<close>

fun runners :: "activation list \<Rightarrow> callId list" where
  "runners [] = []"
| "runners (Sleeping c due # as) = runners as"
| "runners (Running c # as) = c # runners as"

text \<open>
  What holds in every state of a run, and still holds between the push of \<open>execute\<close> or
  the firing of a timer and the call of \<open>processQueue\<close> that follows.
\<close>

definition throttlerCore :: "throttler \<Rightarrow> bool" where
  "throttlerCore st \<longleftrightarrow>
     (processing st \<longleftrightarrow> activations st \<noteq> []) \<and>
     length (activations st) \<le> 1 \<and>
     lastRequest st \<le> clock st \<and>
     spaced (map snd (started st)) \<and>
     list_all (\<lambda>t. t \<le> clock st) (map snd (started st)) \<and>
     (case activations st of
        [] \<Rightarrow> list_all (\<lambda>t. t \<le> lastRequest st) (map snd (started st))
      | Sleeping c due # _ \<Rightarrow>
          list_all (\<lambda>t. t \<le> lastRequest st) (map snd (started st)) \<and>
          lastRequest st + minInterval \<le> due
      | Running c # _ \<Rightarrow> True) \<and>
     map fst (settledLog st) @ runners (activations st) = map fst (started st) \<and>
     map fst (started st) @ sleepers (activations st) @ queue st = submitted st \<and>
     distinct (submitted st)"

text \<open>
  What holds in every state of a run: the above, and a timer is pending whenever calls
  wait in the queue while no \<open>processQueue\<close> is under way.
\<close>

definition throttlerInvariant :: "throttler \<Rightarrow> bool" where
  "throttlerInvariant st \<longleftrightarrow>
     throttlerCore st \<and> (queue st \<noteq> [] \<and> activations st = [] \<longrightarrow> timers st \<noteq> [])"


text \<open>
  A state in a run: two calls submitted at time 1000, the first one under way, the
  second one in the queue, 100 ms later.
\<close>

definition busyThrottler :: throttler where
  "busyThrottler =
     \<lparr> queue = [1], processing = True, lastRequest = 0, clock = 1100,
       activations = [Running 0], timers = [], submitted = [0, 1],
       started = [(0, 1000)], settledLog = [] \<rparr>"

section \<open>Properties of formatPhoneNumber\<close>

lemma startsWith_take: "startsWith d t \<longleftrightarrow> take (length t) d = t"
  unfolding startsWith_def
  by (metis append_eq_conv_conj prefix_def take_is_prefix)

lemma stripNonDigits_all: "list_all isDigit (stripNonDigits s)"
  by (simp add: stripNonDigits_def list_all_iff)

lemma stripNonDigits_no_hyphen:
  "stripNonDigits (filter (\<lambda>c. c \<noteq> hyphen) s) = stripNonDigits s"
  unfolding stripNonDigits_def filter_filter
  by (rule filter_cong) (auto simp: isDigit_def)

lemma stripNonDigits_input:
  "stripNonDigits (if hyphen \<in> set s then filter (\<lambda>c. c \<noteq> hyphen) s else s) = stripNonDigits s"
  by (simp add: stripNonDigits_no_hyphen)

lemma regroup3:
  "list_all isDigit d \<Longrightarrow> length d = a + b + c \<Longrightarrow> regroup [a, b, c] d = hyphenate3 a b d"
  by (simp add: regroup_def hyphenate3_def add.commute)

lemma regroup2:
  "list_all isDigit d \<Longrightarrow> length d = a + b \<Longrightarrow> regroup [a, b] d = hyphenate2 a d"
  by (simp add: regroup_def hyphenate2_def)

lemma formatPhoneNumber_digits:
  assumes "\<not> validHyphenated s" and "length (stripNonDigits s) \<le> 11"
  shows "formatPhoneNumber s =
     (let digits = stripNonDigits s in
        if length digits = 10 then
             (if startsWith digits (ascii ''03'') then regroup [2, 4, 4] digits
              else if startsWith digits (ascii ''06'') then regroup [2, 4, 4] digits
              else if startsWith digits (ascii ''04'') then regroup [2, 4, 4] digits
              else if startsWith digits (ascii ''052'') \<or> startsWith digits (ascii ''072'') \<or>
                      startsWith digits (ascii ''075'') \<or> startsWith digits (ascii ''078'') \<or>
                      startsWith digits (ascii ''082'') \<or> startsWith digits (ascii ''092'')
                   then regroup [3, 3, 4] digits
              else if startsWith digits (ascii ''0120'') then regroup [4, 2, 4] digits
              else if startsWith digits (ascii ''0'') then
                (if zeroThenFourToNine digits then regroup [3, 3, 4] digits
                 else regroup [2, 4, 4] digits)
              else regroup [3, 3, 4] digits)
        else if length digits = 11 then regroup [3, 4, 4] digits
        else if length digits = 8 then regroup [4, 4] digits
        else if length digits = 9 then regroup [3, 3, 3] digits
        else digits)"
proof (cases "s = []")
  case True
  then show ?thesis by (simp add: formatPhoneNumber_def stripNonDigits_def)
next
  case False
  then show ?thesis
    using assms stripNonDigits_all[of s]
    unfolding formatPhoneNumber_def stripNonDigits_input Let_def digitRun_def
    by auto
qed

lemma area10:
  assumes "list_all isDigit d" "length d = 10"
  shows "(if startsWith d (ascii ''03'') then regroup [2, 4, 4] d
              else if startsWith d (ascii ''06'') then regroup [2, 4, 4] d
              else if startsWith d (ascii ''04'') then regroup [2, 4, 4] d
              else if startsWith d (ascii ''052'') \<or> startsWith d (ascii ''072'') \<or>
                      startsWith d (ascii ''075'') \<or> startsWith d (ascii ''078'') \<or>
                      startsWith d (ascii ''082'') \<or> startsWith d (ascii ''092'')
                   then regroup [3, 3, 4] d
              else if startsWith d (ascii ''0120'') then regroup [4, 2, 4] d
              else if startsWith d (ascii ''0'') then
                (if zeroThenFourToNine d then regroup [3, 3, 4] d
                 else regroup [2, 4, 4] d)
              else regroup [3, 3, 4] d) = hyphenate3 (areaCodeLengthSpec d) (6 - areaCodeLengthSpec d) d"
proof -
  obtain a b r where d: "d = a # b # r" using assms(2)
    by (cases d; cases "tl d") auto
  have z: "zeroThenFourToNine d \<longleftrightarrow> take 1 d = [0x30] \<and> d ! 1 \<in> {0x34 .. 0x39}"
    by (auto simp: d zeroThenFourToNine_def)
  have r: "\<And>a b c. a + b + c = 10 \<Longrightarrow> regroup [a, b, c] d = hyphenate3 a b d"
    using assms by (simp add: regroup3)
  have sw: "\<And>x. startsWith d [x] \<longleftrightarrow> take 1 d = [x]"
    "\<And>x y. startsWith d [x, y] \<longleftrightarrow> take 2 d = [x, y]"
    "\<And>x y z. startsWith d [x, y, z] \<longleftrightarrow> take 3 d = [x, y, z]"
    "\<And>x y z w. startsWith d [x, y, z, w] \<longleftrightarrow> take 4 d = [x, y, z, w]"
    by (simp_all add: startsWith_take numeral_2_eq_2 numeral_3_eq_3 eval_nat_numeral)
  have asc: "ascii ''03'' = [0x30, 0x33]" "ascii ''06'' = [0x30, 0x36]" "ascii ''04'' = [0x30, 0x34]"
    "ascii ''052'' = [0x30, 0x35, 0x32]" "ascii ''072'' = [0x30, 0x37, 0x32]"
    "ascii ''075'' = [0x30, 0x37, 0x35]" "ascii ''078'' = [0x30, 0x37, 0x38]"
    "ascii ''082'' = [0x30, 0x38, 0x32]" "ascii ''092'' = [0x30, 0x39, 0x32]"
    "ascii ''0120'' = [0x30, 0x31, 0x32, 0x30]" "ascii ''0'' = [0x30]"
    by (simp_all add: ascii_def)
  show ?thesis
    unfolding asc sw z areaCodeLengthSpec_def
    by (simp add: r)
qed

lemma concat_splitOn: "concat (splitOn p s) = filter (\<lambda>c. \<not> p c) s"
  by (induction s) (auto split: list.splits)

lemma validHyphenated_digits:
  assumes "validHyphenated s"
  shows "8 \<le> length (stripNonDigits s)" and "hyphen \<in> set s"
proof -
  obtain a b c where sp: "splitOn (\<lambda>c. c = hyphen) s = [a, b, c]"
    and r: "digitRun 2 4 a" "digitRun 2 4 b" "digitRun 4 4 c"
    using assms unfolding validHyphenated_def
    by (auto split: list.splits)
  have f: "filter (\<lambda>c. c \<noteq> hyphen) s = a @ b @ c"
    using concat_splitOn[of "\<lambda>c. c = hyphen" s] sp by simp
  have "stripNonDigits s = stripNonDigits (filter (\<lambda>c. c \<noteq> hyphen) s)"
    by (simp add: stripNonDigits_no_hyphen)
  also have "\<dots> = a @ b @ c"
    using r unfolding f stripNonDigits_def digitRun_def by (simp add: list_all_iff)
  finally show "8 \<le> length (stripNonDigits s)"
    using r by (simp add: digitRun_def)
  show "hyphen \<in> set s"
  proof (rule ccontr)
    assume "hyphen \<notin> set s"
    then have "splitOn (\<lambda>c. c = hyphen) s = [s]"
      by (induction s) auto
    with sp show False by simp
  qed
qed

lemma formatPhoneNumber_by_digit_count_aux:
  "validHyphenated s \<and> length (stripNonDigits s) \<le> 11 \<longrightarrow> formatPhoneNumber s = s"
  using validHyphenated_digits(2)[of s] by (auto simp: formatPhoneNumber_def)

text \<open>
  Claim C1, as amended. An input holding more than 11 digits gives the empty string. An
  input of at most 11 digits that already has the hyphenated shape
  \<open>\d{2,4}-\d{2,4}-\d{4}\<close> is returned unchanged. Every other input is formatted by the
  count of its digits: 10 digits are cut after the area code given by the prefix table
  (03, 06, 04: two digits; 052, 072, 075, 078, 082, 092: three; 0120: four; another leading
  0: three when the second digit is 4 to 9, else two; no leading 0: three), 11 digits are
  cut 3-4-4, 8 digits 4-4 and 9 digits 3-3-3. The three examples of the specification hold.
\<close>

theorem formatPhoneNumber_by_digit_count:
  "(11 < length (stripNonDigits s) \<longrightarrow> formatPhoneNumber s = []) \<and>
   (validHyphenated s \<and> length (stripNonDigits s) \<le> 11 \<longrightarrow> formatPhoneNumber s = s) \<and>
   (\<not> validHyphenated s \<and> length (stripNonDigits s) = 10 \<longrightarrow>
      formatPhoneNumber s =
        hyphenate3 (areaCodeLengthSpec (stripNonDigits s))
          (6 - areaCodeLengthSpec (stripNonDigits s)) (stripNonDigits s)) \<and>
   (\<not> validHyphenated s \<and> length (stripNonDigits s) = 11 \<longrightarrow>
      formatPhoneNumber s = hyphenate3 3 4 (stripNonDigits s)) \<and>
   (\<not> validHyphenated s \<and> length (stripNonDigits s) = 8 \<longrightarrow>
      formatPhoneNumber s = hyphenate2 4 (stripNonDigits s)) \<and>
   (\<not> validHyphenated s \<and> length (stripNonDigits s) = 9 \<longrightarrow>
      formatPhoneNumber s = hyphenate3 3 3 (stripNonDigits s)) \<and>
   formatPhoneNumber (ascii ''0312345678'') = ascii ''03-1234-5678'' \<and>
   formatPhoneNumber (ascii ''09012345678'') = ascii ''090-1234-5678'' \<and>
   formatPhoneNumber (ascii ''123456789012'') = []"
proof -
  let ?d = "stripNonDigits s"
  have all: "list_all isDigit ?d" by (rule stripNonDigits_all)
  have over: "11 < length ?d \<longrightarrow> formatPhoneNumber s = []"
    by (auto simp: formatPhoneNumber_def)
  have pass: "validHyphenated s \<and> length ?d \<le> 11 \<longrightarrow> formatPhoneNumber s = s"
    using validHyphenated_digits(2)[of s] by (auto simp: formatPhoneNumber_def)
  have ten: "\<not> validHyphenated s \<and> length ?d = 10 \<longrightarrow>
      formatPhoneNumber s = hyphenate3 (areaCodeLengthSpec ?d) (6 - areaCodeLengthSpec ?d) ?d"
    using area10[OF all] by (simp add: formatPhoneNumber_digits Let_def)
  have eleven: "\<not> validHyphenated s \<and> length ?d = 11 \<longrightarrow>
      formatPhoneNumber s = hyphenate3 3 4 ?d"
    using regroup3[OF all, of 3 4 4] by (simp add: formatPhoneNumber_digits Let_def)
  have eight: "\<not> validHyphenated s \<and> length ?d = 8 \<longrightarrow>
      formatPhoneNumber s = hyphenate2 4 ?d"
    using regroup2[OF all, of 4 4] by (simp add: formatPhoneNumber_digits Let_def)
  have nine: "\<not> validHyphenated s \<and> length ?d = 9 \<longrightarrow>
      formatPhoneNumber s = hyphenate3 3 3 ?d"
    using regroup3[OF all, of 3 3 3] by (simp add: formatPhoneNumber_digits Let_def)
  have ex1: "formatPhoneNumber (ascii ''0312345678'') = ascii ''03-1234-5678''"
    by code_simp
  have ex2: "formatPhoneNumber (ascii ''09012345678'') = ascii ''090-1234-5678''"
    by code_simp
  have ex3: "formatPhoneNumber (ascii ''123456789012'') = []"
    by code_simp
  from over pass ten eleven eight nine ex1 ex2 ex3 show ?thesis by blast
qed

text \<open>
  The theorem at three inputs: ten digits among other characters, a number that is
  already hyphenated, and thirteen digits.
\<close>

theorem formatPhoneNumber_by_digit_count_witness:
  "\<not> validHyphenated (ascii ''(06) 1234 5678'') \<and>
   length (stripNonDigits (ascii ''(06) 1234 5678'')) = 10 \<and>
   formatPhoneNumber (ascii ''(06) 1234 5678'') = ascii ''06-1234-5678'' \<and>
   validHyphenated (ascii ''0120-12-3456'') \<and>
   formatPhoneNumber (ascii ''0120-12-3456'') = ascii ''0120-12-3456'' \<and>
   11 < length (stripNonDigits (ascii ''0312345678901'')) \<and>
   formatPhoneNumber (ascii ''0312345678901'') = []"
proof -
  have a: "\<not> validHyphenated (ascii ''(06) 1234 5678'')" by code_simp
  have b: "length (stripNonDigits (ascii ''(06) 1234 5678'')) = 10" by code_simp
  have c: "hyphenate3 (areaCodeLengthSpec (stripNonDigits (ascii ''(06) 1234 5678'')))
          (6 - areaCodeLengthSpec (stripNonDigits (ascii ''(06) 1234 5678'')))
          (stripNonDigits (ascii ''(06) 1234 5678'')) = ascii ''06-1234-5678''" by code_simp
  have d: "validHyphenated (ascii ''0120-12-3456'')" by code_simp
  have e: "length (stripNonDigits (ascii ''0120-12-3456'')) \<le> 11" by code_simp
  have f: "11 < length (stripNonDigits (ascii ''0312345678901''))" by code_simp
  show ?thesis
    using a b c d e f
      formatPhoneNumber_by_digit_count[of "ascii ''(06) 1234 5678''"]
      formatPhoneNumber_by_digit_count[of "ascii ''0120-12-3456''"]
      formatPhoneNumber_by_digit_count[of "ascii ''0312345678901''"]
    by simp
qed

text \<open>
  Claim C1 as stated fails: \<open>0312-34-5678\<close> holds ten digits and starts with 03, yet it
  is returned as it is, cut 4-2-4, and not as \<open>03-1234-5678\<close>.
\<close>

theorem formatPhoneNumber_prehyphenated_counterexample:
  "length (stripNonDigits (ascii ''0312-34-5678'')) = 10 \<and>
   areaCodeLengthSpec (stripNonDigits (ascii ''0312-34-5678'')) = 2 \<and>
   formatPhoneNumber (ascii ''0312-34-5678'') = ascii ''0312-34-5678'' \<and>
   formatPhoneNumber (ascii ''0312-34-5678'') \<noteq> ascii ''03-1234-5678''"
  by code_simp

text \<open>
  Claim C10. An input holding at most 7 digits is returned as its digits alone, with no
  hyphen added; and the result is the empty string exactly when the input holds no digit
  at all or more than 11 digits.
\<close>

theorem formatPhoneNumber_short:
  "(length (stripNonDigits s) \<le> 7 \<longrightarrow> formatPhoneNumber s = stripNonDigits s) \<and>
   (formatPhoneNumber s = [] \<longleftrightarrow> stripNonDigits s = [] \<or> 11 < length (stripNonDigits s))"
proof -
  let ?d = "stripNonDigits s"
  have all: "list_all isDigit ?d" by (rule stripNonDigits_all)
  have short: "length ?d \<le> 7 \<longrightarrow> formatPhoneNumber s = ?d"
  proof
    assume le: "length ?d \<le> 7"
    then have nv: "\<not> validHyphenated s"
      using validHyphenated_digits(1)[of s] by auto
    from le show "formatPhoneNumber s = ?d"
      by (simp add: formatPhoneNumber_digits[OF nv] Let_def)
  qed
  have h3: "\<And>a b d. hyphenate3 a b d \<noteq> []" by (simp add: hyphenate3_def)
  have h2: "\<And>a d. hyphenate2 a d \<noteq> []" by (simp add: hyphenate2_def)
  have nonempty: "formatPhoneNumber s \<noteq> []" if ne: "?d \<noteq> []" and le: "length ?d \<le> 11"
  proof (cases "validHyphenated s")
    case True
    then have "formatPhoneNumber s = s"
      using le formatPhoneNumber_by_digit_count_aux by blast
    then show ?thesis using ne by (auto simp: stripNonDigits_def)
  next
    case False
    consider "length ?d = 10" | "length ?d = 11" | "length ?d = 8" | "length ?d = 9"
      | "length ?d \<notin> {8, 9, 10, 11}" by auto
    then show ?thesis
    proof cases
      case 1 then show ?thesis using False area10[OF all] h3
        by (simp add: formatPhoneNumber_digits Let_def)
    next
      case 2 then show ?thesis using False regroup3[OF all, of 3 4 4] h3
        by (simp add: formatPhoneNumber_digits Let_def)
    next
      case 3 then show ?thesis using False regroup2[OF all, of 4 4] h2
        by (simp add: formatPhoneNumber_digits Let_def)
    next
      case 4 then show ?thesis using False regroup3[OF all, of 3 3 3] h3
        by (simp add: formatPhoneNumber_digits Let_def)
    next
      case 5 then show ?thesis using False le ne
        by (simp add: formatPhoneNumber_digits Let_def)
    qed
  qed
  have over: "11 < length ?d \<Longrightarrow> formatPhoneNumber s = []"
    by (auto simp: formatPhoneNumber_def)
  have none: "?d = [] \<Longrightarrow> formatPhoneNumber s = []"
    using short by simp
  have empty: "formatPhoneNumber s = []" if "?d = [] \<or> 11 < length ?d"
    using that over none by blast
  from short nonempty empty show ?thesis by (metis not_le_imp_less not_less)
qed

theorem formatPhoneNumber_short_witness:
  "length (stripNonDigits (ascii ''tel 12-34 567'')) \<le> 7 \<and>
   formatPhoneNumber (ascii ''tel 12-34 567'') = ascii ''1234567''"
proof -
  have a: "length (stripNonDigits (ascii ''tel 12-34 567'')) \<le> 7" by code_simp
  have b: "stripNonDigits (ascii ''tel 12-34 567'') = ascii ''1234567''" by code_simp
  show ?thesis
    using a b formatPhoneNumber_short[of "ascii ''tel 12-34 567''"] by simp
qed

section \<open>Properties of the size guard\<close>

lemma splitOn_none: "\<forall>c \<in> set s. \<not> p c \<Longrightarrow> splitOn p s = [s]"
  by (induction s) auto

lemma splitOn_first:
  "\<forall>c \<in> set h. \<not> p c \<Longrightarrow> p x \<Longrightarrow> splitOn p (h @ x # rest) = h # splitOn p rest"
  by (induction h) auto

lemma base64Part_dataUrl:
  assumes "comma \<notin> set header" "comma \<notin> set payload"
  shows "base64Part (header @ comma # payload) = payload"
proof -
  have "splitOn (\<lambda>c. c = comma) payload = [payload]"
    using assms(2) by (intro splitOn_none) auto
  moreover have "splitOn (\<lambda>c. c = comma) (header @ comma # payload)
      = header # splitOn (\<lambda>c. c = comma) payload"
    using assms(1) by (intro splitOn_first) auto
  ultimately have "splitOn (\<lambda>c. c = comma) (header @ comma # payload) = [header, payload]"
    by simp
  then show ?thesis by (simp add: base64Part_def)
qed

lemma sizeInMB_spec: "sizeInMB b = estimatedSizeSpec (length b)"
  by (simp add: sizeInMB_def estimatedSizeSpec_def)

text \<open>
  Claim C7. For a data URL \<open>header,payload\<close> (no comma inside either part) whose estimate
  \<open>length payload * 0.75 / 1MB\<close> is at most 15, \<open>checkImageSize\<close> returns a value within
  1% of the estimate (it returns the estimate itself); when the estimate exceeds 15 it
  fails with the oversize error and returns nothing.
\<close>

theorem checkImageSize_estimate:
  assumes "comma \<notin> set header" and "comma \<notin> set payload"
  shows
    "(estimatedSizeSpec (length payload) \<le> 15 \<longrightarrow>
        checkImageSize (Str (header @ comma # payload)) = Inr (sizeInMB payload) \<and>
        \<bar>sizeInMB payload - estimatedSizeSpec (length payload)\<bar>
          \<le> estimatedSizeSpec (length payload) / 100) \<and>
     (15 < estimatedSizeSpec (length payload) \<longrightarrow>
        checkImageSize (Str (header @ comma # payload)) =
          Inl (ImageTooLarge (estimatedSizeSpec (length payload))))"
proof -
  have nonneg: "0 \<le> estimatedSizeSpec (length payload)"
    by (simp add: estimatedSizeSpec_def)
  show ?thesis
    using nonneg
    by (simp add: checkImageSize_def base64Part_dataUrl[OF assms] sizeInMB_spec MAX_SIZE_MB_def)
qed

theorem checkImageSize_estimate_witness:
  "comma \<notin> set (ascii ''data:image/png;base64'') \<and> comma \<notin> set (ascii ''AAAA'') \<and>
   estimatedSizeSpec (length (ascii ''AAAA'')) \<le> 15 \<and>
   checkImageSize (Str (ascii ''data:image/png;base64'' @ comma # ascii ''AAAA'')) = Inr (3 / 1048576) \<and>
   comma \<notin> set (replicate 20971521 (0x41::nat)) \<and>
   15 < estimatedSizeSpec (length (replicate 20971521 (0x41::nat))) \<and>
   checkImageSize (Str (ascii ''data:image/png;base64'' @ comma # replicate 20971521 0x41)) =
     Inl (ImageTooLarge (62914563 / 4194304))"
proof -
  have h: "comma \<notin> set (ascii ''data:image/png;base64'')" by (simp add: ascii_def)
  have p1: "comma \<notin> set (ascii ''AAAA'')" by (simp add: ascii_def)
  have p2: "comma \<notin> set (replicate 20971521 (0x41::nat))" by simp
  have e1: "estimatedSizeSpec (length (ascii ''AAAA'')) = 3 / 1048576"
    by (simp add: estimatedSizeSpec_def ascii_def)
  have e2: "estimatedSizeSpec (length (replicate 20971521 (0x41::nat))) = 62914563 / 4194304"
    by (simp add: estimatedSizeSpec_def)
  show ?thesis
    using h p1 p2 checkImageSize_estimate[OF h p1] checkImageSize_estimate[OF h p2]
    unfolding e1 e2 by (simp add: sizeInMB_spec e1)
qed

section \<open>Properties of the image optimizer\<close>

lemma optimizeImage_total: "\<exists>v. optimizeImage P imageData options = Inr v"
  by (simp add: optimizeImage_def split: sum.splits)

lemma optimizeImage_invalid:
  "\<not> isImageDataUrl imageData \<Longrightarrow> optimizeImage P imageData options = Inr imageData"
  by (auto simp: optimizeImage_def optimizeImageTry_def split: sum.splits jsvalue.splits)

text \<open>
  \<open>optimizeImage\<close> returns a value for every platform, input and options. An input that
  is not a data-URL image string (not a string at all, the empty string, or a string with
  another prefix) is returned as it is; and when fetching the blob, decoding the bitmap,
  the canvas work, the encoding by \<open>convertToBlob\<close> or the \<open>FileReader\<close> throws, the
  original image is returned unchanged.
\<close>

lemma optimizeImage_original_when_thrown:
  "(\<exists>v. optimizeImage P imageData options = Inr v) \<and>
   (\<not> isImageDataUrl imageData \<longrightarrow> optimizeImage P imageData options = Inr imageData) \<and>
   (imageData = Str s \<and> fetchBlob P s = Inl e \<longrightarrow>
      optimizeImage P imageData options = Inr imageData) \<and>
   (imageData = Str s \<and> fetchBlob P s = Inr blob \<and> createImageBitmap P blob = Inl e \<longrightarrow>
      optimizeImage P imageData options = Inr imageData) \<and>
   (imageData = Str s \<and> fetchBlob P s = Inr blob \<and> createImageBitmap P blob = Inr img \<and>
      drawOnCanvas P img options = Inl e \<longrightarrow>
      optimizeImage P imageData options = Inr imageData) \<and>
   (imageData = Str s \<and> fetchBlob P s = Inr blob \<and> createImageBitmap P blob = Inr img \<and>
      drawOnCanvas P img options = Inr canvas \<and>
      convertToBlob P canvas (chosenQuality P canvas options) = Inl e \<longrightarrow>
      optimizeImage P imageData options = Inr imageData) \<and>
   (imageData = Str s \<and> fetchBlob P s = Inr blob \<and> createImageBitmap P blob = Inr img \<and>
      drawOnCanvas P img options = Inr canvas \<and>
      convertToBlob P canvas (chosenQuality P canvas options) = Inr resultBlob \<and>
      readAsDataURL P resultBlob = Inl e \<longrightarrow>
      optimizeImage P imageData options = Inr imageData)"
proof (intro conjI impI)
  show "\<exists>v. optimizeImage P imageData options = Inr v"
    by (rule optimizeImage_total)
  show "optimizeImage P imageData options = Inr imageData" if "\<not> isImageDataUrl imageData"
    using that by (rule optimizeImage_invalid)
  show "optimizeImage P imageData options = Inr imageData"
    if "imageData = Str s \<and> fetchBlob P s = Inl e"
    using that by (simp add: optimizeImage_def optimizeImageTry_def)
  show "optimizeImage P imageData options = Inr imageData"
    if "imageData = Str s \<and> fetchBlob P s = Inr blob \<and> createImageBitmap P blob = Inl e"
    using that by (simp add: optimizeImage_def optimizeImageTry_def)
  show "optimizeImage P imageData options = Inr imageData"
    if "imageData = Str s \<and> fetchBlob P s = Inr blob \<and> createImageBitmap P blob = Inr img \<and>
      drawOnCanvas P img options = Inl e"
    using that by (simp add: optimizeImage_def optimizeImageTry_def)
  show "optimizeImage P imageData options = Inr imageData"
    if "imageData = Str s \<and> fetchBlob P s = Inr blob \<and> createImageBitmap P blob = Inr img \<and>
      drawOnCanvas P img options = Inr canvas \<and>
      convertToBlob P canvas (chosenQuality P canvas options) = Inl e"
    using that by (simp add: optimizeImage_def optimizeImageTry_def)
  show "optimizeImage P imageData options = Inr imageData"
    if "imageData = Str s \<and> fetchBlob P s = Inr blob \<and> createImageBitmap P blob = Inr img \<and>
      drawOnCanvas P img options = Inr canvas \<and>
      convertToBlob P canvas (chosenQuality P canvas options) = Inr resultBlob \<and>
      readAsDataURL P resultBlob = Inl e"
    using that by (simp add: optimizeImage_def optimizeImageTry_def)
qed

lemma optimizeImage_original_when_thrown_examples:
  "\<not> isImageDataUrl (Str (ascii ''hello'')) \<and>
   optimizeImage brokenDecoder (Str (ascii ''hello'')) plainOptions = Inr (Str (ascii ''hello'')) \<and>
   \<not> isImageDataUrl Null \<and>
   optimizeImage brokenDecoder Null plainOptions = Inr Null \<and>
   fetchBlob brokenDecoder (ascii ''data:image/png;base64,AAAA'') = Inr 26 \<and>
   createImageBitmap brokenDecoder 26 = Inl (PlatformException 1) \<and>
   optimizeImage brokenDecoder (Str (ascii ''data:image/png;base64,AAAA'')) plainOptions
     = Inr (Str (ascii ''data:image/png;base64,AAAA''))"
proof -
  have a: "\<not> isImageDataUrl (Str (ascii ''hello''))"
    by (simp add: isImageDataUrl_def startsWith_def ascii_def)
  have b: "\<not> isImageDataUrl Null" by (simp add: isImageDataUrl_def)
  have c: "fetchBlob brokenDecoder (ascii ''data:image/png;base64,AAAA'') = Inr 26"
    by (simp add: brokenDecoder_def ascii_def)
  have d: "createImageBitmap brokenDecoder 26 = Inl (PlatformException 1)"
    by (simp add: brokenDecoder_def)
  show ?thesis
    using a b c d
      optimizeImage_original_when_thrown[of brokenDecoder "Str (ascii ''hello'')" plainOptions]
      optimizeImage_original_when_thrown[of brokenDecoder Null plainOptions]
      optimizeImage_original_when_thrown[of brokenDecoder "Str (ascii ''data:image/png;base64,AAAA'')" plainOptions
         "ascii ''data:image/png;base64,AAAA''" "PlatformException 1" 26]
    by simp
qed

text \<open>
  Claim C6. The claim is that on any decode or encode failure the original image comes
  back unchanged. It fails when the last stage of the encoding fails without throwing:
  the \<open>FileReader\<close> of \<open>optimizeImage\<close> has an \<open>onloadend\<close> handler and no \<open>onerror\<close>
  (the helper \<open>blobToDataURL\<close> of the same file has both), so a read that fails resolves
  the promise with \<open>reader.result\<close>, which is \<open>null\<close>; the \<open>catch\<close> that returns the
  original is not reached. On the platform \<open>failedRead\<close> a valid data-URL image goes
  through every stage and \<open>optimizeImage\<close> returns \<open>null\<close>, not the image it was given.
\<close>

theorem optimizeImage_failed_read_returns_null:
  "isImageDataUrl (Str (ascii ''data:image/png;base64,AAAA'')) \<and>
   optimizeImage failedRead (Str (ascii ''data:image/png;base64,AAAA'')) plainOptions = Inr Null \<and>
   optimizeImage failedRead (Str (ascii ''data:image/png;base64,AAAA'')) plainOptions
     \<noteq> Inr (Str (ascii ''data:image/png;base64,AAAA''))"
  by (simp add: optimizeImage_def optimizeImageTry_def isImageDataUrl_def startsWith_def
      failedRead_def ascii_def)

section \<open>Properties of the compression ladder\<close>

lemma compressFrom_done: "length qualityLevels \<le> i \<Longrightarrow> compressFrom P img t i = ([], Inl CompressionFailed)"
  by (subst compressFrom.simps) simp

lemma compressFrom_hit:
  "i < length qualityLevels \<Longrightarrow> optimizeImage P img (ladderOptions i) = Inr (Str c) \<Longrightarrow>
   sizeInMB (base64Part c) \<le> t \<Longrightarrow> compressFrom P img t i = ([ladderOptions i], Inr c)"
  by (subst compressFrom.simps) simp

lemma compressFrom_miss:
  "i < length qualityLevels \<Longrightarrow> \<not> stepMeetsTarget P img t i \<Longrightarrow>
   compressFrom P img t i = logged (ladderOptions i) (compressFrom P img t (Suc i))"
  by (subst compressFrom.simps) (auto simp: stepMeetsTarget_def split: sum.splits jsvalue.splits)

lemma stepMeetsTarget_cases:
  obtains c where "optimizeImage P img (ladderOptions i) = Inr (Str c)" "sizeInMB (base64Part c) \<le> t"
  | "\<not> stepMeetsTarget P img t i"
proof (cases "stepMeetsTarget P img t i")
  case True
  then obtain c where "optimizeImage P img (ladderOptions i) = Inr (Str c)"
    "sizeInMB (base64Part c) \<le> t"
    by (auto simp: stepMeetsTarget_def split: sum.splits jsvalue.splits)
  then show ?thesis by (rule that(1))
next
  case False
  then show ?thesis by (rule that(2))
qed

lemma compressFrom_spec:
  "i \<le> length qualityLevels \<Longrightarrow>
   (case compressFrom P img t i of
      (calls, Inr c) \<Rightarrow>
        sizeInMB (base64Part c) \<le> t \<and>
        (\<exists>k. i \<le> k \<and> k < length qualityLevels \<and> calls = map ladderOptions [i..<Suc k] \<and>
             optimizeImage P img (ladderOptions k) = Inr (Str c) \<and>
             (\<forall>j. i \<le> j \<and> j < k \<longrightarrow> \<not> stepMeetsTarget P img t j))
    | (calls, Inl e) \<Rightarrow>
        e = CompressionFailed \<and> calls = map ladderOptions [i..<length qualityLevels] \<and>
        (\<forall>j. i \<le> j \<and> j < length qualityLevels \<longrightarrow> \<not> stepMeetsTarget P img t j))"
proof (induction "length qualityLevels - i" arbitrary: i)
  case 0
  then have "compressFrom P img t i = ([], Inl CompressionFailed)"
    by (intro compressFrom_done) simp
  moreover have "i = length qualityLevels" using 0 by simp
  ultimately show ?case by auto
next
  case (Suc n)
  then have lt: "i < length qualityLevels" by simp
  show ?case
  proof (cases rule: stepMeetsTarget_cases[of P img i t])
    case (1 c)
    then have "compressFrom P img t i = ([ladderOptions i], Inr c)"
      using lt by (intro compressFrom_hit)
    then show ?thesis using 1 lt by auto
  next
    case 2
    have eq: "compressFrom P img t i = logged (ladderOptions i) (compressFrom P img t (Suc i))"
      using lt 2 by (rule compressFrom_miss)
    have IH: "case compressFrom P img t (Suc i) of
      (calls, Inr c) \<Rightarrow>
        sizeInMB (base64Part c) \<le> t \<and>
        (\<exists>k. Suc i \<le> k \<and> k < length qualityLevels \<and> calls = map ladderOptions [Suc i..<Suc k] \<and>
             optimizeImage P img (ladderOptions k) = Inr (Str c) \<and>
             (\<forall>j. Suc i \<le> j \<and> j < k \<longrightarrow> \<not> stepMeetsTarget P img t j))
    | (calls, Inl e) \<Rightarrow>
        e = CompressionFailed \<and> calls = map ladderOptions [Suc i..<length qualityLevels] \<and>
        (\<forall>j. Suc i \<le> j \<and> j < length qualityLevels \<longrightarrow> \<not> stepMeetsTarget P img t j)"
    proof -
      have n: "n = length qualityLevels - Suc i" using Suc.hyps(2) by simp
      have le: "Suc i \<le> length qualityLevels" using lt by simp
      show ?thesis by (rule Suc.hyps(1)[OF n le])
    qed
    obtain calls res where r: "compressFrom P img t (Suc i) = (calls, res)"
      by (cases "compressFrom P img t (Suc i)")
    show ?thesis
    proof (cases res)
      case (Inl e)
      have step: "\<And>j. i \<le> j \<Longrightarrow> j < length qualityLevels \<Longrightarrow> \<not> stepMeetsTarget P img t j"
      proof -
        fix j assume j: "i \<le> j" "j < length qualityLevels"
        have rest: "\<forall>j. Suc i \<le> j \<and> j < length qualityLevels \<longrightarrow> \<not> stepMeetsTarget P img t j"
          using IH unfolding r Inl by simp
        show "\<not> stepMeetsTarget P img t j"
        proof (cases "j = i")
          case True then show ?thesis using 2 by simp
        next
          case False then show ?thesis using rest j by simp
        qed
      qed
      show ?thesis
        using IH lt step unfolding eq r Inl logged_def
        by (simp add: upt_conv_Cons)
    next
      case (Inr c)
      from IH obtain k where k: "Suc i \<le> k" "k < length qualityLevels"
        "calls = map ladderOptions [Suc i..<Suc k]"
        "optimizeImage P img (ladderOptions k) = Inr (Str c)"
        "\<forall>j. Suc i \<le> j \<and> j < k \<longrightarrow> \<not> stepMeetsTarget P img t j"
        and sz: "sizeInMB (base64Part c) \<le> t"
        unfolding r Inr by auto
      have step: "\<forall>j. i \<le> j \<and> j < k \<longrightarrow> \<not> stepMeetsTarget P img t j"
      proof (intro allI impI)
        fix j assume j: "i \<le> j \<and> j < k"
        show "\<not> stepMeetsTarget P img t j"
        proof (cases "j = i")
          case True then show ?thesis using 2 by simp
        next
          case False then show ?thesis using k(5) j by simp
        qed
      qed
      have calls: "ladderOptions i # calls = map ladderOptions [i..<Suc k]"
        using k(1,3) by (simp add: upt_conv_Cons)
      show ?thesis
        unfolding eq r Inr logged_def
        using sz k(1,2,4) step calls by auto
    qed
  qed
qed

lemma ladder_pairs:
  "map (\<lambda>i. (quality (ladderOptions i), maxDimension (ladderOptions i))) [0..<4] =
     [(Some (8 / 10), Some 1400), (Some (6 / 10), Some 1200),
      (Some (4 / 10), Some 1000), (Some (3 / 10), Some 800)]"
  by (simp add: ladderOptions_def qualityLevels_def dimensionLimits_def upt_conv_Cons)

text \<open>
  Claim C4. The ladder is (0.8, 1400), (0.6, 1200), (0.4, 1000), (0.3, 800). For every
  platform, image and target, \<open>compressImageToSize\<close> either returns a data URL whose
  estimated size is at or under the target, which is the result of the first ladder step
  that meets the target, after calling \<open>optimizeImage\<close> with the steps up to that one in
  ladder order and no other; or it fails with the compression error after calling
  \<open>optimizeImage\<close> with exactly the four steps in order, none of which met the target.
\<close>

theorem compressImageToSize_ladder:
  "map (\<lambda>i. (quality (ladderOptions i), maxDimension (ladderOptions i))) [0..<4] =
     [(Some (8 / 10), Some 1400), (Some (6 / 10), Some 1200),
      (Some (4 / 10), Some 1000), (Some (3 / 10), Some 800)] \<and>
   (case compressImageToSize P imageData targetSizeMB of
      (calls, Inr c) \<Rightarrow>
        sizeInMB (base64Part c) \<le> targetSizeMB \<and>
        (\<exists>k<4. calls = map ladderOptions [0..<Suc k] \<and>
             optimizeImage P imageData (ladderOptions k) = Inr (Str c) \<and>
             (\<forall>j<k. \<not> stepMeetsTarget P imageData targetSizeMB j))
    | (calls, Inl e) \<Rightarrow>
        e = CompressionFailed \<and> calls = map ladderOptions [0..<4] \<and>
        (\<forall>j<4. \<not> stepMeetsTarget P imageData targetSizeMB j))"
proof -
  have len: "length qualityLevels = 4" by (simp add: qualityLevels_def)
  have "case compressFrom P imageData targetSizeMB 0 of
      (calls, Inr c) \<Rightarrow>
        sizeInMB (base64Part c) \<le> targetSizeMB \<and>
        (\<exists>k. 0 \<le> k \<and> k < length qualityLevels \<and> calls = map ladderOptions [0..<Suc k] \<and>
             optimizeImage P imageData (ladderOptions k) = Inr (Str c) \<and>
             (\<forall>j. 0 \<le> j \<and> j < k \<longrightarrow> \<not> stepMeetsTarget P imageData targetSizeMB j))
    | (calls, Inl e) \<Rightarrow>
        e = CompressionFailed \<and> calls = map ladderOptions [0..<length qualityLevels] \<and>
        (\<forall>j. 0 \<le> j \<and> j < length qualityLevels \<longrightarrow> \<not> stepMeetsTarget P imageData targetSizeMB j)"
    by (rule compressFrom_spec) simp
  then have "case compressImageToSize P imageData targetSizeMB of
      (calls, Inr c) \<Rightarrow>
        sizeInMB (base64Part c) \<le> targetSizeMB \<and>
        (\<exists>k<4. calls = map ladderOptions [0..<Suc k] \<and>
             optimizeImage P imageData (ladderOptions k) = Inr (Str c) \<and>
             (\<forall>j<k. \<not> stepMeetsTarget P imageData targetSizeMB j))
    | (calls, Inl e) \<Rightarrow>
        e = CompressionFailed \<and> calls = map ladderOptions [0..<4] \<and>
        (\<forall>j<4. \<not> stepMeetsTarget P imageData targetSizeMB j)"
    unfolding compressImageToSize_def len
    by (auto split: prod.splits sum.splits)
  with ladder_pairs show ?thesis by blast
qed

lemma jpegUrl_size: "sizeInMB (base64Part (jpegUrl n)) = of_nat n * (3 / 4) / 1048576"
proof -
  have "base64Part (jpegUrl n) = replicate n 0x41"
    unfolding jpegUrl_def by (rule base64Part_dataUrl) (simp_all add: ascii_def)
  then show ?thesis by (simp add: sizeInMB_def)
qed

lemma jpegUrl_is_image: "isImageDataUrl (Str (jpegUrl n))"
  by (simp add: isImageDataUrl_def jpegUrl_def startsWith_def ascii_def)

lemma shrinking_step:
  "optimizeImage shrinkingEncoder (Str (jpegUrl n)) (ladderOptions i) =
     Inr (Str (jpegUrl (if qualityLevels ! i \<le> 0.6 then 1000 else 16000000)))"
  using jpegUrl_is_image[of n]
  by (simp add: optimizeImage_def optimizeImageTry_def shrinkingEncoder_def
      chosenQuality_def ladderOptions_def)

text \<open>
  The theorem on a 21,000,000-character payload (over 15 MB) with the target 10: the
  first step stays over the target, the second meets it and is returned.
\<close>

theorem compressImageToSize_ladder_witness:
  "15 < sizeInMB (base64Part (jpegUrl 21000000)) \<and>
   \<not> stepMeetsTarget shrinkingEncoder (Str (jpegUrl 21000000)) 10 0 \<and>
   stepMeetsTarget shrinkingEncoder (Str (jpegUrl 21000000)) 10 1 \<and>
   compressImageToSize shrinkingEncoder (Str (jpegUrl 21000000)) 10 =
     ([ladderOptions 0, ladderOptions 1], Inr (jpegUrl 1000)) \<and>
   sizeInMB (base64Part (jpegUrl 1000)) \<le> 10"
proof -
  have big: "15 < sizeInMB (base64Part (jpegUrl 21000000))"
    by (simp add: jpegUrl_size)
  have small: "sizeInMB (base64Part (jpegUrl 1000)) \<le> 10"
    by (simp add: jpegUrl_size)
  have s0: "\<not> stepMeetsTarget shrinkingEncoder (Str (jpegUrl 21000000)) 10 0"
    by (simp add: stepMeetsTarget_def shrinking_step qualityLevels_def jpegUrl_size)
  have s1: "stepMeetsTarget shrinkingEncoder (Str (jpegUrl 21000000)) 10 1"
    by (simp add: stepMeetsTarget_def shrinking_step qualityLevels_def jpegUrl_size)
  have o1: "optimizeImage shrinkingEncoder (Str (jpegUrl 21000000)) (ladderOptions 1)
      = Inr (Str (jpegUrl 1000))"
    by (simp add: shrinking_step qualityLevels_def)
  have run: "compressImageToSize shrinkingEncoder (Str (jpegUrl 21000000)) 10 =
     ([ladderOptions 0, ladderOptions 1], Inr (jpegUrl 1000))"
    unfolding compressImageToSize_def
    using compressFrom_miss[OF _ s0] compressFrom_hit[OF _ o1 small]
    by (simp add: qualityLevels_def logged_def)
  show ?thesis
    using big small s0 s1 run
      compressImageToSize_ladder[of shrinkingEncoder "Str (jpegUrl 21000000)" 10]
    by simp
qed

section \<open>Properties of the result cache\<close>

lemma mapSet_length: "length (mapSet m k v) \<le> Suc (length m)"
  by (induction m) auto

lemma mapSet_keys_present:
  "k \<in> fst ` set m \<Longrightarrow> map fst (mapSet m k v) = map fst m"
  by (induction m) force+

lemma mapSet_keys_absent:
  "k \<notin> fst ` set m \<Longrightarrow> mapSet m k v = m @ [(k, v)]"
  by (induction m) auto

lemma mapSet_distinct: "distinct (map fst m) \<Longrightarrow> distinct (map fst (mapSet m k v))"
  by (cases "k \<in> fst ` set m") (simp_all add: mapSet_keys_present mapSet_keys_absent)

lemma mapDelete_distinct: "distinct (map fst m) \<Longrightarrow> distinct (map fst (mapDelete m k))"
  by (simp add: mapDelete_def distinct_map_filter)

lemma mapDelete_head_length:
  "length (mapDelete ((k, v) # m) k) \<le> length m"
  by (simp add: mapDelete_def)

lemma storeResult_size: "mapSize m \<le> 30 \<Longrightarrow> mapSize (storeResult m k v) \<le> 30"
proof -
  assume a: "mapSize m \<le> 30"
  have l: "length (mapSet m k v) \<le> 31"
    using mapSet_length[of m k v] a by (simp add: mapSize_def)
  show ?thesis
  proof (cases "mapSet m k v")
    case Nil
    then show ?thesis by (simp add: storeResult_def mapSize_def)
  next
    case (Cons e rest)
    obtain k' v' where e: "e = (k', v')" by (cases e)
    have "length (mapDelete ((k', v') # rest) k') \<le> length rest"
      by (rule mapDelete_head_length)
    then show ?thesis using l unfolding storeResult_def Let_def Cons e mapSize_def
      by auto
  qed
qed

lemma storeResult_distinct:
  "distinct (map fst m) \<Longrightarrow> distinct (map fst (storeResult m k v))"
proof -
  assume "distinct (map fst m)"
  then have d: "distinct (map fst (mapSet m k v))" by (rule mapSet_distinct)
  then have "\<And>k'. distinct (map fst (mapDelete (mapSet m k v) k'))" by (rule mapDelete_distinct)
  with d show ?thesis
    by (cases "mapSet m k v") (auto simp: storeResult_def Let_def)
qed

lemma handleImageProcessing_size:
  "mapSize m \<le> 30 \<Longrightarrow> mapSize (fst (handleImageProcessing m k p)) \<le> 30"
  by (auto simp: handleImageProcessing_def storeResult_size split: option.splits sum.splits)

lemma handleImageProcessing_distinct:
  "distinct (map fst m) \<Longrightarrow> distinct (map fst (fst (handleImageProcessing m k p)))"
  by (auto simp: handleImageProcessing_def storeResult_distinct split: option.splits sum.splits)

lemma reachable_invariant:
  "reachable st \<Longrightarrow> mapSize (imageCache st) \<le> 30 \<and> distinct (map fst (imageCache st))"
proof (induction rule: reachable.induct)
  case initial
  then show ?case by (simp add: mapSize_def)
next
  case (processed st cacheKey outcome)
  then show ?case by (simp add: handleImageProcessing_size handleImageProcessing_distinct)
next
  case (storageChanged st changes namespace)
  then show ?case by (simp add: onStorageChanged_def Let_def mapSize_def)
next
  case (settingsLoaded st now)
  then show ?case by simp
next
  case (cleared st)
  then show ?case by (simp add: mapSize_def)
qed

lemma storeResult_evicts_oldest:
  assumes "distinct (map fst m)" "mapSize m = 30" "mapGet m k = None"
  shows "storeResult m k v = tl m @ [(k, v)]"
proof -
  have absent: "k \<notin> fst ` set m"
    using assms(3) by (simp add: mapGet_def map_of_eq_None_iff)
  obtain k0 v0 rest where m: "m = (k0, v0) # rest"
    using assms(2) by (cases m) (auto simp: mapSize_def)
  have k0: "k0 \<notin> fst ` set rest" "k0 \<noteq> k"
    using assms(1) absent unfolding m by auto
  have "filter (\<lambda>e. fst e \<noteq> k0) rest = rest"
    using k0(1) by (intro filter_True) auto
  moreover have "mapSet m k v = (k0, v0) # rest @ [(k, v)]"
    using mapSet_keys_absent[OF absent, of v] by (simp add: m)
  moreover have "length rest = 29"
    using assms(2) by (simp add: m mapSize_def)
  ultimately show ?thesis
    using k0(2) unfolding storeResult_def Let_def
    by (simp add: mapSize_def mapDelete_def m)
qed

lemma storeResult_overwrite:
  assumes "mapSize m \<le> 30" "mapGet m k \<noteq> None"
  shows "map fst (storeResult m k v) = map fst m"
proof -
  have present: "k \<in> fst ` set m"
    using assms(2) by (simp add: mapGet_def map_of_eq_None_iff)
  have "length (mapSet m k v) = length m"
    using mapSet_keys_present[OF present, of v] by (metis length_map)
  then show ?thesis
    using assms(1) by (simp add: storeResult_def Let_def mapSize_def mapSet_keys_present[OF present])
qed

lemma onStorageChanged_clears:
  assumes "namespace = ascii ''local''" "ocrSettingChanged changes"
  shows "imageCache (onStorageChanged changes namespace st) = []"
  using assms by (simp add: onStorageChanged_def Let_def mapSize_def)

text \<open>
  Claim C3. In every state the background script can reach, the cache holds at most 30
  entries. Storing a new key into a cache of 30 entries removes exactly the entry that
  was inserted first and appends the new one; storing under a key that is present keeps
  the order of the keys, and a cache hit leaves the cache as it is (insertion order, not
  least recently used). When the storage listener is told, for the \<open>local\<close> area where
  the script keeps its settings, that the API key, the language, the mode or the model
  changed, the cache is emptied: \<open>get\<close> finds no key afterwards.
\<close>

theorem imageCache_bounded_fifo:
  "(reachable st \<longrightarrow> mapSize (imageCache st) \<le> 30) \<and>
   (distinct (map fst m) \<and> mapSize m = 30 \<and> mapGet m cacheKey = None \<longrightarrow>
      storeResult m cacheKey processedText = tl m @ [(cacheKey, processedText)]) \<and>
   (mapSize m \<le> 30 \<and> mapGet m cacheKey \<noteq> None \<longrightarrow>
      map fst (storeResult m cacheKey processedText) = map fst m) \<and>
   (mapGet m cacheKey = Some cached \<and> cached \<noteq> [] \<longrightarrow>
      fst (handleImageProcessing m cacheKey outcome) = m) \<and>
   (namespace = ascii ''local'' \<and> ocrSettingChanged changes \<longrightarrow>
      (\<forall>k. mapGet (imageCache (onStorageChanged changes namespace st)) k = None))"
  using reachable_invariant[of st] storeResult_evicts_oldest[of m cacheKey processedText]
    storeResult_overwrite[of m cacheKey processedText] onStorageChanged_clears[of namespace changes st]
  by (simp add: mapGet_def handleImageProcessing_def)

lemma sampleCache_keys: "map fst (sampleCache n) = map (\<lambda>i. [i]) [0..<n]"
  by (simp add: sampleCache_def comp_def)

lemma sampleCache_get:
  "mapGet (sampleCache n) [i] = (if i < n then Some (ascii ''text'') else None)"
proof (cases "i < n")
  case True
  have "distinct (map fst (sampleCache n))"
    by (simp add: sampleCache_keys distinct_map inj_on_def)
  moreover have "([i], ascii ''text'') \<in> set (sampleCache n)"
    using True by (auto simp: sampleCache_def)
  ultimately show ?thesis using True by (simp add: mapGet_def)
next
  case False
  then have "[i] \<notin> fst ` set (sampleCache n)"
    by (auto simp: sampleCache_def)
  then show ?thesis using False by (simp add: mapGet_def map_of_eq_None_iff)
qed

theorem imageCache_bounded_fifo_witness:
  "reachable \<lparr>imageCache = [], settingsLastUpdate = 0\<rparr> \<and>
   mapSize (imageCache \<lparr>imageCache = [], settingsLastUpdate = 0\<rparr>) \<le> 30 \<and>
   distinct (map fst (sampleCache 30)) \<and> mapSize (sampleCache 30) = 30 \<and>
   mapGet (sampleCache 30) [30] = None \<and>
   storeResult (sampleCache 30) [30] (ascii ''new'') = tl (sampleCache 30) @ [([30], ascii ''new'')] \<and>
   mapGet (sampleCache 30) [7] \<noteq> None \<and>
   map fst (storeResult (sampleCache 30) [7] (ascii ''new'')) = map fst (sampleCache 30) \<and>
   ocrSettingChanged [ascii ''ocrMode''] \<and>
   mapGet (imageCache (onStorageChanged [ascii ''ocrMode''] (ascii ''local'')
      \<lparr>imageCache = sampleCache 30, settingsLastUpdate = 5\<rparr>)) [7] = None"
proof -
  have r: "reachable \<lparr>imageCache = [], settingsLastUpdate = 0\<rparr>" by (rule reachable.initial)
  have d: "distinct (map fst (sampleCache 30))"
    by (simp add: sampleCache_keys distinct_map inj_on_def)
  have s: "mapSize (sampleCache 30) = 30" by (simp add: mapSize_def sampleCache_def)
  have g30: "mapGet (sampleCache 30) [30] = None" by (simp add: sampleCache_get)
  have g7: "mapGet (sampleCache 30) [7] \<noteq> None" by (simp add: sampleCache_get)
  have c: "ocrSettingChanged [ascii ''ocrMode'']" by (simp add: ocrSettingChanged_def)
  show ?thesis
    using r d s g30 g7 c
      imageCache_bounded_fifo[where st = "\<lparr>imageCache = [], settingsLastUpdate = 0\<rparr>"
        and m = "sampleCache 30" and cacheKey = "[30]" and processedText = "ascii ''new''"]
      imageCache_bounded_fifo[where m = "sampleCache 30" and cacheKey = "[7]"
        and processedText = "ascii ''new''" and namespace = "ascii ''local''"
        and changes = "[ascii ''ocrMode'']"
        and st = "\<lparr>imageCache = sampleCache 30, settingsLastUpdate = 5\<rparr>"]
    by simp
qed

section \<open>Properties of the retry loop\<close>

lemma retryLoop_temporary:
  assumes "tryAttempt c (network 0) = Inl m" "isTemporaryError m"
  shows "retryLoop c network 0 None =
    ([ApiCall 0, Wait 1000, ApiCall 1], tryAttempt c (network 1))"
proof -
  have second: "retryLoop c network 1 (Some m) = ([ApiCall 1], tryAttempt c (network 1))"
    by (subst retryLoop.simps) (simp add: MAX_RETRIES_def split: sum.splits)
  show ?thesis
    using assms second
    by (subst retryLoop.simps) (simp add: MAX_RETRIES_def retryDelay_def)
qed

lemma retryLoop_permanent:
  assumes "tryAttempt c (network 0) = Inl m" "\<not> isTemporaryError m"
  shows "retryLoop c network 0 None = ([ApiCall 0], Inl m)"
  using assms by (subst retryLoop.simps) (simp add: MAX_RETRIES_def)

lemma retryLoop_success:
  assumes "tryAttempt c (network 0) = Inr r"
  shows "retryLoop c network 0 None = ([ApiCall 0], Inr r)"
  using assms by (subst retryLoop.simps) (simp add: MAX_RETRIES_def)

lemma includes_append_right: "includesStr t x \<Longrightarrow> includesStr (p @ t) x"
  unfolding includesStr_def sublist_def by (metis append.assoc)

lemma includes_prefix: "includesStr (x @ t) x"
  by (simp add: includesStr_def)

text \<open>
  With an error body that can be read and whose message, when there is one, is a string
  or an array, a status of 429 or at least 500 is classified temporary, and by
  \<open>retryLoop_temporary\<close> it is retried exactly once after 1000 ms.
\<close>

lemma readable_server_error_is_temporary:
  assumes "status = 429 \<or> status \<ge> 500" "\<forall>m. body \<noteq> ErrorBodyUnreadable m"
    "errorMessageOf body \<noteq> MessageOther"
  shows "\<exists>m. tryAttempt c (ResponseNotOk status body) = Inl m \<and> isTemporaryError m"
proof -
  have "tryAttempt c (ResponseNotOk status body) =
      Inl (temporaryLimitPrefix @ messageShown (errorMessageOf body))"
    using assms by (cases body) (auto simp: tryAttempt_def Let_def)
  moreover have "isTemporaryError (temporaryLimitPrefix @ messageShown (errorMessageOf body))"
  proof -
    have "includesStr (temporaryLimitMarker @ (ascii '': '' @ messageShown (errorMessageOf body)))
        temporaryLimitMarker"
      by (rule includes_prefix)
    moreover have "temporaryLimitMarker \<noteq> []" by (simp add: temporaryLimitMarker_def)
    ultimately show ?thesis
      unfolding isTemporaryError_def temporaryLimitPrefix_def by simp
  qed
  ultimately show ?thesis by blast
qed

text \<open>
  When \<open>error.message\<close> of the error object is truthy and has no \<open>includes\<close> method (a
  number, say), the call \<open>errorMessage.includes('overloaded')\<close> throws a \<open>TypeError\<close>
  before the status is looked at; its message holds no temporary marker, so there is one
  call and no retry.
\<close>

lemma message_without_includes_not_retried:
  "retryLoop False numericMessage 0 None = ([ApiCall 0], Inl includesTypeError)"
proof -
  have t: "tryAttempt False (numericMessage 0) = Inl includesTypeError"
    by (simp add: tryAttempt_def numericMessage_def errorMessageOf_def)
  have n: "\<not> isTemporaryError includesTypeError"
    by (simp add: isTemporaryError_def includesTypeError_def includesStr_def ascii_def
        temporaryLimitMarker_def timeoutMarkerKana_def sublist_code)
  show ?thesis
    using retryLoop_permanent[where network = numericMessage and c = False, OF t n] by simp
qed

text \<open>
  Claim C5 says that a failure with status 429 or at least 500 is retried once after a
  backoff. The code misses a case: when the body of such a response is not JSON,
  \<open>response.json()\<close> throws inside the \<open>try\<close> block before the status is looked at, the
  \<open>catch\<close> finds no temporary marker in the message of that exception, and the error
  leaves the function after one call and no wait. Here the first answer is a 503 with an
  HTML body, temporary by the words of the specification.
\<close>

theorem extractTextWithGemini_503_not_retried:
  "temporaryBySpec (gatewayDown 0) \<and>
   retryLoop False gatewayDown 0 None = ([ApiCall 0], Inl htmlParseError)"
proof -
  have t: "tryAttempt False (gatewayDown 0) = Inl htmlParseError"
    by (simp add: tryAttempt_def gatewayDown_def)
  have n: "\<not> isTemporaryError htmlParseError"
    by (simp add: isTemporaryError_def htmlParseError_def includesStr_def ascii_def
        temporaryLimitMarker_def timeoutMarkerKana_def sublist_code)
  have s: "temporaryBySpec (gatewayDown 0)"
    by (simp add: temporaryBySpec_def gatewayDown_def)
  show ?thesis
    using s retryLoop_permanent[where network = gatewayDown and c = False, OF t n] by simp
qed

section \<open>formatPhoneNumber on its own results\<close>

lemma splitOn_nonempty: "splitOn p s \<noteq> []"
  by (induction s) (auto split: list.splits)

lemma splitOn_append_sep:
  "\<forall>c \<in> set h. \<not> p c \<Longrightarrow> p x \<Longrightarrow> splitOn p (h @ x # r) = h # splitOn p r"
  by (induction h) auto

lemma hyphen_not_digit: "\<not> isDigit hyphen"
  by (simp add: isDigit_def)

lemma digits_no_hyphen: "list_all isDigit d \<Longrightarrow> hyphen \<notin> set d"
  by (auto simp: list_all_iff isDigit_def)

lemma splitOn_hyphenate3:
  assumes "list_all isDigit d"
  shows "splitOn (\<lambda>c. c = hyphen) (hyphenate3 a b d) = [take a d, take b (drop a d), drop (a + b) d]"
proof -
  have nh: "\<And>n m. \<forall>c \<in> set (take n (drop m d)). \<not> c = hyphen"
    using digits_no_hyphen[OF assms] by (metis in_set_dropD in_set_takeD)
  have nh1: "\<forall>c \<in> set (take a d). \<not> c = hyphen"
    using digits_no_hyphen[OF assms] by (metis in_set_takeD)
  have nh3: "\<forall>c \<in> set (drop (a + b) d). \<not> c = hyphen"
    using digits_no_hyphen[OF assms] by (metis in_set_dropD)
  show ?thesis
    unfolding hyphenate3_def
    using nh[of b a] nh1 nh3
    by (simp add: splitOn_append_sep splitOn_none)
qed

lemma splitOn_hyphenate2:
  assumes "list_all isDigit d"
  shows "splitOn (\<lambda>c. c = hyphen) (hyphenate2 a d) = [take a d, drop a d]"
proof -
  have nh1: "\<forall>c \<in> set (take a d). \<not> c = hyphen"
    using digits_no_hyphen[OF assms] by (metis in_set_takeD)
  have nh3: "\<forall>c \<in> set (drop a d). \<not> c = hyphen"
    using digits_no_hyphen[OF assms] by (metis in_set_dropD)
  show ?thesis
    unfolding hyphenate2_def using nh1 nh3
    by (simp add: splitOn_append_sep splitOn_none)
qed

lemma list_all_take_drop: "list_all P d \<Longrightarrow> list_all P (take n (drop m d))"
  by (auto simp: list_all_iff dest: in_set_takeD in_set_dropD)

lemma validHyphenated_hyphenate3:
  assumes "list_all isDigit d" "length d = a + b + 4" "2 \<le> a" "a \<le> 4" "2 \<le> b" "b \<le> 4"
  shows "validHyphenated (hyphenate3 a b d)"
  using assms list_all_take_drop[OF assms(1), of a 0] list_all_take_drop[OF assms(1), of b a]
    list_all_take_drop[OF assms(1), of 4 "a + b"]
  by (simp add: validHyphenated_def splitOn_hyphenate3 digitRun_def)

lemma not_valid_333:
  assumes "list_all isDigit d" "length d = 9"
  shows "\<not> validHyphenated (hyphenate3 3 3 d)"
  using assms by (simp add: validHyphenated_def splitOn_hyphenate3 digitRun_def)

lemma not_valid_44:
  assumes "list_all isDigit d"
  shows "\<not> validHyphenated (hyphenate2 4 d)"
  using assms by (simp add: validHyphenated_def splitOn_hyphenate2)

lemma not_valid_digits:
  assumes "list_all isDigit d"
  shows "\<not> validHyphenated d"
  using validHyphenated_digits(2)[of d] digits_no_hyphen[OF assms] by blast

lemma strip_digits: "list_all isDigit d \<Longrightarrow> stripNonDigits d = d"
  by (simp add: stripNonDigits_def list_all_iff)

lemma strip_hyphenate3: "list_all isDigit d \<Longrightarrow> stripNonDigits (hyphenate3 a b d) = d"
proof -
  assume a: "list_all isDigit d"
  have "stripNonDigits (hyphenate3 a b d) = take a d @ take b (drop a d) @ drop (a + b) d"
    using list_all_take_drop[OF a, of a 0] list_all_take_drop[OF a, of b a]
      list_all_take_drop[OF a, of "length d" "a + b"]
    by (simp add: hyphenate3_def stripNonDigits_def list_all_iff isDigit_def)
  also have "\<dots> = d"
    by (metis append_take_drop_id drop_drop add.commute)
  finally show ?thesis .
qed

lemma strip_hyphenate2: "list_all isDigit d \<Longrightarrow> stripNonDigits (hyphenate2 a d) = d"
proof -
  assume a: "list_all isDigit d"
  have "stripNonDigits (hyphenate2 a d) = take a d @ drop a d"
    using list_all_take_drop[OF a, of a 0] list_all_take_drop[OF a, of "length d" a]
    by (simp add: hyphenate2_def stripNonDigits_def list_all_iff isDigit_def)
  then show ?thesis by simp
qed

lemma areaCodeLengthSpec_range: "areaCodeLengthSpec d \<in> {2, 3, 4}"
  by (simp add: areaCodeLengthSpec_def)

text \<open>The result of \<open>formatPhoneNumber\<close>, by cases.\<close>

lemma formatPhoneNumber_cases:
  fixes s
  defines "d \<equiv> stripNonDigits s"
  obtains "formatPhoneNumber s = []"
  | "validHyphenated s" "formatPhoneNumber s = s" "length d \<le> 11"
  | k where "length d = 10" "k \<in> {2, 3, 4}" "formatPhoneNumber s = hyphenate3 k (6 - k) d"
  | "length d = 11" "formatPhoneNumber s = hyphenate3 3 4 d"
  | "length d = 8" "formatPhoneNumber s = hyphenate2 4 d"
  | "length d = 9" "formatPhoneNumber s = hyphenate3 3 3 d"
  | "length d \<le> 11" "length d \<notin> {8, 9, 10, 11}" "formatPhoneNumber s = d"
proof -
  note T = formatPhoneNumber_by_digit_count_aux[of s]
  consider "11 < length d" | "length d \<le> 11" "validHyphenated s"
    | "length d \<le> 11" "\<not> validHyphenated s" by linarith
  then show ?thesis
  proof cases
    case 1
    then have "formatPhoneNumber s = []" by (auto simp: formatPhoneNumber_def d_def)
    then show ?thesis by (rule that(1))
  next
    case 2
    then have "formatPhoneNumber s = s" using T by (simp add: d_def)
    with 2 show ?thesis by (intro that(2))
  next
    case 3
    have all: "list_all isDigit d" unfolding d_def by (rule stripNonDigits_all)
    note F = formatPhoneNumber_digits[OF 3(2) 3(1)[unfolded d_def], folded d_def]
    consider "length d = 10" | "length d = 11" | "length d = 8" | "length d = 9"
      | "length d \<notin> {8, 9, 10, 11}" by auto
    then show ?thesis
    proof cases
      case 1
      have "formatPhoneNumber s = hyphenate3 (areaCodeLengthSpec d) (6 - areaCodeLengthSpec d) d"
        using area10[OF all 1] 1 by (simp add: F Let_def)
      then show ?thesis using 1 areaCodeLengthSpec_range by (intro that(3))
    next
      case 2
      then show ?thesis using regroup3[OF all, of 3 4 4] by (intro that(4)) (simp_all add: F Let_def)
    next
      case 3
      then show ?thesis using regroup2[OF all, of 4 4] by (intro that(5)) (simp_all add: F Let_def)
    next
      case 4
      then show ?thesis using regroup3[OF all, of 3 3 3] by (intro that(6)) (simp_all add: F Let_def)
    next
      case 5
      then show ?thesis using \<open>length d \<le> 11\<close> by (intro that(7)) (simp_all add: F Let_def)
    qed
  qed
qed

lemma formatPhoneNumber_idempotent: "formatPhoneNumber (formatPhoneNumber s) = formatPhoneNumber s"
proof -
  let ?d = "stripNonDigits s"
  have all: "list_all isDigit ?d" by (rule stripNonDigits_all)
  show ?thesis
  proof (cases s rule: formatPhoneNumber_cases)
    case 1
    then show ?thesis by (simp add: formatPhoneNumber_def)
  next
    case 2
    then show ?thesis by simp
  next
    case (3 k)
    have v: "validHyphenated (hyphenate3 k (6 - k) ?d)"
      using 3 by (intro validHyphenated_hyphenate3[OF all]) auto
    show ?thesis
      using formatPhoneNumber_by_digit_count_aux[of "hyphenate3 k (6 - k) ?d"] v 3(1)
      by (simp add: 3(3) strip_hyphenate3[OF all])
  next
    case 4
    have v: "validHyphenated (hyphenate3 3 4 ?d)"
      using 4 by (intro validHyphenated_hyphenate3[OF all]) auto
    show ?thesis
      using formatPhoneNumber_by_digit_count_aux[of "hyphenate3 3 4 ?d"] v 4(1)
      by (simp add: 4(2) strip_hyphenate3[OF all])
  next
    case 5
    have "formatPhoneNumber (hyphenate2 4 ?d) = hyphenate2 4 ?d"
      using regroup2[OF all, of 4 4] 5(1)
      by (simp add: formatPhoneNumber_digits[OF not_valid_44[OF all]] strip_hyphenate2[OF all] Let_def)
    then show ?thesis by (simp add: 5(2))
  next
    case 6
    have "formatPhoneNumber (hyphenate3 3 3 ?d) = hyphenate3 3 3 ?d"
      using regroup3[OF all, of 3 3 3] 6(1)
      by (simp add: formatPhoneNumber_digits[OF not_valid_333[OF all 6(1)]] strip_hyphenate3[OF all] Let_def)
    then show ?thesis by (simp add: 6(2))
  next
    case 7
    have "formatPhoneNumber ?d = ?d"
      using 7(1,2)
      by (simp add: formatPhoneNumber_digits[OF not_valid_digits[OF all]] strip_digits[OF all] Let_def)
    then show ?thesis by (simp add: 7(3))
  qed
qed

lemma validHyphenated_chars:
  assumes "validHyphenated s" shows "list_all isPhoneOut s"
proof -
  obtain a b c where sp: "splitOn (\<lambda>c. c = hyphen) s = [a, b, c]"
    and r: "digitRun 2 4 a" "digitRun 2 4 b" "digitRun 4 4 c"
    using assms unfolding validHyphenated_def by (auto split: list.splits)
  have f: "filter (\<lambda>c. c \<noteq> hyphen) s = a @ b @ c"
    using concat_splitOn[of "\<lambda>c. c = hyphen" s] sp by simp
  have "list_all isDigit (filter (\<lambda>c. c \<noteq> hyphen) s)"
    using r unfolding f digitRun_def by simp
  then show ?thesis
    by (auto simp: list_all_iff isPhoneOut_def)
qed

lemma hyphenate3_chars: "list_all isDigit d \<Longrightarrow> list_all isPhoneOut (hyphenate3 a b d)"
  by (auto simp: hyphenate3_def list_all_iff isPhoneOut_def dest: in_set_takeD in_set_dropD)

lemma hyphenate2_chars: "list_all isDigit d \<Longrightarrow> list_all isPhoneOut (hyphenate2 a d)"
  by (auto simp: hyphenate2_def list_all_iff isPhoneOut_def dest: in_set_takeD in_set_dropD)

lemma formatPhoneNumber_chars: "list_all isPhoneOut (formatPhoneNumber s)"
proof -
  have all: "list_all isDigit (stripNonDigits s)" by (rule stripNonDigits_all)
  show ?thesis
  proof (cases s rule: formatPhoneNumber_cases)
    case 1 then show ?thesis by simp
  next
    case 2 then show ?thesis using validHyphenated_chars by simp
  next
    case (3 k) then show ?thesis using hyphenate3_chars[OF all] by simp
  next
    case 4 then show ?thesis using hyphenate3_chars[OF all] by simp
  next
    case 5 then show ?thesis using hyphenate2_chars[OF all] by simp
  next
    case 6 then show ?thesis using hyphenate3_chars[OF all] by simp
  next
    case 7 then show ?thesis using all by (simp add: list_all_iff isPhoneOut_def)
  qed
qed

section \<open>Properties of the text post-processor\<close>

subsection \<open>The character classes as ranges\<close>

lemma class_by_count:
  assumes "list_all (\<lambda>c. lo \<le> c \<and> c \<le> hi) cls" "distinct cls" "length cls = Suc hi - lo"
  shows "set cls = {lo .. hi}"
proof -
  have sub: "set cls \<subseteq> {lo .. hi}" using assms(1) by (auto simp: list_all_iff)
  have "card (set cls) = card {lo .. hi}"
    using assms(2,3) by (simp add: distinct_card)
  then show ?thesis using sub by (simp add: card_subset_eq)
qed

lemma halfwidthKatakanaClass_range: "set halfwidthKatakanaClass = {0xFF66 .. 0xFF9D}"
  by (rule class_by_count) (simp_all add: halfwidthKatakanaClass_def)

lemma handakutenClass_range: "set handakutenClass = {0xFF8A .. 0xFF8E}"
  by (rule class_by_count) (simp_all add: handakutenClass_def)

lemma dakutenClass_range: "set dakutenClass = {0xFF76 .. 0xFF84} \<union> {0xFF8A .. 0xFF8E}"
proof -
  have a: "dakutenClass = [0xFF76, 0xFF77, 0xFF78, 0xFF79, 0xFF7A, 0xFF7B, 0xFF7C, 0xFF7D, 0xFF7E, 0xFF7F,
     0xFF80, 0xFF81, 0xFF82, 0xFF83, 0xFF84] @ handakutenClass"
    by (simp add: dakutenClass_def handakutenClass_def)
  have b: "set [0xFF76, 0xFF77, 0xFF78, 0xFF79, 0xFF7A, 0xFF7B, 0xFF7C, 0xFF7D, 0xFF7E, 0xFF7F,
     0xFF80, 0xFF81, 0xFF82, 0xFF83, 0xFF84] = {0xFF76 .. 0xFF84::nat}"
    by (rule class_by_count) simp_all
  show ?thesis unfolding a set_append b handakutenClass_range ..
qed

subsection \<open>trim\<close>

lemma trimmed_trim: "trimmed (trim s)"
proof -
  let ?u = "dropWhile isWhiteSpace s"
  let ?v = "dropWhile isWhiteSpace (rev ?u)"
  show ?thesis
  proof (cases "?v = []")
    case True
    then show ?thesis by (simp add: trimmed_def trim_def)
  next
    case False
    have une: "?u \<noteq> []"
    proof
      assume e: "?u = []"
      have "?v = []" unfolding e by simp
      with False show False by simp
    qed
    have h: "\<not> isWhiteSpace (hd ?v)" using False by (rule hd_dropWhile)
    have "suffix ?v (rev ?u)" by (rule suffix_dropWhile)
    then obtain ps where "rev ?u = ps @ ?v" by (auto simp: suffix_def)
    then have "last (rev ?u) = last (ps @ ?v)" by simp
    then have "last ?v = last (rev ?u)" using False by simp
    then have "last ?v = hd ?u" using une by (simp add: last_rev)
    moreover have "\<not> isWhiteSpace (hd ?u)" using une by (rule hd_dropWhile)
    ultimately have l: "\<not> isWhiteSpace (last ?v)" by simp
    show ?thesis
      using False h l by (simp add: trimmed_def trim_def hd_rev last_rev)
  qed
qed

lemma dropWhile_hd: "xs \<noteq> [] \<Longrightarrow> \<not> P (hd xs) \<Longrightarrow> dropWhile P xs = xs"
  by (cases xs) auto

lemma trim_trimmed: "trimmed s \<Longrightarrow> trim s = s"
proof (cases "s = []")
  case True
  then show ?thesis by (simp add: trim_def)
next
  case False
  assume "trimmed s"
  then have h: "\<not> isWhiteSpace (hd s)" and l: "\<not> isWhiteSpace (last s)"
    using False by (simp_all add: trimmed_def)
  have 1: "dropWhile isWhiteSpace s = s"
    using False h by (rule dropWhile_hd)
  have "hd (rev s) = last s" using False by (simp add: hd_rev)
  then have 2: "dropWhile isWhiteSpace (rev s) = rev s"
    using False l by (intro dropWhile_hd) simp_all
  show ?thesis by (simp add: trim_def 1 2)
qed

lemma trim_idem: "trim (trim s) = trim s"
  by (rule trim_trimmed) (rule trimmed_trim)

lemma trimmed_map:
  assumes "\<And>c. isWhiteSpace (f c) = isWhiteSpace c" "trimmed s"
  shows "trimmed (map f s)"
proof (cases "s = []")
  case True then show ?thesis by (simp add: trimmed_def)
next
  case False
  then have "hd (map f s) = f (hd s)" "last (map f s) = f (last s)"
    by (simp_all add: hd_map last_map)
  then show ?thesis using assms False by (simp add: trimmed_def)
qed

lemma no_ws_trimmed: "list_all (\<lambda>c. \<not> isWhiteSpace c) s \<Longrightarrow> trimmed s"
proof (cases "s = []")
  case True then show ?thesis by (simp add: trimmed_def)
next
  case False
  assume "list_all (\<lambda>c. \<not> isWhiteSpace c) s"
  then have "\<not> isWhiteSpace (hd s)" "\<not> isWhiteSpace (last s)"
    using False by (simp_all add: list_all_iff)
  then show ?thesis by (simp add: trimmed_def)
qed

lemma set_trim: "set (trim s) \<subseteq> set s"
proof
  fix x assume "x \<in> set (trim s)"
  then have "x \<in> set (dropWhile isWhiteSpace (rev (dropWhile isWhiteSpace s)))"
    by (simp add: trim_def)
  then have "x \<in> set (rev (dropWhile isWhiteSpace s))" by (rule set_dropWhileD)
  then have "x \<in> set (dropWhile isWhiteSpace s)" by simp
  then show "x \<in> set s" by (rule set_dropWhileD)
qed

subsection \<open>The tables\<close>

lemma kanaOut_props:
  assumes "kanaOut v"
  shows "settled v" "plainUnit v" "\<not> isWhiteSpace v" "\<not> becomesMark v" "\<not> isSeparator v"
    "introduced v"
  using assms
  by (auto simp: kanaOut_def settled_def plainUnit_def isWhiteSpace_def becomesMark_def
      isSeparator_def isFullwidthAlnum_def introduced_def)

lemma halfToFull_values: "map_of halfToFullKatakanaMap k = Some v \<Longrightarrow> kanaOut v"
proof -
  have "list_all (\<lambda>e. kanaOut (snd e)) halfToFullKatakanaMap"
    by (simp add: halfToFullKatakanaMap_def kanaOut_def)
  moreover assume "map_of halfToFullKatakanaMap k = Some v"
  then have "(k, v) \<in> set halfToFullKatakanaMap" by (rule map_of_SomeD)
  ultimately show ?thesis by (auto simp: list_all_iff)
qed

lemma dakuten_values: "map_of dakutenMap k = Some v \<Longrightarrow> kanaOut v"
proof -
  have "list_all (\<lambda>e. kanaOut (snd e)) dakutenMap"
    by (simp add: dakutenMap_def kanaOut_def)
  moreover assume "map_of dakutenMap k = Some v"
  then have "(k, v) \<in> set dakutenMap" by (rule map_of_SomeD)
  ultimately show ?thesis by (auto simp: list_all_iff)
qed

lemma handakuten_values: "map_of handakutenMap k = Some v \<Longrightarrow> kanaOut v"
proof -
  have "list_all (\<lambda>e. kanaOut (snd e)) handakutenMap"
    by (simp add: handakutenMap_def kanaOut_def)
  moreover assume "map_of handakutenMap k = Some v"
  then have "(k, v) \<in> set handakutenMap" by (rule map_of_SomeD)
  ultimately show ?thesis by (auto simp: list_all_iff)
qed

lemma undefined_kanaOut: "list_all kanaOut (ascii ''undefined'')"
  by (simp add: ascii_def kanaOut_def)

lemma withMark_out:
  assumes "\<And>k v. map_of table k = Some v \<Longrightarrow> kanaOut v" "kanaOut mark"
  shows "list_all kanaOut (withMark table mark p) \<and> withMark table mark p \<noteq> []"
proof (cases "map_of halfToFullKatakanaMap p")
  case None
  then show ?thesis using undefined_kanaOut assms(2) by (simp add: withMark_def)
next
  case (Some base)
  then have b: "kanaOut base" by (rule halfToFull_values)
  show ?thesis
  proof (cases "map_of table base")
    case None
    then show ?thesis using Some b assms(2) by (simp add: withMark_def)
  next
    case (Some v)
    then have "kanaOut v" by (rule assms(1))
    then show ?thesis using Some \<open>map_of halfToFullKatakanaMap p = Some base\<close>
      by (simp add: withMark_def)
  qed
qed

lemma withMark_dakuten:
  "list_all kanaOut (withMark dakutenMap 0x309B p) \<and> withMark dakutenMap 0x309B p \<noteq> []"
  by (rule withMark_out) (auto dest: dakuten_values simp: kanaOut_def)

lemma withMark_handakuten:
  "list_all kanaOut (withMark handakutenMap 0x309C p) \<and> withMark handakutenMap 0x309C p \<noteq> []"
  by (rule withMark_out) (auto dest: handakuten_values simp: kanaOut_def)

subsection \<open>The width conversions\<close>

lemma replacePairs_all:
  assumes "\<And>a. list_all P (f a)" "list_all P s"
  shows "list_all P (replacePairs cls m f s)"
proof -
  have fa: "\<And>a x. x \<in> set (f a) \<Longrightarrow> P x"
    using assms(1) by (simp add: list_all_iff)
  have "\<forall>x \<in> set s. P x \<Longrightarrow> \<forall>x \<in> set (replacePairs cls m f s). P x"
    by (induction s rule: induct_list012) (auto dest: fa)
  then show ?thesis using assms(2) by (simp add: list_all_iff)
qed

lemma replacePairs_id:
  "\<forall>c \<in> set s. c \<notin> set cls \<Longrightarrow> replacePairs cls m f s = s"
  by (induction cls m f s rule: replacePairs.induct) auto

lemma replacePairs_nonempty:
  "(\<And>a. f a \<noteq> []) \<Longrightarrow> s \<noteq> [] \<Longrightarrow> replacePairs cls m f s \<noteq> []"
  by (induction cls m f s rule: replacePairs.induct) auto

lemma replacePairs_hd:
  assumes "\<And>a. f a \<noteq> [] \<and> list_all (\<lambda>c. \<not> isWhiteSpace c) (f a)" "s \<noteq> []"
    "\<not> isWhiteSpace (hd s)"
  shows "\<not> isWhiteSpace (hd (replacePairs cls m f s))"
proof (cases s)
  case Nil then show ?thesis using assms(2) by simp
next
  case (Cons a t)
  show ?thesis
  proof (cases t)
    case Nil then show ?thesis using Cons assms(3) by simp
  next
    case (Cons b rest)
    have "\<not> isWhiteSpace (hd (f a))"
      using assms(1)[of a] by (cases "f a") (auto simp: list_all_iff)
    then show ?thesis using \<open>s = a # t\<close> Cons assms(1)[of a] assms(3) by simp
  qed
qed

lemma replacePairs_last:
  assumes f: "\<And>a. f a \<noteq> [] \<and> list_all (\<lambda>c. \<not> isWhiteSpace c) (f a)"
  shows "s \<noteq> [] \<Longrightarrow> \<not> isWhiteSpace (last s) \<Longrightarrow> \<not> isWhiteSpace (last (replacePairs cls m f s))"
proof (induction s rule: length_induct)
  case (1 s)
  have ne: "\<And>t. t \<noteq> [] \<Longrightarrow> replacePairs cls m f t \<noteq> []"
    using f by (intro replacePairs_nonempty) simp_all
  show ?case
  proof (cases s)
    case Nil
    then show ?thesis using "1.prems" by simp
  next
    case (Cons a t)
    note s = Cons
    show ?thesis
    proof (cases t)
      case Nil
      then show ?thesis using s "1.prems" by simp
    next
      case (Cons b rest)
      show ?thesis
      proof (cases "a \<in> set cls \<and> b = m")
        case True
        then have r: "replacePairs cls m f s = f a @ replacePairs cls m f rest"
          by (simp add: s Cons)
        show ?thesis
        proof (cases "rest = []")
          case True
          have "\<not> isWhiteSpace (last (f a))"
            using f[of a] by (simp add: list_all_iff)
          then show ?thesis by (simp add: r True)
        next
          case False
          have "\<not> isWhiteSpace (last rest)"
            using "1.prems"(2) False by (simp add: s Cons)
          moreover have "length rest < length s" by (simp add: s Cons)
          ultimately have "\<not> isWhiteSpace (last (replacePairs cls m f rest))"
            using "1.IH" False by blast
          then show ?thesis using ne[OF False] by (simp add: r)
        qed
      next
        case False
        then have r: "replacePairs cls m f s = a # replacePairs cls m f (b # rest)"
          by (auto simp: s Cons)
        have "\<not> isWhiteSpace (last (b # rest))"
          using "1.prems"(2) by (simp add: s Cons)
        moreover have "length (b # rest) < length s" by (simp add: s Cons)
        ultimately have "\<not> isWhiteSpace (last (replacePairs cls m f (b # rest)))"
          using "1.IH" by blast
        then show ?thesis using ne[of "b # rest"] by (simp add: r)
      qed
    qed
  qed
qed

lemma trimmed_replacePairs:
  assumes "\<And>a. f a \<noteq> [] \<and> list_all (\<lambda>c. \<not> isWhiteSpace c) (f a)" "trimmed s"
  shows "trimmed (replacePairs cls m f s)"
proof (cases "s = []")
  case True
  then show ?thesis by (simp add: trimmed_def)
next
  case False
  then have "\<not> isWhiteSpace (hd s)" "\<not> isWhiteSpace (last s)"
    using assms(2) by (simp_all add: trimmed_def)
  then have h: "\<not> isWhiteSpace (hd s)" and l: "\<not> isWhiteSpace (last s)" by blast+
  have "\<not> isWhiteSpace (hd (replacePairs cls m f s))"
    by (rule replacePairs_hd[where f = f]) (use assms(1) False h in auto)
  moreover have "\<not> isWhiteSpace (last (replacePairs cls m f s))"
    by (rule replacePairs_last[where f = f]) (use assms(1) False l in auto)
  ultimately show ?thesis by (simp add: trimmed_def)
qed

lemma withMark_no_ws:
  "withMark dakutenMap 0x309B a \<noteq> [] \<and> list_all (\<lambda>c. \<not> isWhiteSpace c) (withMark dakutenMap 0x309B a)"
  "withMark handakutenMap 0x309C a \<noteq> [] \<and> list_all (\<lambda>c. \<not> isWhiteSpace c) (withMark handakutenMap 0x309C a)"
  using withMark_dakuten[of a] withMark_handakuten[of a]
  by (auto simp: list_all_iff dest: kanaOut_props(3))

text \<open>Every step keeps a property that all introduced code units have.\<close>

lemma katakana_lookup:
  assumes "c \<in> set halfwidthKatakanaClass"
  shows "\<exists>v. map_of halfToFullKatakanaMap c = Some v \<and> kanaOut v"
proof -
  have "list_all (\<lambda>c. map_of halfToFullKatakanaMap c \<noteq> None) halfwidthKatakanaClass"
    by (simp add: halfwidthKatakanaClass_def halfToFullKatakanaMap_def)
  then obtain v where "map_of halfToFullKatakanaMap c = Some v"
    using assms by (auto simp: list_all_iff)
  then show ?thesis using halfToFull_values by blast
qed

lemma convertWidths_all:
  assumes intro: "\<And>v. introduced v \<Longrightarrow> P v" and s: "list_all P s"
  shows "list_all P (convertWidths s)"
proof -
  have k: "\<And>v. kanaOut v \<Longrightarrow> P v" using intro by (simp add: introduced_def)
  have 1: "list_all P (fullwidthToHalfwidth s)"
  proof -
    have "\<And>c. isFullwidthAlnum c \<Longrightarrow> introduced (c - 0xFEE0)"
      by (auto simp: isFullwidthAlnum_def introduced_def kanaOut_def)
    then show ?thesis using s intro by (auto simp: fullwidthToHalfwidth_def list_all_iff)
  qed
  have 2: "list_all P (halfwidthSymbols (fullwidthToHalfwidth s))"
  proof -
    have "introduced 0xFF65" "introduced 0x2E" by (simp_all add: introduced_def)
    then have "P 0xFF65" "P 0x2E" using intro by blast+
    then show ?thesis using 1 by (auto simp: halfwidthSymbols_def list_all_iff)
  qed
  have 3: "list_all P (combineDakuten (halfwidthSymbols (fullwidthToHalfwidth s)))"
    unfolding combineDakuten_def
    using withMark_dakuten k by (intro replacePairs_all 2) (auto simp: list_all_iff)
  have 4: "list_all P (combineHandakuten (combineDakuten (halfwidthSymbols (fullwidthToHalfwidth s))))"
    unfolding combineHandakuten_def
    using withMark_handakuten k by (intro replacePairs_all 3) (auto simp: list_all_iff)
  have "\<And>c. c \<in> set halfwidthKatakanaClass \<Longrightarrow>
      P (case map_of halfToFullKatakanaMap c of Some v \<Rightarrow> v | None \<Rightarrow> c)"
    using katakana_lookup k by fastforce
  then show ?thesis using 4
    by (auto simp: convertWidths_def convertKatakana_def list_all_iff)
qed

lemma kanaOut_list_settled: "list_all kanaOut xs \<Longrightarrow> list_all settled xs"
  by (auto simp: list_all_iff dest: kanaOut_props(1))

lemma convertWidths_settled: "list_all settled (convertWidths t)"
proof -
  let ?Q = "\<lambda>c. \<not> isFullwidthAlnum c \<and> c \<noteq> 0x30FB \<and> c \<noteq> 0xFF0E"
  have sQ: "\<And>v. settled v \<Longrightarrow> ?Q v" by (simp add: settled_def)
  have 1: "list_all (\<lambda>c. \<not> isFullwidthAlnum c) (fullwidthToHalfwidth t)"
    by (auto simp: fullwidthToHalfwidth_def list_all_iff isFullwidthAlnum_def)
  have 2: "list_all ?Q (halfwidthSymbols (fullwidthToHalfwidth t))"
    using 1 by (auto simp: halfwidthSymbols_def list_all_iff isFullwidthAlnum_def)
  have 3: "list_all ?Q (combineDakuten (halfwidthSymbols (fullwidthToHalfwidth t)))"
    unfolding combineDakuten_def
  proof (intro replacePairs_all 2)
    fix a show "list_all ?Q (withMark dakutenMap 0x309B a)"
      using withMark_dakuten[of a] sQ by (auto simp: list_all_iff dest!: kanaOut_props(1))
  qed
  have 4: "list_all ?Q (combineHandakuten (combineDakuten (halfwidthSymbols (fullwidthToHalfwidth t))))"
    unfolding combineHandakuten_def
  proof (intro replacePairs_all 3)
    fix a show "list_all ?Q (withMark handakutenMap 0x309C a)"
      using withMark_handakuten[of a] sQ by (auto simp: list_all_iff dest!: kanaOut_props(1))
  qed
  have step: "settled (if c \<in> set halfwidthKatakanaClass
               then (case map_of halfToFullKatakanaMap c of Some v \<Rightarrow> v | None \<Rightarrow> c)
               else c)" if "?Q c" for c
  proof (cases "c \<in> set halfwidthKatakanaClass")
    case True
    then obtain v where "map_of halfToFullKatakanaMap c = Some v" "kanaOut v"
      using katakana_lookup by blast
    then show ?thesis using True kanaOut_props(1) by simp
  next
    case False
    then have "\<not> (0xFF66 \<le> c \<and> c \<le> 0xFF9D)"
      by (simp add: halfwidthKatakanaClass_range)
    then show ?thesis using that False by (simp add: settled_def)
  qed
  let ?u = "combineHandakuten (combineDakuten (halfwidthSymbols (fullwidthToHalfwidth t)))"
  let ?g = "\<lambda>c. if c \<in> set halfwidthKatakanaClass
               then (case map_of halfToFullKatakanaMap c of Some v \<Rightarrow> v | None \<Rightarrow> c)
               else c"
  have "settled x" if "x \<in> set (map ?g ?u)" for x
  proof -
    from that obtain c where c: "c \<in> set ?u" "x = ?g c" by (auto simp only: set_map)
    then have "?Q c" using 4 by (simp add: list_all_iff)
    then show ?thesis unfolding c(2) by (rule step)
  qed
  then show ?thesis
    unfolding convertWidths_def convertKatakana_def list_all_iff by blast
qed

lemma settled_not_class:
  assumes "settled c"
  shows "c \<notin> set dakutenClass" "c \<notin> set handakutenClass" "c \<notin> set halfwidthKatakanaClass"
  using assms
  by (auto simp: settled_def dakutenClass_range handakutenClass_range halfwidthKatakanaClass_range)

lemma convertWidths_id:
  assumes "list_all settled s"
  shows "convertWidths s = s"
proof -
  have s: "\<And>c. c \<in> set s \<Longrightarrow> settled c" using assms by (simp add: list_all_iff)
  have 1: "fullwidthToHalfwidth s = s"
    unfolding fullwidthToHalfwidth_def
    by (rule map_idI) (use s in \<open>auto simp: settled_def\<close>)
  have 2: "halfwidthSymbols s = s"
    unfolding halfwidthSymbols_def
    by (rule map_idI) (use s in \<open>auto simp: settled_def\<close>)
  have 3: "combineDakuten s = s"
    unfolding combineDakuten_def
    by (rule replacePairs_id) (use s settled_not_class(1) in blast)
  have 4: "combineHandakuten s = s"
    unfolding combineHandakuten_def
    by (rule replacePairs_id) (use s settled_not_class(2) in blast)
  have 5: "convertKatakana s = s"
    unfolding convertKatakana_def
    by (rule map_idI) (use s settled_not_class(3) in auto)
  show ?thesis by (simp add: convertWidths_def 1 2 3 4 5)
qed

lemma convertWidths_trimmed:
  assumes "trimmed t"
  shows "trimmed (convertWidths t)"
proof -
  have 1: "trimmed (fullwidthToHalfwidth t)"
    unfolding fullwidthToHalfwidth_def
    by (rule trimmed_map[OF _ assms]) (auto simp: isFullwidthAlnum_def isWhiteSpace_def)
  have 2: "trimmed (halfwidthSymbols (fullwidthToHalfwidth t))"
    unfolding halfwidthSymbols_def
    by (rule trimmed_map[OF _ 1]) (auto simp: isWhiteSpace_def)
  have 3: "trimmed (combineDakuten (halfwidthSymbols (fullwidthToHalfwidth t)))"
    unfolding combineDakuten_def
    by (rule trimmed_replacePairs[OF _ 2]) (rule withMark_no_ws)
  have 4: "trimmed (combineHandakuten (combineDakuten (halfwidthSymbols (fullwidthToHalfwidth t))))"
    unfolding combineHandakuten_def
    by (rule trimmed_replacePairs[OF _ 3]) (rule withMark_no_ws)
  have ws: "isWhiteSpace (if c \<in> set halfwidthKatakanaClass
               then (case map_of halfToFullKatakanaMap c of Some v \<Rightarrow> v | None \<Rightarrow> c)
               else c) = isWhiteSpace c" for c
  proof (cases "c \<in> set halfwidthKatakanaClass")
    case True
    then obtain v where "map_of halfToFullKatakanaMap c = Some v" "kanaOut v"
      using katakana_lookup by blast
    moreover have "\<not> isWhiteSpace c"
      using True by (simp add: halfwidthKatakanaClass_range isWhiteSpace_def)
    ultimately show ?thesis using True kanaOut_props(3) by simp
  next
    case False
    then show ?thesis by simp
  qed
  show ?thesis
    unfolding convertWidths_def convertKatakana_def
    by (rule trimmed_map[OF ws 4])
qed

subsection \<open>Splitting and joining\<close>

lemma splitOn_join:
  assumes "ps \<noteq> []" "\<forall>p \<in> set ps. \<forall>c \<in> set p. \<not> P c" "P x"
  shows "splitOn P (joinWith [x] ps) = ps"
  using assms
proof (induction ps rule: induct_list012)
  case 1
  then show ?case by simp
next
  case (2 p)
  then show ?case by (simp add: splitOn_none)
next
  case (3 p q qs)
  have "splitOn P (p @ x # joinWith [x] (q # qs)) = p # splitOn P (joinWith [x] (q # qs))"
    using 3(4,5) by (intro splitOn_first) auto
  moreover have "splitOn P (joinWith [x] (q # qs)) = q # qs"
    using 3 by simp
  ultimately show ?case by simp
qed

lemma splitOn_length: "length (splitOn p s) = Suc (length (filter p s))"
  by (induction s) (auto split: list.splits)

lemma joinWith_set: "set (joinWith sep ps) \<subseteq> set sep \<union> \<Union> (set ` set ps)"
  by (induction ps rule: induct_list012) auto

lemma joinWith_has_sep: "2 \<le> length ps \<Longrightarrow> x \<in> set (joinWith [x] ps)"
proof -
  assume "2 \<le> length ps"
  then obtain p q qs where "ps = p # q # qs"
    by (cases ps; cases "tl ps") auto
  then show ?thesis by simp
qed

subsection \<open>The postprocessor on its own results\<close>

lemma isPhoneOut_props:
  assumes "isPhoneOut c \<or> c = comma"
  shows "plainUnit c" "settled c" "\<not> isWhiteSpace c"
  using assms
  by (auto simp: isPhoneOut_def isDigit_def plainUnit_def settled_def isWhiteSpace_def
      isFullwidthAlnum_def)

lemma keepPhoneChars_id: "list_all isPhoneOut p \<Longrightarrow> keepPhoneChars p = p"
  unfolding keepPhoneChars_def
  by (rule filter_True) (auto simp: isPhoneOut_def list_all_iff)

lemma phone_piece_fixed:
  "formatPhoneNumber (keepPhoneChars (trim (formatPhoneNumber q))) = formatPhoneNumber q"
proof -
  have c: "list_all isPhoneOut (formatPhoneNumber q)" by (rule formatPhoneNumber_chars)
  then have "list_all (\<lambda>c. \<not> isWhiteSpace c) (formatPhoneNumber q)"
    using isPhoneOut_props(3) by (auto simp: list_all_iff)
  then have "trim (formatPhoneNumber q) = formatPhoneNumber q"
    by (intro trim_trimmed no_ws_trimmed)
  then show ?thesis
    by (simp add: keepPhoneChars_id[OF c] formatPhoneNumber_idempotent)
qed

lemma isPhoneOut_not_sep: "isPhoneOut c \<Longrightarrow> \<not> isSeparator c"
  by (auto simp: isPhoneOut_def isSeparator_def isDigit_def)

lemma fieldSpecific_phone_chars:
  "list_all (\<lambda>c. isPhoneOut c \<or> c = comma) (fieldSpecific PhoneNumber t)"
proof (cases "hasSeparator t")
  case True
  have "\<And>x. x \<in> set (joinWith [comma] (map (\<lambda>num. formatPhoneNumber (keepPhoneChars (trim num)))
                    (splitOn isSeparator t))) \<Longrightarrow> isPhoneOut x \<or> x = comma"
  proof -
    fix x assume "x \<in> set (joinWith [comma] (map (\<lambda>num. formatPhoneNumber (keepPhoneChars (trim num)))
                    (splitOn isSeparator t)))"
    then consider "x = comma" | num where "x \<in> set (formatPhoneNumber (keepPhoneChars (trim num)))"
      using joinWith_set[of "[comma]"] by fastforce
    then show "isPhoneOut x \<or> x = comma"
    proof cases
      case 1 then show ?thesis by simp
    next
      case 2 then show ?thesis using formatPhoneNumber_chars by (auto simp: list_all_iff)
    qed
  qed
  then show ?thesis using True by (simp add: fieldSpecific_def list_all_iff)
next
  case False
  then show ?thesis using formatPhoneNumber_chars[of "keepPhoneChars t"]
    by (auto simp: fieldSpecific_def list_all_iff)
qed

lemma fieldSpecific_phone_fixed:
  "fieldSpecific PhoneNumber (fieldSpecific PhoneNumber t) = fieldSpecific PhoneNumber t"
proof (cases "hasSeparator t")
  case True
  let ?g = "\<lambda>num. formatPhoneNumber (keepPhoneChars (trim num))"
  let ?ps = "map ?g (splitOn isSeparator t)"
  have y: "fieldSpecific PhoneNumber t = joinWith [comma] ?ps"
    using True by (simp add: fieldSpecific_def)
  have "filter isSeparator t \<noteq> []"
    using True by (auto simp: hasSeparator_def isSeparator_def filter_empty_conv)
  then have len: "2 \<le> length ?ps"
    by (cases "filter isSeparator t") (simp_all add: splitOn_length)
  then have sep: "hasSeparator (joinWith [comma] ?ps)"
    using joinWith_has_sep[of ?ps comma] by (simp add: hasSeparator_def)
  have nosep: "\<forall>p \<in> set ?ps. \<forall>c \<in> set p. \<not> isSeparator c"
    using formatPhoneNumber_chars isPhoneOut_not_sep by (auto simp: list_all_iff)
  have ne: "?ps \<noteq> []" using len by auto
  have split: "splitOn isSeparator (joinWith [comma] ?ps) = ?ps"
    using ne nosep by (rule splitOn_join) (simp add: isSeparator_def)
  have fixed: "map ?g ?ps = ?ps"
    by (simp add: phone_piece_fixed)
  show ?thesis
    unfolding y using sep by (simp add: fieldSpecific_def split fixed del: map_map)
next
  case False
  let ?y = "formatPhoneNumber (keepPhoneChars t)"
  have y: "fieldSpecific PhoneNumber t = ?y"
    using False by (simp add: fieldSpecific_def)
  have c: "list_all isPhoneOut ?y" by (rule formatPhoneNumber_chars)
  then have "\<not> hasSeparator ?y"
    by (auto simp: hasSeparator_def list_all_iff isPhoneOut_def isDigit_def)
  then show ?thesis
    unfolding y by (simp add: fieldSpecific_def keepPhoneChars_id[OF c] formatPhoneNumber_idempotent)
qed

subsection \<open>Whitespace collapsing\<close>

lemma collapsed_tl: "collapsed (c # s) \<Longrightarrow> collapsed s"
  by (cases s) auto

lemma collapsed_drop: "collapsed s \<Longrightarrow> collapsed (drop n s)"
proof (induction n arbitrary: s)
  case 0 then show ?case by simp
next
  case (Suc n)
  then show ?case by (cases s) (auto dest: collapsed_tl)
qed

lemma collapsed_take: "collapsed s \<Longrightarrow> collapsed (take n s)"
proof (induction s arbitrary: n rule: induct_list012)
  case 1 then show ?case by simp
next
  case (2 c)
  then show ?case by (cases n) auto
next
  case (3 c d r)
  show ?case
  proof (cases n)
    case 0 then show ?thesis by simp
  next
    case (Suc m)
    have IH: "collapsed (take m (d # r))" using 3 by simp
    show ?thesis
    proof (cases m)
      case 0 then show ?thesis using 3(3) Suc by auto
    next
      case (Suc k)
      then show ?thesis using IH 3(3) \<open>n = Suc m\<close> by auto
    qed
  qed
qed

lemma trim_take_drop: "\<exists>n m. trim s = take n (drop m s)"
proof -
  let ?u = "dropWhile isWhiteSpace s"
  have u: "?u = drop (length (takeWhile isWhiteSpace s)) s" by (rule dropWhile_eq_drop)
  have "rev (dropWhile isWhiteSpace (rev ?u))
      = rev (drop (length (takeWhile isWhiteSpace (rev ?u))) (rev ?u))"
    by (simp add: dropWhile_eq_drop[symmetric])
  also have "\<dots> = take (length ?u - length (takeWhile isWhiteSpace (rev ?u))) ?u"
    by (simp add: rev_drop)
  finally have "trim s = take (length ?u - length (takeWhile isWhiteSpace (rev ?u))) ?u"
    by (simp add: trim_def)
  then show ?thesis using u by metis
qed

lemma collapsed_trim: "collapsed s \<Longrightarrow> collapsed (trim s)"
  using trim_take_drop[of s] collapsed_take collapsed_drop by metis

lemma collapseWhitespace_hd:
  "s \<noteq> [] \<Longrightarrow> \<not> isWhiteSpace (hd s) \<Longrightarrow>
   collapseWhitespace s \<noteq> [] \<and> hd (collapseWhitespace s) = hd s"
  by (cases s) auto

lemma collapsed_collapseWhitespace: "collapsed (collapseWhitespace s)"
proof (induction s rule: collapseWhitespace.induct)
  case 1 then show ?case by simp
next
  case (2 c cs)
  show ?case
  proof (cases "isWhiteSpace c")
    case True
    let ?u = "dropWhile isWhiteSpace cs"
    have IH: "collapsed (collapseWhitespace ?u)" using 2 True by simp
    have step: "collapseWhitespace (c # cs) = space # collapseWhitespace ?u"
      using True by simp
    show ?thesis
    proof (cases "?u = []")
      case e: True
      show ?thesis unfolding step e by (simp add: isWhiteSpace_def)
    next
      case False
      then have "\<not> isWhiteSpace (hd ?u)" by (rule hd_dropWhile)
      then have h: "collapseWhitespace ?u \<noteq> [] \<and> hd (collapseWhitespace ?u) = hd ?u"
        using False by (intro collapseWhitespace_hd)
      then obtain d r where dr: "collapseWhitespace ?u = d # r" "d = hd ?u"
        by (cases "collapseWhitespace ?u") auto
      then show ?thesis using IH \<open>\<not> isWhiteSpace (hd ?u)\<close> unfolding step by simp
    qed
  next
    case False
    then have IH: "collapsed (collapseWhitespace cs)" using 2 by simp
    then show ?thesis using False by (cases "collapseWhitespace cs") auto
  qed
qed

lemma collapseWhitespace_id: "collapsed s \<Longrightarrow> collapseWhitespace s = s"
proof (induction s rule: induct_list012)
  case 1 then show ?case by simp
next
  case (2 c) then show ?case by auto
next
  case (3 c d r)
  then have IH: "collapseWhitespace (d # r) = d # r" by simp
  show ?case
  proof (cases "isWhiteSpace c")
    case True
    then have "c = space" "\<not> isWhiteSpace d" using 3(3) by auto
    then show ?thesis using True IH by simp
  next
    case False then show ?thesis using IH by simp
  qed
qed

lemma set_collapseWhitespace: "set (collapseWhitespace s) \<subseteq> insert space (set s)"
proof (induction s rule: collapseWhitespace.induct)
  case 1 then show ?case by simp
next
  case (2 c cs)
  show ?case
  proof (cases "isWhiteSpace c")
    case True
    have "set (dropWhile isWhiteSpace cs) \<subseteq> set cs" by (auto dest: set_dropWhileD)
    then show ?thesis using 2 True by auto
  next
    case False then show ?thesis using 2 by auto
  qed
qed

subsection \<open>Removing the words\<close>

lemma set_removeWords: "set (removeWords ws s) \<subseteq> set s"
proof (induction ws s rule: removeWords.induct)
  case (1 ws) then show ?case by simp
next
  case (2 ws c cs)
  show ?case
  proof (cases "find (\<lambda>w. prefix w (c # cs)) ws")
    case None then show ?thesis using 2 by auto
  next
    case (Some w)
    show ?thesis
    proof (cases "w = []")
      case True then show ?thesis using 2 Some by auto
    next
      case False
      have "set (removeWords ws (drop (length w) (c # cs))) \<subseteq> set (drop (length w) (c # cs))"
        using 2 Some False by blast
      also have "\<dots> \<subseteq> set (c # cs)" by (rule set_drop_subset)
      finally show ?thesis using Some False by simp
    qed
  qed
qed

lemma removeWords_id: "\<forall>w \<in> set ws. \<not> sublist w s \<Longrightarrow> removeWords ws s = s"
proof (induction s)
  case Nil then show ?case by simp
next
  case (Cons c cs)
  have "\<forall>w \<in> set ws. \<not> prefix w (c # cs)" using Cons.prems by auto
  then have f: "find (\<lambda>w. prefix w (c # cs)) ws = None" by (simp add: find_None_iff)
  have "\<forall>w \<in> set ws. \<not> sublist w cs" using Cons.prems by (auto simp: sublist_Cons_right)
  then show ?case using Cons.IH f by simp
qed

subsection \<open>The code units of a payee name\<close>

lemma splitOn_piece_set: "p \<in> set (splitOn P s) \<Longrightarrow> set p \<subseteq> set s"
proof -
  assume "p \<in> set (splitOn P s)"
  then have "set p \<subseteq> set (concat (splitOn P s))" by auto
  then show ?thesis unfolding concat_splitOn by auto
qed

lemma set_dropTrailing: "set (dropTrailing lit s) \<subseteq> set s"
proof
  fix x assume x: "x \<in> set (dropTrailing lit s)"
  let ?body = "rev (dropWhile isWhiteSpace (rev s))"
  have body: "set ?body \<subseteq> set s" by (auto dest: set_dropWhileD)
  show "x \<in> set s"
  proof (cases "suffix lit ?body")
    case True
    then have "x \<in> set (take (length ?body - length lit) ?body)"
      using x by (simp add: dropTrailing_def Let_def)
    then have "x \<in> set ?body" by (rule in_set_takeD)
    then show ?thesis using body by blast
  next
    case False
    then show ?thesis using x by (simp add: dropTrailing_def Let_def)
  qed
qed

lemma set_removeNgWords: "set (removeNgWords t) \<subseteq> insert space (insert comma (set t))"
proof -
  let ?r0 = "removeWords ngWordsList t"
  let ?r1 = "if hasSeparator ?r0
             then joinWith [comma]
                    (filter (\<lambda>item. item \<noteq> [])
                       (map (\<lambda>item. collapseWhitespace (trim item))
                          (splitOn isSeparator ?r0)))
             else ?r0"
  have r0: "set ?r0 \<subseteq> set t" by (rule set_removeWords)
  have piece: "set (collapseWhitespace (trim item)) \<subseteq> insert space (set t)"
    if "item \<in> set (splitOn isSeparator ?r0)" for item
  proof -
    have "set (collapseWhitespace (trim item)) \<subseteq> insert space (set (trim item))"
      by (rule set_collapseWhitespace)
    moreover have "set (trim item) \<subseteq> set item" by (rule set_trim)
    moreover have "set item \<subseteq> set ?r0" using that by (rule splitOn_piece_set)
    ultimately show ?thesis using r0 by blast
  qed
  have r1: "set ?r1 \<subseteq> insert space (insert comma (set t))"
  proof (cases "hasSeparator ?r0")
    case True
    have "set (joinWith [comma] (filter (\<lambda>item. item \<noteq> [])
                       (map (\<lambda>item. collapseWhitespace (trim item))
                          (splitOn isSeparator ?r0))))
       \<subseteq> set [comma] \<union> \<Union> (set ` set (filter (\<lambda>item. item \<noteq> [])
                       (map (\<lambda>item. collapseWhitespace (trim item))
                          (splitOn isSeparator ?r0))))"
      by (rule joinWith_set)
    also have "\<dots> \<subseteq> insert space (insert comma (set t))"
      using piece by auto
    finally show ?thesis using True by simp
  next
    case False
    then show ?thesis using r0 by auto
  qed
  have "set (removeNgWords t) \<subseteq> set ?r1"
  proof -
    have "set (dropTrailing [colon] (dropTrailing (companyWord @ [colon]) (trim ?r1)))
        \<subseteq> set (dropTrailing (companyWord @ [colon]) (trim ?r1))" by (rule set_dropTrailing)
    also have "\<dots> \<subseteq> set (trim ?r1)" by (rule set_dropTrailing)
    also have "\<dots> \<subseteq> set ?r1" by (rule set_trim)
    finally show ?thesis by (simp add: removeNgWords_def Let_def)
  qed
  then show ?thesis using r1 by blast
qed

lemma payee_result_set:
  "set (fieldSpecific PayeeName t) \<subseteq> insert space (insert comma (set t))"
proof -
  have "set (fieldSpecific PayeeName t) \<subseteq> set (collapseWhitespace (removeNgWords t))"
    by (simp add: fieldSpecific_def set_trim)
  also have "\<dots> \<subseteq> insert space (set (removeNgWords t))" by (rule set_collapseWhitespace)
  also have "\<dots> \<subseteq> insert space (insert comma (set t))"
    using set_removeNgWords[of t] by auto
  finally show ?thesis .
qed

lemma dropTrailing_id:
  assumes "trimmed y" "y = [] \<or> last y \<noteq> last lit" "lit \<noteq> []"
  shows "dropTrailing lit y = y"
proof -
  have body: "rev (dropWhile isWhiteSpace (rev y)) = y"
  proof (cases "y = []")
    case True then show ?thesis by simp
  next
    case False
    then have "\<not> isWhiteSpace (last y)" using assms(1) by (simp add: trimmed_def)
    then have "\<not> isWhiteSpace (hd (rev y))" using False by (simp add: hd_rev)
    then have "dropWhile isWhiteSpace (rev y) = rev y"
      using False by (intro dropWhile_hd) simp_all
    then show ?thesis by simp
  qed
  have "\<not> suffix lit y"
  proof
    assume "suffix lit y"
    then obtain ps where y: "y = ps @ lit" by (auto simp: suffix_def)
    then have "y \<noteq> []" "last y = last lit" using assms(3) by simp_all
    then show False using assms(2) by simp
  qed
  then show ?thesis by (simp add: dropTrailing_def Let_def body)
qed

subsection \<open>Lengths\<close>

lemma length_removeWords_le: "length (removeWords ws s) \<le> length s"
proof (induction ws s rule: removeWords.induct)
  case (1 ws) then show ?case by simp
next
  case (2 ws c cs)
  show ?case
  proof (cases "find (\<lambda>w. prefix w (c # cs)) ws")
    case None
    then show ?thesis using 2(1) by simp
  next
    case (Some w)
    show ?thesis
    proof (cases "w = []")
      case True then show ?thesis using Some 2(2) by simp
    next
      case False
      then have "length (removeWords ws (drop (length w) (c # cs))) \<le> length (drop (length w) (c # cs))"
        using 2(3)[OF Some] by simp
      then show ?thesis using Some False by simp
    qed
  qed
qed

lemma removeWords_shorter:
  assumes "[] \<notin> set ws" "w \<in> set ws" "sublist w s"
  shows "length (removeWords ws s) < length s"
  using assms(3)
proof (induction s)
  case Nil
  then have "w = []" by simp
  then show ?case using assms(1,2) by simp
next
  case (Cons c cs)
  show ?case
  proof (cases "find (\<lambda>w. prefix w (c # cs)) ws")
    case None
    then have "\<not> prefix w (c # cs)" using assms(2) by (auto simp: find_None_iff)
    then have "sublist w cs" using Cons.prems by (simp add: sublist_Cons_right)
    then show ?thesis using Cons.IH None by simp
  next
    case (Some v)
    then have "v \<in> set ws" by (auto simp: find_Some_iff)
    then have v: "v \<noteq> []" using assms(1) by auto
    have "length (removeWords ws (drop (length v) (c # cs))) \<le> length (drop (length v) (c # cs))"
      by (rule length_removeWords_le)
    moreover have "length (drop (length v) (c # cs)) < length (c # cs)"
      using v by (cases v) auto
    ultimately have "length (removeWords ws (drop (length v) (c # cs))) < length (c # cs)"
      by (rule le_less_trans)
    then show ?thesis using Some v by simp
  qed
qed

lemma ngWords_nonempty: "[] \<notin> set ngWordsList"
  by (simp add: ngWordsList_def)

lemma removeWords_fixed_iff:
  "removeWords ngWordsList s = s \<longleftrightarrow> list_all (\<lambda>w. \<not> sublist w s) ngWordsList"
proof
  assume e: "removeWords ngWordsList s = s"
  show "list_all (\<lambda>w. \<not> sublist w s) ngWordsList"
  proof (rule ccontr)
    assume "\<not> list_all (\<lambda>w. \<not> sublist w s) ngWordsList"
    then obtain w where "w \<in> set ngWordsList" "sublist w s" by (auto simp: list_all_iff)
    then have "length (removeWords ngWordsList s) < length s"
      using removeWords_shorter[OF ngWords_nonempty] by blast
    then show False using e by simp
  qed
next
  assume "list_all (\<lambda>w. \<not> sublist w s) ngWordsList"
  then show "removeWords ngWordsList s = s"
    by (intro removeWords_id) (simp add: list_all_iff)
qed

lemma length_trim_le: "length (trim s) \<le> length s"
  using trim_take_drop[of s] by (auto simp: min_def)

lemma trim_same_length: "length (trim s) = length s \<Longrightarrow> trim s = s"
proof -
  assume l: "length (trim s) = length s"
  obtain n m where t: "trim s = take n (drop m s)" using trim_take_drop by blast
  then have e: "min n (length s - m) = length s" using l by simp
  show ?thesis
  proof (cases "s = []")
    case True then show ?thesis by (simp add: trim_def)
  next
    case False
    then have "1 \<le> length s" by (cases s) auto
    then have "m = 0 \<and> length s \<le> n" using e by arith
    then show ?thesis using t by simp
  qed
qed

lemma length_collapseWhitespace_le: "length (collapseWhitespace s) \<le> length s"
proof (induction s rule: collapseWhitespace.induct)
  case 1 then show ?case by simp
next
  case (2 c cs)
  have "length (dropWhile isWhiteSpace cs) \<le> length cs" by (rule length_dropWhile_le)
  then show ?case using 2 by auto
qed

lemma collapseWhitespace_last:
  "s \<noteq> [] \<Longrightarrow> collapseWhitespace s \<noteq> [] \<and>
   last (collapseWhitespace s) = (if isWhiteSpace (last s) then space else last s)"
proof (induction s rule: collapseWhitespace.induct)
  case 1 then show ?case by simp
next
  case (2 c cs)
  show ?case
  proof (cases "isWhiteSpace c")
    case True
    show ?thesis
    proof (cases "dropWhile isWhiteSpace cs = []")
      case e: True
      then have all: "\<forall>x \<in> set cs. isWhiteSpace x" by (simp add: dropWhile_eq_Nil_conv)
      then have "isWhiteSpace (last (c # cs))" using True by (cases "cs = []") auto
      then show ?thesis using True by (simp add: e)
    next
      case ne: False
      then have cs: "cs \<noteq> []" by auto
      have "last (dropWhile isWhiteSpace cs) = last cs"
        using ne by (metis last_appendR takeWhile_dropWhile_id)
      then show ?thesis using True ne 2(1)[OF True ne] cs by simp
    qed
  next
    case False
    then show ?thesis using 2(2) by (cases "cs = []") auto
  qed
qed

subsection \<open>Splitting and joining\<close>

lemma body_prefix: "prefix (rev (dropWhile P (rev s))) s"
proof -
  have "rev s = takeWhile P (rev s) @ dropWhile P (rev s)" by simp
  then have "s = rev (dropWhile P (rev s)) @ rev (takeWhile P (rev s))"
    by (metis rev_append rev_rev_ident)
  then show ?thesis by (metis prefixI)
qed

lemma dropTrailing_prefix: "prefix (dropTrailing lit s) s"
proof -
  let ?body = "rev (dropWhile isWhiteSpace (rev s))"
  have "prefix (take (length ?body - length lit) ?body) s"
    using body_prefix[of isWhiteSpace s] take_is_prefix prefix_order.trans by blast
  then show ?thesis by (simp add: dropTrailing_def Let_def)
qed

lemma length_dropTrailing_le: "length (dropTrailing lit s) \<le> length s"
  using dropTrailing_prefix[of lit s] by (rule prefix_length_le)

lemma dropTrailing_colon_shorter:
  assumes "trimmed s" "s \<noteq> []" "last s = colon"
  shows "length (dropTrailing [colon] s) < length s"
proof -
  have "\<not> isWhiteSpace (hd (rev s))" using assms(1,2) by (simp add: trimmed_def hd_rev)
  then have "dropWhile isWhiteSpace (rev s) = rev s"
    using assms(2) by (intro dropWhile_hd) simp_all
  then have body: "rev (dropWhile isWhiteSpace (rev s)) = s" by simp
  have "suffix [colon] s"
    using assms(2,3) by (metis append_butlast_last_id suffixI)
  then have "dropTrailing [colon] s = take (length s - 1) s"
    by (simp add: dropTrailing_def Let_def body)
  then show ?thesis using assms(2) by (cases s) auto
qed

lemma joinWith_Cons: "ws \<noteq> [] \<Longrightarrow> joinWith sep (w # ws) = w @ sep @ joinWith sep ws"
  by (cases ws) auto

lemma length_joinWith:
  "length (joinWith [c] items) = sum_list (map length items) + (length items - 1)"
  by (induction items rule: induct_list012) auto

lemma splitOn_sum:
  "sum_list (map length (splitOn P s)) + (length (splitOn P s) - 1) = length s"
proof (induction s)
  case Nil then show ?case by simp
next
  case (Cons c cs)
  have ne: "splitOn P cs \<noteq> []" by (rule splitOn_nonempty)
  then obtain w ws where w: "splitOn P cs = w # ws" by (cases "splitOn P cs") auto
  show ?case using Cons w by auto
qed

lemma joinWith_splitOn:
  "ideographic_comma \<notin> set s \<Longrightarrow> joinWith [comma] (splitOn isSeparator s) = s"
proof (induction s)
  case Nil then show ?case by simp
next
  case (Cons c cs)
  obtain w ws where w: "splitOn isSeparator cs = w # ws"
    using splitOn_nonempty[of isSeparator cs] by (cases "splitOn isSeparator cs") auto
  have ih: "joinWith [comma] (w # ws) = cs" using Cons w by simp
  show ?case
  proof (cases "isSeparator c")
    case True
    then have "c = comma" using Cons.prems by (auto simp: isSeparator_def)
    then show ?thesis using True w ih by simp
  next
    case False
    have "joinWith [comma] ((c # w) # ws) = c # joinWith [comma] (w # ws)"
      by (cases ws) auto
    then show ?thesis using False w ih by simp
  qed
qed

lemma filtered_join_le:
  assumes "\<And>i. length (g i) \<le> length i"
  shows "length (joinWith [c] (filter (\<lambda>i. i \<noteq> []) (map g items))) \<le> length (joinWith [c] items)"
proof -
  let ?F = "filter (\<lambda>i. i \<noteq> []) (map g items)"
  have "sum_list (map length ?F) \<le> sum_list (map length items)"
    using assms by (induction items) (auto simp: le_SucI add_mono)
  moreover have "length ?F \<le> length items"
    using length_filter_le[of "\<lambda>i. i \<noteq> []" "map g items"] by simp
  ultimately show ?thesis unfolding length_joinWith by arith
qed

lemma filtered_join_less:
  assumes "\<And>i. length (g i) \<le> length i" "[] \<in> set items" "2 \<le> length items"
  shows "length (joinWith [c] (filter (\<lambda>i. i \<noteq> []) (map g items))) < length (joinWith [c] items)"
proof -
  let ?F = "filter (\<lambda>i. i \<noteq> []) (map g items)"
  have s: "sum_list (map length ?F) \<le> sum_list (map length items)"
    using assms(1) by (induction items) (auto simp: le_SucI add_mono)
  have "g [] = []" using assms(1)[of "[]"] by simp
  then have "[] \<in> set (map g items)" using assms(2) by force
  then have "length ?F < length (map g items)"
    by (intro length_filter_less[of "[]"]) simp_all
  then have l: "length ?F < length items" by simp
  show ?thesis unfolding length_joinWith using s l assms(3) by arith
qed

lemma splitOn_last_sep:
  "s \<noteq> [] \<Longrightarrow> P (last s) \<Longrightarrow> last (splitOn P s) = [] \<and> 2 \<le> length (splitOn P s)"
proof (induction s)
  case Nil then show ?case by simp
next
  case (Cons c cs)
  obtain w ws where w: "splitOn P cs = w # ws"
    using splitOn_nonempty[of P cs] by (cases "splitOn P cs") auto
  show ?case
  proof (cases "cs = []")
    case True then show ?thesis using Cons.prems by simp
  next
    case False
    then have "last (splitOn P cs) = [] \<and> 2 \<le> length (splitOn P cs)"
      using Cons by simp
    then show ?thesis using w by (cases ws) (auto split: if_splits)
  qed
qed

lemma splitOn_last_nonsep:
  "s \<noteq> [] \<Longrightarrow> \<not> P (last s) \<Longrightarrow>
   last (splitOn P s) \<noteq> [] \<and> last (last (splitOn P s)) = last s"
proof (induction s)
  case Nil then show ?case by simp
next
  case (Cons c cs)
  obtain w ws where w: "splitOn P cs = w # ws"
    using splitOn_nonempty[of P cs] by (cases "splitOn P cs") auto
  show ?case
  proof (cases "cs = []")
    case True then show ?thesis using Cons.prems by simp
  next
    case False
    then have "last (splitOn P cs) \<noteq> [] \<and> last (last (splitOn P cs)) = last cs"
      using Cons by simp
    then show ?thesis using w False by (cases ws) (auto split: if_splits)
  qed
qed

lemma splitOn_append:
  "splitOn P (a @ b) =
     butlast (splitOn P a) @ [last (splitOn P a) @ hd (splitOn P b)] @ tl (splitOn P b)"
proof (induction a)
  case Nil
  then show ?case using splitOn_nonempty[of P b] by simp
next
  case (Cons c a)
  obtain w ws where w: "splitOn P a = w # ws"
    using splitOn_nonempty[of P a] by (cases "splitOn P a") auto
  show ?case
  proof (cases "P c")
    case True
    then show ?thesis using Cons w by simp
  next
    case False
    show ?thesis
    proof (cases ws)
      case Nil
      then show ?thesis using Cons w False by simp
    next
      case (Cons v vs)
      then show ?thesis using Cons.IH w False by simp
    qed
  qed
qed

lemma splitOn_piece_free: "piece \<in> set (splitOn P s) \<Longrightarrow> c \<in> set piece \<Longrightarrow> \<not> P c"
proof (induction s arbitrary: piece)
  case Nil then show ?case by simp
next
  case (Cons d ds)
  obtain w ws where w: "splitOn P ds = w # ws"
    using splitOn_nonempty[of P ds] by (cases "splitOn P ds") auto
  show ?case
  proof (cases "P d")
    case True
    then show ?thesis using Cons by auto
  next
    case False
    then have "piece = d # w \<or> piece \<in> set ws" using Cons.prems(1) w by simp
    then show ?thesis
    proof
      assume "piece = d # w"
      then show ?thesis using Cons.prems(2) False Cons.IH[of w] w by auto
    next
      assume "piece \<in> set ws"
      then show ?thesis using Cons.IH[of piece] Cons.prems(2) w by simp
    qed
  qed
qed

subsection \<open>The fixed points of the \<open>payee-name\<close> processing\<close>

lemma suffix_single: "suffix [c] y \<longleftrightarrow> y \<noteq> [] \<and> last y = c"
proof
  assume "suffix [c] y"
  then obtain ps where "y = ps @ [c]" by (auto simp: suffix_def)
  then show "y \<noteq> [] \<and> last y = c" by simp
next
  assume "y \<noteq> [] \<and> last y = c"
  then have "y = butlast y @ [c]" by (metis append_butlast_last_id)
  then show "suffix [c] y" by (metis suffixI)
qed

lemma prefix_same_length: "prefix a b \<Longrightarrow> length a = length b \<Longrightarrow> a = b"
  by (auto simp: prefix_def)

lemma hasSeparator_iff: "hasSeparator s \<longleftrightarrow> (\<exists>c \<in> set s. isSeparator c)"
  by (auto simp: hasSeparator_def isSeparator_def)

lemma length_commaList_le:
  assumes "\<And>i. length (g i) \<le> length i"
  shows "length (joinWith [c] (filter (\<lambda>i. i \<noteq> []) (map g (splitOn P s)))) \<le> length s"
  using filtered_join_le[of g c "splitOn P s", OF assms] splitOn_sum[of P s]
  by (simp add: length_joinWith)

lemma length_commaList_less:
  assumes "\<And>i. length (g i) \<le> length i" "s \<noteq> []" "P (last s)"
  shows "length (joinWith [c] (filter (\<lambda>i. i \<noteq> []) (map g (splitOn P s)))) < length s"
proof -
  have l: "last (splitOn P s) = [] \<and> 2 \<le> length (splitOn P s)"
    using assms(2,3) by (rule splitOn_last_sep)
  then have "splitOn P s \<noteq> []" by auto
  then have "[] \<in> set (splitOn P s)" using l last_in_set by metis
  then have "length (joinWith [c] (filter (\<lambda>i. i \<noteq> []) (map g (splitOn P s))))
      < length (joinWith [c] (splitOn P s))"
    using l by (intro filtered_join_less assms(1)) simp_all
  then show ?thesis using splitOn_sum[of P s] by (simp add: length_joinWith)
qed

lemma length_piece_le: "length (collapseWhitespace (trim i)) \<le> length i"
  using length_collapseWhitespace_le[of "trim i"] length_trim_le[of i] by simp

text \<open>A second pass that changes nothing finds nothing to take away.\<close>

lemma payee_fixed_settled:
  assumes "fieldSpecific PayeeName y = y"
  shows "payeeSettled y"
proof -
  let ?g = "\<lambda>item. collapseWhitespace (trim item)"
  let ?p = "removeWords ngWordsList y"
  let ?z = "if hasSeparator ?p
            then joinWith [comma] (filter (\<lambda>item. item \<noteq> []) (map ?g (splitOn isSeparator ?p)))
            else ?p"
  let ?r1 = "dropTrailing (companyWord @ [colon]) (trim ?z)"
  let ?r = "dropTrailing [colon] ?r1"
  have y: "trim (collapseWhitespace ?r) = y"
    using assms by (simp add: fieldSpecific_def removeNgWords_def Let_def)
  have l1: "length ?p \<le> length y" by (rule length_removeWords_le)
  have l2: "length ?z \<le> length ?p"
    using length_commaList_le[of ?g comma isSeparator ?p, OF length_piece_le] by simp
  have l3: "length (trim ?z) \<le> length ?z" by (rule length_trim_le)
  have l4: "length ?r1 \<le> length (trim ?z)" by (rule length_dropTrailing_le)
  have l5: "length ?r \<le> length ?r1" by (rule length_dropTrailing_le)
  have l6: "length (collapseWhitespace ?r) \<le> length ?r" by (rule length_collapseWhitespace_le)
  have l7: "length (trim (collapseWhitespace ?r)) \<le> length (collapseWhitespace ?r)"
    by (rule length_trim_le)
  have l8: "length (trim (collapseWhitespace ?r)) = length y" using y by simp
  have e1: "length ?p = length y" using l1 l2 l3 l4 l5 l6 l7 l8 by linarith
  have e2: "length ?z = length y" using l1 l2 l3 l4 l5 l6 l7 l8 by linarith
  have e3: "length (trim ?z) = length ?z" using l1 l2 l3 l4 l5 l6 l7 l8 by linarith
  have e4: "length ?r1 = length (trim ?z)" using l1 l2 l3 l4 l5 l6 l7 l8 by linarith
  have e5: "length ?r = length ?r1" using l1 l2 l3 l4 l5 l6 l7 l8 by linarith
  have e6: "length (collapseWhitespace ?r) = length ?r" using l1 l2 l3 l4 l5 l6 l7 l8 by linarith
  have e7: "length (trim (collapseWhitespace ?r)) = length (collapseWhitespace ?r)"
    using l1 l2 l3 l4 l5 l6 l7 l8 by linarith
  have words: "list_all (\<lambda>w. \<not> sublist w y) ngWordsList"
  proof (rule ccontr)
    assume "\<not> list_all (\<lambda>w. \<not> sublist w y) ngWordsList"
    then obtain w where "w \<in> set ngWordsList" "sublist w y" by (auto simp: list_all_iff)
    then have "length ?p < length y"
      using removeWords_shorter[OF ngWords_nonempty] by blast
    then show False using e1 by simp
  qed
  then have p: "?p = y" by (simp add: removeWords_fixed_iff)
  have nocomma: "last y \<noteq> comma" if "y \<noteq> []"
  proof
    assume c: "last y = comma"
    then have s: "isSeparator (last y)" by (simp add: isSeparator_def)
    have "hasSeparator y" using that c last_in_set[of y] by (auto simp: hasSeparator_def)
    then have "?z = joinWith [comma] (filter (\<lambda>item. item \<noteq> []) (map ?g (splitOn isSeparator y)))"
      using p by simp
    moreover have "length (joinWith [comma] (filter (\<lambda>item. item \<noteq> []) (map ?g (splitOn isSeparator y))))
        < length y"
      using length_commaList_less[of ?g y isSeparator comma, OF length_piece_le that s] .
    ultimately show False using e2 by simp
  qed
  have nocolon: "last y \<noteq> colon" if "y \<noteq> []"
  proof
    assume c: "last y = colon"
    have t: "trim ?z = ?z" using e3 by (rule trim_same_length)
    have tz: "trimmed ?z" using trimmed_trim[of ?z] t by simp
    have "?r1 = trim ?z"
      using dropTrailing_prefix e4 by (rule prefix_same_length)
    then have r1: "?r1 = ?z" using t by simp
    have "collapseWhitespace ?r = y" using y trim_same_length[OF e7] by simp
    moreover have "?r = ?r1" using dropTrailing_prefix e5 by (rule prefix_same_length)
    ultimately have cz: "collapseWhitespace ?z = y" using r1 by simp
    then have zne: "?z \<noteq> []" using that by auto
    have "last (collapseWhitespace ?z) = (if isWhiteSpace (last ?z) then space else last ?z)"
      using collapseWhitespace_last[OF zne] by simp
    then have "last ?z = colon" using cz c by (auto split: if_splits)
    then have "length (dropTrailing [colon] ?z) < length ?z"
      using tz zne by (intro dropTrailing_colon_shorter)
    then show False using e5 r1 by simp
  qed
  show ?thesis using words nocomma nocolon by (auto simp: payeeSettled_def suffix_single)
qed

lemma trimmed_collapseWhitespace: "trimmed s \<Longrightarrow> trimmed (collapseWhitespace s)"
proof (cases "s = []")
  case True then show ?thesis by (simp add: trimmed_def)
next
  case False
  assume "trimmed s"
  then have h: "\<not> isWhiteSpace (hd s)" and l: "\<not> isWhiteSpace (last s)"
    using False by (simp_all add: trimmed_def)
  have "hd (collapseWhitespace s) = hd s" using collapseWhitespace_hd[OF False h] by simp
  moreover have "last (collapseWhitespace s) = last s"
    using collapseWhitespace_last[OF False] l by simp
  ultimately show ?thesis using h l by (simp add: trimmed_def)
qed

lemma collapsed_append_comma: "collapsed a \<Longrightarrow> collapsed b \<Longrightarrow> collapsed (a @ comma # b)"
proof (induction a rule: induct_list012)
  case 1
  then show ?case by (cases b) (auto simp: isWhiteSpace_def)
next
  case (2 c)
  then have "collapsed (comma # b)" by (cases b) (auto simp: isWhiteSpace_def)
  then show ?case using 2 by (auto simp: isWhiteSpace_def)
next
  case (3 c d r)
  then show ?case by auto
qed

lemma collapsed_joinWith:
  "\<forall>i \<in> set items. collapsed i \<Longrightarrow> collapsed (joinWith [comma] items)"
proof (induction items rule: induct_list012)
  case 1 then show ?case by simp
next
  case (2 i) then show ?case by simp
next
  case (3 i j items)
  then have "collapsed (joinWith [comma] (j # items))" by simp
  then show ?case using 3(3) by (simp add: collapsed_append_comma)
qed

lemma joinWith_ends:
  "items \<noteq> [] \<Longrightarrow> \<forall>i \<in> set items. i \<noteq> [] \<Longrightarrow>
   joinWith sep items \<noteq> [] \<and> hd (joinWith sep items) = hd (hd items) \<and>
   last (joinWith sep items) = last (last items)"
proof (induction items rule: induct_list012)
  case 1 then show ?case by simp
next
  case (2 i) then show ?case by simp
next
  case (3 i j items)
  then have "joinWith sep (j # items) \<noteq> [] \<and>
      last (joinWith sep (j # items)) = last (last (j # items))" by simp
  then show ?case using 3(4) by simp
qed

lemma collapsed_prefix: "prefix a b \<Longrightarrow> collapsed b \<Longrightarrow> collapsed a"
proof -
  assume "prefix a b" "collapsed b"
  then obtain c where "b = a @ c" by (auto simp: prefix_def)
  then have "a = take (length a) b" by simp
  then show ?thesis using \<open>collapsed b\<close> collapsed_take by metis
qed

lemma trim_prefix: "s \<noteq> [] \<Longrightarrow> \<not> isWhiteSpace (hd s) \<Longrightarrow> prefix (trim s) s"
proof -
  assume "s \<noteq> []" "\<not> isWhiteSpace (hd s)"
  then have "dropWhile isWhiteSpace s = s" by (intro dropWhile_hd) simp_all
  then have "trim s = rev (dropWhile isWhiteSpace (rev s))" by (simp add: trim_def)
  then show ?thesis using body_prefix[of isWhiteSpace s] by simp
qed

lemma in_butlast_or_last: "xs \<noteq> [] \<Longrightarrow> i \<in> set xs \<Longrightarrow> i \<in> set (butlast xs) \<or> i = last xs"
  by (induction xs) (auto split: if_splits)

lemma commaList_prefix_fixed:
  assumes ne: "items \<noteq> []"
    and good: "\<And>i. i \<in> set items \<Longrightarrow> i \<noteq> [] \<and> trimmed i \<and> collapsed i"
    and free: "\<And>i c. i \<in> set items \<Longrightarrow> c \<in> set i \<Longrightarrow> \<not> isSeparator c"
    and pre: "prefix y (joinWith [comma] items)"
    and y: "y \<noteq> []" "trimmed y" "last y \<noteq> comma"
  shows "joinWith [comma] (filter (\<lambda>item. item \<noteq> [])
           (map (\<lambda>item. collapseWhitespace (trim item)) (splitOn isSeparator y))) = y"
proof -
  let ?g = "\<lambda>item. collapseWhitespace (trim item)"
  define z where "z = joinWith [comma] items"
  obtain b where b: "z = y @ b" using pre by (auto simp: prefix_def z_def)
  have noid: "ideographic_comma \<notin> set z"
  proof
    assume "ideographic_comma \<in> set z"
    then have "ideographic_comma \<in> set [comma] \<union> \<Union> (set ` set items)"
      using joinWith_set[of "[comma]" items] by (auto simp: z_def)
    then obtain i where "i \<in> set items" "ideographic_comma \<in> set i" by auto
    then show False using free[of i ideographic_comma] by (simp add: isSeparator_def)
  qed
  have noidy: "ideographic_comma \<notin> set y" using noid b by simp
  have split: "splitOn isSeparator z = items"
    unfolding z_def using ne
  proof (rule splitOn_join)
    show "\<forall>p \<in> set items. \<forall>c \<in> set p. \<not> isSeparator c" using free by blast
    show "isSeparator comma" by (simp add: isSeparator_def)
  qed
  have app: "items = butlast (splitOn isSeparator y) @
      [last (splitOn isSeparator y) @ hd (splitOn isSeparator b)] @ tl (splitOn isSeparator b)"
    using splitOn_append[of isSeparator y b] split b by simp
  have "last y \<in> set y" using y(1) by (rule last_in_set)
  then have "last y \<noteq> ideographic_comma" using noidy by metis
  then have lasty: "\<not> isSeparator (last y)"
    using y(3) by (simp add: isSeparator_def)
  define u where "u = last (splitOn isSeparator y)"
  define v where "v = hd (splitOn isSeparator b)"
  have u: "u \<noteq> []" "last u = last y"
    using splitOn_last_nonsep[where P = isSeparator and s = y] y(1) lasty by (simp_all add: u_def)
  have uv: "u @ v \<in> set items" by (subst app) (simp add: u_def v_def)
  have gu: "trimmed u \<and> collapsed u"
  proof -
    have g: "trimmed (u @ v)" "collapsed (u @ v)" using good[OF uv] by simp_all
    have "hd u = hd (u @ v)" using u(1) by simp
    then have "\<not> isWhiteSpace (hd u)" using g(1) u(1) by (simp add: trimmed_def)
    moreover have "\<not> isWhiteSpace (last u)" using u y(1,2) by (simp add: trimmed_def)
    moreover have "collapsed u" by (rule collapsed_prefix[of u "u @ v"]) (simp_all add: g(2))
    ultimately show ?thesis by (simp add: trimmed_def)
  qed
  have all: "i \<noteq> [] \<and> trimmed i \<and> collapsed i" if "i \<in> set (splitOn isSeparator y)" for i
  proof -
    have "splitOn isSeparator y \<noteq> []" by (rule splitOn_nonempty)
    then have "i \<in> set (butlast (splitOn isSeparator y)) \<or> i = u"
      unfolding u_def using that by (rule in_butlast_or_last)
    then show ?thesis
    proof
      assume "i \<in> set (butlast (splitOn isSeparator y))"
      then have "i \<in> set items" by (subst app) simp
      then show ?thesis by (rule good)
    next
      assume "i = u" then show ?thesis using u gu by simp
    qed
  qed
  have "map ?g (splitOn isSeparator y) = splitOn isSeparator y"
  proof (rule map_idI)
    fix i assume "i \<in> set (splitOn isSeparator y)"
    then have "trimmed i" "collapsed i" using all by simp_all
    then show "?g i = i" by (simp add: trim_trimmed collapseWhitespace_id)
  qed
  moreover have "filter (\<lambda>item. item \<noteq> []) (splitOn isSeparator y) = splitOn isSeparator y"
    using all by (intro filter_True) simp
  ultimately show ?thesis using joinWith_splitOn[OF noidy] by simp
qed

text \<open>A result of the first pass in which nothing is left to take away is a fixed point.\<close>

lemma payee_settled_fixed:
  assumes s: "payeeSettled (fieldSpecific PayeeName t)"
  shows "fieldSpecific PayeeName (fieldSpecific PayeeName t) = fieldSpecific PayeeName t"
proof -
  define y where "y = fieldSpecific PayeeName t"
  define p where "p = removeWords ngWordsList t"
  define items where "items = filter (\<lambda>item. item \<noteq> [])
      (map (\<lambda>item. collapseWhitespace (trim item)) (splitOn isSeparator p))"
  define z where "z = (if hasSeparator p then joinWith [comma] items else p)"
  define r where "r = dropTrailing [colon] (dropTrailing (companyWord @ [colon]) (trim z))"
  have y: "y = trim (collapseWhitespace r)"
    by (simp add: y_def r_def z_def items_def p_def fieldSpecific_def removeNgWords_def Let_def)
  have tr: "trimmed y" unfolding y by (rule trimmed_trim)
  have co: "collapsed y" unfolding y
    by (intro collapsed_trim collapsed_collapseWhitespace)
  have w: "removeWords ngWordsList y = y"
    using s by (simp add: removeWords_fixed_iff payeeSettled_def y_def)
  have l: "y = [] \<or> (last y \<noteq> colon \<and> last y \<noteq> comma)"
    using s by (auto simp: payeeSettled_def y_def suffix_single)
  have d1: "dropTrailing (companyWord @ [colon]) y = y"
    by (rule dropTrailing_id[OF tr]) (use l in auto)
  have d2: "dropTrailing [colon] y = y"
    by (rule dropTrailing_id[OF tr]) (use l in auto)
  have n: "joinWith [comma] (filter (\<lambda>item. item \<noteq> [])
           (map (\<lambda>item. collapseWhitespace (trim item)) (splitOn isSeparator y))) = y"
    if sep: "hasSeparator y"
  proof -
    have yne: "y \<noteq> []" using sep by (auto simp: hasSeparator_def)
    have rsub: "set y \<subseteq> insert space (set r)"
      unfolding y using set_trim[of "collapseWhitespace r"] set_collapseWhitespace[of r] by blast
    have "prefix r (trim z)"
      unfolding r_def using dropTrailing_prefix prefix_order.trans by blast
    then have "set r \<subseteq> set (trim z)" by (rule set_mono_prefix)
    then have zsub: "set y \<subseteq> insert space (set z)" using rsub set_trim[of z] by blast
    have sp: "hasSeparator p"
    proof (rule ccontr)
      assume np: "\<not> hasSeparator p"
      then have "set y \<subseteq> insert space (set p)" using zsub by (simp add: z_def)
      then have "\<not> hasSeparator y" using np by (auto simp: hasSeparator_def)
      then show False using sep by simp
    qed
    have z: "z = joinWith [comma] items" using sp by (simp add: z_def)
    have free: "\<not> isSeparator c" if "i \<in> set items" "c \<in> set i" for i c
    proof -
      have "i \<in> (\<lambda>item. collapseWhitespace (trim item)) ` set (splitOn isSeparator p)"
        using that(1) by (simp add: items_def)
      then obtain j where j: "j \<in> set (splitOn isSeparator p)" "i = collapseWhitespace (trim j)"
        by (rule imageE)
      have "set i \<subseteq> insert space (set j)"
        unfolding j(2) using set_collapseWhitespace[of "trim j"] set_trim[of j] by blast
      then have "c = space \<or> c \<in> set j" using that(2) by auto
      then show ?thesis using splitOn_piece_free[OF j(1)] by (auto simp: isSeparator_def)
    qed
    have good: "i \<noteq> [] \<and> trimmed i \<and> collapsed i" if "i \<in> set items" for i
    proof -
      have "i \<in> (\<lambda>item. collapseWhitespace (trim item)) ` set (splitOn isSeparator p)" "i \<noteq> []"
        using that by (simp_all add: items_def)
      then obtain j where j: "i = collapseWhitespace (trim j)" "i \<noteq> []" by (auto elim: imageE)
      show ?thesis unfolding j(1)
        using j trimmed_collapseWhitespace[OF trimmed_trim] collapsed_collapseWhitespace by simp
    qed
    have ine: "items \<noteq> []"
    proof
      assume "items = []"
      then have "z = []" using z by simp
      then have "y = []"
        unfolding y r_def by (simp add: trim_def dropTrailing_def Let_def)
      then show False using yne by simp
    qed
    have ends: "joinWith [comma] items \<noteq> [] \<and>
        hd (joinWith [comma] items) = hd (hd items) \<and>
        last (joinWith [comma] items) = last (last items)"
      using ine good by (intro joinWith_ends) blast+
    have "hd items \<in> set items" using ine by (rule hd_in_set)
    moreover have "last items \<in> set items" using ine by (rule last_in_set)
    ultimately have "trimmed (hd items)" "hd items \<noteq> []" "trimmed (last items)" "last items \<noteq> []"
      using good by blast+
    then have tz: "trimmed z" using ends z by (simp add: trimmed_def)
    have zne: "z \<noteq> []" using ends z by simp
    have cz: "collapsed z" unfolding z using good by (intro collapsed_joinWith) blast
    have tz': "trim z = z" using tz by (rule trim_trimmed)
    have pr: "prefix r z"
      unfolding r_def tz' using dropTrailing_prefix prefix_order.trans by blast
    have cr: "collapsed r" using pr cz by (rule collapsed_prefix)
    have yr: "y = trim r" unfolding y by (simp only: collapseWhitespace_id[OF cr])
    have rne: "r \<noteq> []" using yr yne by (auto simp: trim_def)
    have "hd r = hd z" using pr rne by (auto simp: prefix_def)
    then have "\<not> isWhiteSpace (hd r)" using tz zne by (simp add: trimmed_def)
    then have "prefix (trim r) r" using rne by (intro trim_prefix)
    then have py: "prefix y (joinWith [comma] items)"
      using yr pr z prefix_order.trans by metis
    have lc: "last y \<noteq> comma" using l yne by simp
    show ?thesis by (rule commaList_prefix_fixed[OF ine good free py yne tr lc])
  qed
  have "removeNgWords y = y"
  proof (cases "hasSeparator y")
    case True
    then show ?thesis
      using n[OF True] by (simp add: removeNgWords_def Let_def w trim_trimmed[OF tr] d1 d2)
  next
    case False
    then show ?thesis
      by (simp add: removeNgWords_def Let_def w trim_trimmed[OF tr] d1 d2)
  qed
  then have "fieldSpecific PayeeName y = trim (collapseWhitespace y)"
    by (simp add: fieldSpecific_def)
  also have "\<dots> = trim y" by (simp only: collapseWhitespace_id[OF co])
  also have "\<dots> = y" using tr by (rule trim_trimmed)
  finally show ?thesis by (simp add: y_def)
qed

section \<open>Properties of the normalization\<close>

subsection \<open>Strings that normalization leaves alone\<close>

lemma toCodePoints_id: "list_all (\<lambda>c. \<not> isHighSurrogate c) s \<Longrightarrow> toCodePoints s = s"
  by (induction s rule: toCodePoints.induct) auto

lemma fromCodePoints_id: "list_all (\<lambda>c. c < 0x10000) s \<Longrightarrow> fromCodePoints s = s"
  by (induction s) (auto simp: fromCodePoints_def)

lemma insertMark_append:
  "v = [] \<or> combiningClass (hd v) = 0 \<Longrightarrow> insertMark c (u @ v) = insertMark c u @ v"
  by (induction u) (cases v; auto)+

lemma canonicalOrder_starter_hd:
  "b \<noteq> [] \<Longrightarrow> combiningClass (hd b) = 0 \<Longrightarrow>
   canonicalOrder b \<noteq> [] \<and> hd (canonicalOrder b) = hd b"
  by (cases b) auto

lemma canonicalOrder_append:
  assumes "b = [] \<or> combiningClass (hd b) = 0"
  shows "canonicalOrder (a @ b) = canonicalOrder a @ canonicalOrder b"
proof (induction a)
  case Nil then show ?case by simp
next
  case (Cons c a)
  have "canonicalOrder b = [] \<or> combiningClass (hd (canonicalOrder b)) = 0"
    using assms canonicalOrder_starter_hd[of b] by (cases "b = []") auto
  then show ?case using Cons by (simp add: insertMark_append)
qed

lemma canonicalOrder_concat:
  "list_all starterHeaded blocks \<Longrightarrow>
   canonicalOrder (concat blocks) = concat (map canonicalOrder blocks)"
proof (induction blocks)
  case Nil then show ?case by simp
next
  case (Cons blk blocks)
  have "concat blocks = [] \<or> combiningClass (hd (concat blocks)) = 0"
  proof (cases blocks)
    case Nil then show ?thesis by simp
  next
    case (Cons b2 rest)
    then have "starterHeaded b2" using Cons.prems by simp
    then show ?thesis using Cons by (cases b2) (auto simp: starterHeaded_def)
  qed
  then show ?case using Cons by (simp add: canonicalOrder_append)
qed

lemma starterHeaded_canonicalOrder: "starterHeaded blk \<Longrightarrow> starterHeaded (canonicalOrder blk)"
  by (cases blk) (auto simp: starterHeaded_def)

lemma primaryComposite_None: "\<not> combinesBackward b \<Longrightarrow> primaryComposite a b = None"
proof -
  assume n: "\<not> combinesBackward b"
  then have "b \<notin> fst ` set compositionBlocks" by (simp add: combinesBackward_def)
  then have "map_of compositionBlocks b = None" by (simp add: map_of_eq_None_iff)
  then show ?thesis using n by (auto simp: combinesBackward_def primaryComposite_def)
qed

lemma composeLoop_split:
  assumes "combiningClass h = 0" "\<not> combinesBackward h"
  shows "composeLoop st pend lc (a @ h # b) = composeLoop st pend lc a @ composeLoop h [] 0 b"
proof (induction a arbitrary: st pend lc)
  case Nil
  then show ?case using assms by (simp add: primaryComposite_None)
next
  case (Cons c a)
  then show ?case by (simp split: option.splits)
qed

lemma composeCodePoints_append:
  assumes "starterHeaded b"
  shows "composeCodePoints (a @ b) = composeCodePoints a @ composeCodePoints b"
proof -
  obtain h t where b: "b = h # t" "combiningClass h = 0" "\<not> combinesBackward h"
    using assms by (cases b) (auto simp: starterHeaded_def)
  show ?thesis
  proof (cases a)
    case Nil then show ?thesis by (simp add: composeCodePoints_def)
  next
    case (Cons c a')
    then show ?thesis
      using composeLoop_split[OF b(2,3)] b by (simp add: composeCodePoints_def)
  qed
qed

lemma composeCodePoints_concat:
  "list_all starterHeaded blocks \<Longrightarrow>
   composeCodePoints (concat blocks) = concat (map composeCodePoints blocks)"
proof (induction blocks rule: rev_induct)
  case Nil then show ?case by (simp add: composeCodePoints_def)
next
  case (snoc blk blocks)
  then show ?case by (simp add: composeCodePoints_append)
qed

lemma normalizeNFC_fixed:
  assumes "list_all nfcFixedUnit s"
  shows "normalizeNFC s = s"
proof -
  have 1: "toCodePoints s = s"
    using assms by (intro toCodePoints_id) (auto simp: list_all_iff nfcFixedUnit_def)
  have 2: "fromCodePoints s = s"
    using assms by (intro fromCodePoints_id) (auto simp: list_all_iff nfcFixedUnit_def)
  let ?blocks = "map decomposeCodePoint s"
  have h: "list_all starterHeaded ?blocks"
    using assms by (auto simp: list_all_iff nfcFixedUnit_def)
  have h': "list_all starterHeaded (map canonicalOrder ?blocks)"
    using h by (auto simp: list_all_iff starterHeaded_canonicalOrder)
  have "composeCodePoints (canonicalOrder (concat ?blocks))
      = concat (map composeCodePoints (map canonicalOrder ?blocks))"
    using canonicalOrder_concat[OF h] composeCodePoints_concat[OF h'] by simp
  also have "\<dots> = concat (map (\<lambda>c. [c]) s)"
    using assms by (induction s) (auto simp: nfcFixedUnit_def)
  also have "\<dots> = s" by (induction s) auto
  finally show ?thesis by (simp add: normalizeNFC_def 1 2)
qed

subsection \<open>Ranges of code units that normalization leaves alone\<close>

lemma combiningClass_cjk:
  assumes "0x3000 \<le> c" "c \<le> 0x9FFF" "c < 0x302A \<or> 0x302F < c" "c \<noteq> 0x3099" "c \<noteq> 0x309A"
  shows "combiningClass c = 0"
  using assms
  by (auto simp add: combiningClass_def combiningClassBlocks_def combiningClasses_1DF6_def)

lemma combiningClass_voiced: "combiningClass 0x3099 = 8" "combiningClass 0x309A = 8"
  by (simp_all add: combiningClass_def combiningClassBlocks_def combiningClasses_1DF6_def)

lemma combinesBackward_cjk:
  assumes "0x3000 \<le> c" "c \<le> 0x9FFF" "c \<noteq> 0x3099" "c \<noteq> 0x309A"
  shows "\<not> combinesBackward c"
  using assms by (simp add: combinesBackward_def compositionBlocks_def)

lemma primaryComposite_voiced:
  assumes "0x3000 \<le> a" "a \<le> 0x9FFF"
  shows "primaryComposite a 0x3099 = map_of composites_3099 a"
    "primaryComposite a 0x309A = map_of composites_309A a"
  using assms by (simp_all add: primaryComposite_def compositionBlocks_def)

lemma canonicalDecomposition_kana:
  assumes "0x3000 \<le> c" "c \<le> 0x9FFF"
  shows "canonicalDecomposition c =
    (if c \<le> 0x30C5 then map_of decompositions_304C c
     else if c \<le> 0x30FE then map_of decompositions_30C7 c else None)"
  using assms
  by (simp add: canonicalDecomposition_def decompositionBlocks_def decompositions_F900_def)

lemma recomposes_kana:
  "list_all recomposes decompositions_304C" "list_all recomposes decompositions_30C7"
  by (simp_all add: decompositions_304C_def decompositions_30C7_def recomposes_def
      starterHeaded_def composeCodePoints_def combiningClass_cjk combiningClass_voiced
      combinesBackward_cjk primaryComposite_voiced composites_3099_def composites_309A_def)


lemma fixed_without_entry:
  assumes "canonicalDecomposition c = None" "combiningClass c = 0" "\<not> combinesBackward c"
    "c < 0xAC00 \<or> (0xE000 \<le> c \<and> c < 0x10000)"
  shows "nfcFixedUnit c"
  using assms
  by (auto simp: nfcFixedUnit_def isHighSurrogate_def isLowSurrogate_def decomposeCodePoint_def
      starterHeaded_def composeCodePoints_def)

lemma fixed_with_entry:
  assumes "canonicalDecomposition c = Some d" "recomposes (c, d)"
    "c < 0xAC00 \<or> (0xE000 \<le> c \<and> c < 0x10000)"
  shows "nfcFixedUnit c"
  using assms
  by (auto simp: nfcFixedUnit_def isHighSurrogate_def isLowSurrogate_def decomposeCodePoint_def
      recomposes_def)

lemma combiningClass_latin: "c < 0x300 \<Longrightarrow> combiningClass c = 0"
  by (simp add: combiningClass_def combiningClassBlocks_def combiningClasses_0300_def)

lemma combiningClass_marks:
  "combiningClass 0x0300 = 230" "combiningClass 0x0301 = 230" "combiningClass 0x0302 = 230" "combiningClass 0x0303 = 230" "combiningClass 0x0304 = 230" "combiningClass 0x0306 = 230" "combiningClass 0x0307 = 230" "combiningClass 0x0308 = 230" "combiningClass 0x030A = 230" "combiningClass 0x030B = 230" "combiningClass 0x030C = 230" "combiningClass 0x030F = 230" "combiningClass 0x0311 = 230" "combiningClass 0x031B = 216" "combiningClass 0x0326 = 220" "combiningClass 0x0327 = 202" "combiningClass 0x0328 = 202"
  by (simp_all add: combiningClass_def combiningClassBlocks_def combiningClasses_0300_def)

lemma combinesBackward_latin: "c < 0x300 \<Longrightarrow> \<not> combinesBackward c"
  by (simp add: combinesBackward_def compositionBlocks_def)

lemma primaryComposite_marks:
  assumes "a < 0x300"
  shows "primaryComposite a 0x0300 = map_of composites_0300 a"
    "primaryComposite a 0x0301 = map_of composites_0301 a"
    "primaryComposite a 0x0302 = map_of composites_0302 a"
    "primaryComposite a 0x0303 = map_of composites_0303 a"
    "primaryComposite a 0x0304 = map_of composites_0304 a"
    "primaryComposite a 0x0306 = map_of composites_0306 a"
    "primaryComposite a 0x0307 = map_of composites_0307 a"
    "primaryComposite a 0x0308 = map_of composites_0308 a"
    "primaryComposite a 0x030A = map_of composites_030A a"
    "primaryComposite a 0x030B = map_of composites_030B a"
    "primaryComposite a 0x030C = map_of composites_030C a"
    "primaryComposite a 0x030F = map_of composites_030F a"
    "primaryComposite a 0x0311 = map_of composites_0311 a"
    "primaryComposite a 0x031B = map_of composites_031B a"
    "primaryComposite a 0x0326 = map_of composites_0326 a"
    "primaryComposite a 0x0327 = map_of composites_0327 a"
    "primaryComposite a 0x0328 = map_of composites_0328 a"
  using assms by (simp_all add: primaryComposite_def compositionBlocks_def)

lemma canonicalDecomposition_latin:
  assumes "c < 0x300"
  shows "canonicalDecomposition c =
    (if c \<le> 0x00EE then map_of decompositions_00C0 c
     else if c \<le> 0x011C then map_of decompositions_00EF c
     else if c \<le> 0x0151 then map_of decompositions_011D c
     else if c \<le> 0x017D then map_of decompositions_0154 c
     else if c \<le> 0x01F5 then map_of decompositions_017E c
     else if c \<le> 0x0227 then map_of decompositions_01F8 c
     else if c \<le> 0x0233 then map_of decompositions_0228 c
     else None)"
  using assms
  by (simp add: canonicalDecomposition_def decompositionBlocks_def decompositions_0340_def)

lemma recomposes_latin:
  "list_all recomposes decompositions_00C0" "list_all recomposes decompositions_00EF" "list_all recomposes decompositions_011D" "list_all recomposes decompositions_0154" "list_all recomposes decompositions_017E" "list_all recomposes decompositions_01F8" "list_all recomposes decompositions_0228"
  by (simp_all add: decompositions_00C0_def decompositions_00EF_def decompositions_011D_def decompositions_0154_def decompositions_017E_def decompositions_01F8_def decompositions_0228_def
      recomposes_def starterHeaded_def composeCodePoints_def combiningClass_latin
      combiningClass_marks combinesBackward_latin primaryComposite_marks
      composites_0300_def composites_0301_def composites_0302_def composites_0303_def composites_0304_def composites_0306_def composites_0307_def composites_0308_def composites_030A_def composites_030B_def composites_030C_def composites_030F_def composites_0311_def composites_031B_def composites_0326_def composites_0327_def composites_0328_def)

lemma plain_latin:
  assumes "c < 0x300"
  shows "nfcFixedUnit c"
proof -
  have range: "c < 0xAC00 \<or> (0xE000 \<le> c \<and> c < 0x10000)" using assms by simp
  have cc: "combiningClass c = 0" using assms by (rule combiningClass_latin)
  have nb: "\<not> combinesBackward c" using assms by (rule combinesBackward_latin)
  show ?thesis
  proof (cases "canonicalDecomposition c")
    case None
    then show ?thesis using cc nb range by (rule fixed_without_entry)
  next
    case (Some d)
    then have "(c, d) \<in> set decompositions_00C0 \<or> (c, d) \<in> set decompositions_00EF \<or> (c, d) \<in> set decompositions_011D \<or> (c, d) \<in> set decompositions_0154 \<or> (c, d) \<in> set decompositions_017E \<or> (c, d) \<in> set decompositions_01F8 \<or> (c, d) \<in> set decompositions_0228"
      using canonicalDecomposition_latin[OF assms]
      by (auto split: if_splits dest: map_of_SomeD)
    then have "recomposes (c, d)"
      using recomposes_latin by (auto simp: list_all_iff)
    with Some show ?thesis using range by (rule fixed_with_entry)
  qed
qed

lemma plain_punctuation:
  assumes "0x2002 \<le> c" "c \<le> 0x20CF"
  shows "nfcFixedUnit c"
proof (rule fixed_without_entry)
  show "canonicalDecomposition c = None"
    using assms by (simp add: canonicalDecomposition_def decompositionBlocks_def decompositions_2126_def)
  show "combiningClass c = 0"
    using assms by (simp add: combiningClass_def combiningClassBlocks_def combiningClasses_1DF6_def)
  show "\<not> combinesBackward c"
    using assms by (simp add: combinesBackward_def compositionBlocks_def)
  show "c < 0xAC00 \<or> (0xE000 \<le> c \<and> c < 0x10000)" using assms by simp
qed

lemma plain_forms:
  assumes "0xFF00 \<le> c" "c \<le> 0xFFEF"
  shows "nfcFixedUnit c"
proof (rule fixed_without_entry)
  show "canonicalDecomposition c = None"
    using assms by (simp add: canonicalDecomposition_def decompositionBlocks_def decompositions_1109A_def)
  show "combiningClass c = 0"
    using assms by (simp add: combiningClass_def combiningClassBlocks_def combiningClasses_A953_def)
  show "\<not> combinesBackward c"
    using assms by (simp add: combinesBackward_def compositionBlocks_def)
  show "c < 0xAC00 \<or> (0xE000 \<le> c \<and> c < 0x10000)" using assms by simp
qed

lemma plain_cjk:
  assumes "0x3000 \<le> c" "c \<le> 0x9FFF" "c < 0x302A \<or> 0x302F < c" "c \<noteq> 0x3099" "c \<noteq> 0x309A"
  shows "nfcFixedUnit c"
proof -
  have range: "c < 0xAC00 \<or> (0xE000 \<le> c \<and> c < 0x10000)" using assms by simp
  have cc: "combiningClass c = 0" using assms by (rule combiningClass_cjk)
  have nb: "\<not> combinesBackward c" using assms(1,2,4,5) by (rule combinesBackward_cjk)
  show ?thesis
  proof (cases "canonicalDecomposition c")
    case None
    then show ?thesis using cc nb range by (rule fixed_without_entry)
  next
    case (Some d)
    then have "(c, d) \<in> set decompositions_304C \<or> (c, d) \<in> set decompositions_30C7"
      using canonicalDecomposition_kana[OF assms(1,2)]
      by (auto split: if_splits dest: map_of_SomeD)
    then have "recomposes (c, d)"
      using recomposes_kana by (auto simp: list_all_iff)
    with Some show ?thesis using range by (rule fixed_with_entry)
  qed
qed

lemma plainUnit_fixed: "plainUnit c \<Longrightarrow> nfcFixedUnit c"
  unfolding plainUnit_def
  using plain_latin[of c] plain_punctuation[of c] plain_forms[of c] plain_cjk[of c]
  by auto

lemma normalizeNFC_plain: "list_all plainUnit s \<Longrightarrow> normalizeNFC s = s"
  by (rule normalizeNFC_fixed) (auto simp: list_all_iff plainUnit_fixed)

subsection \<open>Two passes of postProcessOcrResult\<close>

lemma fieldSpecific_empty: "fieldSpecific f [] = []"
  by (cases f)
     (simp_all add: fieldSpecific_def hasSeparator_def keepPhoneChars_def formatPhoneNumber_def
        katakanaToHiragana_def removeNgWords_def trim_def dropTrailing_def Let_def)

lemma convertWidths_empty: "convertWidths (trim []) = []"
  by (simp add: trim_def convertWidths_def fullwidthToHalfwidth_def halfwidthSymbols_def
      combineDakuten_def combineHandakuten_def convertKatakana_def)

text \<open>The first pass, the early return included.\<close>

lemma postProcess_shape:
  "\<exists>x'. postProcessOcrResult x f = fieldSpecific f (convertWidths (trim x')) \<and>
        (x = [] \<or> x' = normalizeNFC x) \<and> (list_all nfcFixedUnit x \<longrightarrow> x' = x)"
proof (cases "x = []")
  case True
  then show ?thesis
    by (intro exI[of _ "[]"]) (simp add: postProcessOcrResult_def convertWidths_empty fieldSpecific_empty)
next
  case False
  then show ?thesis
    by (intro exI[of _ "normalizeNFC x"]) (simp add: postProcessOcrResult_def normalizeNFC_fixed)
qed

text \<open>A second pass over a normalized, trimmed and settled string is the part for the field.\<close>

lemma postProcess_again:
  assumes "normalizeNFC y = y" "trimmed y" "list_all settled y"
  shows "postProcessOcrResult y f = fieldSpecific f y"
proof (cases "y = []")
  case True then show ?thesis by (simp add: postProcessOcrResult_def fieldSpecific_empty)
next
  case False
  then show ?thesis
    using assms by (simp add: postProcessOcrResult_def trim_trimmed convertWidths_id)
qed

lemma hiraganaOf_settled: "settled c \<Longrightarrow> settled (hiraganaOf c)"
  by (auto simp: hiraganaOf_def settled_def isFullwidthAlnum_def)

lemma hiraganaOf_idem: "hiraganaOf (hiraganaOf c) = hiraganaOf c"
  by (auto simp: hiraganaOf_def)

lemma hiraganaOf_ws: "isWhiteSpace (hiraganaOf c) = isWhiteSpace c"
  by (auto simp: hiraganaOf_def isWhiteSpace_def)

lemma hiraganaOf_fixedUnit:
  assumes "nfcFixedUnit c" "\<not> becomesMark c"
  shows "nfcFixedUnit (hiraganaOf c)"
proof (cases "0x30A1 \<le> c \<and> c \<le> 0x30FA")
  case True
  then have "plainUnit (c - 0x60)" using assms(2) by (auto simp: plainUnit_def becomesMark_def)
  then show ?thesis using True by (simp add: hiraganaOf_def plainUnit_fixed)
next
  case False
  have "hiraganaOf c = c" unfolding hiraganaOf_def by (rule if_not_P[OF False])
  then show ?thesis using assms(1) by simp
qed

lemma space_comma_settled: "settled space" "settled comma" "plainUnit space" "plainUnit comma"
  by (simp_all add: settled_def isFullwidthAlnum_def plainUnit_def)

lemma introduced_plain: "introduced v \<Longrightarrow> plainUnit v"
  by (auto simp: introduced_def kanaOut_def plainUnit_def)

lemma introduced_no_mark: "introduced v \<Longrightarrow> \<not> becomesMark v"
  by (auto simp: introduced_def kanaOut_def becomesMark_def)

text \<open>What the first pass returns is trimmed and settled, whatever the input.\<close>

lemma fieldSpecific_result:
  assumes t: "trimmed t" "list_all settled t"
  shows "trimmed (fieldSpecific f t)" "list_all settled (fieldSpecific f t)"
proof -
  have "trimmed (fieldSpecific f t) \<and> list_all settled (fieldSpecific f t)"
  proof (cases f)
    case PhoneNumber
    have ch: "list_all (\<lambda>c. isPhoneOut c \<or> c = comma) (fieldSpecific PhoneNumber t)"
      by (rule fieldSpecific_phone_chars)
    have c: "list_all settled (fieldSpecific PhoneNumber t)"
      using ch isPhoneOut_props(2) by (auto simp: list_all_iff)
    have "list_all (\<lambda>c. \<not> isWhiteSpace c) (fieldSpecific PhoneNumber t)"
      using ch isPhoneOut_props(3) by (auto simp: list_all_iff)
    then have "trimmed (fieldSpecific PhoneNumber t)" by (rule no_ws_trimmed)
    then show ?thesis using c PhoneNumber by simp
  next
    case PayeeName
    have sub: "set (fieldSpecific PayeeName t) \<subseteq> insert space (insert comma (set t))"
      by (rule payee_result_set)
    have c: "list_all settled (fieldSpecific PayeeName t)"
      using sub t(2) space_comma_settled by (auto simp: list_all_iff)
    have "trimmed (fieldSpecific PayeeName t)" by (simp add: fieldSpecific_def trimmed_trim)
    then show ?thesis using c PayeeName by simp
  next
    case Phonetic
    have "trimmed (map hiraganaOf t)" by (rule trimmed_map[OF hiraganaOf_ws t(1)])
    moreover have "list_all settled (map hiraganaOf t)"
      using t(2) hiraganaOf_settled by (simp add: list_all_iff)
    ultimately show ?thesis using Phonetic by (simp add: fieldSpecific_def katakanaToHiragana_def)
  next
    case Clipboard then show ?thesis using t by (simp add: fieldSpecific_def)
  next
    case OtherField then show ?thesis using t by (simp add: fieldSpecific_def)
  qed
  then show "trimmed (fieldSpecific f t)" "list_all settled (fieldSpecific f t)" by simp_all
qed

text \<open>The part for the field on its own result.\<close>

lemma fieldSpecific_again:
  "fieldSpecific f (fieldSpecific f t) = fieldSpecific f t \<longleftrightarrow>
     (f = PayeeName \<longrightarrow> payeeSettled (fieldSpecific f t))"
proof (cases f)
  case PhoneNumber then show ?thesis by (simp add: fieldSpecific_phone_fixed)
next
  case PayeeName
  then show ?thesis using payee_settled_fixed[of t] payee_fixed_settled[of "fieldSpecific PayeeName t"] by auto
next
  case Phonetic
  have "map hiraganaOf (map hiraganaOf t) = map hiraganaOf t" by (simp add: hiraganaOf_idem)
  then show ?thesis using Phonetic by (simp add: fieldSpecific_def katakanaToHiragana_def)
next
  case Clipboard then show ?thesis by (simp add: fieldSpecific_def)
next
  case OtherField then show ?thesis by (simp add: fieldSpecific_def)
qed

text \<open>Code units of the first result, for an input of code units that are fixed.\<close>

lemma fieldSpecific_fixedUnits:
  assumes t: "list_all nfcFixedUnit t" and m: "f = Phonetic \<longrightarrow> list_all (\<lambda>c. \<not> becomesMark c) t"
  shows "list_all nfcFixedUnit (fieldSpecific f t)"
proof (cases f)
  case PhoneNumber
  have "list_all (\<lambda>c. isPhoneOut c \<or> c = comma) (fieldSpecific PhoneNumber t)"
    by (rule fieldSpecific_phone_chars)
  then show ?thesis using PhoneNumber isPhoneOut_props(1) plainUnit_fixed by (auto simp: list_all_iff)
next
  case PayeeName
  have "set (fieldSpecific PayeeName t) \<subseteq> insert space (insert comma (set t))"
    by (rule payee_result_set)
  then show ?thesis
    using PayeeName t space_comma_settled(3,4) plainUnit_fixed by (auto simp: list_all_iff)
next
  case Phonetic
  then show ?thesis
    using t m hiraganaOf_fixedUnit by (auto simp: fieldSpecific_def katakanaToHiragana_def list_all_iff)
next
  case Clipboard then show ?thesis using t by (simp add: fieldSpecific_def)
next
  case OtherField then show ?thesis using t by (simp add: fieldSpecific_def)
qed

text \<open>
  Claim C8 says that a second pass of \<open>postProcessOcrResult\<close> with the same field type
  always returns the result of the first pass. That fails, as the examples further down
  show. What holds, for every input \<open>x\<close> and every field type \<open>f\<close>, with \<open>y\<close> the result
  of the first pass, is this. For \<open>phone-number\<close> the second pass returns \<open>y\<close>. For every
  field type, when \<open>y\<close> is in normalization form C, the second pass returns \<open>y\<close>, except
  for \<open>payee-name\<close>, where it does so exactly when \<open>removeNgWords\<close> finds nothing left to
  take away in \<open>y\<close>: none of the words of the list, no colon and no comma at the end.
  And \<open>y\<close> is in normalization form C whenever every code unit of \<open>x\<close> is a code point
  that normalization leaves alone wherever it stands and, for \<open>phonetic\<close>, \<open>x\<close> holds
  neither of the katakana U+30F9 and U+30FA, which become the combining voiced marks.
\<close>

theorem postProcessOcrResult_second_pass:
  assumes "postProcessOcrResult x f = y"
  shows "(f = PhoneNumber \<longrightarrow> postProcessOcrResult y f = y) \<and>
         (normalizeNFC y = y \<longrightarrow>
            (postProcessOcrResult y f = y \<longleftrightarrow> (f = PayeeName \<longrightarrow> payeeSettled y))) \<and>
         (list_all nfcFixedUnit x \<and> (f = Phonetic \<longrightarrow> list_all (\<lambda>c. \<not> becomesMark c) x)
            \<longrightarrow> normalizeNFC y = y)"
proof -
  obtain x' where x': "postProcessOcrResult x f = fieldSpecific f (convertWidths (trim x'))"
    "list_all nfcFixedUnit x \<longrightarrow> x' = x"
    using postProcess_shape[of x f] by blast
  define t where "t = convertWidths (trim x')"
  have y: "y = fieldSpecific f t" using assms x'(1) by (simp add: t_def)
  have t: "trimmed t" "list_all settled t"
    unfolding t_def by (intro convertWidths_trimmed trimmed_trim, rule convertWidths_settled)
  note r = fieldSpecific_result[OF t, of f]
  have again: "postProcessOcrResult y f = y \<longleftrightarrow> (f = PayeeName \<longrightarrow> payeeSettled y)"
    if "normalizeNFC y = y"
    using postProcess_again[OF that, of f] r fieldSpecific_again[of f t] by (simp add: y)
  have phone: "postProcessOcrResult y f = y" if "f = PhoneNumber"
  proof -
    have "list_all (\<lambda>c. isPhoneOut c \<or> c = comma) y"
      unfolding y that by (rule fieldSpecific_phone_chars)
    then have "list_all plainUnit y" using isPhoneOut_props(1) by (auto simp: list_all_iff)
    then have "normalizeNFC y = y" by (rule normalizeNFC_plain)
    then show ?thesis using again that by simp
  qed
  have nfc: "normalizeNFC y = y"
    if "list_all nfcFixedUnit x \<and> (f = Phonetic \<longrightarrow> list_all (\<lambda>c. \<not> becomesMark c) x)"
  proof -
    have e: "x' = x" using x'(2) that by simp
    have "list_all nfcFixedUnit (trim x)" using that set_trim[of x] by (auto simp: list_all_iff)
    then have a: "list_all nfcFixedUnit t"
      unfolding t_def e using introduced_plain plainUnit_fixed by (intro convertWidths_all) blast+
    have b: "list_all (\<lambda>c. \<not> becomesMark c) t" if "f = Phonetic"
    proof -
      have "list_all (\<lambda>c. \<not> becomesMark c) (trim x)"
        using \<open>f = Phonetic\<close> \<open>list_all nfcFixedUnit x \<and> _\<close> set_trim[of x] by (auto simp: list_all_iff)
      then show ?thesis unfolding t_def e using introduced_no_mark by (intro convertWidths_all) blast+
    qed
    have "list_all nfcFixedUnit y" unfolding y using a b by (intro fieldSpecific_fixedUnits) simp_all
    then show ?thesis by (rule normalizeNFC_fixed)
  qed
  from again phone nfc show ?thesis by blast
qed

subsection \<open>Examples, evaluated\<close>

lemmas width_defs = convertWidths_def fullwidthToHalfwidth_def isFullwidthAlnum_def
  halfwidthSymbols_def combineDakuten_def combineHandakuten_def convertKatakana_def
  dakutenClass_def handakutenClass_def halfwidthKatakanaClass_def withMark_def
  halfToFullKatakanaMap_def dakutenMap_def handakutenMap_def

lemmas payee_defs = fieldSpecific_def removeNgWords_def ngWordsList_def hasSeparator_def
  isSeparator_def dropTrailing_def companyWord_def trim_def isWhiteSpace_def
  Let_def suffix_to_prefix

lemmas phone_defs = formatPhoneNumber_def stripNonDigits_def isDigit_def digitRun_def
  validHyphenated_def regroup_def startsWith_def zeroThenFourToNine_def keepPhoneChars_def

text \<open>Strings of plain code units are in normalization form C.\<close>

lemma nfc_twoNumbers: "normalizeNFC twoNumbers = twoNumbers"
  by (rule normalizeNFC_plain) (simp add: twoNumbers_def ascii_def plainUnit_def)

lemma nfc_testCompany: "normalizeNFC testCompany = testCompany"
  by (rule normalizeNFC_plain) (simp add: testCompany_def ascii_def plainUnit_def)

lemma nfc_twoCompanies: "normalizeNFC twoCompanies = twoCompanies"
  by (rule normalizeNFC_plain) (simp add: twoCompanies_def ascii_def plainUnit_def)

lemma nfc_kana: "normalizeNFC [0xFF76, 0xFF9E, 0x30AD] = [0xFF76, 0xFF9E, 0x30AD]"
  by (rule normalizeNFC_plain) (simp add: plainUnit_def)

lemma ex_phone: "postProcessOcrResult twoNumbers PhoneNumber = ascii ''03-1234-5678,090-1111-2222''"
  unfolding postProcessOcrResult_def nfc_twoNumbers
  by (simp add: twoNumbers_def ascii_def width_defs payee_defs phone_defs)

lemma ex_payee: "postProcessOcrResult testCompany PayeeName = [0x30C6, 0x30B9, 0x30C8]"
  unfolding postProcessOcrResult_def nfc_testCompany
  by (simp add: testCompany_def ascii_def width_defs payee_defs)

lemma ex_companies:
  "postProcessOcrResult twoCompanies PayeeName =
     [0x30C6, 0x30B9, 0x30C8, comma, 0x5C71, 0x7530, 0x5546, 0x5E97]"
  unfolding postProcessOcrResult_def nfc_twoCompanies
  by (simp add: twoCompanies_def ascii_def width_defs payee_defs)

lemma ex_phonetic: "postProcessOcrResult [0xFF76, 0xFF9E, 0x30AD] Phonetic = [0x304C, 0x304D]"
  unfolding postProcessOcrResult_def nfc_kana
  by (simp add: width_defs payee_defs katakanaToHiragana_def hiraganaOf_def)

lemma ex_settled: "payeeSettled [0x30C6, 0x30B9, 0x30C8, comma, 0x5C71, 0x7530, 0x5546, 0x5E97]"
  by (simp add: payeeSettled_def ngWordsList_def sublist_code suffix_to_prefix)


text \<open>Normalization at work: a letter or a kana directly followed by a combining mark.\<close>

lemma decompose_samples:
  "decomposeCodePoint 0x41 = [0x41]" "decomposeCodePoint 0x301 = [0x301]"
  "decomposeCodePoint 0xFF21 = [0xFF21]" "decomposeCodePoint 0x304B = [0x304B]"
  "decomposeCodePoint 0x3099 = [0x3099]"
  by (simp_all add: decomposeCodePoint_def canonicalDecomposition_def decompositionBlocks_def
      decompositions_00C0_def decompositions_0340_def decompositions_1109A_def
      decompositions_304C_def)

lemma class_samples:
  "combiningClass 0x41 = 0" "combiningClass 0x301 = 230" "combiningClass 0xFF21 = 0"
  "combiningClass 0x304B = 0" "combiningClass 0x3099 = 8"
  by (simp_all add: combiningClass_def combiningClassBlocks_def combiningClasses_0300_def
      combiningClasses_1DF6_def combiningClasses_A953_def)

lemma composite_samples:
  "primaryComposite 0x41 0x301 = Some 0xC1" "primaryComposite 0xFF21 0x301 = None"
  "primaryComposite 0x304B 0x3099 = Some 0x304C"
  by (simp_all add: primaryComposite_def compositionBlocks_def composites_0301_def
      composites_3099_def)

lemma nfc_fullwidth_acute: "normalizeNFC [0xFF21, 0x301] = [0xFF21, 0x301]"
  by (simp add: normalizeNFC_def isHighSurrogate_def isLowSurrogate_def decompose_samples
      class_samples composite_samples composeCodePoints_def fromCodePoints_def)

lemma nfc_letter_acute: "normalizeNFC [0x41, 0x301] = [0xC1]"
  by (simp add: normalizeNFC_def isHighSurrogate_def isLowSurrogate_def decompose_samples
      class_samples composite_samples composeCodePoints_def fromCodePoints_def)

lemma nfc_kana_voiced: "normalizeNFC [0x304B, 0x3099] = [0x304C]"
  by (simp add: normalizeNFC_def isHighSurrogate_def isLowSurrogate_def decompose_samples
      class_samples composite_samples composeCodePoints_def fromCodePoints_def)

lemma nfc_katakana_vye: "normalizeNFC [0x30AB, 0x30F9] = [0x30AB, 0x30F9]"
  by (rule normalizeNFC_plain) (simp add: plainUnit_def)



text \<open>
  The theorem at three inputs: two telephone numbers; two company names separated by a
  comma, one with a legal-entity word; a halfwidth katakana with its voiced mark and a
  fullwidth katakana, read phonetically.
\<close>

theorem postProcessOcrResult_second_pass_witness:
  "postProcessOcrResult twoNumbers PhoneNumber = ascii ''03-1234-5678,090-1111-2222'' \<and>
   postProcessOcrResult (ascii ''03-1234-5678,090-1111-2222'') PhoneNumber
     = ascii ''03-1234-5678,090-1111-2222'' \<and>
   postProcessOcrResult twoCompanies PayeeName
     = [0x30C6, 0x30B9, 0x30C8, comma, 0x5C71, 0x7530, 0x5546, 0x5E97] \<and>
   normalizeNFC [0x30C6, 0x30B9, 0x30C8, comma, 0x5C71, 0x7530, 0x5546, 0x5E97]
     = [0x30C6, 0x30B9, 0x30C8, comma, 0x5C71, 0x7530, 0x5546, 0x5E97] \<and>
   postProcessOcrResult [0x30C6, 0x30B9, 0x30C8, comma, 0x5C71, 0x7530, 0x5546, 0x5E97] PayeeName
     = [0x30C6, 0x30B9, 0x30C8, comma, 0x5C71, 0x7530, 0x5546, 0x5E97] \<and>
   postProcessOcrResult [0xFF76, 0xFF9E, 0x30AD] Phonetic = [0x304C, 0x304D] \<and>
   normalizeNFC [0x304C, 0x304D] = [0x304C, 0x304D] \<and>
   postProcessOcrResult [0x304C, 0x304D] Phonetic = [0x304C, 0x304D]"
proof -
  have u1: "list_all nfcFixedUnit twoCompanies"
    by (simp add: twoCompanies_def ascii_def plainUnit_def plainUnit_fixed)
  have u2: "list_all nfcFixedUnit [0xFF76, 0xFF9E, 0x30AD]"
    by (simp add: plainUnit_def plainUnit_fixed)
  have m: "list_all (\<lambda>c. \<not> becomesMark c) [0xFF76, 0xFF9E, 0x30AD]"
    by (simp add: becomesMark_def)
  note a = postProcessOcrResult_second_pass[OF ex_phone]
  note b = postProcessOcrResult_second_pass[OF ex_companies]
  note c = postProcessOcrResult_second_pass[OF ex_phonetic]
  have a1: "postProcessOcrResult (ascii ''03-1234-5678,090-1111-2222'') PhoneNumber
      = ascii ''03-1234-5678,090-1111-2222''"
    using a by simp
  have b1: "normalizeNFC [0x30C6, 0x30B9, 0x30C8, comma, 0x5C71, 0x7530, 0x5546, 0x5E97]
      = [0x30C6, 0x30B9, 0x30C8, comma, 0x5C71, 0x7530, 0x5546, 0x5E97]"
    using b u1 by simp
  have b2: "postProcessOcrResult [0x30C6, 0x30B9, 0x30C8, comma, 0x5C71, 0x7530, 0x5546, 0x5E97] PayeeName
      = [0x30C6, 0x30B9, 0x30C8, comma, 0x5C71, 0x7530, 0x5546, 0x5E97]"
    using b b1 ex_settled by simp
  have c1: "normalizeNFC [0x304C, 0x304D] = [0x304C, 0x304D]"
    using c u2 m by simp
  have c2: "postProcessOcrResult [0x304C, 0x304D] Phonetic = [0x304C, 0x304D]"
    using c c1 by simp
  show ?thesis using ex_phone ex_companies ex_phonetic a1 b1 b2 c1 c2 by simp
qed

text \<open>
  Claim C8 as stated fails for \<open>payee-name\<close>: the word for branch office, U+652F U+5E97,
  written inside itself. The single pass of the regular expression removes the inner
  occurrence and leaves the outer one, which a second pass removes.
\<close>

theorem postProcessOcrResult_not_idempotent:
  "postProcessOcrResult [0x652F, 0x652F, 0x5E97, 0x5E97] PayeeName = [0x652F, 0x5E97] \<and>
   postProcessOcrResult [0x652F, 0x5E97] PayeeName = [] \<and>
   postProcessOcrResult [0x652F, 0x5E97] PayeeName
     \<noteq> postProcessOcrResult [0x652F, 0x652F, 0x5E97, 0x5E97] PayeeName"
proof -
  have n1: "normalizeNFC [0x652F, 0x652F, 0x5E97, 0x5E97] = [0x652F, 0x652F, 0x5E97, 0x5E97]"
    by (rule normalizeNFC_plain) (simp add: plainUnit_def)
  have n2: "normalizeNFC [0x652F, 0x5E97] = [0x652F, 0x5E97]"
    by (rule normalizeNFC_plain) (simp add: plainUnit_def)
  show ?thesis
    unfolding postProcessOcrResult_def n1 n2 by (simp add: width_defs payee_defs)
qed

text \<open>
  The other ways in which a second pass differs from the first, each at the edge of a clause
  of the theorem. For \<open>payee-name\<close>: a colon behind a trailing colon, and a comma in front
  of a trailing colon (the test company of the first lines, U+30C6 U+30B9 U+30C8).
\<close>

lemma second_pass_trailing_colon:
  "postProcessOcrResult ([0x30C6, 0x30B9, 0x30C8] @ ascii ''::'') PayeeName = [0x30C6, 0x30B9, 0x30C8, colon] \<and>
   postProcessOcrResult [0x30C6, 0x30B9, 0x30C8, colon] PayeeName = [0x30C6, 0x30B9, 0x30C8]"
proof -
  have n1: "normalizeNFC ([0x30C6, 0x30B9, 0x30C8] @ ascii ''::'') = [0x30C6, 0x30B9, 0x30C8] @ ascii ''::''"
    by (rule normalizeNFC_plain) (simp add: plainUnit_def ascii_def)
  have n2: "normalizeNFC [0x30C6, 0x30B9, 0x30C8, colon] = [0x30C6, 0x30B9, 0x30C8, colon]"
    by (rule normalizeNFC_plain) (simp add: plainUnit_def)
  show ?thesis
    unfolding postProcessOcrResult_def n1 n2 by (simp add: ascii_def width_defs payee_defs)
qed

lemma second_pass_trailing_comma:
  "postProcessOcrResult ([0x30C6, 0x30B9, 0x30C8] @ ascii '',:'') PayeeName = [0x30C6, 0x30B9, 0x30C8, comma] \<and>
   postProcessOcrResult [0x30C6, 0x30B9, 0x30C8, comma] PayeeName = [0x30C6, 0x30B9, 0x30C8]"
proof -
  have n1: "normalizeNFC ([0x30C6, 0x30B9, 0x30C8] @ ascii '',:'') = [0x30C6, 0x30B9, 0x30C8] @ ascii '',:''"
    by (rule normalizeNFC_plain) (simp add: plainUnit_def ascii_def)
  have n2: "normalizeNFC [0x30C6, 0x30B9, 0x30C8, comma] = [0x30C6, 0x30B9, 0x30C8, comma]"
    by (rule normalizeNFC_plain) (simp add: plainUnit_def)
  show ?thesis
    unfolding postProcessOcrResult_def n1 n2 by (simp add: ascii_def width_defs payee_defs)
qed

text \<open>
  For every field type but \<open>phone-number\<close>, a first result that is not in normalization form
  C: the width conversion puts the letter A in front of the combining acute accent that
  stood behind the fullwidth A, and the two make U+00C1 in the second pass; the
  \<open>phonetic\<close> conversion turns the katakana U+30F9 into the combining voiced mark, which
  makes U+304C with the hiragana in front of it.
\<close>

lemma second_pass_composes_letter:
  "postProcessOcrResult [0xFF21, 0x301] Clipboard = [0x41, 0x301] \<and>
   postProcessOcrResult [0x41, 0x301] Clipboard = [0xC1]"
  unfolding postProcessOcrResult_def nfc_fullwidth_acute nfc_letter_acute
  by (simp add: width_defs payee_defs)

lemma second_pass_composes_kana:
  "postProcessOcrResult [0x30AB, 0x30F9] Phonetic = [0x304B, 0x3099] \<and>
   postProcessOcrResult [0x304B, 0x3099] Phonetic = [0x304C]"
  unfolding postProcessOcrResult_def nfc_katakana_vye nfc_kana_voiced
  by (simp add: width_defs payee_defs katakanaToHiragana_def hiraganaOf_def)

subsection \<open>parseMultiFieldResult\<close>

lemmas parse_defs = parseMultiFieldResult_def matchLabel.simps lazyLine_def isDotChar_def
  capturedOrEmpty_def filterFields_def isLabelOnly_def startsWithLabel_def phoneWord_def
  startsWithIgnoreCase_def looksLikeNumber_def asciiLower_def

lemma m1: "matchLabel (companyWord @ [colon]) answerBlankCompany = Some (phoneWord @ ascii '': 03-1234-5678'')"
  by (simp add: answerBlankCompany_def ascii_def parse_defs payee_defs)

lemma m2: "matchLabel (phoneWord @ [colon]) answerBlankCompany = Some (ascii ''03-1234-5678'')"
  by (simp add: answerBlankCompany_def ascii_def parse_defs payee_defs)

lemma p1: "postProcessOcrResult (phoneWord @ ascii '': 03-1234-5678'') PayeeName = phoneWord @ ascii '': 03-1234-5678''"
proof -
  have n: "normalizeNFC (phoneWord @ ascii '': 03-1234-5678'') = phoneWord @ ascii '': 03-1234-5678''"
    by (rule normalizeNFC_plain) (simp add: phoneWord_def ascii_def plainUnit_def)
  show ?thesis
    unfolding postProcessOcrResult_def n by (simp add: ascii_def phoneWord_def width_defs payee_defs)
qed

lemma p2: "postProcessOcrResult (ascii ''03-1234-5678'') PhoneNumber = ascii ''03-1234-5678''"
proof -
  have n: "normalizeNFC (ascii ''03-1234-5678'') = ascii ''03-1234-5678''"
    by (rule normalizeNFC_plain) (simp add: ascii_def plainUnit_def)
  show ?thesis
    unfolding postProcessOcrResult_def n by (simp add: ascii_def width_defs payee_defs phone_defs)
qed

text \<open>
  Claim C9 says that the company name is taken from the line labelled with the company
  label. The code misses a case: its pattern lets the whitespace class behind the label
  run over the line break, so when the company line is blank, as the prompt asks for a
  value that was not found, the group captures the next line. Here the company name
  comes out as the whole telephone line, label included.
\<close>

theorem parseMultiFieldResult_blank_company_line:
  "parseMultiFieldResult answerBlankCompany =
     \<lparr>payeeName = phoneWord @ ascii '': 03-1234-5678'',
      phoneNumber = ascii ''03-1234-5678''\<rparr>"
proof -
  have t1: "trim (phoneWord @ ascii '': 03-1234-5678'') = phoneWord @ ascii '': 03-1234-5678''"
    by (simp add: ascii_def phoneWord_def trim_def isWhiteSpace_def)
  have t2: "trim (ascii ''03-1234-5678'') = ascii ''03-1234-5678''"
    by (simp add: ascii_def trim_def isWhiteSpace_def)
  have f: "filterFields (phoneWord @ ascii '': 03-1234-5678'') (ascii ''03-1234-5678'') =
     \<lparr>payeeName = phoneWord @ ascii '': 03-1234-5678'', phoneNumber = ascii ''03-1234-5678''\<rparr>"
    by (simp add: ascii_def parse_defs payee_defs)
  have ne: "ascii ''03-1234-5678'' \<noteq> []" "phoneWord \<noteq> []"
    by (simp_all add: ascii_def phoneWord_def)
  show ?thesis
    unfolding parseMultiFieldResult_def Let_def m1 m2 capturedOrEmpty_def
    by (simp add: ne t1 t2 p1 p2 f)
qed

lemma matchLabel_absent: "\<not> sublist label s \<Longrightarrow> matchLabel label s = None"
proof (induction s)
  case Nil
  then show ?case by simp
next
  case (Cons c cs)
  have "\<not> prefix label (c # cs)" using Cons.prems by auto
  moreover have "\<not> sublist label cs" using Cons.prems by (auto simp: sublist_Cons_right)
  ultimately show ?case using Cons.IH by simp
qed

lemma postProcess_empty: "postProcessOcrResult [] f = []"
  by (simp add: postProcessOcrResult_def)

lemma filterFields_empty: "filterFields [] p = \<lparr>payeeName = [], phoneNumber = (if p \<noteq> [] \<and> (isLabelOnly companyWord p \<or> startsWithLabel companyWord p) then [] else p)\<rparr>"
  by (auto simp: filterFields_def Let_def isLabelOnly_def phoneWord_def)

text \<open>
  The other two parts of claim C9 hold: the function is total, and a label that does not
  occur in the text gives the empty string for its field.
\<close>

lemma parseMultiFieldResult_absent_labels:
  "(\<not> includesStr t (companyWord @ [colon]) \<longrightarrow> payeeName (parseMultiFieldResult t) = []) \<and>
   (\<not> includesStr t (phoneWord @ [colon]) \<longrightarrow> phoneNumber (parseMultiFieldResult t) = [])"
proof (intro conjI impI)
  assume a: "\<not> includesStr t (companyWord @ [colon])"
  have "matchLabel (companyWord @ [colon]) t = None"
    using a by (intro matchLabel_absent) (simp add: includesStr_def)
  then show "payeeName (parseMultiFieldResult t) = []"
    by (simp add: parseMultiFieldResult_def Let_def capturedOrEmpty_def postProcess_empty
        filterFields_empty)
next
  assume a: "\<not> includesStr t (phoneWord @ [colon])"
  have "matchLabel (phoneWord @ [colon]) t = None"
    using a by (intro matchLabel_absent) (simp add: includesStr_def)
  then show "phoneNumber (parseMultiFieldResult t) = []"
    by (simp add: parseMultiFieldResult_def Let_def capturedOrEmpty_def postProcess_empty
        filterFields_def isLabelOnly_def companyWord_def)
qed

section \<open>The request queue: spacing, order, one at a time\<close>

lemma spaced_snoc: "spaced (ts @ [t]) \<longleftrightarrow> spaced ts \<and> (ts = [] \<or> last ts + minInterval \<le> t)"
  by (induction ts rule: induct_list012) auto

lemma spaced_snoc_bound:
  assumes "spaced ts" "list_all (\<lambda>u. u \<le> b) ts" "b + minInterval \<le> t"
  shows "spaced (ts @ [t])"
proof (cases "ts = []")
  case True then show ?thesis by simp
next
  case False
  then have "last ts \<le> b" using assms(2) by (simp add: list_all_iff)
  then show ?thesis using assms(1,3) False by (simp add: spaced_snoc)
qed

lemma invariant_initial: "0 \<le> t0 \<Longrightarrow> throttlerInvariant (initialThrottler t0)"
  by (simp add: throttlerInvariant_def throttlerCore_def initialThrottler_def)

lemma list_all_le_trans:
  "list_all (\<lambda>t. t \<le> a) ts \<Longrightarrow> a \<le> (b::int) \<Longrightarrow> list_all (\<lambda>t. t \<le> b) ts"
  by (auto simp: list_all_iff)

lemma invariant_processQueue:
  assumes "throttlerCore st"
  shows "throttlerInvariant (processQueue st)"
proof (cases "processing st \<or> queue st = []")
  case True
  then have "processQueue st = st" by (simp add: processQueue_def)
  moreover have "queue st \<noteq> [] \<and> activations st = [] \<longrightarrow> timers st \<noteq> []"
    using True assms by (auto simp: throttlerCore_def)
  ultimately show ?thesis using assms by (simp add: throttlerInvariant_def)
next
  case False
  then have idle: "activations st = []" and q: "queue st \<noteq> []"
    using assms by (auto simp: throttlerCore_def)
  obtain c rest where qc: "queue st = c # rest" using q by (cases "queue st") auto
  have inv: "lastRequest st \<le> clock st" "spaced (map snd (started st))"
    "list_all (\<lambda>t. t \<le> clock st) (map snd (started st))"
    "list_all (\<lambda>t. t \<le> lastRequest st) (map snd (started st))"
    "map fst (started st) @ queue st = submitted st" "distinct (submitted st)"
    "map fst (settledLog st) = map fst (started st)"
    using assms idle by (simp_all add: throttlerCore_def)
  show ?thesis
  proof (cases "clock st - lastRequest st < minInterval")
    case True
    have "processQueue st = st\<lparr>processing := True, queue := rest,
        activations := [Sleeping c (clock st + (minInterval - (clock st - lastRequest st)))]\<rparr>"
      using False True idle qc by (simp add: processQueue_def Let_def)
    then show ?thesis using inv qc by (simp add: throttlerInvariant_def throttlerCore_def)
  next
    case slow: False
    have pq: "processQueue st = st\<lparr>processing := True, queue := rest,
        activations := [Running c], started := started st @ [(c, clock st)]\<rparr>"
      using False slow idle qc by (simp add: processQueue_def Let_def)
    have "lastRequest st + minInterval \<le> clock st" using slow by simp
    then have "spaced (map snd (started st) @ [clock st])"
      using inv(2,4) by (intro spaced_snoc_bound)
    then show ?thesis using inv qc unfolding pq
      by (simp add: throttlerInvariant_def throttlerCore_def)
  qed
qed

lemma invariant_step:
  assumes "step st e st'" "throttlerInvariant st"
  shows "throttlerInvariant st'"
  using assms
proof (induction rule: step.induct)
  case (tick d st)
  have c: "throttlerCore st" using tick(2) by (simp add: throttlerInvariant_def)
  have 1: "list_all (\<lambda>t. t \<le> clock st + d) (map snd (started st))"
    using c tick(1) by (auto simp: throttlerCore_def list_all_iff)
  show ?case
    using tick 1 c
    by (simp add: throttlerInvariant_def throttlerCore_def cong: list.case_cong activation.case_cong)
next
  case (submit c st)
  have core: "throttlerCore st" using submit(2) by (simp add: throttlerInvariant_def)
  have "map fst (started st) @ sleepers (activations st) @ queue st = submitted st"
    using core by (simp add: throttlerCore_def)
  then have "map fst (started st) @ sleepers (activations st) @ queue st @ [c] = submitted st @ [c]"
    by (metis append.assoc)
  then have "throttlerCore (st\<lparr>queue := queue st @ [c], submitted := submitted st @ [c]\<rparr>)"
    using core submit(1) by (simp add: throttlerCore_def cong: list.case_cong activation.case_cong)
  then show ?case unfolding execute_def by (rule invariant_processQueue)
next
  case (timer due st)
  have "throttlerCore (st\<lparr>timers := remove1 due (timers st)\<rparr>)"
    using timer(3) by (simp add: throttlerInvariant_def throttlerCore_def cong: list.case_cong activation.case_cong)
  then show ?case by (rule invariant_processQueue)
next
  case (wake c due st)
  have core: "throttlerCore st" using wake(3) by (simp add: throttlerInvariant_def)
  then have one: "activations st = [Sleeping c due]"
    using wake(1) by (cases "activations st") (auto simp: throttlerCore_def)
  have inv: "spaced (map snd (started st))"
    "list_all (\<lambda>t. t \<le> lastRequest st) (map snd (started st))"
    "lastRequest st + minInterval \<le> due"
    "list_all (\<lambda>t. t \<le> clock st) (map snd (started st))"
    using core one by (simp_all add: throttlerCore_def)
  have "lastRequest st + minInterval \<le> clock st" using inv(3) wake(2) by simp
  then have "spaced (map snd (started st) @ [clock st])"
    using inv(1,2) by (intro spaced_snoc_bound)
  then show ?case
    using core one inv(4) by (simp add: throttlerInvariant_def throttlerCore_def)
next
  case (complete c st result)
  have core: "throttlerCore st" using complete(2) by (simp add: throttlerInvariant_def)
  then have one: "activations st = [Running c]"
    using complete(1) by (cases "activations st") (auto simp: throttlerCore_def)
  show ?case
    using core one by (simp add: throttlerInvariant_def throttlerCore_def finish_def)
qed

lemma invariant_run: "run st es st' \<Longrightarrow> throttlerInvariant st \<Longrightarrow> throttlerInvariant st'"
  by (induction rule: run.induct) (auto intro: invariant_step)

lemma invariant_reachable: "reachableThrottler st \<Longrightarrow> throttlerInvariant st"
  unfolding reachableThrottler_def using invariant_run invariant_initial by blast

inductive_cases completesE: "step st (Completes c result) st'"

lemma length_runners: "length (runners as) \<le> length as"
  by (induction as rule: runners.induct) auto

lemma next_call_starts:
  assumes "queue st = c' # rest"
  shows "\<exists>st'. run (finish c result st)
            [Tick 50, TimerFires (clock st + 50), Tick 450, WakeUp c'] st' \<and>
          started st' = started st @ [(c', clock st + 500)] \<and>
          settledLog st' = settledLog st @ [(c, result)]"
proof -
  let ?s0 = "finish c result st"
  let ?s1 = "?s0\<lparr>clock := clock ?s0 + 50\<rparr>"
  let ?s2 = "processQueue (?s1\<lparr>timers := remove1 (clock st + 50) (timers ?s1)\<rparr>)"
  let ?s3 = "?s2\<lparr>clock := clock ?s2 + 450\<rparr>"
  let ?s4 = "?s3\<lparr>activations := remove1 (Sleeping c' (clock st + 500)) (activations ?s3) @ [Running c'],
                   started := started ?s3 @ [(c', clock ?s3)]\<rparr>"
  have st1: "step ?s0 (Tick 50) ?s1" by (rule step.tick) simp
  have st2: "step ?s1 (TimerFires (clock st + 50)) ?s2"
    by (rule step.timer) (simp_all add: finish_def)
  have s2: "?s2 = ?s1\<lparr>timers := remove1 (clock st + 50) (timers ?s1), processing := True, queue := rest,
      activations := remove1 (Running c) (activations st) @ [Sleeping c' (clock st + 500)]\<rparr>"
    using assms by (simp add: processQueue_def finish_def Let_def minInterval_def)
  have st3: "step ?s2 (Tick 450) ?s3" by (rule step.tick) simp
  have st4: "step ?s3 (WakeUp c') ?s4"
    unfolding s2 by (rule step.wake) (simp_all add: finish_def)
  have r: "run ?s0 [Tick 50, TimerFires (clock st + 50), Tick 450, WakeUp c'] ?s4"
    using st1 st2 st3 st4 by (blast intro: run.intros)
  have "started ?s4 = started st @ [(c', clock st + 500)]"
    unfolding s2 by (simp add: finish_def)
  moreover have "settledLog ?s4 = settledLog st @ [(c, result)]"
    unfolding s2 by (simp add: finish_def)
  ultimately show ?thesis using r by blast
qed

text \<open>
  Claim C2. In every state that a run of the queue can reach, whatever the calls of
  \<open>execute\<close>, the passing of time and the outcomes of the requests: the times at which
  \<open>requestFn\<close> was called are at least 500 ms apart, each from the one before; the calls
  started are the first calls submitted, in the order of their submission; at most one
  request is under way, and every call started before it has been settled, in the same
  order. When the request under way is rejected while another call waits in the queue,
  the rejection is recorded for the rejected call alone, and the waiting call follows:
  the timer of the \<open>finally\<close> block fires 50 ms later, the remaining 450 ms are waited
  for, and the head of the queue starts 500 ms after the rejection.
  The clock of \<open>Date.now()\<close> is taken not to go backwards and in step with the timers,
  which fire no earlier than asked. The code measures the interval from the completion of
  the previous request (\<open>lastRequest\<close> is set in the \<open>finally\<close> block), which is no
  earlier than its start.
\<close>

theorem apiRequestQueue_spacing_fifo_isolation:
  assumes "reachableThrottler st"
  shows "spaced (map snd (started st)) \<and>
         prefix (map fst (started st)) (submitted st) \<and>
         length (runners (activations st)) \<le> 1 \<and>
         map fst (started st) = map fst (settledLog st) @ runners (activations st) \<and>
         (\<forall>c c' rest st1. step st (Completes c Rejected) st1 \<and> queue st = c' # rest \<longrightarrow>
            settledLog st1 = settledLog st @ [(c, Rejected)] \<and>
            (\<exists>st'. run st1 [Tick 50, TimerFires (clock st + 50), Tick 450, WakeUp c'] st' \<and>
               started st' = started st @ [(c', clock st + 500)] \<and>
               settledLog st' = settledLog st @ [(c, Rejected)]))"
proof -
  have inv: "throttlerCore st"
    using invariant_reachable[OF assms] by (simp add: throttlerInvariant_def)
  have 1: "spaced (map snd (started st))" using inv by (simp add: throttlerCore_def)
  have "map fst (started st) @ sleepers (activations st) @ queue st = submitted st"
    using inv by (simp add: throttlerCore_def)
  then have 2: "prefix (map fst (started st)) (submitted st)"
    by (metis prefixI)
  have "length (activations st) \<le> 1" using inv by (simp add: throttlerCore_def)
  then have 3: "length (runners (activations st)) \<le> 1"
    using length_runners[of "activations st"] by simp
  have 4: "map fst (started st) = map fst (settledLog st) @ runners (activations st)"
    using inv by (simp add: throttlerCore_def)
  have 5: "settledLog st1 = settledLog st @ [(c, Rejected)] \<and>
      (\<exists>st'. run st1 [Tick 50, TimerFires (clock st + 50), Tick 450, WakeUp c'] st' \<and>
         started st' = started st @ [(c', clock st + 500)] \<and>
         settledLog st' = settledLog st @ [(c, Rejected)])"
    if "step st (Completes c Rejected) st1" "queue st = c' # rest" for c c' rest st1
  proof -
    have e: "st1 = finish c Rejected st" using that(1) by (rule completesE)
    show ?thesis unfolding e using next_call_starts[OF that(2)] by (simp add: finish_def)
  qed
  show ?thesis using 1 2 3 4 5 by blast
qed

lemma busyThrottler_run:
  "run (initialThrottler 1000) [Execute 0, Execute 1, Tick 100] busyThrottler"
proof -
  let ?a = "execute 0 (initialThrottler 1000)"
  let ?b = "execute 1 ?a"
  have a: "?a = \<lparr> queue = [], processing = True, lastRequest = 0, clock = 1000,
       activations = [Running 0], timers = [], submitted = [0],
       started = [(0, 1000)], settledLog = [] \<rparr>"
    by (simp add: execute_def processQueue_def initialThrottler_def Let_def minInterval_def)
  have b: "?b = \<lparr> queue = [1], processing = True, lastRequest = 0, clock = 1000,
       activations = [Running 0], timers = [], submitted = [0, 1],
       started = [(0, 1000)], settledLog = [] \<rparr>"
    unfolding a by (simp add: execute_def processQueue_def)
  have s1: "step (initialThrottler 1000) (Execute 0) ?a"
    by (rule step.submit) (simp add: initialThrottler_def)
  have s2: "step ?a (Execute 1) ?b"
    by (rule step.submit) (simp add: a)
  have "step ?b (Tick 100) (?b\<lparr>clock := clock ?b + 100\<rparr>)"
    by (rule step.tick) simp
  moreover have "?b\<lparr>clock := clock ?b + 100\<rparr> = busyThrottler"
    unfolding b by (simp add: busyThrottler_def)
  ultimately have s3: "step ?b (Tick 100) busyThrottler" by simp
  show ?thesis using s1 s2 s3 by (blast intro: run.intros)
qed

theorem apiRequestQueue_spacing_fifo_isolation_witness:
  "reachableThrottler busyThrottler \<and>
   step busyThrottler (Completes 0 Rejected) (finish 0 Rejected busyThrottler) \<and>
   queue busyThrottler = [1] \<and>
   spaced (map snd (started busyThrottler)) \<and>
   prefix (map fst (started busyThrottler)) (submitted busyThrottler) \<and>
   settledLog (finish 0 Rejected busyThrottler) = [(0, Rejected)] \<and>
   (\<exists>st'. run (finish 0 Rejected busyThrottler) [Tick 50, TimerFires 1150, Tick 450, WakeUp 1] st' \<and>
      started st' = [(0, 1000), (1, 1600)] \<and> settledLog st' = [(0, Rejected)])"
proof -
  have r: "reachableThrottler busyThrottler"
    unfolding reachableThrottler_def using busyThrottler_run by (intro exI[of _ 1000] exI conjI) simp_all
  have s: "step busyThrottler (Completes 0 Rejected) (finish 0 Rejected busyThrottler)"
    by (rule step.complete) (simp add: busyThrottler_def)
  have q: "queue busyThrottler = [1]" by (simp add: busyThrottler_def)
  have v: "clock busyThrottler = 1100" "started busyThrottler = [(0, 1000)]"
    "settledLog busyThrottler = []" "submitted busyThrottler = [0, 1]"
    by (simp_all add: busyThrottler_def)
  note t = apiRequestQueue_spacing_fifo_isolation[OF r]
  have a: "spaced (map snd (started busyThrottler))" using t by blast
  have b: "prefix (map fst (started busyThrottler)) (submitted busyThrottler)" using t by blast
  have e: "settledLog (finish 0 Rejected busyThrottler) = settledLog busyThrottler @ [(0, Rejected)] \<and>
      (\<exists>st'. run (finish 0 Rejected busyThrottler)
          [Tick 50, TimerFires (clock busyThrottler + 50), Tick 450, WakeUp 1] st' \<and>
         started st' = started busyThrottler @ [(1, clock busyThrottler + 500)] \<and>
         settledLog st' = settledLog busyThrottler @ [(0, Rejected)])"
    using t s q by blast
  show ?thesis using r s q a b e by (simp add: v)
qed

end
